(* ===== verification/Go_Prelude.thy ===== *)
theory Go_Prelude
  imports Main "HOL-Library.State_Monad" "HOL-Library.Char_ord" "HOL-Library.List_Lexorder"
    "HOL-Library.Signed_Division"
begin

text \<open>
  What every component of the development shares: Go strings as byte lists with the functions
  of package \<open>strings\<close> the program calls, decimal and quoted formatting, tables of rows with a
  primary key as SQL keeps them, and the calculus of effects of state-monad programs.

  Strings. A Go string is a sequence of bytes; it is an Isabelle \<open>string\<close> whose characters are
  those bytes (a character beyond ASCII is its UTF-8 encoding). \<open>strings.ToLower\<close>,
  \<open>strings.TrimSpace\<close> and \<open>strings.EqualFold\<close> are modelled on the ASCII bytes: the bytes of a
  multi-byte character are never changed, where Go would also fold or trim the few non-ASCII
  letters and spaces. What the program folds (addresses, \<open>.attn\<close> labels, schemes, hosts) is ASCII.

  Errors. Go's \<open>error\<close> is a \<open>string option\<close> (\<open>None\<close> is \<open>nil\<close>) beside the value, as Go
  returns both, or \<open>string + 'a\<close> where the value of an error return is never looked at.
\<close>

named_theorems effects "what programs of the state monad leave unchanged"

named_theorems go_strings "equations of the string functions"

section \<open>Strings\<close>

definition lower_char :: "char \<Rightarrow> char" where
  "lower_char c = (if CHR ''A'' \<le> c \<and> c \<le> CHR ''Z'' then char_of (of_char c + 32 :: nat) else c)"

definition to_lower :: "string \<Rightarrow> string" where
  "to_lower = map lower_char"

definition is_space :: "char \<Rightarrow> bool" where
  "is_space c \<longleftrightarrow> c = CHR '' '' \<or> (CHR 0x09 \<le> c \<and> c \<le> CHR 0x0D)"

definition trim_left :: "string \<Rightarrow> string" where
  "trim_left = dropWhile is_space"

definition trim_right :: "string \<Rightarrow> string" where
  "trim_right s = rev (dropWhile is_space (rev s))"

definition trim_space :: "string \<Rightarrow> string" where
  "trim_space s = trim_right (trim_left s)"

definition equal_fold :: "string \<Rightarrow> string \<Rightarrow> bool" where
  "equal_fold a b \<longleftrightarrow> to_lower a = to_lower b"

definition has_prefix :: "string \<Rightarrow> string \<Rightarrow> bool" where
  "has_prefix s p \<longleftrightarrow> take (length p) s = p"

definition has_suffix :: "string \<Rightarrow> string \<Rightarrow> bool" where
  "has_suffix s p \<longleftrightarrow> length p \<le> length s \<and> drop (length s - length p) s = p"

definition trim_prefix :: "string \<Rightarrow> string \<Rightarrow> string" where
  "trim_prefix s p = (if has_prefix s p then drop (length p) s else s)"

definition trim_suffix :: "string \<Rightarrow> string \<Rightarrow> string" where
  "trim_suffix s p = (if has_suffix s p then take (length s - length p) s else s)"

fun contains :: "string \<Rightarrow> string \<Rightarrow> bool" where
  "contains [] p = (p = [])"
| "contains (c # s) p = (has_prefix (c # s) p \<or> contains s p)"

fun index_byte :: "string \<Rightarrow> char \<Rightarrow> nat option" where
  "index_byte [] c = None"
| "index_byte (x # s) c = (if x = c then Some 0 else map_option Suc (index_byte s c))"

fun join :: "string list \<Rightarrow> string \<Rightarrow> string" where
  "join [] sep = []"
| "join [x] sep = x"
| "join (x # y # xs) sep = x @ sep @ join (y # xs) sep"

text \<open>\<open>strings.Replace(s, old, new, 1)\<close>, the first occurrence only.\<close>

fun replace_first :: "string \<Rightarrow> string \<Rightarrow> string \<Rightarrow> string" where
  "replace_first [] old new = (if old = [] then new else [])"
| "replace_first (c # s) old new =
     (if has_prefix (c # s) old then new @ drop (length old) (c # s)
      else c # replace_first s old new)"

subsection \<open>Formatting\<close>

fun nat_str :: "nat \<Rightarrow> string" where
  "nat_str n = (if n < 10 then [char_of (48 + n)] else nat_str (n div 10) @ [char_of (48 + n mod 10)])"

declare nat_str.simps [simp del]

definition itoa :: "int \<Rightarrow> string" where
  "itoa i = (if i < 0 then CHR ''-'' # nat_str (nat (- i)) else nat_str (nat i))"

text \<open>\<open>%q\<close>: a double-quoted Go literal; bytes beyond ASCII are printed as they are.\<close>

definition hex_digit :: "nat \<Rightarrow> char" where
  "hex_digit n = (if n < 10 then char_of (48 + n) else char_of (87 + n))"

definition quote_char :: "char \<Rightarrow> string" where
  "quote_char c =
     (if c = CHR 0x22 then [CHR 0x5C, CHR 0x22]
      else if c = CHR 0x5C then [CHR 0x5C, CHR 0x5C]
      else if c = CHR 0x07 then [CHR 0x5C, CHR ''a'']
      else if c = CHR 0x08 then [CHR 0x5C, CHR ''b'']
      else if c = CHR 0x0C then [CHR 0x5C, CHR ''f'']
      else if c = CHR 0x0A then [CHR 0x5C, CHR ''n'']
      else if c = CHR 0x0D then [CHR 0x5C, CHR ''r'']
      else if c = CHR 0x09 then [CHR 0x5C, CHR ''t'']
      else if c = CHR 0x0B then [CHR 0x5C, CHR ''v'']
      else if c < CHR '' '' \<or> c = CHR 0x7F
      then [CHR 0x5C, CHR ''x'', hex_digit (of_char c div 16), hex_digit (of_char c mod 16)]
      else [c])"

definition quote :: "string \<Rightarrow> string" where
  "quote s = [CHR 0x22] @ concat (map quote_char s) @ [CHR 0x22]"

text \<open>The characters beyond ASCII of the program's messages, in UTF-8, and the line feed.\<close>

definition nl :: string where "nl = [CHR 0x0A]"
definition em_dash :: string where "em_dash = [CHR 0xE2, CHR 0x80, CHR 0x94]"
definition ellipsis :: string where "ellipsis = [CHR 0xE2, CHR 0x80, CHR 0xA6]"
definition arrow_right :: string where "arrow_right = [CHR 0xE2, CHR 0x86, CHR 0x92]"
definition arrow_left :: string where "arrow_left = [CHR 0xE2, CHR 0x86, CHR 0x90]"
definition middle_dot :: string where "middle_dot = [CHR 0xC2, CHR 0xB7]"
definition envelope :: string where "envelope = [CHR 0xF0, CHR 0x9F, CHR 0x93, CHR 0xA8]"

subsection \<open>Lemmas on strings\<close>

lemma lower_char_idem [simp]: "lower_char (lower_char c) = lower_char c"
  by (cases c) (auto simp: lower_char_def less_eq_char_def)

lemma is_space_code: "is_space c \<longleftrightarrow> of_char c = (32::nat) \<or> 9 \<le> (of_char c :: nat) \<and> (of_char c :: nat) \<le> 13"
proof -
  have "c = CHR '' '' \<longleftrightarrow> of_char c = (of_char (CHR '' '') :: nat)"
    by (simp only: of_char_eq_iff)
  then show ?thesis
    by (simp add: is_space_def less_eq_char_def)
qed

lemma of_char_lower_char:
  "(of_char (lower_char c) :: nat) =
     (if 65 \<le> (of_char c :: nat) \<and> (of_char c :: nat) \<le> 90 then of_char c + 32 else of_char c)"
  by (simp add: lower_char_def less_eq_char_def)

lemma is_space_lower_char [simp]: "is_space (lower_char c) = is_space c"
  by (auto simp: is_space_code of_char_lower_char)

lemma to_lower_idem [simp]: "to_lower (to_lower s) = to_lower s"
  by (simp add: to_lower_def)

lemma to_lower_Nil [simp]: "to_lower [] = []"
  by (simp add: to_lower_def)

lemma to_lower_append [simp]: "to_lower (a @ b) = to_lower a @ to_lower b"
  by (simp add: to_lower_def)

lemma length_to_lower [simp]: "length (to_lower s) = length s"
  by (simp add: to_lower_def)

lemma dropWhile_space_lower: "dropWhile is_space (map lower_char s) = map lower_char (dropWhile is_space s)"
  by (induction s) auto

lemma trim_space_to_lower: "trim_space (to_lower s) = to_lower (trim_space s)"
  by (simp add: trim_space_def trim_left_def trim_right_def to_lower_def dropWhile_space_lower rev_map)

lemma trim_right_split: "\<exists>t. s = trim_right s @ t \<and> (\<forall>c \<in> set t. is_space c)"
proof -
  have "s = rev (takeWhile is_space (rev s) @ dropWhile is_space (rev s))"
    by simp
  then have "s = trim_right s @ rev (takeWhile is_space (rev s))"
    by (simp add: trim_right_def del: takeWhile_dropWhile_id)
  moreover have "\<forall>c \<in> set (rev (takeWhile is_space (rev s))). is_space c"
    by (auto dest: set_takeWhileD)
  ultimately show ?thesis by blast
qed

lemma trim_right_idem [simp]: "trim_right (trim_right s) = trim_right s"
  by (simp add: trim_right_def)

lemma dropWhile_fixed: "s = [] \<or> \<not> P (hd s) \<Longrightarrow> dropWhile P s = s"
  by (cases s) auto

lemma trim_left_trim_right:
  assumes "s = [] \<or> \<not> is_space (hd s)"
  shows "trim_left (trim_right s) = trim_right s"
proof -
  obtain t where s: "s = trim_right s @ t"
    using trim_right_split by blast
  have "trim_right s = [] \<or> \<not> is_space (hd (trim_right s))"
  proof (cases "trim_right s")
    case (Cons c r)
    then have "hd s = c" by (subst s) simp
    with assms Cons s show ?thesis by auto
  qed simp
  then show ?thesis by (simp add: trim_left_def dropWhile_fixed)
qed

lemma hd_trim_left: "trim_left s = [] \<or> \<not> is_space (hd (trim_left s))"
  by (induction s) (auto simp: trim_left_def)

lemma trim_space_idem [simp]: "trim_space (trim_space s) = trim_space s"
  by (simp add: trim_space_def trim_left_trim_right [OF hd_trim_left])

lemma trim_space_Nil [simp]: "trim_space [] = []"
  by (simp add: trim_space_def trim_left_def trim_right_def)

lemma has_prefix_append [simp]: "has_prefix (p @ s) p"
  by (simp add: has_prefix_def)

lemma has_prefix_iff: "has_prefix s p \<longleftrightarrow> (\<exists>t. s = p @ t)"
  by (metis append_eq_conv_conj append_take_drop_id has_prefix_def)

lemma has_suffix_iff: "has_suffix s p \<longleftrightarrow> (\<exists>t. s = t @ p)"
proof
  assume "has_suffix s p"
  then have "s = take (length s - length p) s @ p"
    by (metis append_take_drop_id has_suffix_def)
  then show "\<exists>t. s = t @ p" ..
qed (auto simp: has_suffix_def)

lemma trim_suffix_append [simp]: "trim_suffix (s @ p) p = s"
  by (simp add: trim_suffix_def has_suffix_def)

lemma trim_prefix_append [simp]: "trim_prefix (p @ s) p = s"
  by (simp add: trim_prefix_def)

lemma contains_append: "contains (a @ p @ b) p"
proof (induction a)
  case Nil
  have "has_prefix (p @ b) p" by simp
  then show ?case by (cases "p @ b") (auto simp: has_prefix_def)
qed simp

lemma index_byte_Some:
  "index_byte s c = Some i \<Longrightarrow> i < length s \<and> s ! i = c \<and> c \<notin> set (take i s)"
  by (induction s arbitrary: i) (auto split: if_splits)

lemma index_byte_None: "index_byte s c = None \<longleftrightarrow> c \<notin> set s"
  by (induction s) auto

lemma index_byte_append: "c \<notin> set a \<Longrightarrow> index_byte (a @ c # b) c = Some (length a)"
  by (induction a) auto

section \<open>Tables of rows with a primary key\<close>

text \<open>
  A SQL table is the list of its rows in the order of insertion (the rowid order); \<open>key\<close> reads
  the primary key of a row. The operations are the statements the program issues.
\<close>

definition unique_key :: "('r \<Rightarrow> 'k) \<Rightarrow> 'r list \<Rightarrow> bool" where
  "unique_key key t \<longleftrightarrow> distinct (map key t)"

definition insert_or_ignore :: "('r \<Rightarrow> 'k) \<Rightarrow> 'r \<Rightarrow> 'r list \<Rightarrow> 'r list" where
  "insert_or_ignore key r t = (if key r \<in> key ` set t then t else t @ [r])"

definition delete_where :: "('r \<Rightarrow> bool) \<Rightarrow> 'r list \<Rightarrow> 'r list" where
  "delete_where P t = filter (\<lambda>r. \<not> P r) t"

definition update_where :: "('r \<Rightarrow> bool) \<Rightarrow> ('r \<Rightarrow> 'r) \<Rightarrow> 'r list \<Rightarrow> 'r list" where
  "update_where P f t = map (\<lambda>r. if P r then f r else r) t"

definition insert_or_replace :: "('r \<Rightarrow> 'k) \<Rightarrow> 'r \<Rightarrow> 'r list \<Rightarrow> 'r list" where
  "insert_or_replace key r t = delete_where (\<lambda>x. key x = key r) t @ [r]"

text \<open>\<open>INSERT ... ON CONFLICT(key) DO UPDATE\<close>: \<open>f\<close> is the update of the conflicting row.\<close>

definition upsert :: "('r \<Rightarrow> 'k) \<Rightarrow> 'r \<Rightarrow> ('r \<Rightarrow> 'r) \<Rightarrow> 'r list \<Rightarrow> 'r list" where
  "upsert key r f t =
     (if key r \<in> key ` set t then update_where (\<lambda>x. key x = key r) f t else t @ [r])"

definition select_one :: "('r \<Rightarrow> bool) \<Rightarrow> 'r list \<Rightarrow> 'r option" where
  "select_one P t = find P t"

text \<open>
  \<open>ORDER BY k ASC\<close> and \<open>DESC\<close>. Among rows of equal key SQL leaves the order open; the model takes
  them in the order of insertion.
\<close>

definition order_asc :: "('r \<Rightarrow> 'k::linorder) \<Rightarrow> 'r list \<Rightarrow> 'r list" where
  "order_asc k t = sort_key k t"

definition order_desc :: "('r \<Rightarrow> 'k::linorder) \<Rightarrow> 'r list \<Rightarrow> 'r list" where
  "order_desc k t = rev (sort_key k (rev t))"

lemma set_insert_or_ignore:
  "set (insert_or_ignore key r t) = (if key r \<in> key ` set t then set t else insert r (set t))"
  by (auto simp: insert_or_ignore_def)

lemma set_delete_where [simp]: "set (delete_where P t) = {r \<in> set t. \<not> P r}"
  by (auto simp: delete_where_def)

lemma set_update_where: "set (update_where P f t) = (\<lambda>r. if P r then f r else r) ` set t"
  by (simp add: update_where_def)

lemma unique_key_Nil [simp]: "unique_key key []"
  by (simp add: unique_key_def)

lemma unique_key_insert_or_ignore: "unique_key key t \<Longrightarrow> unique_key key (insert_or_ignore key r t)"
  by (auto simp: unique_key_def insert_or_ignore_def)

lemma unique_key_delete_where: "unique_key key t \<Longrightarrow> unique_key key (delete_where P t)"
  by (simp add: unique_key_def delete_where_def distinct_map_filter)

lemma map_key_update_where: "(\<And>r. key (f r) = key r) \<Longrightarrow> map key (update_where P f t) = map key t"
  by (induction t) (auto simp: update_where_def)

lemma unique_key_update_where:
  "unique_key key t \<Longrightarrow> (\<And>r. key (f r) = key r) \<Longrightarrow> unique_key key (update_where P f t)"
  by (simp add: unique_key_def map_key_update_where)

lemma unique_key_insert_or_replace: "unique_key key t \<Longrightarrow> unique_key key (insert_or_replace key r t)"
  by (auto simp: unique_key_def insert_or_replace_def delete_where_def distinct_map_filter)

lemma unique_key_upsert:
  "unique_key key t \<Longrightarrow> (\<And>x. key (f x) = key x) \<Longrightarrow> unique_key key (upsert key r f t)"
  by (auto simp: upsert_def unique_key_update_where) (auto simp: unique_key_def)

lemmas unique_key_intros =
  unique_key_insert_or_ignore unique_key_delete_where unique_key_update_where
  unique_key_insert_or_replace unique_key_upsert

lemma set_order_asc [simp]: "set (order_asc k t) = set t"
  by (simp add: order_asc_def)

lemma set_order_desc [simp]: "set (order_desc k t) = set t"
  by (simp add: order_desc_def)

lemma length_order_desc [simp]: "length (order_desc k t) = length t"
  by (simp add: order_desc_def)

lemma sorted_order_asc: "sorted (map k (order_asc k t))"
  by (simp add: order_asc_def)

lemma sorted_order_desc: "sorted (rev (map k (order_desc k t)))"
  by (simp add: order_desc_def rev_map)

lemma unique_key_select:
  assumes "unique_key key t" "r \<in> set t" "key r = k"
  shows "select_one (\<lambda>x. key x = k) t = Some r"
  using assms unfolding select_one_def unique_key_def
  by (induction t) (auto simp: image_iff)

lemma select_one_None: "select_one P t = None \<longleftrightarrow> (\<forall>r \<in> set t. \<not> P r)"
  by (auto simp: select_one_def find_None_iff)

lemma select_one_SomeD: "select_one P t = Some r \<Longrightarrow> r \<in> set t \<and> P r"
  by (auto simp: select_one_def find_Some_iff)

section \<open>Effects of programs\<close>

text \<open>
  \<open>state_io_rel R m\<close> of the library says that every run of \<open>m\<close> takes a state to one that is
  \<open>R\<close>-related to it. For a reflexive and transitive \<open>R\<close> it is closed under the constructs the
  program is written in; the locale is the interface through which every frame condition,
  invariant and monotonicity statement about a whole operation is proved. Its interpretations
  are the relations of the components (\<open>history only grows\<close>, \<open>well-formedness is kept\<close>, ...).
\<close>

definition gets :: "('s \<Rightarrow> 'a) \<Rightarrow> ('s, 'a) state" where
  "gets f = State (\<lambda>s. (f s, s))"

definition modify :: "('s \<Rightarrow> 's) \<Rightarrow> ('s, unit) state" where
  "modify f = State (\<lambda>s. ((), f s))"

text \<open>A sequence of actions, one per element: Go's \<open>for ... range\<close> loop with an empty result.\<close>

fun for_each :: "'a list \<Rightarrow> ('a \<Rightarrow> ('s, unit) state) \<Rightarrow> ('s, unit) state" where
  "for_each [] f = State_Monad.return ()"
| "for_each (x # xs) f = do { f x; for_each xs f }"

text \<open>A call of an operation of a sub-component, which is the field \<open>g\<close> of the state.\<close>

definition zoom :: "('s \<Rightarrow> 't) \<Rightarrow> ('t \<Rightarrow> 's \<Rightarrow> 's) \<Rightarrow> ('t, 'a) state \<Rightarrow> ('s, 'a) state" where
  "zoom g u m = State (\<lambda>s. case run_state m (g s) of (a, t) \<Rightarrow> (a, u t s))"

lemma run_gets [simp]: "run_state (gets f) s = (f s, s)"
  by (simp add: gets_def)

lemma run_modify [simp]: "run_state (modify f) s = ((), f s)"
  by (simp add: modify_def)

lemma run_zoom: "run_state (zoom g u m) s = (case run_state m (g s) of (a, t) \<Rightarrow> (a, u t s))"
  by (simp add: zoom_def)

locale effect =
  fixes R :: "'s \<Rightarrow> 's \<Rightarrow> bool"
  assumes R_refl: "R s s"
    and R_trans: "R a b \<Longrightarrow> R b c \<Longrightarrow> R a c"
begin

lemma eff_return [effects]: "state_io_rel R (State_Monad.return x)"
  by (auto simp: state_io_rel_def R_refl)

lemma eff_gets [effects]: "state_io_rel R (gets f)"
  by (auto simp: state_io_rel_def R_refl)

lemma eff_modify: "(\<And>s. R s (f s)) \<Longrightarrow> state_io_rel R (modify f)"
  by (auto simp: state_io_rel_def)

lemma eff_bind [effects]:
  "state_io_rel R m \<Longrightarrow> (\<And>x. state_io_rel R (f x)) \<Longrightarrow> state_io_rel R (State_Monad.bind m f)"
  unfolding state_io_rel_def
  by (auto split: prod.split) (metis R_trans snd_conv)

lemma eff_if [effects]:
  "(b \<Longrightarrow> state_io_rel R m) \<Longrightarrow> (\<not> b \<Longrightarrow> state_io_rel R n) \<Longrightarrow>
   state_io_rel R (if b then m else n)"
  by simp

lemma eff_case_option [effects]:
  "(x = None \<Longrightarrow> state_io_rel R m) \<Longrightarrow> (\<And>y. x = Some y \<Longrightarrow> state_io_rel R (f y)) \<Longrightarrow>
   state_io_rel R (case x of None \<Rightarrow> m | Some y \<Rightarrow> f y)"
  by (cases x) auto

lemma eff_case_bool [effects]:
  "(b \<Longrightarrow> state_io_rel R m) \<Longrightarrow> (\<not> b \<Longrightarrow> state_io_rel R n) \<Longrightarrow>
   state_io_rel R (case b of True \<Rightarrow> m | False \<Rightarrow> n)"
  by (cases b) auto

lemma eff_case_sum [effects]:
  "(\<And>y. x = Inl y \<Longrightarrow> state_io_rel R (f y)) \<Longrightarrow> (\<And>y. x = Inr y \<Longrightarrow> state_io_rel R (g y)) \<Longrightarrow>
   state_io_rel R (case x of Inl y \<Rightarrow> f y | Inr y \<Rightarrow> g y)"
  by (cases x) auto

lemma eff_case_prod [effects]:
  "(\<And>a b. x = (a, b) \<Longrightarrow> state_io_rel R (f a b)) \<Longrightarrow>
   state_io_rel R (case x of (a, b) \<Rightarrow> f a b)"
  by (cases x) auto

lemma eff_case_list [effects]:
  "(x = [] \<Longrightarrow> state_io_rel R m) \<Longrightarrow> (\<And>y ys. x = y # ys \<Longrightarrow> state_io_rel R (f y ys)) \<Longrightarrow>
   state_io_rel R (case x of [] \<Rightarrow> m | y # ys \<Rightarrow> f y ys)"
  by (cases x) auto

lemma eff_for_each [effects]:
  "(\<And>x. x \<in> set xs \<Longrightarrow> state_io_rel R (f x)) \<Longrightarrow> state_io_rel R (for_each xs f)"
  by (induction xs) (auto intro!: eff_return eff_bind)

lemma eff_zoom:
  "(\<And>s t. Q (g s) t \<Longrightarrow> R s (u t s)) \<Longrightarrow> state_io_rel Q m \<Longrightarrow> state_io_rel R (zoom g u m)"
  by (auto simp: state_io_rel_def run_zoom split: prod.split) (metis snd_conv)

lemma eff_run: "state_io_rel R m \<Longrightarrow> R s (snd (run_state m s))"
  by (simp add: state_io_rel_def)

end

text \<open>
  The two shapes of \<open>R\<close> the development uses: a state predicate that is kept, and a part of the
  state that does not change.
\<close>

definition keeps :: "('s \<Rightarrow> bool) \<Rightarrow> 's \<Rightarrow> 's \<Rightarrow> bool" where
  "keeps P s t \<longleftrightarrow> (P s \<longrightarrow> P t)"

definition same :: "('s \<Rightarrow> 'a) \<Rightarrow> 's \<Rightarrow> 's \<Rightarrow> bool" where
  "same f s t \<longleftrightarrow> f t = f s"

definition grows :: "('s \<Rightarrow> 'a list) \<Rightarrow> 's \<Rightarrow> 's \<Rightarrow> bool" where
  "grows f s t \<longleftrightarrow> (\<exists>xs. f t = f s @ xs)"

interpretation kept: effect "keeps P" for P
  by unfold_locales (auto simp: keeps_def)

interpretation frame: effect "same f" for f
  by unfold_locales (auto simp: same_def)

interpretation log: effect "grows f" for f
  by unfold_locales (auto simp: grows_def)

end
