(* ===== verification/Go_Time.thy ===== *)
theory Go_Time
  imports Go_Prelude
begin

text \<open>
  The timestamps of the program: \<open>time.UnixMilli(ms).UTC().Format("2006-01-02T15:04:05.000Z")\<close>,
  the text form in which the store keeps, orders and compares the time of a message. \<open>iso_ms\<close> is
  the proleptic Gregorian calendar date of a millisecond count since 1970 and its layout. The lemmas show that
  the text order of two timestamps is the order of the instants, for the years 0 to 9999, which
  is what the \<open>ORDER BY ts\<close> and \<open>ts >= ?\<close> of the store rely on.
\<close>

section \<open>The calendar\<close>

definition leap :: "int \<Rightarrow> bool" where
  "leap y \<longleftrightarrow> y mod 4 = 0 \<and> y mod 100 \<noteq> 0 \<or> y mod 400 = 0"

definition year_days :: "int \<Rightarrow> int" where
  "year_days y = (if leap y then 366 else 365)"

definition month_lengths :: "int \<Rightarrow> int list" where
  "month_lengths y = [31, if leap y then 29 else 28, 31, 30, 31, 30, 31, 31, 30, 31, 30, 31]"

text \<open>\<open>year_of y d\<close>: the year, and the day within it, of the day \<open>d\<close> counted from January 1 of \<open>y\<close>.\<close>

function year_of :: "int \<Rightarrow> int \<Rightarrow> int \<times> int" where
  "year_of y d =
     (if d < 0 then year_of (y - 1) (d + year_days (y - 1))
      else if year_days y \<le> d then year_of (y + 1) (d - year_days y)
      else (y, d))"
  by pat_completeness auto
termination
  by (relation "measure (\<lambda>(y, d). if d < 0 then nat (- d) + 1000 else nat d)")
    (auto simp: year_days_def split: if_splits)

declare year_of.simps [simp del]

fun month_of :: "int list \<Rightarrow> int \<Rightarrow> int \<Rightarrow> int \<times> int" where
  "month_of [] m d = (m, d)"
| "month_of (n # ns) m d = (if n \<le> d then month_of ns (m + 1) (d - n) else (m, d))"

definition civil :: "int \<Rightarrow> int \<times> int \<times> int" where
  "civil day = (case year_of 1970 day of (y, d) \<Rightarrow>
     (case month_of (month_lengths y) 1 d of (m, k) \<Rightarrow> (y, m, k + 1)))"

section \<open>The layout\<close>

definition dig :: "int \<Rightarrow> char" where
  "dig n = char_of (48 + nat (n mod 10))"

fun pad :: "nat \<Rightarrow> int \<Rightarrow> string" where
  "pad 0 n = []"
| "pad (Suc k) n = pad k (n div 10) @ [dig n]"

definition year_str :: "int \<Rightarrow> string" where
  "year_str y = (if 9999 < y then itoa y else if y < 0
     then CHR ''-'' # (if - y < 10000 then pad 4 (- y) else itoa (- y)) else pad 4 y)"

definition clock_str :: "int \<Rightarrow> string" where
  "clock_str t = pad 2 (t div 3600000) @ '':'' @ pad 2 (t div 60000 mod 60) @ '':'' @
     pad 2 (t div 1000 mod 60) @ ''.'' @ pad 3 (t mod 1000) @ ''Z''"

definition iso_ms :: "int \<Rightarrow> string" where
  "iso_ms ms = (case civil (ms div 86400000) of (y, m, d) \<Rightarrow>
     year_str y @ ''-'' @ pad 2 m @ ''-'' @ pad 2 d @ ''T'' @ clock_str (ms mod 86400000))"

section \<open>The order of timestamps\<close>

text \<open>Pairs in the order of their first components, then of the second ones.\<close>

fun lex_less :: "int \<times> int \<Rightarrow> int \<times> int \<Rightarrow> bool" where
  "lex_less (a, b) (c, d) \<longleftrightarrow> a < c \<or> a = c \<and> b < d"

lemma year_of_back: "year_of y d = year_of (y - 1) (d + year_days (y - 1))"
proof (cases "d < 0")
  case True
  then show ?thesis by (simp add: year_of.simps [of y d])
next
  case False
  moreover have "0 < year_days (y - 1)" by (simp add: year_days_def)
  ultimately show ?thesis by (simp add: year_of.simps [of "y - 1" "d + year_days (y - 1)"])
qed

lemma year_of_range: "year_of y d = (y', d') \<Longrightarrow> 0 \<le> d' \<and> d' < year_days y' \<and> (0 \<le> d \<longrightarrow> y \<le> y')"
proof (induction y d rule: year_of.induct)
  case (1 y d)
  show ?case
  proof (cases "d < 0 \<or> year_days y \<le> d")
    case True
    with "1" show ?thesis
      by (fastforce simp: year_of.simps [of y d] split: if_splits)
  next
    case False
    with "1.prems" show ?thesis by (auto simp: year_of.simps [of y d])
  qed
qed

lemma year_of_mono: "d < e \<Longrightarrow> lex_less (year_of y d) (year_of y e)"
proof (induction y d arbitrary: e rule: year_of.induct)
  case (1 y d)
  consider "d < 0" | "0 \<le> d" "year_days y \<le> d" | "0 \<le> d" "d < year_days y" by linarith
  then show ?case
  proof cases
    case 1
    with "1.IH"(1) [of "e + year_days (y - 1)"] "1.prems" show ?thesis
      by (simp add: year_of_back [of y d] year_of_back [of y e])
  next
    case 2
    with "1.IH"(2) [of "e - year_days y"] "1.prems" show ?thesis
      by (simp add: year_of.simps [of y d] year_of.simps [of y e])
  next
    case 3
    show ?thesis
    proof (cases "year_days y \<le> e")
      case True
      obtain y' e' where eq: "year_of (y + 1) (e - year_days y) = (y', e')" by fastforce
      with year_of_range [OF eq] True 3 "1.prems" show ?thesis
        by (simp add: year_of.simps [of y d] year_of.simps [of y e])
    next
      case False
      with 3 "1.prems" show ?thesis
        by (simp add: year_of.simps [of y d] year_of.simps [of y e])
    qed
  qed
qed

lemma month_of_ge: "m \<le> fst (month_of ns m d)"
  by (induction ns m d rule: month_of.induct) auto

lemma month_of_mono: "d < e \<Longrightarrow> lex_less (month_of ns m d) (month_of ns m e)"
proof (induction ns m d arbitrary: e rule: month_of.induct)
  case (2 n ns m d)
  show ?case
  proof (cases "n \<le> d")
    case True
    with "2" show ?thesis by simp
  next
    case False
    with "2.prems" show ?thesis
      using month_of_ge [of "m + 1" ns "e - n"]
      by (cases "month_of ns (m + 1) (e - n)") auto
  qed
qed simp

lemma month_of_range:
  "0 \<le> d \<Longrightarrow> d < sum_list ns \<Longrightarrow> \<forall>n \<in> set ns. n \<le> 31 \<Longrightarrow> month_of ns m d = (m', k) \<Longrightarrow>
   m \<le> m' \<and> m' < m + int (length ns) \<and> 0 \<le> k \<and> k < 31"
proof (induction ns m d rule: month_of.induct)
  case (2 n ns m d)
  then show ?case by (auto split: if_splits)
qed simp

lemma sum_month_lengths: "sum_list (month_lengths y) = year_days y"
  by (simp add: month_lengths_def year_days_def)

lemma civil_range:
  assumes "civil n = (y, m, d)"
  shows "1 \<le> m \<and> m \<le> 12 \<and> 1 \<le> d \<and> d \<le> 31"
proof -
  obtain y' e where y: "year_of 1970 n = (y', e)" by fastforce
  obtain m' k where m: "month_of (month_lengths y') 1 e = (m', k)" by fastforce
  have "\<forall>n \<in> set (month_lengths y'). n \<le> 31" by (simp add: month_lengths_def)
  with month_of_range [OF _ _ _ m] year_of_range [OF y]
  have "1 \<le> m' \<and> m' < 1 + int (length (month_lengths y')) \<and> 0 \<le> k \<and> k < 31"
    by (simp add: sum_month_lengths)
  moreover have "length (month_lengths y') = 12" by (simp add: month_lengths_def)
  ultimately show ?thesis using assms by (auto simp: civil_def y m)
qed

lemma civil_mono:
  assumes "n < n'" "civil n = (y, m, d)" "civil n' = (y', m', d')"
  shows "y < y' \<or> y = y' \<and> lex_less (m, d) (m', d')"
proof -
  obtain a e where 1: "year_of 1970 n = (a, e)" by fastforce
  obtain a' e' where 2: "year_of 1970 n' = (a', e')" by fastforce
  have "a < a' \<or> a = a' \<and> e < e'"
    using year_of_mono [OF assms(1), of 1970] by (simp add: 1 2)
  then show ?thesis
    using assms(2,3) month_of_mono [of e e' "month_lengths a" 1]
    by (auto simp: civil_def 1 2 split: prod.splits)
qed

lemma lex_append:
  fixes a b x y :: "'a::linorder list"
  shows "length a = length b \<Longrightarrow> a @ x \<le> b @ y \<longleftrightarrow> a < b \<or> a = b \<and> x \<le> y"
  by (induction a b rule: list_induct2) auto

lemma lex_step: "length a = length b \<Longrightarrow> a < b \<or> a = b \<and> x \<le> y \<Longrightarrow> a @ x \<le> b @ (y :: 'a::linorder list)"
  by (simp add: lex_append)

lemma lex_append_less:
  fixes a b x y :: "'a::linorder list"
  shows "length a = length b \<Longrightarrow> a @ x < b @ y \<longleftrightarrow> a < b \<or> a = b \<and> x < y"
  by (induction a b rule: list_induct2) auto

lemma char_of_digit_less:
  assumes "n < 10" "m < 10"
  shows "(char_of (48 + n) :: char) < char_of (48 + m :: nat) \<longleftrightarrow> n < m"
  using assms by (simp add: less_char_def)

lemma dig_less: "dig a < dig b \<longleftrightarrow> a mod 10 < b mod 10"
proof -
  have "nat (c mod 10) < 10" for c :: int
    by (simp add: nat_less_iff)
  moreover have "0 \<le> a mod 10" by simp
  ultimately show ?thesis by (auto simp: dig_def char_of_digit_less simp del: pos_mod_sign)
qed

lemma length_pad [simp]: "length (pad k n) = k"
  by (induction k arbitrary: n) auto

lemma pad_less: "0 \<le> n \<Longrightarrow> n < m \<Longrightarrow> m < 10 ^ k \<Longrightarrow> pad k n < pad k m"
proof (induction k arbitrary: n m)
  case (Suc k)
  then have "n div 10 < m div 10 \<or> n div 10 = m div 10 \<and> n mod 10 < m mod 10"
    by presburger
  moreover have "m div 10 < 10 ^ k" "0 \<le> n div 10"
    using Suc.prems by auto
  ultimately show ?case
    using Suc.IH [of "n div 10" "m div 10"] by (auto simp: lex_append_less dig_less)
qed simp

lemma pad_le: "0 \<le> n \<Longrightarrow> n \<le> m \<Longrightarrow> m < 10 ^ k \<Longrightarrow> pad k n \<le> pad k m"
  using pad_less [of n m k] by (cases "n = m") auto

lemma field_step:
  assumes "0 \<le> a" "b < 10 ^ k" "a \<le> b" "a = b \<Longrightarrow> x \<le> y"
  shows "pad k a @ x \<le> pad k b @ y"
  using assms pad_less [of a b k] by (cases "a = b") (auto simp: lex_append)

lemma sep_step: "x \<le> y \<Longrightarrow> [c] @ x \<le> [c] @ (y :: string)"
  by simp

lemma div_mod_mono:
  fixes a b k :: int
  assumes "a \<le> b" "0 < k"
  shows "a div k < b div k \<or> a div k = b div k \<and> a mod k \<le> b mod k"
proof -
  have "a div k \<le> b div k" using assms by (simp add: zdiv_mono1)
  moreover have "a div k = b div k \<Longrightarrow> a mod k \<le> b mod k"
    using assms(1) by (simp add: minus_mult_div_eq_mod [symmetric])
  ultimately show ?thesis by linarith
qed

definition date_str :: "int \<Rightarrow> string" where
  "date_str n = (case civil n of (y, m, d) \<Rightarrow> pad 4 y @ ''-'' @ pad 2 m @ ''-'' @ pad 2 d)"

lemma clock_str_mono:
  assumes "t \<le> u" "0 \<le> t" "u < 86400000"
  shows "clock_str t \<le> clock_str u"
proof -
  have e: "n div 60000 div 60 = n div 3600000" "n div 1000 div 60 = n div 60000" for n :: int
    by (simp_all add: div_mult2_eq [symmetric] zdiv_zmult2_eq [symmetric])
  note le = zdiv_mono1 [OF assms(1)]
  have h: "t div 3600000 \<le> u div 3600000"
    by (simp add: le)
  have m: "t div 60000 mod 60 \<le> u div 60000 mod 60" if "t div 3600000 = u div 3600000"
    using that div_mod_mono [of "t div 60000" "u div 60000" 60, unfolded e, OF le] by simp
  have mm: "t div 60000 = u div 60000" if "t div 3600000 = u div 3600000" "t div 60000 mod 60 = u div 60000 mod 60"
    using that by (metis e(1) mult_div_mod_eq)
  have s: "t div 1000 mod 60 \<le> u div 1000 mod 60" if "t div 60000 = u div 60000"
    using that div_mod_mono [of "t div 1000" "u div 1000" 60, unfolded e, OF le] by simp
  have ss: "t div 1000 = u div 1000" if "t div 60000 = u div 60000" "t div 1000 mod 60 = u div 1000 mod 60"
    using that by (metis e(2) mult_div_mod_eq)
  have r: "t mod 1000 \<le> u mod 1000" if "t div 1000 = u div 1000"
    using that div_mod_mono [OF assms(1), of 1000] by simp
  have b: "n mod 60 < 10 ^ 2" "n mod 1000 < 10 ^ 3" for n :: int
    by (rule order.strict_trans2 [of _ 60], simp_all)
  have hb: "0 \<le> t div 3600000" "u div 3600000 < 10 ^ 2"
    using assms by (simp_all add: pos_imp_zdiv_nonneg_iff)
  have p: "0 \<le> n mod 60" "0 \<le> n mod 1000" for n :: int
    by simp_all
  have milli: "pad 3 (t mod 1000) @ ''Z'' \<le> pad 3 (u mod 1000) @ ''Z''" if "t div 1000 = u div 1000"
    by (rule field_step [OF p(2) b(2) r [OF that] order.refl])
  have sec: "pad 2 (t div 1000 mod 60) @ ''.'' @ pad 3 (t mod 1000) @ ''Z''
      \<le> pad 2 (u div 1000 mod 60) @ ''.'' @ pad 3 (u mod 1000) @ ''Z''" if eq: "t div 60000 = u div 60000"
    by (rule field_step [OF p(1) b(1) s [OF eq] sep_step [OF milli [OF ss [OF eq]]]])
  have minute: "pad 2 (t div 60000 mod 60) @ '':'' @ pad 2 (t div 1000 mod 60) @ ''.'' @ pad 3 (t mod 1000) @ ''Z''
      \<le> pad 2 (u div 60000 mod 60) @ '':'' @ pad 2 (u div 1000 mod 60) @ ''.'' @ pad 3 (u mod 1000) @ ''Z''"
    if eq: "t div 3600000 = u div 3600000"
    by (rule field_step [OF p(1) b(1) m [OF eq] sep_step [OF sec [OF mm [OF eq]]]])
  show ?thesis
    unfolding clock_str_def by (rule field_step [OF hb h sep_step [OF minute]])
qed

lemma date_str_mono:
  assumes "n < n'" "civil n = (y, m, d)" "civil n' = (y', m', d')" "0 \<le> y" "y' \<le> 9999"
  shows "date_str n < date_str n'"
proof -
  have r: "1 \<le> m \<and> m \<le> 12 \<and> 1 \<le> d \<and> d \<le> 31" "1 \<le> m' \<and> m' \<le> 12 \<and> 1 \<le> d' \<and> d' \<le> 31"
    using civil_range assms(2,3) by blast+
  have "pad 4 y @ ''-'' @ pad 2 m @ ''-'' @ pad 2 d < pad 4 y' @ ''-'' @ pad 2 m' @ ''-'' @ pad 2 d'"
    using civil_mono [OF assms(1-3)] r assms(4,5) pad_less [of y y' 4] pad_less [of m m' 2] pad_less [of d d' 2]
    by (auto simp: lex_append_less)
  then show ?thesis by (simp add: date_str_def assms(2,3))
qed

text \<open>Instants whose year has four digits; the clock of any real run is one.\<close>

definition four_digit_year :: "int \<Rightarrow> bool" where
  "four_digit_year ms \<longleftrightarrow> (case civil (ms div 86400000) of (y, m, d) \<Rightarrow> 0 \<le> y \<and> y \<le> 9999)"

lemma iso_ms_split:
  "four_digit_year ms \<Longrightarrow> iso_ms ms = date_str (ms div 86400000) @ ''T'' @ clock_str (ms mod 86400000)"
  by (auto simp: four_digit_year_def iso_ms_def date_str_def year_str_def split: prod.splits)

lemma length_date_str: "length (date_str n) = 10"
  by (simp add: date_str_def split: prod.split)

lemma iso_ms_mono:
  assumes "a \<le> b" "four_digit_year a" "four_digit_year b"
  shows "iso_ms a \<le> iso_ms b"
proof -
  have len: "length (date_str n) = length (date_str n')" for n n'
    by (simp add: length_date_str)
  obtain y m d y' m' d' where c: "civil (a div 86400000) = (y, m, d)" "civil (b div 86400000) = (y', m', d')"
    by (metis prod_cases3)
  have y: "0 \<le> y" "y' \<le> 9999"
    using assms(2,3) by (simp_all add: four_digit_year_def c)
  have le: "a div 86400000 \<le> b div 86400000"
    by (rule zdiv_mono1 [OF assms(1)]) simp
  show ?thesis
  proof (cases "a div 86400000 = b div 86400000")
    case True
    have "a mod 86400000 \<le> b mod 86400000"
      using div_mod_mono [OF assms(1), of 86400000] True by simp
    then have "clock_str (a mod 86400000) \<le> clock_str (b mod 86400000)"
      by (rule clock_str_mono) simp_all
    then show ?thesis using assms(2,3) True by (simp add: iso_ms_split lex_append)
  next
    case False
    with le have "a div 86400000 < b div 86400000" by simp
    from date_str_mono [OF this c y] have "date_str (a div 86400000) < date_str (b div 86400000)" .
    then show ?thesis using assms(2,3) by (simp add: iso_ms_split lex_append [OF len])
  qed
qed

text \<open>Two instants with the same text are the same instant, so the order is strict.\<close>

lemma pad_inject: "pad k n = pad k m \<Longrightarrow> 0 \<le> n \<Longrightarrow> n < 10 ^ k \<Longrightarrow> 0 \<le> m \<Longrightarrow> m < 10 ^ k \<Longrightarrow> n = m"
  using pad_less [of n m k] pad_less [of m n k] by (cases n m rule: linorder_cases) auto

lemma clock_str_inject:
  assumes "clock_str t = clock_str u" "0 \<le> t" "t < 86400000" "0 \<le> u" "u < 86400000"
  shows "t = u"
proof -
  have p: "pad 2 (t div 3600000) = pad 2 (u div 3600000)" "pad 2 (t div 60000 mod 60) = pad 2 (u div 60000 mod 60)"
    "pad 2 (t div 1000 mod 60) = pad 2 (u div 1000 mod 60)" "pad 3 (t mod 1000) = pad 3 (u mod 1000)"
    using assms(1) by (simp_all add: clock_str_def)
  have b: "0 \<le> n mod 60" "n mod 60 < 10 ^ 2" "0 \<le> n mod 1000" "n mod 1000 < 10 ^ 3" for n :: int
    by (simp, rule order.strict_trans2 [of _ 60], simp_all)
  have h: "0 \<le> v div 3600000" "v div 3600000 < 10 ^ 2" if "0 \<le> v" "v < 86400000" for v :: int
    using that by (simp_all add: pos_imp_zdiv_nonneg_iff)
  have e: "n div 60000 div 60 = n div 3600000" "n div 1000 div 60 = n div 60000" for n :: int
    by (simp_all add: div_mult2_eq [symmetric] zdiv_zmult2_eq [symmetric])
  note eq = pad_inject [OF p(1) h [OF assms(2,3)] h [OF assms(4,5)]] pad_inject [OF p(2) b(1,2) b(1,2)]
    pad_inject [OF p(3) b(1,2) b(1,2)] pad_inject [OF p(4) b(3,4) b(3,4)]
  have "t div 60000 = u div 60000"
    using eq(1,2) by (metis e(1) mult_div_mod_eq)
  then have "t div 1000 = u div 1000"
    using eq(3) by (metis e(2) mult_div_mod_eq)
  then show ?thesis
    using eq(4) by (metis mult_div_mod_eq)
qed

lemma iso_ms_inject:
  assumes "iso_ms a = iso_ms b" "four_digit_year a" "four_digit_year b"
  shows "a = b"
proof -
  have eq: "date_str (a div 86400000) = date_str (b div 86400000)"
      "clock_str (a mod 86400000) = clock_str (b mod 86400000)"
    using assms by (simp_all add: iso_ms_split append_eq_append_conv length_date_str)
  have "a mod 86400000 = b mod 86400000"
    by (rule clock_str_inject [OF eq(2)]) simp_all
  moreover have "\<not> date_str (x div 86400000) < date_str (y div 86400000) \<Longrightarrow> \<not> x div 86400000 < y div 86400000"
    if "four_digit_year x" "four_digit_year y" for x y
    using that date_str_mono by (auto simp: four_digit_year_def split: prod.splits)
  then have "a div 86400000 = b div 86400000"
    using assms(2,3) eq(1) by (metis less_irrefl linorder_neqE)
  ultimately show ?thesis
    by (metis mult_div_mod_eq)
qed

lemma iso_ms_less:
  "a < b \<Longrightarrow> four_digit_year a \<Longrightarrow> four_digit_year b \<Longrightarrow> iso_ms a < iso_ms b"
  using iso_ms_mono [of a b] iso_ms_inject [of a b] by (auto simp: order.strict_iff_order)

end
