(* ===== verification/Attn_Store.thy ===== *)
theory Attn_Store
  imports Go_Time
begin

text \<open>
  Package \<open>internal/store\<close> (\<open>store.go\<close>): the SQLite database of the daemon. The state is one list of
  rows per table of \<open>migrate\<close>, with its columns and primary key; an operation is the sequence of
  statements the Go method issues, each of which can fail. The theory ends with the lemmas the
  other components use: well-formedness is kept by every operation, the functional behaviour
  when the database answers, and the order of a conversation's history.

  The outside world of an operation is the record \<open>env\<close>: what the clock shows, which statements
  the database fails (with which error), and which iterations over a result stop early,
  and the text of a violated CHECK constraint. The state
  counts the interactions in \<open>tick\<close>, so two reads of the clock can differ. A failed statement
  changes nothing. \<open>members_json\<close> is kept as the list it encodes.
\<close>

section \<open>The outside world\<close>

record env =
  clock :: "nat \<Rightarrow> int"
  db_err :: "nat \<Rightarrow> string option"
  rows_err :: "nat \<Rightarrow> (nat \<times> string) option"
  check_err :: string

section \<open>Tables\<close>

record Message =
  m_id :: string
  m_peer :: string
  m_direction :: string
  m_content :: string
  m_ts :: string

record contact_row =
  c_address :: string
  c_name :: "string option"
  c_added_at :: string

record Blocked =
  b_address :: string
  b_at :: string

record pending_row =
  p_id :: string
  p_from :: string
  p_plaintext :: string
  p_ts :: int
  p_notified :: bool

record OutboxItem =
  o_id :: string
  o_to :: string
  o_encrypted :: string
  o_signature :: string
  o_ts :: int
  o_attempts :: int

record key_row =
  k_address :: string
  k_public_key :: string
  k_updated_at :: string

record group_row =
  g_id :: string
  g_name :: string
  g_created_at :: string

record member_row =
  gm_group :: string
  gm_address :: string
  gm_name :: "string option"

record GroupInvite =
  gi_id :: string
  gi_name :: string
  gi_from :: string
  gi_members :: "string list"
  gi_ts :: int

record Reaction =
  r_message :: string
  r_from :: string
  r_emoji :: string
  r_ts :: string

record Mute =
  mu_target :: string
  mu_kind :: string
  mu_until :: "int option"
  mu_created_at :: int

record meta_row =
  mt_key :: string
  mt_value :: string

record store =
  tick :: nat
  messages :: "Message list"
  contacts :: "contact_row list"
  blocked :: "Blocked list"
  pending :: "pending_row list"
  outbox :: "OutboxItem list"
  key_cache :: "key_row list"
  groups :: "group_row list"
  group_members :: "member_row list"
  group_invites :: "GroupInvite list"
  reactions :: "Reaction list"
  mutes :: "Mute list"
  meta :: "meta_row list"

text \<open>The state \<open>Open\<close> leaves for a new file: every table of \<open>migrate\<close>, empty.\<close>

definition empty_store :: store where
  "empty_store = \<lparr>tick = 0, messages = [], contacts = [], blocked = [], pending = [], outbox = [],
     key_cache = [], groups = [], group_members = [], group_invites = [], reactions = [],
     mutes = [], meta = []\<rparr>"

section \<open>Statements\<close>

text \<open>
  \<open>db.Exec\<close> with the effect \<open>f\<close> of the statement, \<open>QueryRow(..).Scan\<close> with its result \<open>f\<close>, and
  \<open>db.Query\<close> with a loop over \<open>rows.Next()\<close>, whose result is the rows that were read and \<open>rows.Err()\<close>.
\<close>

definition next_tick :: "(store, nat) state" where
  "next_tick = State (\<lambda>s. (tick s, s\<lparr>tick := tick s + 1\<rparr>))"

definition exec :: "'e env_scheme \<Rightarrow> (store \<Rightarrow> store) \<Rightarrow> (store, string option) state" where
  "exec e f = do {
     t \<leftarrow> next_tick;
     case db_err e t of
       Some x \<Rightarrow> State_Monad.return (Some x)
     | None \<Rightarrow> do { modify f; State_Monad.return None }
   }"

definition query_row :: "'e env_scheme \<Rightarrow> (store \<Rightarrow> 'a) \<Rightarrow> (store, string + 'a) state" where
  "query_row e f = do {
     t \<leftarrow> next_tick;
     case db_err e t of
       Some x \<Rightarrow> State_Monad.return (Inl x)
     | None \<Rightarrow> do { r \<leftarrow> gets f; State_Monad.return (Inr r) }
   }"

definition query :: "'e env_scheme \<Rightarrow> (store \<Rightarrow> 'r list) \<Rightarrow> (store, string + 'r list \<times> string option) state" where
  "query e f = do {
     t \<leftarrow> next_tick;
     case db_err e t of
       Some x \<Rightarrow> State_Monad.return (Inl x)
     | None \<Rightarrow> do {
         rs \<leftarrow> gets f;
         State_Monad.return (Inr (case rows_err e t of
             None \<Rightarrow> (rs, None)
           | Some (n, x) \<Rightarrow> (take n rs, Some x)))
       }
   }"

definition nowMs :: "'e env_scheme \<Rightarrow> (store, int) state" where
  "nowMs e = do { t \<leftarrow> next_tick; State_Monad.return (clock e t) }"

definition nowISO :: "'e env_scheme \<Rightarrow> (store, string) state" where
  "nowISO e = do { ms \<leftarrow> nowMs e; State_Monad.return (iso_ms ms) }"

definition lc :: "string \<Rightarrow> string" where
  "lc s = to_lower (trim_space s)"

text \<open>A column that is NULL for the empty string, and the read of a nullable column.\<close>

definition null_if_empty :: "string \<Rightarrow> string option" where
  "null_if_empty s = (if s = [] then None else Some s)"

definition null_string :: "string option \<Rightarrow> string" where
  "null_string x = (case x of None \<Rightarrow> [] | Some s \<Rightarrow> s)"

section \<open>Messages\<close>

definition SaveMessage ::
  "'e env_scheme \<Rightarrow> string \<Rightarrow> string \<Rightarrow> string \<Rightarrow> string \<Rightarrow> string \<Rightarrow> (store, string option) state" where
  "SaveMessage e mid peer direction content ts = do {
     ts \<leftarrow> (if ts = [] then nowISO e else State_Monad.return ts);
     exec e (\<lambda>s. if direction \<in> {''inbound'', ''outbound''}
       then s\<lparr>messages := insert_or_ignore m_id
         \<lparr>m_id = mid, m_peer = lc peer, m_direction = direction, m_content = content, m_ts = ts\<rparr>
         (messages s)\<rparr>
       else s)
   }"

definition GetHistory ::
  "'e env_scheme \<Rightarrow> string \<Rightarrow> int \<Rightarrow> (store, Message list \<times> string option) state" where
  "GetHistory e peer limit = do {
     let limit = (if limit \<le> 0 then 20 else limit);
     r \<leftarrow> query e (\<lambda>s. take (nat limit)
       (order_desc m_ts (filter (\<lambda>m. m_peer m = lc peer) (messages s))));
     case r of
       Inl err \<Rightarrow> State_Monad.return ([], Some err)
     | Inr (out, err) \<Rightarrow> State_Monad.return (rev out, err)
   }"

definition GetMessageByID ::
  "'e env_scheme \<Rightarrow> string \<Rightarrow> (store, Message option \<times> string option) state" where
  "GetMessageByID e mid = do {
     r \<leftarrow> query_row e (\<lambda>s. select_one (\<lambda>m. m_id m = mid) (messages s));
     case r of
       Inl err \<Rightarrow> State_Monad.return (None, Some err)
     | Inr m \<Rightarrow> State_Monad.return (m, None)
   }"

section \<open>Contacts\<close>

definition IsContact :: "'e env_scheme \<Rightarrow> string \<Rightarrow> (store, bool \<times> string option) state" where
  "IsContact e address = do {
     r \<leftarrow> query_row e (\<lambda>s. select_one (\<lambda>c. c_address c = lc address) (contacts s));
     case r of
       Inl err \<Rightarrow> State_Monad.return (False, Some err)
     | Inr c \<Rightarrow> State_Monad.return (c \<noteq> None, None)
   }"

definition AddContact :: "'e env_scheme \<Rightarrow> string \<Rightarrow> string \<Rightarrow> (store, string option) state" where
  "AddContact e address name = do {
     now \<leftarrow> nowISO e;
     exec e (\<lambda>s. s\<lparr>contacts := upsert c_address
       \<lparr>c_address = lc address, c_name = null_if_empty name, c_added_at = now\<rparr>
       (\<lambda>c. if name = [] then c else c\<lparr>c_name := Some name\<rparr>) (contacts s)\<rparr>)
   }"

definition UpdateContactName :: "'e env_scheme \<Rightarrow> string \<Rightarrow> string \<Rightarrow> (store, string option) state" where
  "UpdateContactName e address name =
     exec e (\<lambda>s. s\<lparr>contacts := update_where (\<lambda>c. c_address c = lc address)
       (\<lambda>c. c\<lparr>c_name := null_if_empty name\<rparr>) (contacts s)\<rparr>)"

definition GetContactName :: "'e env_scheme \<Rightarrow> string \<Rightarrow> (store, string \<times> string option) state" where
  "GetContactName e address = do {
     r \<leftarrow> query_row e (\<lambda>s. select_one (\<lambda>c. c_address c = lc address) (contacts s));
     case r of
       Inl err \<Rightarrow> State_Monad.return ([], Some err)
     | Inr None \<Rightarrow> State_Monad.return ([], None)
     | Inr (Some c) \<Rightarrow> State_Monad.return (null_string (c_name c), None)
   }"

definition GetContactByName :: "'e env_scheme \<Rightarrow> string \<Rightarrow> (store, string \<times> string option) state" where
  "GetContactByName e name = do {
     r \<leftarrow> query_row e (\<lambda>s. select_one (\<lambda>c. map_option to_lower (c_name c) = Some (lc name)) (contacts s));
     case r of
       Inl err \<Rightarrow> State_Monad.return ([], Some err)
     | Inr None \<Rightarrow> State_Monad.return ([], None)
     | Inr (Some c) \<Rightarrow> State_Monad.return (c_address c, None)
   }"

text \<open>A \<open>Contact\<close> of the API: address, name (empty when NULL) and time.\<close>

type_synonym Contact = "string \<times> string \<times> string"

definition GetContacts :: "'e env_scheme \<Rightarrow> (store, Contact list \<times> string option) state" where
  "GetContacts e = do {
     r \<leftarrow> query e (\<lambda>s. order_desc c_added_at (contacts s));
     case r of
       Inl err \<Rightarrow> State_Monad.return ([], Some err)
     | Inr (out, err) \<Rightarrow>
         State_Monad.return (map (\<lambda>c. (c_address c, null_string (c_name c), c_added_at c)) out, err)
   }"

definition RemoveContact :: "'e env_scheme \<Rightarrow> string \<Rightarrow> (store, string option) state" where
  "RemoveContact e address =
     exec e (\<lambda>s. s\<lparr>contacts := delete_where (\<lambda>c. c_address c = lc address) (contacts s)\<rparr>)"

section \<open>Blocked\<close>

definition BlockContact :: "'e env_scheme \<Rightarrow> string \<Rightarrow> (store, string option) state" where
  "BlockContact e address = do {
     let a = lc address;
     now \<leftarrow> nowISO e;
     err \<leftarrow> exec e (\<lambda>s. s\<lparr>blocked := insert_or_ignore b_address \<lparr>b_address = a, b_at = now\<rparr> (blocked s)\<rparr>);
     case err of
       Some x \<Rightarrow> State_Monad.return (Some x)
     | None \<Rightarrow> do {
         err \<leftarrow> exec e (\<lambda>s. s\<lparr>contacts := delete_where (\<lambda>c. c_address c = a) (contacts s)\<rparr>);
         case err of
           Some x \<Rightarrow> State_Monad.return (Some x)
         | None \<Rightarrow> exec e (\<lambda>s. s\<lparr>pending := delete_where (\<lambda>p. p_from p = a) (pending s)\<rparr>)
       }
   }"

definition UnblockContact :: "'e env_scheme \<Rightarrow> string \<Rightarrow> (store, string option) state" where
  "UnblockContact e address =
     exec e (\<lambda>s. s\<lparr>blocked := delete_where (\<lambda>b. b_address b = lc address) (blocked s)\<rparr>)"

definition IsBlocked :: "'e env_scheme \<Rightarrow> string \<Rightarrow> (store, bool \<times> string option) state" where
  "IsBlocked e address = do {
     r \<leftarrow> query_row e (\<lambda>s. select_one (\<lambda>b. b_address b = lc address) (blocked s));
     case r of
       Inl err \<Rightarrow> State_Monad.return (False, Some err)
     | Inr b \<Rightarrow> State_Monad.return (b \<noteq> None, None)
   }"

definition GetBlocked :: "'e env_scheme \<Rightarrow> (store, Blocked list \<times> string option) state" where
  "GetBlocked e = do {
     r \<leftarrow> query e (\<lambda>s. order_desc b_at (blocked s));
     case r of
       Inl err \<Rightarrow> State_Monad.return ([], Some err)
     | Inr (out, err) \<Rightarrow> State_Monad.return (out, err)
   }"

section \<open>Pending\<close>

record PendingMsg =
  pm_id :: string
  pm_from :: string
  pm_plaintext :: string
  pm_ts :: int

definition SavePending ::
  "'e env_scheme \<Rightarrow> string \<Rightarrow> string \<Rightarrow> string \<Rightarrow> int \<Rightarrow> (store, string option) state" where
  "SavePending e mid from plaintext ts =
     exec e (\<lambda>s. s\<lparr>pending := insert_or_ignore p_id
       \<lparr>p_id = mid, p_from = lc from, p_plaintext = plaintext, p_ts = ts, p_notified = False\<rparr>
       (pending s)\<rparr>)"

definition HasPendingNotified :: "'e env_scheme \<Rightarrow> string \<Rightarrow> (store, bool \<times> string option) state" where
  "HasPendingNotified e from = do {
     r \<leftarrow> query_row e (\<lambda>s. select_one (\<lambda>p. p_from p = lc from \<and> p_notified p) (pending s));
     case r of
       Inl err \<Rightarrow> State_Monad.return (False, Some err)
     | Inr p \<Rightarrow> State_Monad.return (p \<noteq> None, None)
   }"

definition MarkPendingNotified :: "'e env_scheme \<Rightarrow> string \<Rightarrow> (store, string option) state" where
  "MarkPendingNotified e from =
     exec e (\<lambda>s. s\<lparr>pending := update_where (\<lambda>p. p_from p = lc from) (\<lambda>p. p\<lparr>p_notified := True\<rparr>)
       (pending s)\<rparr>)"

definition FlushPending :: "'e env_scheme \<Rightarrow> string \<Rightarrow> (store, PendingMsg list \<times> string option) state" where
  "FlushPending e from = do {
     let a = lc from;
     r \<leftarrow> query e (\<lambda>s. order_asc p_ts (filter (\<lambda>p. p_from p = a) (pending s)));
     case r of
       Inl err \<Rightarrow> State_Monad.return ([], Some err)
     | Inr (rows, Some err) \<Rightarrow> State_Monad.return ([], Some err)
     | Inr (rows, None) \<Rightarrow> do {
         let out = map (\<lambda>p. \<lparr>pm_id = p_id p, pm_from = a, pm_plaintext = p_plaintext p, pm_ts = p_ts p\<rparr>) rows;
         if 0 < length out then do {
           err \<leftarrow> exec e (\<lambda>s. s\<lparr>pending := delete_where (\<lambda>p. p_from p = a) (pending s)\<rparr>);
           case err of
             Some x \<Rightarrow> State_Monad.return ([], Some x)
           | None \<Rightarrow> State_Monad.return (out, None)
         } else State_Monad.return (out, None)
       }
   }"

text \<open>\<open>GROUP BY from_address\<close> visits the senders in the order of their addresses.\<close>

definition GetPendingSenders :: "'e env_scheme \<Rightarrow> (store, (string \<times> nat) list \<times> string option) state" where
  "GetPendingSenders e = do {
     r \<leftarrow> query e (\<lambda>s. order_desc snd
       (map (\<lambda>a. (a, length (filter (\<lambda>p. p_from p = a) (pending s))))
         (sort (remdups (map p_from (pending s))))));
     case r of
       Inl err \<Rightarrow> State_Monad.return ([], Some err)
     | Inr (out, err) \<Rightarrow> State_Monad.return (out, err)
   }"

section \<open>Outbox\<close>

definition SaveOutbox ::
  "'e env_scheme \<Rightarrow> string \<Rightarrow> string \<Rightarrow> string \<Rightarrow> string \<Rightarrow> int \<Rightarrow> (store, string option) state" where
  "SaveOutbox e mid to encrypted signature ts =
     exec e (\<lambda>s. s\<lparr>outbox := insert_or_ignore o_id
       \<lparr>o_id = mid, o_to = lc to, o_encrypted = encrypted, o_signature = signature, o_ts = ts,
        o_attempts = 0\<rparr> (outbox s)\<rparr>)"

definition GetOutbox :: "'e env_scheme \<Rightarrow> (store, OutboxItem list \<times> string option) state" where
  "GetOutbox e = do {
     r \<leftarrow> query e (\<lambda>s. order_asc o_ts (outbox s));
     case r of
       Inl err \<Rightarrow> State_Monad.return ([], Some err)
     | Inr (out, err) \<Rightarrow> State_Monad.return (out, err)
   }"

definition DeleteOutbox :: "'e env_scheme \<Rightarrow> string \<Rightarrow> (store, string option) state" where
  "DeleteOutbox e mid = exec e (\<lambda>s. s\<lparr>outbox := delete_where (\<lambda>r. o_id r = mid) (outbox s)\<rparr>)"

definition IncrementOutboxAttempts :: "'e env_scheme \<Rightarrow> string \<Rightarrow> (store, string option) state" where
  "IncrementOutboxAttempts e mid =
     exec e (\<lambda>s. s\<lparr>outbox := update_where (\<lambda>r. o_id r = mid) (\<lambda>r. r\<lparr>o_attempts := o_attempts r + 1\<rparr>)
       (outbox s)\<rparr>)"

section \<open>Key cache\<close>

definition SaveKeyCache :: "'e env_scheme \<Rightarrow> string \<Rightarrow> string \<Rightarrow> (store, string option) state" where
  "SaveKeyCache e address publicKey = do {
     now \<leftarrow> nowISO e;
     exec e (\<lambda>s. s\<lparr>key_cache := upsert k_address
       \<lparr>k_address = lc address, k_public_key = publicKey, k_updated_at = now\<rparr>
       (\<lambda>r. r\<lparr>k_public_key := publicKey, k_updated_at := now\<rparr>) (key_cache s)\<rparr>)
   }"

definition GetKeyCache :: "'e env_scheme \<Rightarrow> string \<Rightarrow> (store, string \<times> string option) state" where
  "GetKeyCache e address = do {
     r \<leftarrow> query_row e (\<lambda>s. select_one (\<lambda>k. k_address k = lc address) (key_cache s));
     case r of
       Inl err \<Rightarrow> State_Monad.return ([], Some err)
     | Inr None \<Rightarrow> State_Monad.return ([], None)
     | Inr (Some k) \<Rightarrow> State_Monad.return (k_public_key k, None)
   }"

section \<open>Groups\<close>

text \<open>A \<open>GroupMember\<close> of the API: address and name (empty when NULL).\<close>

type_synonym GroupMember = "string \<times> string"

definition AddGroupMember :: "'e env_scheme \<Rightarrow> string \<Rightarrow> string \<Rightarrow> string \<Rightarrow> (store, string option) state" where
  "AddGroupMember e groupID address name =
     exec e (\<lambda>s. s\<lparr>group_members := insert_or_ignore (\<lambda>r. (gm_group r, gm_address r))
       \<lparr>gm_group = groupID, gm_address = lc address, gm_name = null_if_empty name\<rparr> (group_members s)\<rparr>)"

fun add_members :: "'e env_scheme \<Rightarrow> string \<Rightarrow> GroupMember list \<Rightarrow> (store, string option) state" where
  "add_members e gid [] = State_Monad.return None"
| "add_members e gid (m # ms) = do {
     err \<leftarrow> AddGroupMember e gid (fst m) (snd m);
     case err of Some x \<Rightarrow> State_Monad.return (Some x) | None \<Rightarrow> add_members e gid ms
   }"

definition CreateGroup :: "'e env_scheme \<Rightarrow> string \<Rightarrow> string \<Rightarrow> GroupMember list \<Rightarrow> (store, string option) state" where
  "CreateGroup e gid name members = do {
     now \<leftarrow> nowISO e;
     err \<leftarrow> exec e (\<lambda>s. s\<lparr>groups := insert_or_ignore g_id
       \<lparr>g_id = gid, g_name = name, g_created_at = now\<rparr> (groups s)\<rparr>);
     case err of Some x \<Rightarrow> State_Monad.return (Some x) | None \<Rightarrow> add_members e gid members
   }"

text \<open>A \<open>Group\<close> of the API: the row and the number of its members.\<close>

definition GetGroups :: "'e env_scheme \<Rightarrow> (store, (group_row \<times> nat) list \<times> string option) state" where
  "GetGroups e = do {
     r \<leftarrow> query e (\<lambda>s. map (\<lambda>g. (g, length (filter (\<lambda>r. gm_group r = g_id g) (group_members s))))
       (order_desc g_created_at (order_asc g_id (groups s))));
     case r of
       Inl err \<Rightarrow> State_Monad.return ([], Some err)
     | Inr (out, err) \<Rightarrow> State_Monad.return (out, err)
   }"

definition GetGroupMembers :: "'e env_scheme \<Rightarrow> string \<Rightarrow> (store, GroupMember list \<times> string option) state" where
  "GetGroupMembers e groupID = do {
     r \<leftarrow> query e (\<lambda>s. filter (\<lambda>r. gm_group r = groupID) (group_members s));
     case r of
       Inl err \<Rightarrow> State_Monad.return ([], Some err)
     | Inr (out, err) \<Rightarrow>
         State_Monad.return (map (\<lambda>r. (gm_address r, null_string (gm_name r))) out, err)
   }"

definition GetGroupName :: "'e env_scheme \<Rightarrow> string \<Rightarrow> (store, string \<times> string option) state" where
  "GetGroupName e groupID = do {
     r \<leftarrow> query_row e (\<lambda>s. select_one (\<lambda>g. g_id g = groupID) (groups s));
     case r of
       Inl err \<Rightarrow> State_Monad.return ([], Some err)
     | Inr None \<Rightarrow> State_Monad.return ([], None)
     | Inr (Some g) \<Rightarrow> State_Monad.return (g_name g, None)
   }"

definition RemoveGroupMember :: "'e env_scheme \<Rightarrow> string \<Rightarrow> string \<Rightarrow> (store, string option) state" where
  "RemoveGroupMember e groupID address =
     exec e (\<lambda>s. s\<lparr>group_members := delete_where
       (\<lambda>r. gm_group r = groupID \<and> gm_address r = lc address) (group_members s)\<rparr>)"

definition DeleteGroup :: "'e env_scheme \<Rightarrow> string \<Rightarrow> (store, string option) state" where
  "DeleteGroup e groupID = do {
     err \<leftarrow> exec e (\<lambda>s. s\<lparr>group_members := delete_where (\<lambda>r. gm_group r = groupID) (group_members s)\<rparr>);
     case err of
       Some x \<Rightarrow> State_Monad.return (Some x)
     | None \<Rightarrow> exec e (\<lambda>s. s\<lparr>groups := delete_where (\<lambda>g. g_id g = groupID) (groups s)\<rparr>)
   }"

section \<open>Group invites\<close>

definition SaveGroupInvite :: "'e env_scheme \<Rightarrow> GroupInvite \<Rightarrow> (store, string option) state" where
  "SaveGroupInvite e iv =
     exec e (\<lambda>s. s\<lparr>group_invites := insert_or_replace gi_id (iv\<lparr>gi_from := lc (gi_from iv)\<rparr>)
       (group_invites s)\<rparr>)"

definition GetGroupInvites :: "'e env_scheme \<Rightarrow> (store, GroupInvite list \<times> string option) state" where
  "GetGroupInvites e = do {
     r \<leftarrow> query e (\<lambda>s. order_desc gi_ts (group_invites s));
     case r of
       Inl err \<Rightarrow> State_Monad.return ([], Some err)
     | Inr (out, err) \<Rightarrow> State_Monad.return (out, err)
   }"

definition DeleteGroupInvite :: "'e env_scheme \<Rightarrow> string \<Rightarrow> (store, string option) state" where
  "DeleteGroupInvite e groupID =
     exec e (\<lambda>s. s\<lparr>group_invites := delete_where (\<lambda>r. gi_id r = groupID) (group_invites s)\<rparr>)"

section \<open>Reactions\<close>

definition SaveReaction ::
  "'e env_scheme \<Rightarrow> string \<Rightarrow> string \<Rightarrow> string \<Rightarrow> string \<Rightarrow> (store, string option) state" where
  "SaveReaction e messageID from emoji ts = do {
     ts \<leftarrow> (if ts = [] then nowISO e else State_Monad.return ts);
     exec e (\<lambda>s. s\<lparr>reactions := insert_or_replace (\<lambda>r. (r_message r, r_from r))
       \<lparr>r_message = messageID, r_from = lc from, r_emoji = emoji, r_ts = ts\<rparr> (reactions s)\<rparr>)
   }"

definition GetReactionsForMessages ::
  "'e env_scheme \<Rightarrow> string list \<Rightarrow> (store, Reaction list \<times> string option) state" where
  "GetReactionsForMessages e ids =
     (if length ids = 0 then State_Monad.return ([], None)
      else do {
        r \<leftarrow> query e (\<lambda>s. filter (\<lambda>r. r_message r \<in> set ids) (reactions s));
        case r of
          Inl err \<Rightarrow> State_Monad.return ([], Some err)
        | Inr (out, err) \<Rightarrow> State_Monad.return (out, err)
      })"

section \<open>Mutes\<close>

definition MuteAgent :: string where "MuteAgent = ''agent''"
definition MuteGroup :: string where "MuteGroup = ''group''"
definition MuteAll :: string where "MuteAll = ''all''"
definition AllMuteTarget :: string where "AllMuteTarget = ''*''"

text \<open>A row that breaks the CHECK of column \<open>kind\<close> fails the statement.\<close>

definition AddMute :: "'e env_scheme \<Rightarrow> string \<Rightarrow> string \<Rightarrow> int \<Rightarrow> (store, string option) state" where
  "AddMute e target kind untilMs = do {
     let until = (if 0 < untilMs then Some untilMs else None);
     now \<leftarrow> nowMs e;
     err \<leftarrow> exec e (\<lambda>s. if kind \<in> {MuteAgent, MuteGroup, MuteAll}
       then s\<lparr>mutes := upsert (\<lambda>r. (mu_target r, mu_kind r))
         \<lparr>mu_target = lc target, mu_kind = kind, mu_until = until, mu_created_at = now\<rparr>
         (\<lambda>r. r\<lparr>mu_until := until, mu_created_at := now\<rparr>) (mutes s)\<rparr>
       else s);
     State_Monad.return (if err = None \<and> kind \<notin> {MuteAgent, MuteGroup, MuteAll}
       then Some (check_err e) else err)
   }"

definition delete_mute :: "string \<Rightarrow> string \<Rightarrow> store \<Rightarrow> store" where
  "delete_mute target kind s =
     s\<lparr>mutes := delete_where (\<lambda>r. mu_target r = lc target \<and> mu_kind r = kind) (mutes s)\<rparr>"

definition RemoveMute :: "'e env_scheme \<Rightarrow> string \<Rightarrow> string \<Rightarrow> (store, bool \<times> string option) state" where
  "RemoveMute e target kind = do {
     n \<leftarrow> gets (\<lambda>s. length (filter (\<lambda>r. mu_target r = lc target \<and> mu_kind r = kind) (mutes s)));
     err \<leftarrow> exec e (delete_mute target kind);
     case err of
       Some x \<Rightarrow> State_Monad.return (False, Some x)
     | None \<Rightarrow> State_Monad.return (0 < n, None)
   }"

definition IsMuted :: "'e env_scheme \<Rightarrow> string \<Rightarrow> string \<Rightarrow> (store, bool \<times> string option) state" where
  "IsMuted e target kind = do {
     r \<leftarrow> query_row e (\<lambda>s. select_one (\<lambda>r. mu_target r = lc target \<and> mu_kind r = kind) (mutes s));
     case r of
       Inl err \<Rightarrow> State_Monad.return (False, Some err)
     | Inr None \<Rightarrow> State_Monad.return (False, None)
     | Inr (Some m) \<Rightarrow> (case mu_until m of
           None \<Rightarrow> State_Monad.return (True, None)
         | Some until \<Rightarrow> do {
             now \<leftarrow> nowMs e;
             if until \<le> now then do {
               exec e (delete_mute target kind);
               State_Monad.return (False, None)
             } else State_Monad.return (True, None)
           })
   }"

definition IsAllMuted :: "'e env_scheme \<Rightarrow> (store, bool \<times> string option) state" where
  "IsAllMuted e = IsMuted e AllMuteTarget MuteAll"

definition GetMutes :: "'e env_scheme \<Rightarrow> (store, Mute list \<times> string option) state" where
  "GetMutes e = do {
     now \<leftarrow> nowMs e;
     err \<leftarrow> exec e (\<lambda>s. s\<lparr>mutes := delete_where
       (\<lambda>r. case mu_until r of None \<Rightarrow> False | Some u \<Rightarrow> u \<le> now) (mutes s)\<rparr>);
     case err of
       Some x \<Rightarrow> State_Monad.return ([], Some x)
     | None \<Rightarrow> do {
         r \<leftarrow> query e (\<lambda>s. order_desc mu_created_at (mutes s));
         case r of
           Inl err \<Rightarrow> State_Monad.return ([], Some err)
         | Inr (out, err) \<Rightarrow> State_Monad.return (out, err)
       }
   }"

definition GetMuteCreatedAt ::
  "'e env_scheme \<Rightarrow> string \<Rightarrow> string \<Rightarrow> (store, int \<times> bool \<times> string option) state" where
  "GetMuteCreatedAt e target kind = do {
     r \<leftarrow> query_row e (\<lambda>s. select_one (\<lambda>r. mu_target r = lc target \<and> mu_kind r = kind) (mutes s));
     case r of
       Inl err \<Rightarrow> State_Monad.return (0, False, Some err)
     | Inr None \<Rightarrow> State_Monad.return (0, False, None)
     | Inr (Some m) \<Rightarrow> State_Monad.return (mu_created_at m, True, None)
   }"

definition CountInboundSince :: "'e env_scheme \<Rightarrow> string \<Rightarrow> int \<Rightarrow> (store, nat \<times> string option) state" where
  "CountInboundSince e peer sinceMs = do {
     let sinceISO = iso_ms sinceMs;
     r \<leftarrow> query_row e (\<lambda>s. length (filter
       (\<lambda>m. m_peer m = lc peer \<and> m_direction m = ''inbound'' \<and> sinceISO \<le> m_ts m) (messages s)));
     case r of
       Inl err \<Rightarrow> State_Monad.return (0, Some err)
     | Inr n \<Rightarrow> State_Monad.return (n, None)
   }"

definition CountAllInboundSince :: "'e env_scheme \<Rightarrow> int \<Rightarrow> (store, nat \<times> string option) state" where
  "CountAllInboundSince e sinceMs = do {
     let sinceISO = iso_ms sinceMs;
     r \<leftarrow> query_row e (\<lambda>s. length (filter
       (\<lambda>m. m_direction m = ''inbound'' \<and> sinceISO \<le> m_ts m) (messages s)));
     case r of
       Inl err \<Rightarrow> State_Monad.return (0, Some err)
     | Inr n \<Rightarrow> State_Monad.return (n, None)
   }"

section \<open>Meta\<close>

definition MetaGet :: "'e env_scheme \<Rightarrow> string \<Rightarrow> (store, string \<times> bool \<times> string option) state" where
  "MetaGet e key = do {
     r \<leftarrow> query_row e (\<lambda>s. select_one (\<lambda>m. mt_key m = key) (meta s));
     case r of
       Inl err \<Rightarrow> State_Monad.return ([], False, Some err)
     | Inr None \<Rightarrow> State_Monad.return ([], False, None)
     | Inr (Some m) \<Rightarrow> State_Monad.return (mt_value m, True, None)
   }"

definition MetaSet :: "'e env_scheme \<Rightarrow> string \<Rightarrow> string \<Rightarrow> (store, string option) state" where
  "MetaSet e key value =
     exec e (\<lambda>s. s\<lparr>meta := upsert mt_key \<lparr>mt_key = key, mt_value = value\<rparr>
       (\<lambda>m. m\<lparr>mt_value := value\<rparr>) (meta s)\<rparr>)"

end
