(* ===== verification/Store_Laws.thy ===== *)
theory Store_Laws
  imports Attn_Store
begin

text \<open>
  What the store promises. \<open>stmt\<close> lists the writing statements the methods issue, by table; the
  locale \<open>store_rel\<close> proves once, for every method, that a relation kept by the statements of the
  tables it writes is kept by the method, errors and early returns included. Its
  interpretations give the well-formedness of the database, the append-only history and the
  frames. The rest is the functional behaviour of the methods when the database answers, and
  the interface \<open>key_value\<close> of the tables that are used as maps.
\<close>

section \<open>The statements of the methods\<close>

datatype table = T_messages | T_contacts | T_blocked | T_pending | T_outbox | T_key_cache
  | T_groups | T_group_members | T_group_invites | T_reactions | T_mutes | T_meta

definition directions :: "string set" where
  "directions = {''inbound'', ''outbound''}"

definition mute_kinds :: "string set" where
  "mute_kinds = {MuteAgent, MuteGroup, MuteAll}"

inductive stmt :: "table \<Rightarrow> (store \<Rightarrow> store) \<Rightarrow> bool" where
  skip: "stmt t (\<lambda>s. s)"
| ins_message: "d \<in> directions \<Longrightarrow> stmt T_messages (\<lambda>s. s\<lparr>messages := insert_or_ignore m_id
     \<lparr>m_id = i, m_peer = lc p, m_direction = d, m_content = c, m_ts = ts\<rparr> (messages s)\<rparr>)"
| upsert_contact: "stmt T_contacts (\<lambda>s. s\<lparr>contacts := upsert c_address
     \<lparr>c_address = lc a, c_name = n, c_added_at = ts\<rparr>
     (\<lambda>c. if b then c else c\<lparr>c_name := n'\<rparr>) (contacts s)\<rparr>)"
| rename_contact: "stmt T_contacts (\<lambda>s. s\<lparr>contacts := update_where P (\<lambda>c. c\<lparr>c_name := n\<rparr>) (contacts s)\<rparr>)"
| del_contact: "stmt T_contacts (\<lambda>s. s\<lparr>contacts := delete_where P (contacts s)\<rparr>)"
| ins_blocked: "stmt T_blocked (\<lambda>s. s\<lparr>blocked := insert_or_ignore b_address
     \<lparr>b_address = lc a, b_at = ts\<rparr> (blocked s)\<rparr>)"
| del_blocked: "stmt T_blocked (\<lambda>s. s\<lparr>blocked := delete_where Q (blocked s)\<rparr>)"
| ins_pending: "stmt T_pending (\<lambda>s. s\<lparr>pending := insert_or_ignore p_id
     \<lparr>p_id = i, p_from = lc f, p_plaintext = c, p_ts = n, p_notified = False\<rparr> (pending s)\<rparr>)"
| mark_pending: "stmt T_pending (\<lambda>s. s\<lparr>pending := update_where R (\<lambda>p. p\<lparr>p_notified := True\<rparr>) (pending s)\<rparr>)"
| del_pending: "stmt T_pending (\<lambda>s. s\<lparr>pending := delete_where R (pending s)\<rparr>)"
| ins_outbox: "stmt T_outbox (\<lambda>s. s\<lparr>outbox := insert_or_ignore o_id
     \<lparr>o_id = i, o_to = lc a, o_encrypted = x, o_signature = y, o_ts = n, o_attempts = 0\<rparr> (outbox s)\<rparr>)"
| del_outbox: "stmt T_outbox (\<lambda>s. s\<lparr>outbox := delete_where X (outbox s)\<rparr>)"
| inc_outbox: "stmt T_outbox (\<lambda>s. s\<lparr>outbox := update_where X (\<lambda>r. r\<lparr>o_attempts := o_attempts r + 1\<rparr>) (outbox s)\<rparr>)"
| upsert_key: "stmt T_key_cache (\<lambda>s. s\<lparr>key_cache := upsert k_address
     \<lparr>k_address = lc a, k_public_key = x, k_updated_at = ts\<rparr>
     (\<lambda>r. r\<lparr>k_public_key := x, k_updated_at := ts\<rparr>) (key_cache s)\<rparr>)"
| ins_group: "stmt T_groups (\<lambda>s. s\<lparr>groups := insert_or_ignore g_id
     \<lparr>g_id = i, g_name = x, g_created_at = ts\<rparr> (groups s)\<rparr>)"
| del_group: "stmt T_groups (\<lambda>s. s\<lparr>groups := delete_where G (groups s)\<rparr>)"
| ins_member: "stmt T_group_members (\<lambda>s. s\<lparr>group_members := insert_or_ignore (\<lambda>r. (gm_group r, gm_address r))
     \<lparr>gm_group = i, gm_address = lc a, gm_name = n\<rparr> (group_members s)\<rparr>)"
| del_member: "stmt T_group_members (\<lambda>s. s\<lparr>group_members := delete_where M (group_members s)\<rparr>)"
| put_invite: "stmt T_group_invites (\<lambda>s. s\<lparr>group_invites := insert_or_replace gi_id
     (iv\<lparr>gi_from := lc a\<rparr>) (group_invites s)\<rparr>)"
| del_invite: "stmt T_group_invites (\<lambda>s. s\<lparr>group_invites := delete_where I (group_invites s)\<rparr>)"
| put_reaction: "stmt T_reactions (\<lambda>s. s\<lparr>reactions := insert_or_replace (\<lambda>r. (r_message r, r_from r))
     \<lparr>r_message = i, r_from = lc a, r_emoji = x, r_ts = ts\<rparr> (reactions s)\<rparr>)"
| upsert_mute: "k \<in> mute_kinds \<Longrightarrow> (\<forall>v. u = Some v \<longrightarrow> 0 < v) \<Longrightarrow>
     stmt T_mutes (\<lambda>s. s\<lparr>mutes := upsert (\<lambda>r. (mu_target r, mu_kind r))
     \<lparr>mu_target = lc a, mu_kind = k, mu_until = u, mu_created_at = now\<rparr>
     (\<lambda>r. r\<lparr>mu_until := u, mu_created_at := now\<rparr>) (mutes s)\<rparr>)"
| del_mute: "stmt T_mutes (\<lambda>s. s\<lparr>mutes := delete_where U (mutes s)\<rparr>)"
| put_meta: "stmt T_meta (\<lambda>s. s\<lparr>meta := upsert mt_key \<lparr>mt_key = x, mt_value = y\<rparr>
     (\<lambda>m. m\<lparr>mt_value := y\<rparr>) (meta s)\<rparr>)"

section \<open>Relations kept by the methods\<close>

locale store_rel = effect R for R :: "store \<Rightarrow> store \<Rightarrow> bool" +
  fixes W :: "table set"
  assumes R_tick: "R s (s\<lparr>tick := n\<rparr>)"
    and R_stmt: "t \<in> W \<Longrightarrow> stmt t f \<Longrightarrow> R s (f s)"
begin

lemma next_tick_rel [effects]: "state_io_rel R next_tick"
  by (simp add: next_tick_def state_io_rel_def R_tick)

lemma exec_rel: "t \<in> W \<Longrightarrow> stmt t f \<Longrightarrow> state_io_rel R (exec e f)"
  unfolding exec_def by (intro effects eff_modify) (auto simp: R_stmt)

lemma query_row_rel [effects]: "state_io_rel R (query_row e q)"
  unfolding query_row_def by (intro effects)

lemma query_rel [effects]: "state_io_rel R (query e q)"
  unfolding query_def by (intro effects)

lemma nowMs_rel [effects]: "state_io_rel R (nowMs e)"
  unfolding nowMs_def by (intro effects)

lemma nowISO_rel [effects]: "state_io_rel R (nowISO e)"
  unfolding nowISO_def by (intro effects)

lemma SaveMessage_rel [effects]: "T_messages \<in> W \<Longrightarrow> state_io_rel R (SaveMessage e i p d c ts)"
  unfolding SaveMessage_def
  by (cases "d \<in> directions")
    (auto simp: directions_def intro!: effects exec_rel [OF _ stmt.skip] exec_rel [OF _ stmt.ins_message])

lemma GetHistory_rel [effects]: "state_io_rel R (GetHistory e p n)"
  unfolding GetHistory_def Let_def by (intro effects)

lemma GetMessageByID_rel [effects]: "state_io_rel R (GetMessageByID e i)"
  unfolding GetMessageByID_def by (intro effects)

lemma IsContact_rel [effects]: "state_io_rel R (IsContact e a)"
  unfolding IsContact_def by (intro effects)

lemma AddContact_rel [effects]: "T_contacts \<in> W \<Longrightarrow> state_io_rel R (AddContact e a n)"
  unfolding AddContact_def by (intro effects exec_rel [OF _ stmt.upsert_contact])

lemma UpdateContactName_rel [effects]: "T_contacts \<in> W \<Longrightarrow> state_io_rel R (UpdateContactName e a n)"
  unfolding UpdateContactName_def by (intro effects exec_rel [OF _ stmt.rename_contact])

lemma GetContactName_rel [effects]: "state_io_rel R (GetContactName e a)"
  unfolding GetContactName_def by (intro effects)

lemma GetContactByName_rel [effects]: "state_io_rel R (GetContactByName e n)"
  unfolding GetContactByName_def by (intro effects)

lemma GetContacts_rel [effects]: "state_io_rel R (GetContacts e)"
  unfolding GetContacts_def by (intro effects)

lemma RemoveContact_rel [effects]: "T_contacts \<in> W \<Longrightarrow> state_io_rel R (RemoveContact e a)"
  unfolding RemoveContact_def by (intro effects exec_rel [OF _ stmt.del_contact])

lemma BlockContact_rel [effects]:
  "T_blocked \<in> W \<Longrightarrow> T_contacts \<in> W \<Longrightarrow> T_pending \<in> W \<Longrightarrow> state_io_rel R (BlockContact e a)"
  unfolding BlockContact_def Let_def
  by (intro effects exec_rel [of T_blocked] exec_rel [of T_contacts] exec_rel [of T_pending]
      stmt.ins_blocked stmt.del_contact stmt.del_pending)

lemma UnblockContact_rel [effects]: "T_blocked \<in> W \<Longrightarrow> state_io_rel R (UnblockContact e a)"
  unfolding UnblockContact_def by (intro effects exec_rel [OF _ stmt.del_blocked])

lemma IsBlocked_rel [effects]: "state_io_rel R (IsBlocked e a)"
  unfolding IsBlocked_def by (intro effects)

lemma GetBlocked_rel [effects]: "state_io_rel R (GetBlocked e)"
  unfolding GetBlocked_def by (intro effects)

lemma SavePending_rel [effects]: "T_pending \<in> W \<Longrightarrow> state_io_rel R (SavePending e i f c ts)"
  unfolding SavePending_def by (intro effects exec_rel [OF _ stmt.ins_pending])

lemma HasPendingNotified_rel [effects]: "state_io_rel R (HasPendingNotified e f)"
  unfolding HasPendingNotified_def by (intro effects)

lemma MarkPendingNotified_rel [effects]: "T_pending \<in> W \<Longrightarrow> state_io_rel R (MarkPendingNotified e f)"
  unfolding MarkPendingNotified_def by (intro effects exec_rel [OF _ stmt.mark_pending])

lemma FlushPending_rel [effects]: "T_pending \<in> W \<Longrightarrow> state_io_rel R (FlushPending e f)"
  unfolding FlushPending_def Let_def by (intro effects exec_rel [OF _ stmt.del_pending])

lemma GetPendingSenders_rel [effects]: "state_io_rel R (GetPendingSenders e)"
  unfolding GetPendingSenders_def by (intro effects)

lemma SaveOutbox_rel [effects]: "T_outbox \<in> W \<Longrightarrow> state_io_rel R (SaveOutbox e i a x y n)"
  unfolding SaveOutbox_def by (intro effects exec_rel [OF _ stmt.ins_outbox])

lemma GetOutbox_rel [effects]: "state_io_rel R (GetOutbox e)"
  unfolding GetOutbox_def by (intro effects)

lemma DeleteOutbox_rel [effects]: "T_outbox \<in> W \<Longrightarrow> state_io_rel R (DeleteOutbox e i)"
  unfolding DeleteOutbox_def by (intro effects exec_rel [OF _ stmt.del_outbox])

lemma IncrementOutboxAttempts_rel [effects]: "T_outbox \<in> W \<Longrightarrow> state_io_rel R (IncrementOutboxAttempts e i)"
  unfolding IncrementOutboxAttempts_def by (intro effects exec_rel [OF _ stmt.inc_outbox])

lemma SaveKeyCache_rel [effects]: "T_key_cache \<in> W \<Longrightarrow> state_io_rel R (SaveKeyCache e a x)"
  unfolding SaveKeyCache_def by (intro effects exec_rel [OF _ stmt.upsert_key])

lemma GetKeyCache_rel [effects]: "state_io_rel R (GetKeyCache e a)"
  unfolding GetKeyCache_def by (intro effects)

lemma AddGroupMember_rel [effects]: "T_group_members \<in> W \<Longrightarrow> state_io_rel R (AddGroupMember e g a n)"
  unfolding AddGroupMember_def by (intro effects exec_rel [OF _ stmt.ins_member])

lemma add_members_rel [effects]: "T_group_members \<in> W \<Longrightarrow> state_io_rel R (add_members e g ms)"
  by (induction ms) (auto intro!: effects)

lemma CreateGroup_rel [effects]:
  "T_groups \<in> W \<Longrightarrow> T_group_members \<in> W \<Longrightarrow> state_io_rel R (CreateGroup e g n ms)"
  unfolding CreateGroup_def by (intro effects exec_rel [of T_groups] stmt.ins_group)

lemma GetGroups_rel [effects]: "state_io_rel R (GetGroups e)"
  unfolding GetGroups_def by (intro effects)

lemma GetGroupMembers_rel [effects]: "state_io_rel R (GetGroupMembers e g)"
  unfolding GetGroupMembers_def by (intro effects)

lemma GetGroupName_rel [effects]: "state_io_rel R (GetGroupName e g)"
  unfolding GetGroupName_def by (intro effects)

lemma RemoveGroupMember_rel [effects]: "T_group_members \<in> W \<Longrightarrow> state_io_rel R (RemoveGroupMember e g a)"
  unfolding RemoveGroupMember_def by (intro effects exec_rel [OF _ stmt.del_member])

lemma DeleteGroup_rel [effects]:
  "T_groups \<in> W \<Longrightarrow> T_group_members \<in> W \<Longrightarrow> state_io_rel R (DeleteGroup e g)"
  unfolding DeleteGroup_def
  by (intro effects exec_rel [of T_groups] exec_rel [of T_group_members] stmt.del_group stmt.del_member)

lemma SaveGroupInvite_rel [effects]: "T_group_invites \<in> W \<Longrightarrow> state_io_rel R (SaveGroupInvite e iv)"
  unfolding SaveGroupInvite_def by (intro effects exec_rel [OF _ stmt.put_invite])

lemma GetGroupInvites_rel [effects]: "state_io_rel R (GetGroupInvites e)"
  unfolding GetGroupInvites_def by (intro effects)

lemma DeleteGroupInvite_rel [effects]: "T_group_invites \<in> W \<Longrightarrow> state_io_rel R (DeleteGroupInvite e g)"
  unfolding DeleteGroupInvite_def by (intro effects exec_rel [OF _ stmt.del_invite])

lemma SaveReaction_rel [effects]: "T_reactions \<in> W \<Longrightarrow> state_io_rel R (SaveReaction e i a x ts)"
  unfolding SaveReaction_def by (intro effects exec_rel [OF _ stmt.put_reaction])

lemma GetReactionsForMessages_rel [effects]: "state_io_rel R (GetReactionsForMessages e ids)"
  unfolding GetReactionsForMessages_def by (intro effects)

lemma AddMute_rel [effects]: "T_mutes \<in> W \<Longrightarrow> state_io_rel R (AddMute e a k u)"
  unfolding AddMute_def Let_def
  by (cases "k \<in> mute_kinds")
    (auto simp: mute_kinds_def intro!: effects exec_rel [OF _ stmt.skip] exec_rel [OF _ stmt.upsert_mute])

lemma delete_mute_rel: "T_mutes \<in> W \<Longrightarrow> state_io_rel R (exec e (delete_mute a k))"
  unfolding delete_mute_def by (intro exec_rel [OF _ stmt.del_mute])

lemma RemoveMute_rel [effects]: "T_mutes \<in> W \<Longrightarrow> state_io_rel R (RemoveMute e a k)"
  unfolding RemoveMute_def by (intro effects delete_mute_rel)

lemma IsMuted_rel [effects]: "T_mutes \<in> W \<Longrightarrow> state_io_rel R (IsMuted e a k)"
  unfolding IsMuted_def by (intro effects delete_mute_rel)

lemma IsAllMuted_rel [effects]: "T_mutes \<in> W \<Longrightarrow> state_io_rel R (IsAllMuted e)"
  unfolding IsAllMuted_def by (intro effects)

lemma GetMutes_rel [effects]: "T_mutes \<in> W \<Longrightarrow> state_io_rel R (GetMutes e)"
  unfolding GetMutes_def by (intro effects exec_rel [OF _ stmt.del_mute])

lemma GetMuteCreatedAt_rel [effects]: "state_io_rel R (GetMuteCreatedAt e a k)"
  unfolding GetMuteCreatedAt_def by (intro effects)

lemma CountInboundSince_rel [effects]: "state_io_rel R (CountInboundSince e p n)"
  unfolding CountInboundSince_def Let_def by (intro effects)

lemma CountAllInboundSince_rel [effects]: "state_io_rel R (CountAllInboundSince e n)"
  unfolding CountAllInboundSince_def Let_def by (intro effects)

lemma MetaGet_rel [effects]: "state_io_rel R (MetaGet e k)"
  unfolding MetaGet_def by (intro effects)

lemma MetaSet_rel [effects]: "T_meta \<in> W \<Longrightarrow> state_io_rel R (MetaSet e k v)"
  unfolding MetaSet_def by (intro effects exec_rel [OF _ stmt.put_meta])

end

section \<open>Well-formed databases\<close>

text \<open>
  Primary keys are unique, the CHECK constraints hold, and the addresses of a table are in the
  normal form of \<open>lc\<close> (trimmed, lower case) under which every method looks them up.
\<close>

definition norm :: "string \<Rightarrow> bool" where
  "norm a \<longleftrightarrow> lc a = a"

definition wf_messages :: "store \<Rightarrow> bool" where
  "wf_messages s \<longleftrightarrow> unique_key m_id (messages s) \<and>
     (\<forall>m \<in> set (messages s). norm (m_peer m) \<and> m_direction m \<in> directions)"

definition wf_people :: "store \<Rightarrow> bool" where
  "wf_people s \<longleftrightarrow>
     unique_key c_address (contacts s) \<and> (\<forall>c \<in> set (contacts s). norm (c_address c)) \<and>
     unique_key b_address (blocked s) \<and> (\<forall>b \<in> set (blocked s). norm (b_address b)) \<and>
     unique_key p_id (pending s) \<and> (\<forall>p \<in> set (pending s). norm (p_from p)) \<and>
     unique_key k_address (key_cache s) \<and> (\<forall>k \<in> set (key_cache s). norm (k_address k))"

definition wf_outbox :: "store \<Rightarrow> bool" where
  "wf_outbox s \<longleftrightarrow> unique_key o_id (outbox s) \<and>
     (\<forall>r \<in> set (outbox s). norm (o_to r) \<and> 0 \<le> o_attempts r)"

definition wf_groups :: "store \<Rightarrow> bool" where
  "wf_groups s \<longleftrightarrow> unique_key g_id (groups s) \<and>
     unique_key (\<lambda>r. (gm_group r, gm_address r)) (group_members s) \<and>
     (\<forall>r \<in> set (group_members s). norm (gm_address r)) \<and>
     unique_key gi_id (group_invites s) \<and> (\<forall>i \<in> set (group_invites s). norm (gi_from i))"

definition wf_marks :: "store \<Rightarrow> bool" where
  "wf_marks s \<longleftrightarrow>
     unique_key (\<lambda>r. (r_message r, r_from r)) (reactions s) \<and>
     (\<forall>r \<in> set (reactions s). norm (r_from r)) \<and>
     unique_key (\<lambda>r. (mu_target r, mu_kind r)) (mutes s) \<and>
     (\<forall>r \<in> set (mutes s). norm (mu_target r) \<and> mu_kind r \<in> mute_kinds \<and>
       (case mu_until r of None \<Rightarrow> True | Some u \<Rightarrow> 0 < u)) \<and>
     unique_key mt_key (meta s)"

definition wf_store :: "store \<Rightarrow> bool" where
  "wf_store s \<longleftrightarrow> wf_messages s \<and> wf_people s \<and> wf_outbox s \<and> wf_groups s \<and> wf_marks s"

lemma lc_idem [simp]: "lc (lc a) = lc a"
  by (simp add: lc_def trim_space_to_lower)

lemma lc_Nil [simp]: "lc [] = []"
  by (simp add: lc_def)

lemma norm_lc [simp]: "norm (lc a)"
  by (simp add: norm_def)

lemmas wf_defs = wf_store_def wf_messages_def wf_people_def wf_outbox_def wf_groups_def wf_marks_def

lemma wf_empty_store: "wf_store empty_store"
  by (simp add: wf_defs empty_store_def)

lemma in_upsertD: "x \<in> set (upsert key r f t) \<Longrightarrow> x = r \<or> x \<in> set t \<or> (\<exists>y \<in> set t. x = f y)"
  by (auto simp: upsert_def set_update_where split: if_splits)

lemma in_insert_or_ignoreD: "x \<in> set (insert_or_ignore key r t) \<Longrightarrow> x = r \<or> x \<in> set t"
  by (auto simp: insert_or_ignore_def split: if_splits)

lemma in_insert_or_replaceD: "x \<in> set (insert_or_replace key r t) \<Longrightarrow> x = r \<or> x \<in> set t"
  by (auto simp: insert_or_replace_def)

lemma in_update_whereD: "x \<in> set (update_where P f t) \<Longrightarrow> x \<in> set t \<or> (\<exists>y \<in> set t. x = f y)"
  by (auto simp: set_update_where)

lemmas in_tableD = in_upsertD in_insert_or_ignoreD in_insert_or_replaceD in_update_whereD

lemma stmt_wf_messages: "stmt t f \<Longrightarrow> wf_messages s \<Longrightarrow> wf_messages (f s)"
  unfolding wf_messages_def
  by (cases rule: stmt.cases, assumption) (auto dest!: in_tableD intro: unique_key_intros)

lemma stmt_wf_people: "stmt t f \<Longrightarrow> wf_people s \<Longrightarrow> wf_people (f s)"
  unfolding wf_people_def
  by (cases rule: stmt.cases, assumption) (auto dest!: in_tableD intro!: unique_key_intros)

lemma stmt_wf_outbox: "stmt t f \<Longrightarrow> wf_outbox s \<Longrightarrow> wf_outbox (f s)"
  unfolding wf_outbox_def
  by (cases rule: stmt.cases, assumption) (auto dest!: in_tableD intro!: unique_key_intros)

lemma stmt_wf_groups: "stmt t f \<Longrightarrow> wf_groups s \<Longrightarrow> wf_groups (f s)"
  unfolding wf_groups_def
  by (cases rule: stmt.cases, assumption) (auto dest!: in_tableD intro!: unique_key_intros)

lemma stmt_wf_marks: "stmt t f \<Longrightarrow> wf_marks s \<Longrightarrow> wf_marks (f s)"
  unfolding wf_marks_def
  by (cases rule: stmt.cases, assumption)
    (auto dest!: in_tableD intro!: unique_key_intros split: option.splits)

lemma stmt_wf: "stmt t f \<Longrightarrow> wf_store s \<Longrightarrow> wf_store (f s)"
  by (simp add: wf_store_def stmt_wf_messages stmt_wf_people stmt_wf_outbox stmt_wf_groups stmt_wf_marks)

interpretation wf: store_rel "keeps wf_store" UNIV
proof unfold_locales
  show "keeps wf_store s (s\<lparr>tick := n\<rparr>)" for s n
    by (simp add: keeps_def wf_defs)
qed (simp add: keeps_def stmt_wf)

text \<open>The history is append-only: no method deletes or changes a message.\<close>

lemma stmt_messages: "stmt t f \<Longrightarrow> \<exists>ms. messages (f s) = messages s @ ms"
  by (induction rule: stmt.induct) (auto simp: insert_or_ignore_def)

interpretation history: store_rel "grows messages" UNIV
  by unfold_locales (auto simp: grows_def stmt_messages)

text \<open>Frames: a method leaves the tables it does not write as they were.\<close>

interpretation messages_frame: store_rel "same messages" "- {T_messages}"
  by unfold_locales (auto simp: same_def elim: stmt.cases)

interpretation contacts_frame: store_rel "same contacts" "- {T_contacts}"
  by unfold_locales (auto simp: same_def elim: stmt.cases)

interpretation blocked_frame: store_rel "same blocked" "- {T_blocked}"
  by unfold_locales (auto simp: same_def elim: stmt.cases)

interpretation pending_frame: store_rel "same pending" "- {T_pending}"
  by unfold_locales (auto simp: same_def elim: stmt.cases)

interpretation outbox_frame: store_rel "same outbox" "- {T_outbox}"
  by unfold_locales (auto simp: same_def elim: stmt.cases)

interpretation mutes_frame: store_rel "same mutes" "- {T_mutes}"
  by unfold_locales (auto simp: same_def elim: stmt.cases)

interpretation meta_frame: store_rel "same meta" "- {T_meta}"
  by unfold_locales (auto simp: same_def elim: stmt.cases)

interpretation members_frame: store_rel "same group_members" "- {T_group_members}"
  by unfold_locales (auto simp: same_def elim: stmt.cases)

end
