(* ===== verification/Store_Facts.thy ===== *)
theory Store_Facts
  imports Store_Laws "HOL-Library.Multiset"
begin

text \<open>
  The functional behaviour of the store. \<open>db_ok\<close> says that the database answers every statement;
  under it the collection \<open>runs\<close> evaluates the methods. The locales \<open>key_value\<close> and
  \<open>key_value_del\<close> are the contract of a table that is used as a map, interpreted on the tables
  \<open>meta\<close>, \<open>key_cache\<close> and \<open>mutes\<close>.
\<close>

named_theorems runs "results of the store's methods when the database answers"

definition db_ok :: "'e env_scheme \<Rightarrow> bool" where
  "db_ok e \<longleftrightarrow> (\<forall>t. db_err e t = None \<and> rows_err e t = None)"

text \<open>A world in which the clock advances by a second at each look and the database answers.\<close>

definition sample_env :: env where
  "sample_env = \<lparr>clock = (\<lambda>n. 1700000000000 + 1000 * int n), db_err = (\<lambda>n. None),
     rows_err = (\<lambda>n. None), check_err = ''constraint failed''\<rparr>"

lemma db_ok_sample [simp]: "db_ok sample_env"
  by (simp add: db_ok_def sample_env_def)

section \<open>Results of statements\<close>

abbreviation ticked :: "store \<Rightarrow> store" where
  "ticked s \<equiv> s\<lparr>tick := Suc (tick s)\<rparr>"

lemma run_next_tick [runs]: "run_state next_tick s = (tick s, ticked s)"
  by (simp add: next_tick_def)

lemma run_exec [runs]: "db_ok e \<Longrightarrow> run_state (exec e f) s = (None, f (ticked s))"
  by (simp add: exec_def runs db_ok_def)

lemma run_query_row [runs]: "db_ok e \<Longrightarrow> run_state (query_row e f) s = (Inr (f (ticked s)), ticked s)"
  by (simp add: query_row_def runs db_ok_def)

lemma run_query [runs]: "db_ok e \<Longrightarrow> run_state (query e f) s = (Inr (f (ticked s), None), ticked s)"
  by (simp add: query_def runs db_ok_def)

lemma run_nowMs [runs]: "run_state (nowMs e) s = (clock e (tick s), ticked s)"
  by (simp add: nowMs_def runs)

lemma run_nowISO [runs]: "run_state (nowISO e) s = (iso_ms (clock e (tick s)), ticked s)"
  by (simp add: nowISO_def runs)

section \<open>Tables used as maps\<close>

locale key_value =
  fixes look :: "'s \<Rightarrow> 'k \<Rightarrow> 'v option"
    and put :: "'k \<Rightarrow> 'v \<Rightarrow> 's \<Rightarrow> 's"
  assumes look_put: "look (put k v s) k' = (if k' = k then Some v else look s k')"
begin

lemma look_put_same: "look (put k v s) k = Some v"
  by (simp add: look_put)

lemma look_put_other: "k' \<noteq> k \<Longrightarrow> look (put k v s) k' = look s k'"
  by (simp add: look_put)

lemma look_puts:
  "look (fold (\<lambda>(k, v). put k v) kvs s) k =
     (case map_of (rev kvs) k of Some v \<Rightarrow> Some v | None \<Rightarrow> look s k)"
  by (induction kvs arbitrary: s) (auto simp: look_put map_add_def map_of_append split: option.split)

lemma put_commutes_on_look:
  "k \<noteq> k' \<Longrightarrow> look (put k v (put k' v' s)) j = look (put k' v' (put k v s)) j"
  by (simp add: look_put)

end

locale key_value_del = key_value look put
  for look :: "'s \<Rightarrow> 'k \<Rightarrow> 'v option" and put :: "'k \<Rightarrow> 'v \<Rightarrow> 's \<Rightarrow> 's" +
  fixes del :: "'k \<Rightarrow> 's \<Rightarrow> 's"
  assumes look_del: "look (del k s) k' = (if k' = k then None else look s k')"
begin

lemma look_put_del: "look (del k (put k v s)) k' = (if k' = k then None else look s k')"
  by (simp add: look_del look_put)

lemma look_del_put: "look (put k v (del k s)) k' = look (put k v s) k'"
  by (simp add: look_del look_put)

end

lemma select_one_Cons: "select_one P (x # xs) = (if P x then Some x else select_one P xs)"
  by (simp add: select_one_def)

lemma select_one_append:
  "select_one P (xs @ ys) = (case select_one P xs of None \<Rightarrow> select_one P ys | Some x \<Rightarrow> Some x)"
  by (induction xs) (auto simp: select_one_def)

lemma select_one_filter_other:
  "(\<And>x. P x \<Longrightarrow> Q x) \<Longrightarrow> select_one P (filter Q xs) = select_one P xs"
  by (induction xs) (auto simp: select_one_def)

lemma select_one_update:
  "(\<And>x. key (f x) = key x) \<Longrightarrow>
   select_one (\<lambda>x. key x = k') (update_where (\<lambda>x. key x = k) f t) =
     map_option (\<lambda>x. if key x = k then f x else x) (select_one (\<lambda>x. key x = k') t)"
  by (induction t) (auto simp: select_one_def update_where_def)

lemma select_one_upsert:
  assumes "\<And>x. key (f x) = key x"
  shows "select_one (\<lambda>x. key x = k') (upsert key r f t) =
    (if k' = key r then (case select_one (\<lambda>x. key x = k') t of None \<Rightarrow> Some r | Some x \<Rightarrow> Some (f x))
     else select_one (\<lambda>x. key x = k') t)"
proof (cases "key r \<in> key ` set t")
  case True
  then have u: "select_one (\<lambda>x. key x = k') (upsert key r f t) =
      map_option (\<lambda>x. if key x = key r then f x else x) (select_one (\<lambda>x. key x = k') t)"
    by (simp add: upsert_def select_one_update [of key f, OF assms])
  show ?thesis
  proof (cases "select_one (\<lambda>x. key x = k') t")
    case None
    with True have "k' \<noteq> key r" by (auto simp: select_one_None)
    with u None show ?thesis by simp
  next
    case (Some x)
    then have "key x = k'" by (blast dest: select_one_SomeD)
    with u Some show ?thesis by (cases "k' = key r") simp_all
  qed
next
  case False
  then have "select_one (\<lambda>x. key x = key r) t = None"
    unfolding select_one_None by (metis image_eqI)
  then show ?thesis
    using False
    by (auto simp: upsert_def select_one_append select_one_Cons split: option.split)
      (auto simp: select_one_def)
qed

lemma select_one_delete:
  "select_one (\<lambda>x. key x = k') (delete_where (\<lambda>x. key x = k) t) =
     (if k' = k then None else select_one (\<lambda>x. key x = k') t)"
proof (cases "k' = k")
  case True
  then show ?thesis by (simp add: select_one_None)
next
  case False
  then show ?thesis
    using select_one_filter_other [of "\<lambda>x. key x = k'" "\<lambda>x. key x \<noteq> k" t]
    by (simp add: delete_where_def)
qed

text \<open>The maps of the model, as the methods read and write them.\<close>

definition meta_look :: "store \<Rightarrow> string \<Rightarrow> string option" where
  "meta_look s k = map_option mt_value (select_one (\<lambda>m. mt_key m = k) (meta s))"

definition meta_put :: "string \<Rightarrow> string \<Rightarrow> store \<Rightarrow> store" where
  "meta_put k v s = s\<lparr>meta := upsert mt_key \<lparr>mt_key = k, mt_value = v\<rparr> (\<lambda>m. m\<lparr>mt_value := v\<rparr>) (meta s)\<rparr>"

definition key_look :: "store \<Rightarrow> string \<Rightarrow> string option" where
  "key_look s a = map_option k_public_key (select_one (\<lambda>k. k_address k = a) (key_cache s))"

definition key_put :: "string \<Rightarrow> string \<Rightarrow> string \<Rightarrow> store \<Rightarrow> store" where
  "key_put now a x s = s\<lparr>key_cache := upsert k_address
     \<lparr>k_address = a, k_public_key = x, k_updated_at = now\<rparr>
     (\<lambda>r. r\<lparr>k_public_key := x, k_updated_at := now\<rparr>) (key_cache s)\<rparr>"

definition mute_look :: "store \<Rightarrow> string \<times> string \<Rightarrow> int option option" where
  "mute_look s tk = map_option mu_until (select_one (\<lambda>r. (mu_target r, mu_kind r) = tk) (mutes s))"

definition mute_put :: "int \<Rightarrow> string \<times> string \<Rightarrow> int option \<Rightarrow> store \<Rightarrow> store" where
  "mute_put now tk u s = s\<lparr>mutes := upsert (\<lambda>r. (mu_target r, mu_kind r))
     \<lparr>mu_target = fst tk, mu_kind = snd tk, mu_until = u, mu_created_at = now\<rparr>
     (\<lambda>r. r\<lparr>mu_until := u, mu_created_at := now\<rparr>) (mutes s)\<rparr>"

definition mute_del :: "string \<times> string \<Rightarrow> store \<Rightarrow> store" where
  "mute_del tk s = s\<lparr>mutes := delete_where (\<lambda>r. (mu_target r, mu_kind r) = tk) (mutes s)\<rparr>"

interpretation meta_kv: key_value meta_look meta_put
  by unfold_locales
    (auto simp: meta_look_def meta_put_def select_one_upsert split: option.split)

interpretation key_kv: key_value key_look "key_put now" for now
  by unfold_locales
    (auto simp: key_look_def key_put_def select_one_upsert split: option.split)

interpretation mute_kv: key_value_del mute_look "mute_put now" mute_del for now
  by unfold_locales
    (auto simp: mute_look_def mute_put_def mute_del_def select_one_upsert select_one_delete split: option.split)

section \<open>Results of the methods\<close>

lemma run_IsContact [runs]:
  "db_ok e \<Longrightarrow> run_state (IsContact e a) s = ((\<exists>c \<in> set (contacts s). c_address c = lc a, None), ticked s)"
  by (simp add: IsContact_def runs select_one_None [symmetric] del: not_None_eq)
    (metis (mono_tags, lifting) select_one_None)

lemma run_IsBlocked [runs]:
  "db_ok e \<Longrightarrow> run_state (IsBlocked e a) s = ((\<exists>b \<in> set (blocked s). b_address b = lc a, None), ticked s)"
  by (simp add: IsBlocked_def runs) (metis (mono_tags, lifting) not_None_eq select_one_None)

lemma run_MetaSet [runs]: "db_ok e \<Longrightarrow> run_state (MetaSet e k v) s = (None, meta_put k v (ticked s))"
  by (simp add: MetaSet_def runs meta_put_def)

lemma run_MetaGet [runs]:
  "db_ok e \<Longrightarrow> run_state (MetaGet e k) s =
     ((case meta_look s k of None \<Rightarrow> ([], False, None) | Some v \<Rightarrow> (v, True, None)), ticked s)"
  by (simp add: MetaGet_def runs meta_look_def split: option.split)

lemma meta_look_ticked [simp]: "meta_look (s\<lparr>tick := n\<rparr>) k = meta_look s k"
  by (simp add: meta_look_def)

lemma run_SaveKeyCache [runs]:
  "db_ok e \<Longrightarrow> run_state (SaveKeyCache e a x) s =
     (None, key_put (iso_ms (clock e (tick s))) (lc a) x (ticked (ticked s)))"
  by (simp add: SaveKeyCache_def runs key_put_def)

lemma run_GetKeyCache [runs]:
  "db_ok e \<Longrightarrow> run_state (GetKeyCache e a) s = ((null_string (key_look s (lc a)), None), ticked s)"
  by (simp add: GetKeyCache_def runs key_look_def null_string_def split: option.split)

lemma key_look_ticked [simp]: "key_look (s\<lparr>tick := n\<rparr>) k = key_look s k"
  by (simp add: key_look_def)

lemma delete_mute_eq: "delete_mute t k = mute_del (lc t, k)"
  by (simp add: fun_eq_iff delete_mute_def mute_del_def)

lemma mute_look_ticked [simp]: "mute_look (s\<lparr>tick := n\<rparr>) k = mute_look s k"
  by (simp add: mute_look_def)

lemma run_AddMute [runs]:
  "db_ok e \<Longrightarrow> k \<in> mute_kinds \<Longrightarrow> run_state (AddMute e t k u) s =
     (None, mute_put (clock e (tick s)) (lc t, k) (if 0 < u then Some u else None) (ticked (ticked s)))"
  by (simp add: AddMute_def runs mute_put_def mute_kinds_def Let_def)

lemma run_IsMuted [runs]:
  "db_ok e \<Longrightarrow> run_state (IsMuted e t k) s =
     (case mute_look s (lc t, k) of
        None \<Rightarrow> ((False, None), ticked s)
      | Some None \<Rightarrow> ((True, None), ticked s)
      | Some (Some u) \<Rightarrow>
          if u \<le> clock e (Suc (tick s))
          then ((False, None), mute_del (lc t, k) (ticked (ticked (ticked s))))
          else ((True, None), ticked (ticked s)))"
  by (auto simp: IsMuted_def runs mute_look_def delete_mute_eq split: option.split)

section \<open>The order of results\<close>

lemma order_desc_split:
  assumes "order_desc k t = xs @ ys" "x \<in> set xs" "y \<in> set ys"
  shows "k y \<le> k x"
proof -
  have "sorted (rev (map k xs @ map k ys))"
    using sorted_order_desc [of k t] assms(1) by simp
  then show ?thesis
    using assms(2,3) by (auto simp: sorted_append)
qed

lemma sorted_rev_take_desc: "sorted (map k (rev (take n (order_desc k t))))"
proof -
  have "sorted (drop (length t - n) (rev (map k (order_desc k t))))"
    by (simp add: sorted_order_desc sorted_wrt_drop)
  then show ?thesis
    by (simp add: rev_take rev_map drop_map)
qed

lemma mset_order_desc: "mset (order_desc k t) = mset t"
  by (simp add: order_desc_def)

lemma mset_order_asc: "mset (order_asc k t) = mset t"
  by (simp add: order_asc_def)

section \<open>Timestamps that can be compared\<close>

lemma iso_ms_le_iff:
  assumes "four_digit_year a" "four_digit_year b"
  shows "iso_ms a \<le> iso_ms b \<longleftrightarrow> a \<le> b"
  using assms iso_ms_mono [of a b] iso_ms_less [of b a] by (cases "a \<le> b") (auto simp: not_le)

end
