(* ===== verification/Mesh_Registry.thy ===== *)
theory Mesh_Registry
  imports Store_Facts "HOL-Library.AList" "HOL-Library.Sublist"
begin

text \<open>
  Package \<open>internal/mesh\<close> (\<open>registry.go\<close>): the table of live local sessions and the routing of frames
  to them without the relay. Entries are shared by pointer (the release function of a registration
  compares pointers), so the state has a heap of entries and a map from names to pointers. A
  delivery succeeds or fails as the world says; the accepted ones are logged in \<open>delivered\<close>.
  The map is a list of distinct keys; Go visits it in an unspecified order, the model in that of
  the list, and the results the package returns are sorted.
\<close>

record mesh_env = env +
  mesh_clock :: "nat \<Rightarrow> int"
  deliver_err :: "nat \<Rightarrow> string option"

section \<open>State\<close>

datatype Transport = TransportWS | TransportHTTP

text \<open>What a \<open>Deliverer\<close> wraps: a WebSocket subscriber or an HTTP endpoint with a session id.\<close>

datatype deliverer = WS_Client nat | HTTP_Target string string

record Frame =
  f_ID :: string
  f_From :: string
  f_FromAddress :: string
  f_Text :: string
  f_Ts :: int
  f_Broadcast :: bool
  f_ReactionFor :: string

record Entry =
  e_Name :: string
  e_Harness :: string
  e_Transport :: Transport
  e_PID :: int
  e_RegisteredAt :: "int option"
  e_deliver :: "deliverer option"

record View =
  v_Name :: string
  v_Harness :: string
  v_Transport :: Transport
  v_PID :: int
  v_RegisteredAt :: "int option"

record Registry =
  m_tick :: nat
  heap :: "Entry list"
  entries :: "(string \<times> nat) list"
  delivered :: "(nat \<times> Frame) list"

definition NewRegistry :: Registry where
  "NewRegistry = \<lparr>m_tick = 0, heap = [], entries = [], delivered = []\<rparr>"

definition mesh_tick :: "(Registry, nat) state" where
  "mesh_tick = State (\<lambda>s. (m_tick s, s\<lparr>m_tick := m_tick s + 1\<rparr>))"

text \<open>\<open>&mesh.Entry{..}\<close>: the caller of \<open>Register\<close> allocates the entry.\<close>

definition new_entry :: "Entry \<Rightarrow> (Registry, nat) state" where
  "new_entry x = State (\<lambda>s. (length (heap s), s\<lparr>heap := heap s @ [x]\<rparr>))"

section \<open>Operations\<close>

text \<open>
  \<open>Register\<close> returns the release function; it is the closure over the pointer, \<open>None\<close> for the no-op
  of an invalid registration. \<open>release\<close> runs it.
\<close>

definition Register ::
  "'e mesh_env_scheme \<Rightarrow> nat option \<Rightarrow> deliverer option \<Rightarrow> (Registry, nat option) state" where
  "Register e ptr d = (case (ptr, d) of
       (Some p, Some dl) \<Rightarrow> do {
         x \<leftarrow> gets (\<lambda>s. heap s ! p);
         if e_Name x = [] then State_Monad.return None
         else do {
           modify (\<lambda>s. s\<lparr>heap := (heap s)[p := x\<lparr>e_deliver := Some dl\<rparr>]\<rparr>);
           (case e_RegisteredAt x of
              None \<Rightarrow> do {
                t \<leftarrow> mesh_tick;
                modify (\<lambda>s. s\<lparr>heap := (heap s)[p := (heap s ! p)\<lparr>e_RegisteredAt := Some (mesh_clock e t)\<rparr>]\<rparr>)
              }
            | Some _ \<Rightarrow> State_Monad.return ());
           modify (\<lambda>s. s\<lparr>entries := AList.update (e_Name x) p (entries s)\<rparr>);
           State_Monad.return (Some p)
         }
       }
     | _ \<Rightarrow> State_Monad.return None)"

definition release :: "nat option \<Rightarrow> (Registry, unit) state" where
  "release r = (case r of
       None \<Rightarrow> State_Monad.return ()
     | Some p \<Rightarrow> modify (\<lambda>s. let n = e_Name (heap s ! p) in
         if map_of (entries s) n = Some p then s\<lparr>entries := AList.delete n (entries s)\<rparr> else s))"

definition DeregisterByName :: "string \<Rightarrow> (Registry, bool) state" where
  "DeregisterByName name = do {
     present \<leftarrow> gets (\<lambda>s. map_of (entries s) name \<noteq> None);
     if present then do {
       modify (\<lambda>s. s\<lparr>entries := AList.delete name (entries s)\<rparr>);
       State_Monad.return True
     } else State_Monad.return False
   }"

definition Lookup :: "string \<Rightarrow> (Registry, nat option) state" where
  "Lookup name = gets (\<lambda>s. map_of (entries s) name)"

definition Resolve :: "string \<Rightarrow> (Registry, nat option) state" where
  "Resolve to = Lookup (trim_space to)"

definition ErrNoSession :: string where
  "ErrNoSession = ''no such local session''"

text \<open>\<open>e.deliver.Deliver(f)\<close>, for the entry at \<open>p\<close>.\<close>

definition Deliver :: "'e mesh_env_scheme \<Rightarrow> nat \<Rightarrow> Frame \<Rightarrow> (Registry, string option) state" where
  "Deliver e p f = do {
     t \<leftarrow> mesh_tick;
     case deliver_err e t of
       Some x \<Rightarrow> State_Monad.return (Some x)
     | None \<Rightarrow> do {
         modify (\<lambda>s. s\<lparr>delivered := delivered s @ [(p, f)]\<rparr>);
         State_Monad.return None
       }
   }"

definition RouteTo :: "'e mesh_env_scheme \<Rightarrow> nat option \<Rightarrow> Frame \<Rightarrow> (Registry, string option) state" where
  "RouteTo e ptr f = (case ptr of
       None \<Rightarrow> State_Monad.return (Some ErrNoSession)
     | Some p \<Rightarrow> do {
         d \<leftarrow> gets (\<lambda>s. e_deliver (heap s ! p));
         case d of None \<Rightarrow> State_Monad.return (Some ErrNoSession) | Some _ \<Rightarrow> Deliver e p f
       })"

definition Route :: "'e mesh_env_scheme \<Rightarrow> string \<Rightarrow> Frame \<Rightarrow> (Registry, string \<times> string option) state" where
  "Route e to f = do {
     r \<leftarrow> Resolve to;
     case r of
       None \<Rightarrow> State_Monad.return ([], Some ErrNoSession)
     | Some p \<Rightarrow> do {
         err \<leftarrow> Deliver e p f;
         n \<leftarrow> gets (\<lambda>s. e_Name (heap s ! p));
         State_Monad.return (n, err)
       }
   }"

fun deliver_all :: "'e mesh_env_scheme \<Rightarrow> Frame \<Rightarrow> nat list \<Rightarrow> (Registry, string list) state" where
  "deliver_all e f [] = State_Monad.return []"
| "deliver_all e f (p # ps) = do {
     err \<leftarrow> Deliver e p f;
     n \<leftarrow> gets (\<lambda>s. e_Name (heap s ! p));
     sent \<leftarrow> deliver_all e f ps;
     State_Monad.return (if err = None then n # sent else sent)
   }"

definition Broadcast :: "'e mesh_env_scheme \<Rightarrow> Frame \<Rightarrow> string \<Rightarrow> (Registry, string list) state" where
  "Broadcast e f exclude = do {
     targets \<leftarrow> gets (\<lambda>s. filter (\<lambda>p. e_Name (heap s ! p) \<noteq> exclude) (map snd (entries s)));
     sent \<leftarrow> deliver_all e f targets;
     State_Monad.return (sort sent)
   }"

definition view :: "Entry \<Rightarrow> View" where
  "view x = \<lparr>v_Name = e_Name x, v_Harness = e_Harness x, v_Transport = e_Transport x, v_PID = e_PID x,
     v_RegisteredAt = e_RegisteredAt x\<rparr>"

definition ListViews :: "(Registry, View list) state" where
  "ListViews = gets (\<lambda>s. sort_key v_Name (map (\<lambda>(n, p). view (heap s ! p)) (entries s)))"

definition Names :: "(Registry, string list) state" where
  "Names = gets (\<lambda>s. sort (map fst (entries s)))"

definition Count :: "(Registry, nat) state" where
  "Count = gets (\<lambda>s. length (entries s))"

section \<open>The registry as a map\<close>

definition reg_look :: "Registry \<Rightarrow> string \<Rightarrow> nat option" where
  "reg_look s n = map_of (entries s) n"

definition reg_put :: "string \<Rightarrow> nat \<Rightarrow> Registry \<Rightarrow> Registry" where
  "reg_put n p s = s\<lparr>entries := AList.update n p (entries s)\<rparr>"

definition reg_del :: "string \<Rightarrow> Registry \<Rightarrow> Registry" where
  "reg_del n s = s\<lparr>entries := AList.delete n (entries s)\<rparr>"

interpretation reg_kv: key_value_del reg_look reg_put reg_del
  by unfold_locales (auto simp: reg_look_def reg_put_def reg_del_def update_conv' delete_conv')

section \<open>Invariant\<close>

text \<open>
  Names are registered once; the entry registered under a name carries that name, which is not
  empty, and has a deliverer.
\<close>

definition wf_registry :: "Registry \<Rightarrow> bool" where
  "wf_registry s \<longleftrightarrow> distinct (map fst (entries s)) \<and>
     (\<forall>(n, p) \<in> set (entries s). n \<noteq> [] \<and> p < length (heap s) \<and> e_Name (heap s ! p) = n \<and>
       e_deliver (heap s ! p) \<noteq> None)"

interpretation wf_reg: effect "keeps wf_registry"
  by unfold_locales (auto simp: keeps_def)

lemma wf_NewRegistry [simp]: "wf_registry NewRegistry"
  by (simp add: wf_registry_def NewRegistry_def)

lemma wf_registry_iff:
  "wf_registry s \<longleftrightarrow> distinct (map fst (entries s)) \<and>
     (\<forall>n p. map_of (entries s) n = Some p \<longrightarrow> n \<noteq> [] \<and> p < length (heap s) \<and> e_Name (heap s ! p) = n \<and>
       e_deliver (heap s ! p) \<noteq> None)"
  unfolding wf_registry_def
  by (auto dest: map_of_SomeD) (metis map_of_is_SomeI)+

lemma wf_registry_mono:
  assumes "wf_registry s" "entries t = entries s" "length (heap s) \<le> length (heap t)"
    "\<And>p. p < length (heap s) \<Longrightarrow> e_Name (heap t ! p) = e_Name (heap s ! p) \<and>
       (e_deliver (heap s ! p) \<noteq> None \<longrightarrow> e_deliver (heap t ! p) \<noteq> None)"
  shows "wf_registry t"
  using assms unfolding wf_registry_def by fastforce

lemma wf_registry_delete: "wf_registry s \<Longrightarrow> wf_registry (s\<lparr>entries := AList.delete n (entries s)\<rparr>)"
  unfolding wf_registry_iff by (auto simp: distinct_delete delete_conv')

lemma wf_registry_update:
  assumes "wf_registry s" "p < length (heap s)" "e_Name (heap s ! p) = n" "n \<noteq> []" "e_deliver (heap s ! p) \<noteq> None"
  shows "wf_registry (s\<lparr>entries := AList.update n p (entries s)\<rparr>)"
  using assms unfolding wf_registry_iff by (auto simp: distinct_update update_conv')

definition register_new :: "'e mesh_env_scheme \<Rightarrow> Entry \<Rightarrow> deliverer option \<Rightarrow> (Registry, nat option) state" where
  "register_new e x d = do { p \<leftarrow> new_entry x; Register e (Some p) d }"

lemma run_register_new:
  "run_state (register_new e x d) s =
    (if d = None \<or> e_Name x = [] then (None, s\<lparr>heap := heap s @ [x]\<rparr>)
     else (Some (length (heap s)),
       s\<lparr>m_tick := m_tick s + (if e_RegisteredAt x = None then 1 else 0),
         heap := heap s @ [x\<lparr>e_deliver := d, e_RegisteredAt := Some (case e_RegisteredAt x of None \<Rightarrow> mesh_clock e (m_tick s) | Some t \<Rightarrow> t)\<rparr>],
         entries := AList.update (e_Name x) (length (heap s)) (entries s)\<rparr>))"
  by (auto simp: register_new_def Register_def new_entry_def mesh_tick_def split: option.split)

lemma wf_register_new: "wf_registry s \<Longrightarrow> wf_registry (snd (run_state (register_new e x d) s))"
proof (cases "d = None \<or> e_Name x = []")
  case True
  assume "wf_registry s"
  then show ?thesis using True by (auto simp: run_register_new nth_append intro!: wf_registry_mono [of s])
next
  case False
  assume wf: "wf_registry s"
  let ?x = "x\<lparr>e_deliver := d, e_RegisteredAt := Some (case e_RegisteredAt x of None \<Rightarrow> mesh_clock e (m_tick s) | Some t \<Rightarrow> t)\<rparr>"
  let ?s = "s\<lparr>m_tick := m_tick s + (if e_RegisteredAt x = None then 1 else 0), heap := heap s @ [?x]\<rparr>"
  have "wf_registry ?s"
    by (rule wf_registry_mono [OF wf]) (auto simp: nth_append)
  then have "wf_registry (?s\<lparr>entries := AList.update (e_Name x) (length (heap s)) (entries ?s)\<rparr>)"
    by (rule wf_registry_update) (use False in auto)
  then show ?thesis using False by (auto simp: run_register_new)
qed

lemma run_release:
  "wf_registry s \<Longrightarrow> run_state (release r) s = ((), (case r of None \<Rightarrow> s | Some p \<Rightarrow>
     if map_of (entries s) (e_Name (heap s ! p)) = Some p
     then reg_del (e_Name (heap s ! p)) s else s))"
  by (simp add: release_def reg_del_def Let_def split: option.split)

lemma wf_release: "wf_registry s \<Longrightarrow> wf_registry (snd (run_state (release r) s))"
  by (simp add: run_release reg_del_def wf_registry_delete split: option.split)

lemma wf_Deregister: "wf_registry s \<Longrightarrow> wf_registry (snd (run_state (DeregisterByName n) s))"
  by (simp add: DeregisterByName_def wf_registry_delete)

text \<open>A delivery changes only the log and the clock position.\<close>

definition table :: "Registry \<Rightarrow> Entry list \<times> (string \<times> nat) list" where
  "table s = (heap s, entries s)"

lemma Deliver_table [effects]: "state_io_rel (same table) (Deliver e p f)"
  unfolding Deliver_def mesh_tick_def
  by (intro frame.eff_bind frame.eff_case_option frame.eff_return frame.eff_modify)
    (auto simp: state_io_rel_def same_def table_def)

lemma deliver_all_table [effects]: "state_io_rel (same table) (deliver_all e f ps)"
  by (induction ps) (auto intro!: effects)

lemma RouteTo_table [effects]: "state_io_rel (same table) (RouteTo e ptr f)"
  unfolding RouteTo_def by (intro effects)

lemma Route_table [effects]: "state_io_rel (same table) (Route e to f)"
  unfolding Route_def Resolve_def Lookup_def by (intro effects)

lemma Broadcast_table [effects]: "state_io_rel (same table) (Broadcast e f n)"
  unfolding Broadcast_def by (intro effects)

lemma same_table_wf: "state_io_rel (same table) m \<Longrightarrow> wf_registry s \<Longrightarrow> wf_registry (snd (run_state m s))"
  using frame.eff_run [of table m s] by (auto simp: same_def table_def wf_registry_def)

text \<open>The life of a registry: registrations of fresh entries, releases, deregistrations, deliveries.\<close>

inductive reg_step :: "Registry \<Rightarrow> Registry \<Rightarrow> bool" where
  register: "reg_step s (snd (run_state (register_new (e :: mesh_env) x d) s))"
| release: "reg_step s (snd (run_state (release r) s))"
| deregister: "reg_step s (snd (run_state (DeregisterByName n) s))"
| route_to: "reg_step s (snd (run_state (RouteTo (e :: mesh_env) r f) s))"
| route: "reg_step s (snd (run_state (Route (e :: mesh_env) to f) s))"
| broadcast: "reg_step s (snd (run_state (Broadcast (e :: mesh_env) f n) s))"

lemma reg_step_wf: "reg_step s t \<Longrightarrow> wf_registry s \<Longrightarrow> wf_registry t"
  by (erule reg_step.cases)
    (auto intro: wf_register_new wf_release wf_Deregister same_table_wf effects)

lemma reg_steps_wf: "reg_step\<^sup>*\<^sup>* NewRegistry s \<Longrightarrow> wf_registry s"
  by (induction rule: rtranclp_induct) (auto intro: reg_step_wf)

section \<open>Properties\<close>

text \<open>A stale disconnect is harmless: in every reachable registry the release of a registration
  removes a name exactly if that registration is the one current for the name; a release of an
  earlier registration of the same name, or of a name that was registered anew, changes nothing.\<close>

theorem release_exact:
  assumes "reg_step\<^sup>*\<^sup>* NewRegistry s"
  shows "fst (run_state (Lookup n) (snd (run_state (release r) s))) =
    (if fst (run_state (Lookup n) s) = r then None else fst (run_state (Lookup n) s))"
proof -
  have wf: "wf_registry s" by (rule reg_steps_wf) fact
  show ?thesis
  proof (cases r)
    case None
    then show ?thesis by (simp add: Lookup_def run_release [OF wf])
  next
    case (Some p)
    define m where "m = e_Name (heap s ! p)"
    have name: "n = m" if "reg_look s n = Some p"
      using wf that by (simp add: m_def reg_look_def wf_registry_iff)
    have "fst (run_state (Lookup n) (snd (run_state (release r) s))) =
        (if reg_look s m = Some p then reg_look (reg_del m s) n else reg_look s n)"
      by (simp add: Some Lookup_def run_release [OF wf] reg_look_def m_def)
    also have "\<dots> = (if reg_look s n = Some p then None else reg_look s n)"
    proof (cases "n = m")
      case True
      then show ?thesis by (simp add: reg_kv.look_del)
    next
      case False
      with name have "reg_look s n \<noteq> Some p" by blast
      with False show ?thesis by (simp add: reg_kv.look_del)
    qed
    finally show ?thesis
      by (simp add: Some Lookup_def reg_look_def)
  qed
qed

definition sample_mesh_env :: mesh_env where
  "sample_mesh_env = env.extend sample_env (mesh_env.fields (\<lambda>n. int n) (\<lambda>n. None))"

definition sample_entry :: "string \<Rightarrow> Entry" where
  "sample_entry n = \<lparr>e_Name = n, e_Harness = ''pi'', e_Transport = TransportWS, e_PID = 0,
     e_RegisteredAt = None, e_deliver = None\<rparr>"

definition sample_registry :: Registry where
  "sample_registry = snd (run_state (register_new sample_mesh_env (sample_entry ''main'') (Some (WS_Client 2)))
     (snd (run_state (register_new sample_mesh_env (sample_entry ''main'') (Some (WS_Client 1))) NewRegistry)))"

lemma sample_registry_reachable: "reg_step\<^sup>*\<^sup>* NewRegistry sample_registry"
  unfolding sample_registry_def
  by (rule rtranclp.rtrancl_into_rtrancl [OF r_into_rtranclp [of reg_step, OF reg_step.register] reg_step.register])

lemma release_exact_witness:
  "fst (run_state (Lookup ''main'') (snd (run_state (release (Some 0)) sample_registry))) = Some 1"
proof -
  have "fst (run_state (Lookup ''main'') sample_registry) = Some 1"
    by code_simp
  with release_exact [OF sample_registry_reachable, of "''main''" "Some 0"] show ?thesis
    by simp
qed

text \<open>What an accepted fan-out looks like, and the properties of routing.\<close>

lemma run_Deliver:
  "run_state (Deliver e p f) s = (case deliver_err e (m_tick s) of
     None \<Rightarrow> (None, s\<lparr>m_tick := m_tick s + 1, delivered := delivered s @ [(p, f)]\<rparr>)
   | Some x \<Rightarrow> (Some x, s\<lparr>m_tick := m_tick s + 1\<rparr>))"
  by (simp add: Deliver_def mesh_tick_def split: option.split)

lemma deliver_all_spec:
  "run_state (deliver_all e f ps) s = (sent, t) \<Longrightarrow>
   \<exists>ok. delivered t = delivered s @ map (\<lambda>p. (p, f)) ok \<and> subseq ok ps \<and>
     sent = map (\<lambda>p. e_Name (heap s ! p)) ok \<and> heap t = heap s \<and>
     ((\<forall>k. deliver_err e k = None) \<longrightarrow> ok = ps)"
proof (induction ps arbitrary: s sent)
  case (Cons p ps)
  let ?s = "snd (run_state (Deliver e p f) s)"
  obtain sent' where r: "run_state (deliver_all e f ps) ?s = (sent', t)"
    and sent: "sent = (if fst (run_state (Deliver e p f) s) = None then e_Name (heap ?s ! p) # sent' else sent')"
    using Cons.prems by (auto split: prod.splits if_splits)
  from Cons.IH [OF r] obtain ok where ok: "delivered t = delivered ?s @ map (\<lambda>p. (p, f)) ok" "subseq ok ps"
    "sent' = map (\<lambda>p. e_Name (heap ?s ! p)) ok" "heap t = heap ?s" "(\<forall>k. deliver_err e k = None) \<longrightarrow> ok = ps"
    by blast
  show ?case
  proof (cases "deliver_err e (m_tick s)")
    case None
    show ?thesis
      by (rule exI [of _ "p # ok"]) (use ok sent None in \<open>auto simp: run_Deliver\<close>)
  next
    case (Some x)
    show ?thesis
      by (rule exI [of _ ok]) (use ok sent Some in \<open>auto simp: run_Deliver\<close>)
  qed
qed simp

text \<open>A fan-out reaches every live session except the sender: the frame is delivered to a
  selection of the sessions whose name is not the excluded one, once each, the names returned are
  those of the accepting sessions, sorted; without delivery errors it is every one of them.\<close>

theorem Broadcast_fan_out:
  assumes "reg_step\<^sup>*\<^sup>* NewRegistry s" "run_state (Broadcast e f exclude) s = (sent, t)"
  shows "sorted sent \<and> distinct sent \<and> set sent \<subseteq> set (map fst (entries s)) - {exclude} \<and>
    (\<exists>ok. delivered t = delivered s @ map (\<lambda>p. (p, f)) ok \<and> distinct ok \<and>
       set sent = {n. \<exists>p \<in> set ok. map_of (entries s) n = Some p}) \<and>
    ((\<forall>k. deliver_err e k = None) \<longrightarrow> set sent = set (map fst (entries s)) - {exclude})"
proof -
  have wf: "wf_registry s" by (rule reg_steps_wf) fact
  define name where "name p = e_Name (heap s ! p)" for p
  have nm: "map name (map snd (entries s)) = map fst (entries s)"
    using wf by (auto simp: wf_registry_def name_def)
  then have d: "distinct (map name (map snd (entries s)))"
    using wf unfolding nm by (simp add: wf_registry_def)
  define ts where "ts = filter (\<lambda>p. name p \<noteq> exclude) (map snd (entries s))"
  obtain sent' where r: "run_state (deliver_all e f ts) s = (sent', t)" "sent = sort sent'"
    using assms(2) by (auto simp: Broadcast_def ts_def name_def split: prod.splits)
  from deliver_all_spec [OF r(1)] obtain ok where ok: "delivered t = delivered s @ map (\<lambda>p. (p, f)) ok"
    "subseq ok ts" "sent' = map name ok" "(\<forall>k. deliver_err e k = None) \<longrightarrow> ok = ts"
    unfolding name_def by blast
  have "subseq ok (map snd (entries s))"
    using ok(2) by (auto simp: ts_def intro: subseq_order.trans)
  then have sub: "subseq (map name ok) (map name (map snd (entries s)))"
    by (rule subseq_map)
  then have dist: "distinct (map name ok)"
    using d by (auto simp: subseq_conv_nths intro: distinct_nthsI)
  have names: "set ts = {p \<in> snd ` set (entries s). name p \<noteq> exclude}"
    by (auto simp: ts_def)
  have okts: "set ok \<subseteq> set ts"
    using ok(2) by (auto dest: list_emb_set)
  have look: "map_of (entries s) n = Some p \<longleftrightarrow> (n, p) \<in> set (entries s)" for n p
    using wf by (simp add: wf_registry_def)
  have inv: "(n, p) \<in> set (entries s) \<Longrightarrow> name p = n" for n p
    using wf by (auto simp: wf_registry_def name_def)
  have "set (map name ok) = {n. \<exists>p \<in> set ok. map_of (entries s) n = Some p}"
    using okts names inv by (force simp: look)
  moreover have "set (map name ok) \<subseteq> set (map fst (entries s)) - {exclude}"
    using okts names inv by force
  moreover have "set (map name ts) = set (map fst (entries s)) - {exclude}"
    using inv by (force simp: names)
  ultimately show ?thesis
    using ok r(2) dist by (auto simp: distinct_map)
qed

lemma Broadcast_fan_out_witness:
  "fst (run_state (Broadcast sample_mesh_env \<lparr>f_ID = ''1'', f_From = ''w'', f_FromAddress = [], f_Text = ''hi'',
     f_Ts = 0, f_Broadcast = True, f_ReactionFor = []\<rparr> ''w'') sample_registry) = [''main'']"
proof -
  obtain sent t where r: "run_state (Broadcast sample_mesh_env \<lparr>f_ID = ''1'', f_From = ''w'', f_FromAddress = [], f_Text = ''hi'',
     f_Ts = 0, f_Broadcast = True, f_ReactionFor = []\<rparr> ''w'') sample_registry = (sent, t)"
    by (metis prod.collapse)
  have "set (map fst (entries sample_registry)) - {''w''} = {''main''}"
    by code_simp
  moreover have "\<forall>k. deliver_err sample_mesh_env k = None"
    by (simp add: sample_mesh_env_def env.extend_def mesh_env.fields_def)
  ultimately have "set sent = {''main''}" "distinct sent"
    using Broadcast_fan_out [OF sample_registry_reachable r] by auto
  then have "sent = [''main'']"
    by (cases sent; cases "tl sent") auto
  then show ?thesis by (simp add: r)
qed

end
