(* ===== verification/Go_Json.thy ===== *)
theory Go_Json
  imports Go_Prelude
begin

text \<open>
  Package \<open>encoding/json\<close>, as the program uses it: the text of a value (\<open>Marshal\<close>, with the keys of a
  map in order and the HTML characters escaped), the scanner with its stack of open arrays and
  objects and its nesting limit, \<open>Unmarshal\<close> and \<open>Decode\<close>, and the assignment of an object to the
  fields of a struct: keys match without regard to case, a later value replaces an earlier one,
  \<open>null\<close> leaves a field as it is, a value of another type is an error. Texts are valid UTF-8 without
  U+2028 and U+2029, so bytes beyond ASCII are written and read as they are. The lemmas show that
  reading undoes writing.
\<close>

section \<open>Digits\<close>

definition is_digit :: "char \<Rightarrow> bool" where
  "is_digit c \<longleftrightarrow> CHR ''0'' \<le> c \<and> c \<le> CHR ''9''"

definition is_hex :: "char \<Rightarrow> bool" where
  "is_hex c \<longleftrightarrow> CHR ''0'' \<le> c \<and> c \<le> CHR ''9'' \<or> CHR ''a'' \<le> c \<and> c \<le> CHR ''f'' \<or> CHR ''A'' \<le> c \<and> c \<le> CHR ''F''"

definition digits_val :: "string \<Rightarrow> int" where
  "digits_val ds = fold (\<lambda>c n. n * 10 + (int (of_char c) - 48)) ds 0"

definition hex_value :: "char \<Rightarrow> nat" where
  "hex_value c =
     (if is_digit c then of_char c - 48
      else if CHR ''a'' \<le> c \<and> c \<le> CHR ''f'' then of_char c - 87
      else of_char c - 55)"

section \<open>Writing\<close>

datatype json = JNull | JStr string | JInt int | JNum string | JBool bool | JList "json list"
  | JObj "(string \<times> json) list"

text \<open>The characters of the TypeScript client's \<open>JSON.stringify\<close>, and those of \<open>json.Marshal\<close>.\<close>

definition json_char :: "char \<Rightarrow> string" where
  "json_char c =
     (if c = CHR 0x22 then [CHR 0x5C, CHR 0x22]
      else if c = CHR 0x5C then [CHR 0x5C, CHR 0x5C]
      else if c = CHR 0x08 then [CHR 0x5C, CHR ''b'']
      else if c = CHR 0x0C then [CHR 0x5C, CHR ''f'']
      else if c = CHR 0x0A then [CHR 0x5C, CHR ''n'']
      else if c = CHR 0x0D then [CHR 0x5C, CHR ''r'']
      else if c = CHR 0x09 then [CHR 0x5C, CHR ''t'']
      else if c < CHR '' ''
      then [CHR 0x5C, CHR ''u'', CHR ''0'', CHR ''0'', hex_digit (of_char c div 16), hex_digit (of_char c mod 16)]
      else [c])"

definition json_string :: "string \<Rightarrow> string" where
  "json_string s = [CHR 0x22] @ concat (map json_char s) @ [CHR 0x22]"

definition html_char :: "char \<Rightarrow> string" where
  "html_char c = (if c \<in> {CHR ''<'', CHR ''>'', CHR ''&''}
     then [CHR 0x5C, CHR ''u'', CHR ''0'', CHR ''0'', hex_digit (of_char c div 16), hex_digit (of_char c mod 16)]
     else json_char c)"

definition html_string :: "string \<Rightarrow> string" where
  "html_string s = [CHR 0x22] @ concat (map html_char s) @ [CHR 0x22]"

fun marshal :: "json \<Rightarrow> string" where
  "marshal JNull = ''null''"
| "marshal (JStr s) = html_string s"
| "marshal (JInt i) = itoa i"
| "marshal (JNum n) = n"
| "marshal (JBool b) = (if b then ''true'' else ''false'')"
| "marshal (JList xs) = ''['' @ join (map marshal xs) '','' @ '']''"
| "marshal (JObj kvs) =
     ''{'' @ join (map snd (sort_key fst (map (\<lambda>(k, v). (k, html_string k @ '':'' @ marshal v)) kvs))) '','' @ ''}''"

definition member :: "string \<times> json \<Rightarrow> string" where
  "member kv = html_string (fst kv) @ '':'' @ marshal (snd kv)"

text \<open>A member that is left out when it is empty (\<open>omitempty\<close>).\<close>

definition when_set :: "string \<Rightarrow> string \<Rightarrow> (string \<times> json) list" where
  "when_set k v = (if v = [] then [] else [(k, JStr v)])"

text \<open>A struct is written in the order of its fields.\<close>

definition marshal_struct :: "(string \<times> json) list \<Rightarrow> string" where
  "marshal_struct kvs = ''{'' @ join (map member kvs) '','' @ ''}''"

section \<open>Reading\<close>

definition is_ws :: "char \<Rightarrow> bool" where
  "is_ws c \<longleftrightarrow> c \<in> {CHR '' '', CHR 0x09, CHR 0x0A, CHR 0x0D}"

text \<open>The four digits after \<open>\u\<close>, and a code point in UTF-8; surrogates stand for U+FFFD.\<close>

definition hex4 :: "string \<Rightarrow> nat option" where
  "hex4 s = (if 4 \<le> length s \<and> list_all is_hex (take 4 s)
     then Some (fold (\<lambda>c n. n * 16 + hex_value c) (take 4 s) 0) else None)"

definition utf8 :: "nat \<Rightarrow> string" where
  "utf8 r =
     (if r < 128 then [char_of r]
      else if r < 2048 then [char_of (192 + r div 64), char_of (128 + r mod 64)]
      else if 55296 \<le> r \<and> r < 57344 then [CHR 0xEF, CHR 0xBF, CHR 0xBD]
      else if r < 65536 then [char_of (224 + r div 4096), char_of (128 + r div 64 mod 64), char_of (128 + r mod 64)]
      else [char_of (240 + r div 262144), char_of (128 + r div 4096 mod 64), char_of (128 + r div 64 mod 64),
            char_of (128 + r mod 64)])"

text \<open>The second half of a pair after a first half \<open>u\<close>, with what is left of the text.\<close>

definition low_surrogate :: "nat \<Rightarrow> string \<Rightarrow> (nat \<times> string) option" where
  "low_surrogate u s =
     (if 55296 \<le> u \<and> u < 56320 \<and> take 2 s = [CHR 0x5C, CHR ''u''] then
        (case hex4 (drop 2 s) of
           None \<Rightarrow> None
         | Some v \<Rightarrow> if 56320 \<le> v \<and> v < 57344
             then Some ((u - 55296) * 1024 + (v - 56320) + 65536, drop 6 s) else None)
      else None)"

definition escapes :: "(char \<times> char) list" where
  "escapes = [(CHR 0x22, CHR 0x22), (CHR 0x5C, CHR 0x5C), (CHR ''/'', CHR ''/''), (CHR ''b'', CHR 0x08),
     (CHR ''f'', CHR 0x0C), (CHR ''n'', CHR 0x0A), (CHR ''r'', CHR 0x0D), (CHR ''t'', CHR 0x09)]"

text \<open>One character of a string, after the quote that opens it: the bytes it stands for.\<close>

definition read_char :: "string \<Rightarrow> (string \<times> string) option" where
  "read_char s = (case s of
       [] \<Rightarrow> None
     | c # r \<Rightarrow>
         if c < CHR '' '' then None
         else if c \<noteq> CHR 0x5C then Some ([c], r)
         else (case r of
             [] \<Rightarrow> None
           | d # q \<Rightarrow>
               if d = CHR ''u'' then (case hex4 q of
                   None \<Rightarrow> None
                 | Some u \<Rightarrow> (case low_surrogate u (drop 4 q) of
                       Some (v, t) \<Rightarrow> Some (utf8 v, t)
                     | None \<Rightarrow> Some (utf8 u, drop 4 q)))
               else map_option (\<lambda>x. ([x], q)) (map_of escapes d)))"

lemma read_char_length: "read_char s = Some (x, r) \<Longrightarrow> length r < length s"
  by (cases s; cases "tl s")
    (auto simp: read_char_def low_surrogate_def split: if_splits option.splits)

function read_string :: "string \<Rightarrow> (string \<times> string) option" where
  "read_string s =
     (if s \<noteq> [] \<and> hd s = CHR 0x22 then Some ([], tl s)
      else (case read_char s of
          None \<Rightarrow> None
        | Some (x, r) \<Rightarrow> map_option (\<lambda>(t, q). (x @ t, q)) (read_string r)))"
  by pat_completeness auto

termination
  by (relation "measure length") (auto dest: read_char_length)

declare read_string.simps [simp del]

lemma read_string_length: "read_string s = Some (t, r) \<Longrightarrow> length r < length s"
proof (induction s arbitrary: t r rule: read_string.induct)
  case (1 s)
  show ?case
  proof (cases "s \<noteq> [] \<and> hd s = CHR 0x22")
    case True
    with 1(2) show ?thesis by (auto simp: read_string.simps [of s] neq_Nil_conv)
  next
    case False
    then obtain x q u where "read_char s = Some (x, q)" "read_string q = Some (u, r)"
      using 1(2) by (auto simp: read_string.simps [of s] split: if_splits option.splits)
    then show ?thesis
      using 1(1) [OF False _ refl] read_char_length by fastforce
  qed
qed

text \<open>A number, by its longest literal; without fraction and exponent it is an integer.\<close>

definition read_frac :: "string \<Rightarrow> string option" where
  "read_frac s = (if s \<noteq> [] \<and> hd s = CHR ''.''
     then (let ds = takeWhile is_digit (tl s) in if ds = [] then None else Some (drop (length ds) (tl s)))
     else Some s)"

definition read_exp :: "string \<Rightarrow> string option" where
  "read_exp s = (if s \<noteq> [] \<and> hd s \<in> {CHR ''e'', CHR ''E''}
     then (let r = (if tl s \<noteq> [] \<and> hd (tl s) \<in> {CHR ''+'', CHR ''-''} then drop 2 s else tl s);
               ds = takeWhile is_digit r
       in if ds = [] then None else Some (drop (length ds) r))
     else Some s)"

definition int_part :: "string \<Rightarrow> string" where
  "int_part s = (if s \<noteq> [] \<and> hd s = CHR ''0'' then ''0'' else takeWhile is_digit s)"

definition read_number :: "string \<Rightarrow> (json \<times> string) option" where
  "read_number s =
     (let neg = (s \<noteq> [] \<and> hd s = CHR ''-'');
          a = (if neg then tl s else s);
          ip = int_part a;
          b = drop (length ip) a
      in if ip = [] then None
         else (case Option.bind (read_frac b) read_exp of
             None \<Rightarrow> None
           | Some d \<Rightarrow>
               if length d = length b then Some (JInt (if neg then - digits_val ip else digits_val ip), d)
               else Some (JNum (take (length s - length d) s), d)))"

lemma read_frac_length: "read_frac s = Some r \<Longrightarrow> length r \<le> length s"
  by (auto simp: read_frac_def Let_def split: if_splits)

lemma read_exp_length: "read_exp s = Some r \<Longrightarrow> length r \<le> length s"
  by (auto simp: read_exp_def Let_def split: if_splits)

lemma read_number_length: "read_number s = Some (j, r) \<Longrightarrow> length r < length s"
proof -
  assume *: "read_number s = Some (j, r)"
  define a where "a = (if s \<noteq> [] \<and> hd s = CHR ''-'' then tl s else s)"
  define ip where "ip = int_part a"
  have ip: "ip \<noteq> []" and r: "Option.bind (read_frac (drop (length ip) a)) read_exp = Some r"
    using * unfolding read_number_def Let_def a_def [symmetric] ip_def [symmetric]
    by (auto split: if_splits option.splits)
  obtain c where "read_frac (drop (length ip) a) = Some c" "read_exp c = Some r"
    using r by (auto simp: bind_eq_Some_conv)
  then have "length r \<le> length (drop (length ip) a)"
    using read_frac_length read_exp_length order_trans by blast
  moreover have "0 < length a" "length a \<le> length s" "0 < length ip"
    using ip by (auto simp: ip_def int_part_def a_def)
  ultimately show ?thesis by (simp add: less_le_trans [OF _ \<open>length a \<le> length s\<close>] del: length_greater_0_conv)
qed

text \<open>
  The scanner. What it is in: a value begins; an array or object has just been opened; a key must come;
  a value is complete. The stack has the open arrays and objects, an object with the key whose value
  is being read.
\<close>

datatype mode = Want_value | Opened_array | Opened_object | Want_key | Complete json

datatype open_value = In_array "json list" | In_object "(string \<times> json) list" string

definition maxNestingDepth :: nat where
  "maxNestingDepth = 10000"

text \<open>A value that does not open anything.\<close>

definition read_scalar :: "string \<Rightarrow> (json \<times> string) option" where
  "read_scalar s =
     (if hd s = CHR 0x22 then map_option (\<lambda>(t, r). (JStr t, r)) (read_string (tl s))
      else if has_prefix s ''null'' then Some (JNull, drop 4 s)
      else if has_prefix s ''true'' then Some (JBool True, drop 4 s)
      else if has_prefix s ''false'' then Some (JBool False, drop 5 s)
      else read_number s)"

lemma read_scalar_length: "s \<noteq> [] \<Longrightarrow> read_scalar s = Some (j, r) \<Longrightarrow> length r < length s"
  using read_string_length [of "tl s"] read_number_length [of s j r]
  by (force simp: read_scalar_def neq_Nil_conv split: if_splits)

text \<open>A key and the colon after it.\<close>

definition read_key :: "string \<Rightarrow> (string \<times> string) option" where
  "read_key s = (if hd s \<noteq> CHR 0x22 then None
     else (case read_string (tl s) of
         None \<Rightarrow> None
       | Some (k, r) \<Rightarrow> (let q = dropWhile is_ws r
           in if q \<noteq> [] \<and> hd q = CHR '':'' then Some (k, tl q) else None)))"

lemma dropWhile_shorter: "length (dropWhile P s) \<le> length s"
  by (induction s) auto

lemma read_key_length: "s \<noteq> [] \<Longrightarrow> read_key s = Some (k, r) \<Longrightarrow> length r < length s"
proof -
  assume s: "s \<noteq> []" and "read_key s = Some (k, r)"
  then obtain q where "read_string (tl s) = Some (k, q)" "r = tl (dropWhile is_ws q)"
    by (auto simp: read_key_def Let_def split: if_splits option.splits)
  then show ?thesis
    using read_string_length [of "tl s" k q] dropWhile_shorter [of is_ws q] by simp
qed

text \<open>A step of the scanner, on a text that begins with no blank.\<close>

definition scan_step :: "mode \<Rightarrow> open_value list \<Rightarrow> string \<Rightarrow> (mode \<times> open_value list \<times> string) option" where
  "scan_step m k s = (case m of
       Complete j \<Rightarrow> (case k of
           [] \<Rightarrow> None
         | In_array xs # k' \<Rightarrow>
             if hd s = CHR '','' then Some (Want_value, In_array (xs @ [j]) # k', tl s)
             else if hd s = CHR '']'' then Some (Complete (JList (xs @ [j])), k', tl s) else None
         | In_object kvs key # k' \<Rightarrow>
             if hd s = CHR '','' then Some (Want_key, In_object (kvs @ [(key, j)]) [] # k', tl s)
             else if hd s = CHR ''}'' then Some (Complete (JObj (kvs @ [(key, j)])), k', tl s) else None)
     | Opened_array \<Rightarrow> if hd s = CHR '']'' then Some (Complete (JList []), tl k, tl s) else Some (Want_value, k, s)
     | Opened_object \<Rightarrow> if hd s = CHR ''}'' then Some (Complete (JObj []), tl k, tl s) else Some (Want_key, k, s)
     | Want_key \<Rightarrow> (case k of
           In_object kvs key # k' \<Rightarrow> map_option (\<lambda>(key, r). (Want_value, In_object kvs key # k', r)) (read_key s)
         | _ \<Rightarrow> None)
     | Want_value \<Rightarrow>
         if hd s = CHR ''['' then
           (if length k < maxNestingDepth then Some (Opened_array, In_array [] # k, tl s) else None)
         else if hd s = CHR ''{'' then
           (if length k < maxNestingDepth then Some (Opened_object, In_object [] [] # k, tl s) else None)
         else map_option (\<lambda>(j, r). (Complete j, k, r)) (read_scalar s))"

definition waits :: "mode \<Rightarrow> nat" where
  "waits m = (case m of Opened_array \<Rightarrow> 1 | Opened_object \<Rightarrow> 1 | _ \<Rightarrow> 0)"

lemma scan_step_measure:
  assumes "s \<noteq> []" "scan_step m k s = Some (m', k', r)"
  shows "length r < length s \<or> length r = length s \<and> waits m' < waits m"
  using assms read_scalar_length [OF assms(1)] read_key_length [OF assms(1)]
  by (cases m)
    (fastforce simp: scan_step_def waits_def neq_Nil_conv split: if_splits list.splits open_value.splits)+

text \<open>The scan of one value: it ends with the value and the text after it.\<close>

definition ended :: "mode \<Rightarrow> open_value list \<Rightarrow> json option" where
  "ended m k = (case m of Complete j \<Rightarrow> if k = [] then Some j else None | _ \<Rightarrow> None)"

lemma scan_step_blanks:
  assumes "dropWhile is_ws s \<noteq> []" "scan_step m k (dropWhile is_ws s) = Some (m', k', r)"
  shows "length r < length s \<or> length r = length s \<and> waits m' < waits m"
  using scan_step_measure [OF assms] dropWhile_shorter [of is_ws s] by linarith

function scan :: "mode \<Rightarrow> open_value list \<Rightarrow> string \<Rightarrow> (json \<times> string) option" where
  "scan m k s = (case ended m k of
       Some j \<Rightarrow> Some (j, s)
     | None \<Rightarrow> (let t = dropWhile is_ws s
         in if t = [] then None
            else (case scan_step m k t of None \<Rightarrow> None | Some (m', k', r) \<Rightarrow> scan m' k' r)))"
  by pat_completeness auto

termination
  by (relation "measures [\<lambda>(m, k, s). length s, \<lambda>(m, k, s). waits m]") (auto dest: scan_step_blanks simp del: dropWhile_eq_Nil_conv)

declare scan.simps [simp del]

section \<open>Decoding\<close>

text \<open>\<open>json.Unmarshal\<close> reads the whole text, a \<open>Decoder\<close> the first value of its input.\<close>

definition json_parse :: "string \<Rightarrow> json option" where
  "json_parse s = (case scan Want_value [] s of
       Some (j, r) \<Rightarrow> if list_all is_ws r then Some j else None
     | None \<Rightarrow> None)"

datatype 'a decoded = At_eof | Bad_json | Decoded 'a

definition decode_first :: "string \<Rightarrow> json decoded" where
  "decode_first s = (if list_all is_ws s then At_eof
     else (case scan Want_value [] s of Some (j, r) \<Rightarrow> Decoded j | None \<Rightarrow> Bad_json))"

text \<open>The values for a field of a struct, the last first.\<close>

definition field_values :: "string \<Rightarrow> (string \<times> json) list \<Rightarrow> json list" where
  "field_values f kvs = rev (filter (\<lambda>v. v \<noteq> JNull) (map snd (filter (\<lambda>(k, v). equal_fold k f) kvs)))"

definition int64_range :: "int \<Rightarrow> bool" where
  "int64_range n \<longleftrightarrow> - (2 ^ 63) \<le> n \<and> n < 2 ^ 63"

definition is_str :: "json \<Rightarrow> bool" where
  "is_str v = (case v of JStr s \<Rightarrow> True | _ \<Rightarrow> False)"

definition is_int64 :: "json \<Rightarrow> bool" where
  "is_int64 v = (case v of JInt n \<Rightarrow> int64_range n | _ \<Rightarrow> False)"

definition is_bool :: "json \<Rightarrow> bool" where
  "is_bool v = (case v of JBool b \<Rightarrow> True | _ \<Rightarrow> False)"

definition is_strs :: "json \<Rightarrow> bool" where
  "is_strs v = (case v of JList vs \<Rightarrow> list_all (\<lambda>v. v = JNull \<or> is_str v) vs | _ \<Rightarrow> False)"

definition the_str :: "json \<Rightarrow> string" where
  "the_str v = (case v of JStr s \<Rightarrow> s | _ \<Rightarrow> [])"

definition str_field :: "(string \<times> json) list \<Rightarrow> string \<Rightarrow> string" where
  "str_field kvs f = (case field_values f kvs of v # vs \<Rightarrow> the_str v | _ \<Rightarrow> [])"

definition int_field :: "(string \<times> json) list \<Rightarrow> string \<Rightarrow> int" where
  "int_field kvs f = (case field_values f kvs of JInt n # vs \<Rightarrow> n | _ \<Rightarrow> 0)"

definition bool_field :: "(string \<times> json) list \<Rightarrow> string \<Rightarrow> bool" where
  "bool_field kvs f = (case field_values f kvs of JBool b # vs \<Rightarrow> b | _ \<Rightarrow> False)"

definition strs_field :: "(string \<times> json) list \<Rightarrow> string \<Rightarrow> string list" where
  "strs_field kvs f = (case field_values f kvs of JList vs # _ \<Rightarrow> map the_str vs | _ \<Rightarrow> [])"

text \<open>A field of type \<open>*string\<close>: \<open>null\<close> makes it \<open>nil\<close>.\<close>

definition ptr_field :: "(string \<times> json) list \<Rightarrow> string \<Rightarrow> string option" where
  "ptr_field kvs f = (case rev (map snd (filter (\<lambda>(k, v). equal_fold k f) kvs)) of JStr s # vs \<Rightarrow> Some s | _ \<Rightarrow> None)"

text \<open>A struct by the names of its string, \<open>int64\<close>, \<open>bool\<close> and \<open>[]string\<close> fields: its object, when every
  value fits its field; \<open>null\<close> changes nothing.\<close>

record struct_fields =
  fs_str :: "string list"
  fs_int :: "string list"
  fs_bool :: "string list"
  fs_strs :: "string list"

definition strings_only :: "string list \<Rightarrow> struct_fields" where
  "strings_only fs = \<lparr>fs_str = fs, fs_int = [], fs_bool = [], fs_strs = []\<rparr>"

definition fields_fit :: "struct_fields \<Rightarrow> (string \<times> json) list \<Rightarrow> bool" where
  "fields_fit fs kvs \<longleftrightarrow>
     list_all (\<lambda>f. list_all is_str (field_values f kvs)) (fs_str fs) \<and>
     list_all (\<lambda>f. list_all is_int64 (field_values f kvs)) (fs_int fs) \<and>
     list_all (\<lambda>f. list_all is_bool (field_values f kvs)) (fs_bool fs) \<and>
     list_all (\<lambda>f. list_all is_strs (field_values f kvs)) (fs_strs fs)"

text \<open>The members of an object.\<close>

definition is_obj :: "json \<Rightarrow> bool" where
  "is_obj v = (case v of JObj m \<Rightarrow> True | _ \<Rightarrow> False)"

definition members_of :: "json \<Rightarrow> (string \<times> json) list" where
  "members_of v = (case v of JObj m \<Rightarrow> m | _ \<Rightarrow> [])"

definition into_struct :: "struct_fields \<Rightarrow> json \<Rightarrow> (string \<times> json) list option" where
  "into_struct fs j = (case j of
       JNull \<Rightarrow> Some []
     | JObj kvs \<Rightarrow> if fields_fit fs kvs then Some kvs else None
     | _ \<Rightarrow> None)"

definition unmarshal_struct :: "struct_fields \<Rightarrow> string \<Rightarrow> (string \<times> json) list option" where
  "unmarshal_struct fs s = Option.bind (json_parse s) (into_struct fs)"

definition decode_struct :: "struct_fields \<Rightarrow> string \<Rightarrow> (string \<times> json) list decoded" where
  "decode_struct fs s = (case decode_first s of
       At_eof \<Rightarrow> At_eof
     | Bad_json \<Rightarrow> Bad_json
     | Decoded j \<Rightarrow> (case into_struct fs j of None \<Rightarrow> Bad_json | Some kvs \<Rightarrow> Decoded kvs))"

section \<open>Reading undoes writing\<close>

lemma is_digit_code: "is_digit c \<longleftrightarrow> 48 \<le> (of_char c :: nat) \<and> (of_char c :: nat) \<le> 57"
  by (simp add: is_digit_def less_eq_char_def)

lemma nat_str_step: "10 \<le> n \<Longrightarrow> nat_str n = nat_str (n div 10) @ [char_of (48 + n mod 10)]"
  by (simp add: nat_str.simps [of n])

lemma nat_str_digits: "list_all is_digit (nat_str n) \<and> nat_str n \<noteq> []"
proof (induction n rule: nat_str.induct)
  case (1 n)
  show ?case
  proof (cases "n < 10")
    case True
    then show ?thesis by (simp add: nat_str.simps [of n] is_digit_code)
  next
    case False
    with 1 show ?thesis by (simp add: nat_str_step is_digit_code)
  qed
qed

lemma digits_val_append: "digits_val (ds @ [c]) = digits_val ds * 10 + (int (of_char c) - 48)"
  by (simp add: digits_val_def)

lemma digits_val_nat_str: "digits_val (nat_str n) = int n"
proof (induction n rule: nat_str.induct)
  case (1 n)
  show ?case
  proof (cases "n < 10")
    case True
    then show ?thesis by (simp add: nat_str.simps [of n] digits_val_def)
  next
    case False
    have "int n = int (n div 10) * 10 + int (n mod 10)"
      by (metis div_mult_mod_eq of_nat_add of_nat_mult of_nat_numeral)
    with 1 False show ?thesis by (simp add: nat_str_step digits_val_append)
  qed
qed

lemma nat_str_zero: "hd (nat_str n) = CHR ''0'' \<Longrightarrow> n = 0"
proof (induction n rule: nat_str.induct)
  case (1 n)
  show ?case
  proof (cases "n < 10")
    case True
    have "CHR ''0'' = (char_of (48 :: nat) :: char)" by code_simp
    with 1(2) True show ?thesis
      by (simp add: nat_str.simps [of n] char_of_eq_iff take_bit_eq_mod)
  next
    case False
    then have "hd (nat_str n) = hd (nat_str (n div 10))"
      using nat_str_digits [of "n div 10"] by (simp add: nat_str_step hd_append)
    with 1 False have "n div 10 = 0" by simp
    with False show ?thesis by simp
  qed
qed

text \<open>What may follow a value.\<close>

definition ends :: "string \<Rightarrow> bool" where
  "ends r \<longleftrightarrow> r = [] \<or> hd r \<in> {CHR '','', CHR '']'', CHR ''}''} \<or> is_ws (hd r)"

lemma ends_digit: "ends r \<Longrightarrow> takeWhile is_digit r = [] \<and> (r \<noteq> [] \<longrightarrow> hd r \<notin> {CHR ''.'', CHR ''e'', CHR ''E''})"
  by (cases r) (auto simp: ends_def is_ws_def is_digit_def less_eq_char_def)

lemma read_nat:
  assumes "ends r"
  shows "int_part (nat_str n @ r) = nat_str n"
proof (cases "n = 0")
  case True
  have "nat_str 0 = ''0''" by code_simp
  with True show ?thesis by (simp add: int_part_def)
next
  case False
  moreover have "takeWhile is_digit (nat_str n @ r) = nat_str n @ takeWhile is_digit r"
    using nat_str_digits [of n] by (intro takeWhile_append2) (simp add: list_all_iff)
  ultimately show ?thesis
    using ends_digit [OF assms] nat_str_zero [of n] nat_str_digits [of n] by (auto simp: int_part_def hd_append)
qed

lemma read_number_itoa:
  assumes "ends r"
  shows "read_number (itoa i @ r) = Some (JInt i, r)"
proof -
  have r: "read_frac r = Some r" "read_exp r = Some r"
    using ends_digit [OF assms] by (auto simp: read_frac_def read_exp_def)
  have n: "nat_str n \<noteq> []" "hd (nat_str n) \<noteq> CHR ''-''" for n
    using nat_str_digits [of n] by (cases "nat_str n"; auto simp: is_digit_code)+
  have ip: "int_part (nat_str n @ r) = nat_str n" for n
    by (rule read_nat [OF assms])
  show ?thesis
    by (simp add: read_number_def itoa_def Let_def ip n r digits_val_nat_str)
qed

subsection \<open>Strings\<close>

lemma hex_digit_hex: "n < 16 \<Longrightarrow> is_hex (hex_digit n) \<and> hex_value (hex_digit n) = n"
  by (auto simp: is_hex_def hex_value_def hex_digit_def is_digit_def less_eq_char_def)

lemma hex4_byte: "n < 256 \<Longrightarrow> hex4 (CHR ''0'' # CHR ''0'' # hex_digit (n div 16) # hex_digit (n mod 16) # x) = Some n"
  using hex_digit_hex [of "n div 16"] hex_digit_hex [of "n mod 16"]
  by (simp add: hex4_def is_hex_def hex_value_def is_digit_def less_eq_char_def less_mult_imp_div_less)

lemma read_byte_escape:
  "n < 128 \<Longrightarrow> read_char (CHR 0x5C # CHR ''u'' # CHR ''0'' # CHR ''0'' # hex_digit (n div 16) # hex_digit (n mod 16) # x) =
    Some ([char_of n], x)"
  by (simp add: read_char_def hex4_byte low_surrogate_def utf8_def less_char_def)

lemma read_json_char: "read_char (json_char c @ x) = Some ([c], x)"
proof (cases "c \<in> {CHR 0x22, CHR 0x5C, CHR 0x08, CHR 0x0C, CHR 0x0A, CHR 0x0D, CHR 0x09}")
  case True
  then show ?thesis
    by (auto simp: json_char_def read_char_def escapes_def less_char_def)
next
  case other: False
  show ?thesis
  proof (cases "c < CHR '' ''")
    case True
    then have "(of_char c :: nat) < 128" by (simp add: less_char_def)
    from read_byte_escape [OF this] other True show ?thesis by (simp add: json_char_def)
  next
    case False
    with other show ?thesis by (simp add: json_char_def read_char_def)
  qed
qed

lemma read_html_char: "read_char (html_char c @ x) = Some ([c], x)"
proof (cases "c \<in> {CHR ''<'', CHR ''>'', CHR ''&''}")
  case True
  then have "(of_char c :: nat) < 128" by auto
  from read_byte_escape [OF this] True show ?thesis by (simp add: html_char_def)
next
  case False
  then show ?thesis by (simp add: html_char_def read_json_char)
qed

lemma json_char_hd: "json_char c @ x \<noteq> [] \<and> hd (json_char c @ x) \<noteq> CHR 0x22"
  by (auto simp: json_char_def)

lemma html_char_hd: "html_char c @ x \<noteq> [] \<and> hd (html_char c @ x) \<noteq> CHR 0x22"
  using json_char_hd [of c x] by (simp add: html_char_def)

lemma read_string_body:
  assumes "\<And>c x. read_char (f c @ x) = Some ([c], x)" "\<And>c x. f c @ x \<noteq> [] \<and> hd (f c @ x) \<noteq> CHR 0x22"
  shows "read_string (concat (map f s) @ CHR 0x22 # r) = Some (s, r)"
proof (induction s)
  case Nil
  show ?case by (simp add: read_string.simps)
next
  case (Cons c s)
  show ?case
    using assms(1) [of c "concat (map f s) @ CHR 0x22 # r"] assms(2) [of c "concat (map f s) @ CHR 0x22 # r"]
    by (subst read_string.simps) (simp add: Cons.IH)
qed

lemmas read_json_body = read_string_body [of json_char, OF read_json_char json_char_hd]
lemmas read_html_body = read_string_body [of html_char, OF read_html_char html_char_hd]

text \<open>The strings of a text can be read off unambiguously.\<close>

lemma json_string_prefix:
  assumes "json_string a @ x = json_string b @ y"
  shows "a = b \<and> x = y"
proof -
  have "read_string (tl (json_string a @ x)) = read_string (tl (json_string b @ y))"
    by (simp only: assms)
  then show ?thesis by (simp add: json_string_def read_json_body)
qed

subsection \<open>Values\<close>

fun canon :: "json \<Rightarrow> json" where
  "canon (JList xs) = JList (map canon xs)"
| "canon (JObj kvs) = JObj (sort_key fst (map (\<lambda>(k, v). (k, canon v)) kvs))"
| "canon j = j"

fun integral :: "json \<Rightarrow> bool" where
  "integral (JNum n) = False"
| "integral (JList xs) = list_all integral xs"
| "integral (JObj kvs) = list_all (\<lambda>(k, v). integral v) kvs"
| "integral j = True"

fun depth :: "json \<Rightarrow> nat" where
  "depth (JList xs) = Suc (foldr max (map depth xs) 0)"
| "depth (JObj kvs) = Suc (foldr max (map (\<lambda>(k, v). depth v) kvs) 0)"
| "depth j = 0"

lemma foldr_max_le: "x \<in> set xs \<Longrightarrow> x \<le> foldr max xs (n :: nat)"
  by (induction xs) auto

lemma sort_key_map: "sort_key f (map g xs) = map g (sort_key (f \<circ> g) xs)"
proof -
  have "insort_key f (g x) (map g ys) = map g (insort_key (f \<circ> g) x ys)" for x ys
    by (induction ys) simp_all
  then show ?thesis by (induction xs) (simp_all add: sort_key_def)
qed

lemma scan_next:
  assumes "s \<noteq> []" "\<not> is_ws (hd s)" "ended m k = None"
  shows "scan m k s = (case scan_step m k s of None \<Rightarrow> None | Some (m', k', r) \<Rightarrow> scan m' k' r)"
proof -
  have "dropWhile is_ws s = s" using assms(1,2) by (cases s) auto
  then show ?thesis using assms by (subst scan.simps) simp
qed

definition reads :: "json \<Rightarrow> bool" where
  "reads j \<longleftrightarrow> (\<forall>k r. depth j + length k \<le> maxNestingDepth \<longrightarrow> ends r \<longrightarrow>
     scan Want_value k (marshal j @ r) = scan (Complete (canon j)) k r)"

lemma marshal_hd: "integral j \<Longrightarrow> marshal j \<noteq> [] \<and> \<not> is_ws (hd (marshal j)) \<and> hd (marshal j) \<notin> {CHR '']'', CHR ''}''}"
proof (cases j)
  case (JInt i)
  have "nat_str n \<noteq> [] \<and> is_digit (hd (nat_str n))" for n
    using nat_str_digits [of n] by (cases "nat_str n") auto
  moreover have "is_digit c \<Longrightarrow> \<not> is_ws c \<and> c \<notin> {CHR '']'', CHR ''}''}" for c
    by (auto simp: is_digit_def is_ws_def less_eq_char_def)
  ultimately show ?thesis by (auto simp: JInt itoa_def is_ws_def)
qed (auto simp: is_ws_def html_string_def)

lemma scan_scalar:
  assumes "read_scalar (t @ r) = Some (j, r)" "t \<noteq> []" "\<not> is_ws (hd t)" "hd t \<notin> {CHR ''['', CHR ''{''}"
  shows "scan Want_value k (t @ r) = scan (Complete j) k r"
  using assms by (simp add: scan_next ended_def scan_step_def)

lemma reads_int: "reads (JInt i)"
proof -
  have "hd (itoa i) \<notin> {CHR ''['', CHR ''{'', CHR 0x22, CHR ''n'', CHR ''t'', CHR ''f''}"
  proof -
    have "is_digit (hd (nat_str n))" for n
      using nat_str_digits [of n] by (cases "nat_str n") auto
    moreover have "is_digit c \<Longrightarrow> c \<notin> {CHR ''['', CHR ''{'', CHR 0x22, CHR ''n'', CHR ''t'', CHR ''f''}" for c
      by (auto simp: is_digit_def less_eq_char_def)
    ultimately show ?thesis by (auto simp: itoa_def)
  qed
  moreover have "itoa i \<noteq> []" using marshal_hd [of "JInt i"] by simp
  moreover from this have "has_prefix (itoa i @ r) (c # p) \<Longrightarrow> hd (itoa i) = c" for c p r
    by (cases "itoa i") (auto simp: has_prefix_def)
  ultimately show ?thesis
    unfolding reads_def using marshal_hd [of "JInt i"] read_number_itoa [of _ i]
    by (auto intro!: scan_scalar simp: read_scalar_def)
qed

lemma reads_others: "reads JNull" "reads (JBool b)" "reads (JStr s)"
proof -
  show "reads JNull" "reads (JBool b)"
    using scan_scalar [of "''null''"] scan_scalar [of "''true''"] scan_scalar [of "''false''"]
    by (simp_all add: reads_def read_scalar_def has_prefix_def is_ws_def)
  show "reads (JStr s)"
    unfolding reads_def
  proof (intro allI impI)
    fix k r
    have "read_scalar (html_string s @ r) = Some (JStr s, r)"
      by (simp add: read_scalar_def html_string_def read_html_body)
    then have "scan Want_value k (html_string s @ r) = scan (Complete (JStr s)) k r"
      by (rule scan_scalar) (simp_all add: html_string_def is_ws_def)
    then show "scan Want_value k (marshal (JStr s) @ r) = scan (Complete (canon (JStr s))) k r" by simp
  qed
qed

lemma ends_punct [simp]: "ends (CHR '','' # r)" "ends (CHR '']'' # r)" "ends (CHR ''}'' # r)"
  by (simp_all add: ends_def)

lemma scan_elements:
  assumes "xs \<noteq> []" "\<forall>x \<in> set xs. reads x \<and> depth x + Suc (length k) \<le> maxNestingDepth"
  shows "scan Want_value (In_array acc # k) (join (map marshal xs) '','' @ CHR '']'' # r) =
    scan (Complete (JList (acc @ map canon xs))) k r"
  using assms
proof (induction xs arbitrary: acc)
  case (Cons x xs)
  have x: "scan Want_value (In_array acc # k) (marshal x @ q) = scan (Complete (canon x)) (In_array acc # k) q" if "ends q" for q
    using Cons.prems(2) that by (simp add: reads_def)
  show ?case
  proof (cases xs)
    case Nil
    then show ?thesis by (simp add: x scan_next [of "CHR '']'' # r"] is_ws_def ended_def scan_step_def)
  next
    case (Cons y ys)
    then show ?thesis
      using Cons.IH [of "acc @ [canon x]"] Cons.prems
      by (simp add: x scan_next [of "CHR '','' # q" for q] is_ws_def ended_def scan_step_def)
  qed
qed simp

lemma read_key_marshal: "read_key (html_string key @ CHR '':'' # r) = Some (key, r)"
  by (simp add: read_key_def html_string_def read_html_body is_ws_def)

lemma scan_member:
  assumes "reads v" "depth v + Suc (length k) \<le> maxNestingDepth" "ends q"
  shows "scan Want_key (In_object acc x # k) (member (key, v) @ q) =
    scan (Complete (canon v)) (In_object acc key # k) q"
proof -
  have "scan Want_key (In_object acc x # k) (html_string key @ CHR '':'' # marshal v @ q) =
      scan Want_value (In_object acc key # k) (marshal v @ q)"
    by (subst scan_next) (simp_all add: html_string_def is_ws_def ended_def scan_step_def
        read_key_marshal [unfolded html_string_def, simplified])
  then show ?thesis using assms by (simp add: member_def reads_def)
qed

lemma scan_members:
  assumes "kvs \<noteq> []" "\<forall>(key, v) \<in> set kvs. reads v \<and> depth v + Suc (length k) \<le> maxNestingDepth"
  shows "scan Want_key (In_object acc x # k) (join (map member kvs) '','' @ CHR ''}'' # r) =
    scan (Complete (JObj (acc @ map (apsnd canon) kvs))) k r"
  using assms
proof (induction kvs arbitrary: acc x)
  case (Cons kv kvs)
  obtain key v where kv: "kv = (key, v)" by fastforce
  have v: "scan Want_key (In_object acc x # k) (member (key, v) @ q) = scan (Complete (canon v)) (In_object acc key # k) q"
    if "ends q" for q
    using Cons.prems(2) that by (simp add: kv scan_member)
  show ?case
  proof (cases kvs)
    case Nil
    then show ?thesis by (simp add: v kv scan_next [of "CHR ''}'' # r"] is_ws_def ended_def scan_step_def)
  next
    case (Cons y ys)
    then show ?thesis
      using Cons.IH [of "acc @ [(key, canon v)]" "[]"] Cons.prems
      by (simp add: v kv scan_next [of "CHR '','' # q" for q] is_ws_def ended_def scan_step_def)
  qed
qed simp

lemma join_hd: "xs \<noteq> [] \<Longrightarrow> hd xs \<noteq> [] \<Longrightarrow> join xs sep \<noteq> [] \<and> hd (join xs sep @ r) = hd (hd xs)"
  by (cases xs; cases "tl xs") auto

lemma reads_list:
  assumes "list_all integral xs" "\<forall>x \<in> set xs. reads x"
  shows "reads (JList xs)"
  unfolding reads_def
proof (intro allI impI)
  fix k :: "open_value list" and r
  assume d: "depth (JList xs) + length k \<le> maxNestingDepth"
  then have k: "length k < maxNestingDepth" by simp
  let ?t = "join (map marshal xs) '','' @ CHR '']'' # r"
  have "scan Want_value k (marshal (JList xs) @ r) = scan Opened_array (In_array [] # k) ?t"
    using k by (simp add: scan_next is_ws_def ended_def scan_step_def)
  also have "\<dots> = scan (Complete (JList (map canon xs))) k r"
  proof (cases "xs = []")
    case True
    then show ?thesis by (simp add: scan_next is_ws_def ended_def scan_step_def)
  next
    case False
    then have hd: "hd ?t = hd (marshal (hd xs))" "marshal (hd xs) \<noteq> []" "\<not> is_ws (hd (marshal (hd xs)))"
        "hd (marshal (hd xs)) \<noteq> CHR '']''"
      using assms(1) marshal_hd [of "hd xs"] join_hd [of "map marshal xs" "'',''" "CHR '']'' # r"]
      by (auto simp: list_all_iff hd_map)
    then have "scan Opened_array (In_array [] # k) ?t = scan Want_value (In_array [] # k) ?t"
      by (subst scan_next) (simp_all add: ended_def scan_step_def)
    also have "depth x \<le> foldr max (map depth xs) 0" if "x \<in> set xs" for x
      using that by (intro foldr_max_le) simp
    then have "\<forall>x \<in> set xs. reads x \<and> depth x + Suc (length k) \<le> maxNestingDepth"
      using assms(2) d by fastforce
    then have "scan Want_value (In_array [] # k) ?t = scan (Complete (JList (map canon xs))) k r"
      using scan_elements [OF False, of k "[]"] by simp
    finally show ?thesis .
  qed
  finally show "scan Want_value k (marshal (JList xs) @ r) = scan (Complete (canon (JList xs))) k r" by simp
qed

lemma members_sorted:
  "map snd (sort_key fst (map (\<lambda>(k, v). (k, html_string k @ '':'' @ marshal v)) kvs)) = map member (sort_key fst kvs)"
  "sort_key fst (map (\<lambda>(k, v). (k, canon v)) kvs) = map (apsnd canon) (sort_key fst kvs)"
  unfolding sort_key_map by (simp_all add: member_def o_def case_prod_beta' apsnd_def map_prod_def)

lemma marshal_object: "marshal (JObj kvs) = CHR ''{'' # join (map member (sort_key fst kvs)) '','' @ ''}''"
  by (subst marshal.simps) (subst members_sorted, simp)

lemma scan_object:
  assumes "\<forall>(key, v) \<in> set kvs. reads v" "Suc (foldr max (map (\<lambda>(k, v). depth v) kvs) 0) + length k \<le> maxNestingDepth"
  shows "scan Want_value k (CHR ''{'' # join (map member kvs) '','' @ CHR ''}'' # r) = scan (Complete (JObj (map (apsnd canon) kvs))) k r"
    (is "scan _ _ (_ # ?t) = _")
proof -
  have k: "length k < maxNestingDepth" using assms(2) by simp
  have "scan Want_value k (CHR ''{'' # ?t) = scan Opened_object (In_object [] [] # k) ?t"
    using k by (simp add: scan_next is_ws_def ended_def scan_step_def)
  also have "\<dots> = scan (Complete (JObj (map (apsnd canon) kvs))) k r"
  proof (cases "kvs = []")
    case True
    then show ?thesis by (simp add: scan_next is_ws_def ended_def scan_step_def)
  next
    case False
    then have "hd ?t = CHR 0x22" "?t \<noteq> []"
      using join_hd [of "map member kvs" "'',''" "CHR ''}'' # r"] by (auto simp: hd_map member_def html_string_def)
    then have "scan Opened_object (In_object [] [] # k) ?t = scan Want_key (In_object [] [] # k) ?t"
      by (subst scan_next) (simp_all add: ended_def scan_step_def is_ws_def)
    also have "depth v \<le> foldr max (map (\<lambda>(k, v). depth v) kvs) 0" if "(key, v) \<in> set kvs" for key v
      using that by (intro foldr_max_le) force
    then have "\<forall>(key, v) \<in> set kvs. reads v \<and> depth v + Suc (length k) \<le> maxNestingDepth"
      using assms by fastforce
    then have "scan Want_key (In_object [] [] # k) ?t = scan (Complete (JObj (map (apsnd canon) kvs))) k r"
      using scan_members [OF False, of k "[]"] by simp
    finally show ?thesis .
  qed
  finally show ?thesis .
qed

lemma foldr_max_set: "set xs = set ys \<Longrightarrow> foldr max xs (0 :: nat) = foldr max ys 0"
proof -
  have "foldr max xs (0 :: nat) = Max (insert 0 (set xs))" for xs
    by (induction xs) (auto simp: insert_commute [of 0])
  then show "set xs = set ys \<Longrightarrow> ?thesis" by simp
qed

lemma reads_object:
  assumes "\<forall>(key, v) \<in> set kvs. reads v"
  shows "reads (JObj kvs)"
  unfolding reads_def
proof (intro allI impI)
  fix k :: "open_value list" and r
  assume "depth (JObj kvs) + length k \<le> maxNestingDepth"
  then have "Suc (foldr max (map (\<lambda>(k, v). depth v) (sort_key fst kvs)) 0) + length k \<le> maxNestingDepth"
    using foldr_max_set [of "map (\<lambda>(k, v). depth v) (sort_key fst kvs)" "map (\<lambda>(k, v). depth v) kvs"] by simp
  from scan_object [OF _ this, of r] assms
  show "scan Want_value k (marshal (JObj kvs) @ r) = scan (Complete (canon (JObj kvs))) k r"
    by (simp add: marshal_object members_sorted del: marshal.simps)
qed

lemma reads_integral: "integral j \<Longrightarrow> reads j"
proof (induction j rule: integral.induct)
  case (2 xs)
  then show ?case by (intro reads_list) (auto simp: list_all_iff)
next
  case (3 kvs)
  then show ?case by (intro reads_object) (auto simp: list_all_iff)
qed (simp_all add: reads_int reads_others)

lemma scan_marshal:
  assumes "integral j" "depth j \<le> maxNestingDepth" "ends r"
  shows "scan Want_value [] (marshal j @ r) = Some (canon j, r)"
  using reads_integral [OF assms(1)] assms(2,3) by (simp add: reads_def scan.simps [of "Complete _"] ended_def)

lemma json_parse_marshal:
  "integral j \<Longrightarrow> depth j \<le> maxNestingDepth \<Longrightarrow> json_parse (marshal j) = Some (canon j)"
  using scan_marshal [of j "[]"] by (simp add: json_parse_def ends_def)

lemma decode_first_marshal:
  assumes "integral j" "depth j \<le> maxNestingDepth"
  shows "decode_first (marshal j) = Decoded (canon j)"
proof -
  have "\<not> list_all is_ws (marshal j)"
    using marshal_hd [OF assms(1)] by (cases "marshal j") auto
  then show ?thesis
    using scan_marshal [of j "[]"] assms by (simp add: decode_first_def ends_def)
qed

text \<open>A struct is read back.\<close>

lemma json_parse_struct:
  assumes "list_all (\<lambda>(key, v). integral v) kvs" "Suc (foldr max (map (\<lambda>(k, v). depth v) kvs) 0) \<le> maxNestingDepth"
  shows "json_parse (marshal_struct kvs) = Some (JObj (map (apsnd canon) kvs))"
  using scan_object [of kvs "[]" "[]"] assms reads_integral
  by (fastforce simp: json_parse_def marshal_struct_def scan.simps [of "Complete _"] ended_def list_all_iff)

subsection \<open>Fields of what was written\<close>

text \<open>A key that occurs once is found whatever the order of the keys.\<close>

lemma field_values_sort:
  assumes "length (filter (\<lambda>(k, v). equal_fold k f) kvs) \<le> 1"
  shows "field_values f (sort_key fst kvs) = field_values f kvs"
proof -
  have "sort_key g xs = xs" if "length xs \<le> 1" for g :: "string \<times> json \<Rightarrow> string" and xs
    using that by (cases xs; cases "tl xs") (simp_all add: sort_key_def)
  with assms show ?thesis by (simp add: field_values_def filter_sort)
qed

lemma field_values_canon:
  "list_all (\<lambda>(k, v). canon v = v) kvs \<Longrightarrow> map (apsnd canon) kvs = kvs"
  by (induction kvs) auto

lemma field_values_append: "field_values f (a @ b) = field_values f b @ field_values f a"
  by (simp add: field_values_def)

lemma field_values_Cons:
  "field_values f ((k, v) # kvs) = field_values f kvs @ (if equal_fold k f \<and> v \<noteq> JNull then [v] else [])"
  by (simp add: field_values_def)

lemma field_values_Nil: "field_values f [] = []"
  by (simp add: field_values_def)

end
