(* ===== verification/Identity_Crypto.thy ===== *)
theory Identity_Crypto
  imports Mesh_Registry Go_Json
begin

text \<open>
  Packages \<open>internal/identity\<close> and \<open>internal/crypto\<close>: the EIP-191 signatures over message envelopes
  and the base64 form of ECIES ciphertexts. The curve operations, ECIES and hexadecimal of the
  Ethereum libraries are the fields of \<open>crypto_env\<close>; base64 and the JSON text of an envelope are
  modelled (JSON on ASCII strings, as everything the program puts in an envelope is). The lemmas
  show that a signature made by a key verifies for its address, that the signed text determines
  the envelope, and that decryption undoes encryption, from the documented laws of the libraries.
\<close>

record crypto_env = mesh_env +
  priv_key :: string
  own_address :: string
  ec_sign :: "string \<Rightarrow> string \<Rightarrow> string + string"
  ec_recover :: "string \<Rightarrow> string \<Rightarrow> string + string"
  hex_encode :: "string \<Rightarrow> string"
  hex_decode :: "string \<Rightarrow> string + string"
  parse_pub :: "string \<Rightarrow> string + string"
  ecies_enc :: "nat \<Rightarrow> string \<Rightarrow> string \<Rightarrow> string + string"
  ecies_dec :: "string \<Rightarrow> string \<Rightarrow> string + string"
  b64_err :: "string \<Rightarrow> string"

section \<open>Envelopes\<close>

definition serializeEnvelope :: "string \<Rightarrow> string \<Rightarrow> string \<Rightarrow> string" where
  "serializeEnvelope idStr to encrypted =
     ''{'' @ json_string ''id'' @ '':'' @ json_string idStr @ '','' @
     json_string ''to'' @ '':'' @ json_string to @ '','' @
     json_string ''encrypted'' @ '':'' @ json_string encrypted @ ''}''"

definition add_byte :: "char \<Rightarrow> nat \<Rightarrow> char" where
  "add_byte c n = char_of ((of_char c + n) mod 256)"

definition SignPersonal :: "'e crypto_env_scheme \<Rightarrow> string \<Rightarrow> string + string" where
  "SignPersonal e message = (case ec_sign e (priv_key e) message of
       Inl err \<Rightarrow> Inl (''sign: '' @ err)
     | Inr sg \<Rightarrow> Inr (hex_encode e (sg[64 := add_byte (sg ! 64) 27])))"

definition SignEnvelope :: "'e crypto_env_scheme \<Rightarrow> string \<Rightarrow> string \<Rightarrow> string \<Rightarrow> string + string" where
  "SignEnvelope e idStr to encrypted = SignPersonal e (serializeEnvelope idStr to encrypted)"

definition RecoverPersonal :: "'e crypto_env_scheme \<Rightarrow> string \<Rightarrow> string \<Rightarrow> string + string" where
  "RecoverPersonal e message signature = (case hex_decode e signature of
       Inl err \<Rightarrow> Inl (''decode signature: '' @ err)
     | Inr sg \<Rightarrow>
         if length sg \<noteq> 65 then Inl (''signature must be 65 bytes, got '' @ nat_str (length sg))
         else (let s = (if CHR 0x1B \<le> sg ! 64 then sg[64 := add_byte (sg ! 64) 229] else sg) in
           case ec_recover e message s of
             Inl err \<Rightarrow> Inl (''recover pubkey: '' @ err)
           | Inr addr \<Rightarrow> Inr (to_lower addr)))"

definition VerifyEnvelope ::
  "'e crypto_env_scheme \<Rightarrow> string \<Rightarrow> string \<Rightarrow> string \<Rightarrow> string \<Rightarrow> string \<Rightarrow> bool \<times> string option" where
  "VerifyEnvelope e from idStr to encrypted signature =
     (case RecoverPersonal e (serializeEnvelope idStr to encrypted) signature of
        Inl err \<Rightarrow> (False, Some err)
      | Inr recovered \<Rightarrow> (equal_fold recovered from, None))"

section \<open>Base64\<close>

definition b64_char :: "nat \<Rightarrow> char" where
  "b64_char n = (if n < 26 then char_of (65 + n) else if n < 52 then char_of (71 + n)
     else if n < 62 then char_of (n - 4) else if n = 62 then CHR ''+'' else CHR ''/'')"

definition b64_val :: "char \<Rightarrow> nat option" where
  "b64_val c = (let n = of_char c in
     if 65 \<le> n \<and> n \<le> 90 then Some (n - 65) else if 97 \<le> n \<and> n \<le> 122 then Some (n - 71)
     else if 48 \<le> n \<and> n \<le> 57 then Some (n + 4) else if n = 43 then Some 62
     else if n = 47 then Some 63 else None)"

fun b64_encode :: "nat list \<Rightarrow> string" where
  "b64_encode [] = []"
| "b64_encode [a] = [b64_char (a div 4), b64_char (a mod 4 * 16), CHR ''='', CHR ''='']"
| "b64_encode [a, b] = [b64_char (a div 4), b64_char (a mod 4 * 16 + b div 16), b64_char (b mod 16 * 4), CHR ''='']"
| "b64_encode (a # b # c # r) =
     [b64_char (a div 4), b64_char (a mod 4 * 16 + b div 16), b64_char (b mod 16 * 4 + c div 64), b64_char (c mod 64)] @
     b64_encode r"

fun b64_decode :: "string \<Rightarrow> nat list option" where
  "b64_decode [] = Some []"
| "b64_decode (w # x # y # z # r) =
     (case (b64_val w, b64_val x) of
        (Some a, Some b) \<Rightarrow>
          if y = CHR ''='' \<and> z = CHR ''='' \<and> r = [] then Some [a * 4 + b div 16]
          else (case b64_val y of
              None \<Rightarrow> None
            | Some c \<Rightarrow>
                if z = CHR ''='' \<and> r = [] then Some [a * 4 + b div 16, b mod 16 * 16 + c div 4]
                else (case (b64_val z, b64_decode r) of
                    (Some d, Some t) \<Rightarrow> Some ((a * 4 + b div 16) # (b mod 16 * 16 + c div 4) # (c mod 4 * 64 + d) # t)
                  | _ \<Rightarrow> None))
      | _ \<Rightarrow> None)"
| "b64_decode s = None"

text \<open>\<open>base64.StdEncoding\<close> on strings; decoding ignores line breaks.\<close>

definition EncodeToString :: "string \<Rightarrow> string" where
  "EncodeToString s = b64_encode (map of_char s)"

definition DecodeString :: "string \<Rightarrow> string option" where
  "DecodeString s = map_option (map char_of) (b64_decode (filter (\<lambda>c. c \<notin> {CHR 0x0A, CHR 0x0D}) s))"

section \<open>ECIES\<close>

text \<open>The number given to the encryption stands for the randomness it draws.\<close>

definition EncryptBinary :: "'e crypto_env_scheme \<Rightarrow> nat \<Rightarrow> string \<Rightarrow> string \<Rightarrow> string + string" where
  "EncryptBinary e r recipientPubHex plaintext =
     (case parse_pub e (trim_prefix (trim_space recipientPubHex) ''0x'') of
        Inl err \<Rightarrow> Inl (''parse recipient pubkey: '' @ err)
      | Inr pub \<Rightarrow> (case ecies_enc e r pub plaintext of
            Inl err \<Rightarrow> Inl (''ecies encrypt: '' @ err)
          | Inr ct \<Rightarrow> Inr ct))"

definition DecryptBinary :: "'e crypto_env_scheme \<Rightarrow> string \<Rightarrow> string \<Rightarrow> string + string" where
  "DecryptBinary e privKey ct = (case ecies_dec e privKey ct of
       Inl err \<Rightarrow> Inl (''ecies decrypt: '' @ err)
     | Inr pt \<Rightarrow> Inr pt)"

definition EncryptBase64 :: "'e crypto_env_scheme \<Rightarrow> nat \<Rightarrow> string \<Rightarrow> string \<Rightarrow> string + string" where
  "EncryptBase64 e r recipientPubHex plaintext = (case EncryptBinary e r recipientPubHex plaintext of
       Inl err \<Rightarrow> Inl err
     | Inr ct \<Rightarrow> Inr (EncodeToString ct))"

definition DecryptBase64 :: "'e crypto_env_scheme \<Rightarrow> string \<Rightarrow> string \<Rightarrow> string + string" where
  "DecryptBase64 e privKey b64 = (case DecodeString (trim_space b64) of
       None \<Rightarrow> Inl (''base64 decode: '' @ b64_err e (trim_space b64))
     | Some ct \<Rightarrow> DecryptBinary e privKey ct)"

section \<open>Lemmas\<close>

lemma char_eq_code: "c = d \<longleftrightarrow> of_char c = (of_char d :: nat)"
  by simp

lemma code_b64_char:
  "n < 64 \<Longrightarrow> (of_char (b64_char n) :: nat) =
     (if n < 26 then 65 + n else if n < 52 then 71 + n else if n < 62 then n - 4 else if n = 62 then 43 else 47)"
  by (simp add: b64_char_def)

lemma b64_val_char [simp]: "n < 64 \<Longrightarrow> b64_val (b64_char n) = Some n"
  by (auto simp: b64_val_def code_b64_char Let_def)

lemma b64_char_plain: "n < 64 \<Longrightarrow> b64_char n \<notin> {CHR ''='', CHR 0x0A, CHR 0x0D} \<and> \<not> is_space (b64_char n)"
  unfolding insert_iff empty_iff char_eq_code [of "b64_char n"] is_space_code
  by (simp add: code_b64_char) arith

lemma sextets:
  fixes a b c :: nat
  assumes "a < 256" "b < 256" "c < 256"
  shows "a div 4 < 64" "a mod 4 * 16 < 64" "a mod 4 * 16 + b div 16 < 64" "b mod 16 * 4 < 64"
    "b mod 16 * 4 + c div 64 < 64" "c mod 64 < 64"
proof -
  have "a mod 4 < 4" "b mod 16 < 16" by simp_all
  moreover have "b div 16 < 16" "c div 64 < 4" "a div 4 < 64"
    using assms by (simp_all add: less_mult_imp_div_less)
  ultimately show "a div 4 < 64" "a mod 4 * 16 < 64" "a mod 4 * 16 + b div 16 < 64" "b mod 16 * 4 < 64"
      "b mod 16 * 4 + c div 64 < 64" "c mod 64 < 64"
    by (simp, linarith, linarith, linarith, linarith, simp)
qed

lemma octets:
  fixes a b c :: nat
  assumes "a < 256" "b < 256" "c < 256"
  shows "a div 4 * 4 + (a mod 4 * 16) div 16 = a" "a div 4 * 4 + (a mod 4 * 16 + b div 16) div 16 = a"
    "(a mod 4 * 16 + b div 16) mod 16 * 16 + (b mod 16 * 4) div 4 = b"
    "(a mod 4 * 16 + b div 16) mod 16 * 16 + (b mod 16 * 4 + c div 64) div 4 = b"
    "(b mod 16 * 4 + c div 64) mod 4 * 64 + c mod 64 = c"
proof -
  have "b div 16 < 16" "c div 64 < 4"
    using assms by (simp_all add: less_mult_imp_div_less)
  moreover have "x < 16 \<Longrightarrow> (y * 16 + x) div 16 = y \<and> (y * 16 + x) mod 16 = x" for x y :: nat
    by simp
  moreover have "x < 4 \<Longrightarrow> (y * 4 + x) div 4 = y \<and> (y * 4 + x) mod 4 = x" for x y :: nat
    by simp
  ultimately show "a div 4 * 4 + (a mod 4 * 16) div 16 = a" "a div 4 * 4 + (a mod 4 * 16 + b div 16) div 16 = a"
      "(a mod 4 * 16 + b div 16) mod 16 * 16 + (b mod 16 * 4) div 4 = b"
      "(a mod 4 * 16 + b div 16) mod 16 * 16 + (b mod 16 * 4 + c div 64) div 4 = b"
      "(b mod 16 * 4 + c div 64) mod 4 * 64 + c mod 64 = c"
    by simp_all
qed

lemma b64_roundtrip: "\<forall>n \<in> set bs. n < 256 \<Longrightarrow> b64_decode (b64_encode bs) = Some bs"
proof (induction bs rule: b64_encode.induct)
  case (2 a)
  then have "a < 256" by simp
  then show ?case by (simp add: sextets [of a 0 0] octets [of a 0 0] del: div_mult_self1_is_m)
next
  case (3 a b)
  then have ab: "a < 256" "b < 256" by simp_all
  note * = sextets [OF ab, of 0] octets [OF ab, of 0]
  have "b div 16 < 16" using ab by (simp add: less_mult_imp_div_less)
  then show ?case using b64_char_plain [OF *(4)] by (simp add: *)
next
  case (4 a b c r)
  then have abc: "a < 256" "b < 256" "c < 256" by simp_all
  note * = sextets [OF abc] octets [OF abc]
  have "b div 16 < 16" "c div 64 < 4" using abc by (simp_all add: less_mult_imp_div_less)
  then show ?case
    using b64_char_plain [OF *(5)] b64_char_plain [OF *(6)] 4 by (simp add: *)
qed simp

lemma b64_encode_chars:
  "\<forall>n \<in> set bs. n < 256 \<Longrightarrow> c \<in> set (b64_encode bs) \<Longrightarrow> \<not> is_space c \<and> c \<notin> {CHR 0x0A, CHR 0x0D}"
proof (induction bs rule: b64_encode.induct)
  case (2 a)
  then have "a < 256" by simp
  then show ?case using 2 b64_char_plain sextets [of a 0 0] by (auto simp: is_space_code)
next
  case (3 a b)
  then have ab: "a < 256" "b < 256" by simp_all
  then show ?case using 3 b64_char_plain sextets [OF ab, of 0] by (auto simp: is_space_code)
next
  case (4 a b c r)
  then have abc: "a < 256" "b < 256" "c < 256" by simp_all
  show ?case using 4 b64_char_plain sextets [OF abc] by auto
qed simp

lemma trim_space_plain: "\<forall>c \<in> set s. \<not> is_space c \<Longrightarrow> trim_space s = s"
proof -
  assume "\<forall>c \<in> set s. \<not> is_space c"
  then have "dropWhile is_space s = s" "dropWhile is_space (rev s) = rev s"
    by (auto simp: dropWhile_eq_self_iff hd_rev)
  then show ?thesis
    by (simp add: trim_space_def trim_left_def trim_right_def)
qed

lemma DecodeString_EncodeToString: "DecodeString (trim_space (EncodeToString s)) = Some s"
proof -
  have bytes: "\<forall>n \<in> set (map of_char s). n < (256::nat)"
    by auto
  note chars = b64_encode_chars [OF bytes]
  have "trim_space (EncodeToString s) = EncodeToString s"
    using chars by (simp add: EncodeToString_def trim_space_plain)
  moreover have "filter (\<lambda>c. c \<notin> {CHR 0x0A, CHR 0x0D}) (EncodeToString s) = EncodeToString s"
    using chars by (intro filter_True) (auto simp: EncodeToString_def)
  ultimately show ?thesis
    by (simp add: DecodeString_def EncodeToString_def b64_roundtrip [OF bytes])
qed

text \<open>The signed text determines the envelope.\<close>

lemma serializeEnvelope_inject:
  "serializeEnvelope i t x = serializeEnvelope i' t' x' \<longleftrightarrow> i = i' \<and> t = t' \<and> x = x'"
  unfolding serializeEnvelope_def by (auto dest!: json_string_prefix json_string_prefix [of _ "[]" _ "[]", simplified])

section \<open>Properties\<close>

text \<open>The documented behaviour of the libraries the package calls.\<close>

definition signature_laws :: "'e crypto_env_scheme \<Rightarrow> bool" where
  "signature_laws e \<longleftrightarrow>
     (\<forall>m sg. ec_sign e (priv_key e) m = Inr sg \<longrightarrow>
        length sg = 65 \<and> of_char (sg ! 64) \<le> (1::nat) \<and>
        (\<exists>a. ec_recover e m sg = Inr a \<and> equal_fold a (own_address e))) \<and>
     (\<forall>s. hex_decode e (hex_encode e s) = Inr s)"

text \<open>\<open>P\<close> is the public key, as it is parsed, of the private key \<open>k\<close>: what is encrypted to it decrypts.\<close>

definition key_pair :: "'e crypto_env_scheme \<Rightarrow> string \<Rightarrow> string \<Rightarrow> bool" where
  "key_pair e k P \<longleftrightarrow> (\<forall>r pt ct. ecies_enc e r P pt = Inr ct \<longrightarrow> ecies_dec e k ct = Inr pt)"

lemma add_byte_inverse: "of_char c \<le> (1::nat) \<Longrightarrow> CHR 0x1B \<le> add_byte c 27 \<and> add_byte (add_byte c 27) 229 = c"
proof -
  assume "of_char c \<le> (1::nat)"
  then have "of_char c = (0::nat) \<or> of_char c = (1::nat)" by linarith
  then have "c = char_of (0::nat) \<or> c = char_of (1::nat)" by (metis char_of_char)
  then show ?thesis by (auto simp: add_byte_def less_eq_char_def)
qed

text \<open>What a key signs, verifies; what is encrypted to a key, it decrypts.\<close>

lemma signed_verifies:
  assumes "signature_laws e" "SignEnvelope e i to enc = Inr sg"
  shows "VerifyEnvelope e from i to enc sg = (equal_fold (own_address e) from, None)"
proof -
  define m where "m = serializeEnvelope i to enc"
  obtain s where s: "ec_sign e (priv_key e) m = Inr s" "sg = hex_encode e (s[64 := add_byte (s ! 64) 27])"
    using assms(2) by (auto simp: SignEnvelope_def SignPersonal_def m_def split: sum.splits)
  then have laws: "length s = 65" "of_char (s ! 64) \<le> (1::nat)" "hex_decode e sg = Inr (s[64 := add_byte (s ! 64) 27])"
    and "\<exists>a. ec_recover e m s = Inr a \<and> equal_fold a (own_address e)"
    using assms(1) by (auto simp: signature_laws_def)
  then obtain a where a: "ec_recover e m s = Inr a" "equal_fold a (own_address e)" by blast
  have "RecoverPersonal e m sg = Inr (to_lower a)"
    using laws a add_byte_inverse [OF laws(2)] by (simp add: RecoverPersonal_def Let_def)
  then show ?thesis
    using a(2) by (simp add: VerifyEnvelope_def equal_fold_def flip: m_def)
qed

text \<open>An envelope signed with the agent's key verifies for exactly the spellings of its own
  address: \<open>VerifyEnvelope\<close> undoes the shift of the recovery id, recovers the signer of the same
  text and compares it with the claimed sender without regard to case.\<close>

theorem VerifyEnvelope_SignEnvelope:
  assumes "signature_laws e" "SignEnvelope e i to enc = Inr sg"
  shows "VerifyEnvelope e from i to enc sg = (equal_fold (own_address e) from, None)"
  by (rule signed_verifies [OF assms])

definition sample_crypto_env :: crypto_env where
  "sample_crypto_env = mesh_env.extend sample_mesh_env (crypto_env.fields ''key'' ''0xab''
     (\<lambda>k m. Inr (replicate 65 (CHR 0x00))) (\<lambda>m s. Inr ''0xab'') (\<lambda>s. s) (\<lambda>s. Inr s)
     (\<lambda>p. Inr p) (\<lambda>r p t. Inr (rev t)) (\<lambda>k c. Inr (rev c)) (\<lambda>s. ''illegal data''))"

lemma crypto_laws_sample [simp]: "signature_laws sample_crypto_env" "key_pair sample_crypto_env k P"
  by (simp_all add: signature_laws_def key_pair_def sample_crypto_env_def mesh_env.extend_def
      crypto_env.fields_def equal_fold_def to_lower_def lower_char_def less_eq_char_def)

lemma VerifyEnvelope_SignEnvelope_witness:
  "VerifyEnvelope sample_crypto_env ''0xAb'' ''id'' ''0xcd'' ''data''
     (case SignEnvelope sample_crypto_env ''id'' ''0xcd'' ''data'' of Inr sg \<Rightarrow> sg | Inl x \<Rightarrow> x) = (True, None)"
proof -
  obtain sg where sg: "SignEnvelope sample_crypto_env ''id'' ''0xcd'' ''data'' = Inr sg"
    by (simp add: SignEnvelope_def SignPersonal_def sample_crypto_env_def mesh_env.extend_def crypto_env.fields_def)
  have "equal_fold (own_address sample_crypto_env) ''0xAb''"
    by code_simp
  with VerifyEnvelope_SignEnvelope [OF crypto_laws_sample(1) sg] show ?thesis
    by (simp add: sg)
qed

text \<open>The text that is signed determines the envelope, so a signature cannot be reused for another
  message id, recipient or ciphertext.\<close>

theorem envelope_text_unique:
  "serializeEnvelope i to enc = serializeEnvelope i' to' enc' \<longleftrightarrow> i = i' \<and> to = to' \<and> enc = enc'"
  by (rule serializeEnvelope_inject)

lemma encrypted_decrypts:
  assumes "key_pair e k P" "parse_pub e (trim_prefix (trim_space pub) ''0x'') = Inr P"
    and "EncryptBase64 e r pub pt = Inr ct" "trim_space ct' = trim_space ct"
  shows "DecryptBase64 e k ct' = Inr pt"
proof -
  obtain c where c: "ecies_enc e r P pt = Inr c" "ct = EncodeToString c"
    using assms(2,3) by (auto simp: EncryptBase64_def EncryptBinary_def split: sum.splits)
  then have "ecies_dec e k c = Inr pt"
    using assms(1) unfolding key_pair_def by blast
  then show ?thesis
    by (simp add: DecryptBase64_def DecryptBinary_def assms(4) c(2) DecodeString_EncodeToString)
qed

text \<open>Decryption undoes encryption: what \<open>EncryptBase64\<close> produces for the public key of a key pair,
  given with or without its prefix and surrounding spaces, \<open>DecryptBase64\<close> turns back into the
  plaintext with the private key, also when the transport puts spaces around the ciphertext.\<close>

theorem DecryptBase64_EncryptBase64:
  assumes "key_pair e k P" "parse_pub e (trim_prefix (trim_space pub) ''0x'') = Inr P"
    and "EncryptBase64 e r pub pt = Inr ct" "trim_space ct' = trim_space ct"
  shows "DecryptBase64 e k ct' = Inr pt"
  by (rule encrypted_decrypts [OF assms])

lemma DecryptBase64_EncryptBase64_witness:
  "DecryptBase64 sample_crypto_env ''key'' '' Ymth '' = Inr ''akb''"
proof -
  have "EncryptBase64 sample_crypto_env 0 ''0x04ff'' ''akb'' = Inr ''Ymth''"
    by code_simp
  moreover have "parse_pub sample_crypto_env (trim_prefix (trim_space ''0x04ff'') ''0x'') = Inr ''04ff''"
    by code_simp
  moreover have "trim_space '' Ymth '' = trim_space ''Ymth''" by code_simp
  moreover have "priv_key sample_crypto_env = ''key''" by code_simp
  ultimately show ?thesis
    using DecryptBase64_EncryptBase64 [OF crypto_laws_sample(2), of "''0x04ff''" "''04ff''" 0 "''akb''" "''Ymth''" "'' Ymth ''"]
    by simp
qed

end
