(* ===== verification/Relay_Session.thy ===== *)
theory Relay_Session
  imports Identity_Crypto
begin

text \<open>
  Package \<open>internal/relay\<close>, the persistent relay connection (\<open>session.go\<close>, \<open>protocol.go\<close>, \<open>util.go\<close>).
  The state is the connection, its authentication, the key cache, the pending requests, and the
  logs of frames written, callbacks made and HTTP requests issued. A waiter is a channel of
  capacity one, a number whose buffer is \<open>buf\<close>. A frame is handled by \<open>handle\<close>; the life of the
  connection (dial, frames, watchdogs, disconnect) is \<open>session_event\<close>. A request that waits
  (\<open>GetKey\<close>, \<open>Send\<close>, \<open>Resolve\<close>, \<open>QueryPresence\<close>) is its sending part, then the events that happen
  meanwhile, as the world decides, then the \<open>select\<close>. \<open>panicked\<close> and \<open>stuck\<close> record that the reader
  goroutine panicked or blocked for ever on a full channel.
\<close>

section \<open>Frames and events\<close>

record serverMessage =
  sm_Type :: string
  sm_Nonce :: string
  sm_Address :: string
  sm_Error :: string
  sm_ID :: string
  sm_From :: string
  sm_FromName :: string
  sm_Encrypted :: string
  sm_Signature :: string
  sm_Ts :: int
  sm_GroupID :: string
  sm_GroupName :: string
  sm_MessageID :: string
  sm_PublicKey :: "string option"
  sm_Name :: string
  sm_State :: string
  sm_Message :: string
  sm_Status :: string
  sm_RecipientState :: string
  sm_RecipientMsg :: "string option"

datatype clientFrame =
    authFrame string string string
  | messageFrame string string string string
  | getKeyFrame string
  | ackFrame string
  | reactionFrame string string string string string
  | resolveFrame string
  | presenceSetFrame string "string option"
  | presenceQueryFrame string
  | pingFrame

record InboundEvent =
  ev_Kind :: string
  ev_ID :: string
  ev_From :: string
  ev_FromName :: string
  ev_Plaintext :: string
  ev_Ts :: int
  ev_Verified :: bool
  ev_GroupID :: string
  ev_GroupName :: string
  ev_ReactionFor :: string
  ev_Action :: string
  ev_Members :: "string list"

definition no_event :: InboundEvent where
  "no_event = \<lparr>ev_Kind = [], ev_ID = [], ev_From = [], ev_FromName = [], ev_Plaintext = [], ev_Ts = 0,
     ev_Verified = False, ev_GroupID = [], ev_GroupName = [], ev_ReactionFor = [], ev_Action = [], ev_Members = []\<rparr>"

record DeliveryResult =
  dr_ID :: string
  dr_Status :: string
  dr_RecipientState :: string
  dr_RecipientMsg :: string

definition no_delivery :: DeliveryResult where
  "no_delivery = \<lparr>dr_ID = [], dr_Status = [], dr_RecipientState = [], dr_RecipientMsg = []\<rparr>"

text \<open>The JSON object of a group system message, as it is decoded.\<close>

record sys_message =
  sy_Type :: string
  sy_GroupID :: string
  sy_GroupName :: string
  sy_From :: string
  sy_Action :: string
  sy_Address :: string
  sy_Members :: "string list"

text \<open>What a waiter's channel carries.\<close>

datatype reply =
    R_key "string option"
  | R_resolve "(string \<times> string) option"
  | R_presence "(string \<times> string) option"
  | R_delivery DeliveryResult

datatype callback = OnInbound InboundEvent | OnKeyLearned string string | OnReady

datatype body = NoBody | RawBody string | JsonBody json

record http_request =
  rq_method :: string
  rq_url :: string
  rq_headers :: "(string \<times> string) list"
  rq_body :: body

datatype sess_event =
    Ev_Frame serverMessage
  | Ev_Pong
  | Ev_OtherFrame
  | Ev_ReadError
  | Ev_Connect
  | Ev_DialFailed
  | Ev_AuthTimer
  | Ev_Keepalive

text \<open>The event a text frame of the relay is, by its bytes.\<close>

definition message_fields :: struct_fields where
  "message_fields = \<lparr>fs_str = [''type'', ''nonce'', ''address'', ''error'', ''id'', ''from'', ''from_name'', ''encrypted'',
     ''signature'', ''group_id'', ''group_name'', ''message_id'', ''publicKey'', ''name'', ''state'', ''message'', ''to'',
     ''status'', ''recipient_state'', ''recipient_message''], fs_int = [''ts''], fs_bool = [], fs_strs = []\<rparr>"

definition decode_message :: "string \<Rightarrow> serverMessage option" where
  "decode_message s = map_option (\<lambda>kvs. let f = str_field kvs in
     \<lparr>sm_Type = f ''type'', sm_Nonce = f ''nonce'', sm_Address = f ''address'', sm_Error = f ''error'', sm_ID = f ''id'',
       sm_From = f ''from'', sm_FromName = f ''from_name'', sm_Encrypted = f ''encrypted'', sm_Signature = f ''signature'',
       sm_Ts = int_field kvs ''ts'', sm_GroupID = f ''group_id'', sm_GroupName = f ''group_name'',
       sm_MessageID = f ''message_id'', sm_PublicKey = ptr_field kvs ''publicKey'', sm_Name = f ''name'',
       sm_State = f ''state'', sm_Message = f ''message'', sm_Status = f ''status'',
       sm_RecipientState = f ''recipient_state'', sm_RecipientMsg = ptr_field kvs ''recipient_message''\<rparr>)
     (unmarshal_struct message_fields s)"

definition text_event :: "string \<Rightarrow> sess_event" where
  "text_event data = (if data = ''pong'' then Ev_Pong
     else (case decode_message data of None \<Rightarrow> Ev_OtherFrame | Some m \<Rightarrow> Ev_Frame m))"

text \<open>How the \<open>select\<close> of a request ends: with its reply if there is one, else by its timer; by its
  timer although a reply is there; or by the context.\<close>

datatype wait_end = Await_reply | Await_timer | Await_ctx string

section \<open>State\<close>

type_synonym waits = "(string \<times> nat list) list"

record session =
  x_tick :: nat
  conn :: "nat option"
  next_conn :: nat
  conn_closed :: bool
  authed :: bool
  authed_token :: bool
  lastPong :: int
  onReadyActive :: bool
  keyCache :: "(string \<times> string) list"
  keyWaits :: waits
  resWaits :: waits
  presWaits :: waits
  delivWait :: "(string \<times> nat) list"
  buf :: "nat \<Rightarrow> reply option"
  next_chan :: nat
  ready_closed :: bool
  panicked :: bool
  stuck :: bool
  written :: "(nat \<times> clientFrame) list"
  callbacks :: "callback list"
  http_log :: "http_request list"

definition NewSession :: session where
  "NewSession = \<lparr>x_tick = 0, conn = None, next_conn = 0, conn_closed = False, authed = False,
     authed_token = False, lastPong = 0, onReadyActive = False, keyCache = [], keyWaits = [], resWaits = [],
     presWaits = [], delivWait = [], buf = (\<lambda>c. None), next_chan = 0, ready_closed = False,
     panicked = False, stuck = False, written = [], callbacks = [], http_log = []\<rparr>"

text \<open>
  The world of a session: which writes fail, the random message ids, the events and the outcome
  of each wait, URL parsing and the HTTP answers.
\<close>

record sess_env = crypto_env +
  sess_clock :: "nat \<Rightarrow> int"
  relayURL :: string
  write_err :: "nat \<Rightarrow> string option"
  uuid :: "nat \<Rightarrow> string"
  meanwhile :: "nat \<Rightarrow> sess_event list"
  wait_outcome :: "nat \<Rightarrow> wait_end"
  url_path :: "string \<Rightarrow> string + string"
  http_do :: "nat \<Rightarrow> http_request \<Rightarrow> string + nat \<times> string"

definition sess_tick :: "(session, nat) state" where
  "sess_tick = State (\<lambda>s. (x_tick s, s\<lparr>x_tick := x_tick s + 1\<rparr>))"

definition sess_now :: "'e sess_env_scheme \<Rightarrow> (session, int) state" where
  "sess_now e = do { t \<leftarrow> sess_tick; State_Monad.return (sess_clock e t) }"

definition newID :: "'e sess_env_scheme \<Rightarrow> (session, string) state" where
  "newID e = do { t \<leftarrow> sess_tick; State_Monad.return (uuid e t) }"

definition normalize_address :: "string \<Rightarrow> string" where
  "normalize_address addr = to_lower (trim_space addr)"

definition lowerAll :: "string list \<Rightarrow> string list" where
  "lowerAll = map normalize_address"

definition httpBaseFromWS :: "string \<Rightarrow> string" where
  "httpBaseFromWS wsURL =
     (let s = replace_first wsURL ''wss://'' ''https://'';
          s = replace_first s ''ws://'' ''http://''
      in trim_suffix s ''/ws'')"

section \<open>Channels and waiters\<close>

definition make_chan :: "(session, nat) state" where
  "make_chan = State (\<lambda>s. (next_chan s, s\<lparr>next_chan := next_chan s + 1\<rparr>))"

definition fill :: "nat \<Rightarrow> reply \<Rightarrow> session \<Rightarrow> session" where
  "fill w r s = s\<lparr>buf := (buf s)(w := Some r)\<rparr>"

text \<open>\<open>w <- r\<close>, and its form in a \<open>select\<close> with a \<open>default\<close>.\<close>

definition send_chan :: "reply \<Rightarrow> nat \<Rightarrow> session \<Rightarrow> session" where
  "send_chan r w s =
     (if stuck s then s else if buf s w = None then fill w r s else s\<lparr>stuck := True\<rparr>)"

definition try_send_chan :: "reply \<Rightarrow> nat \<Rightarrow> session \<Rightarrow> session" where
  "try_send_chan r w s = (if buf s w = None then fill w r s else s)"

definition waiters :: "waits \<Rightarrow> string \<Rightarrow> nat list" where
  "waiters m k = (case map_of m k of None \<Rightarrow> [] | Some ws \<Rightarrow> ws)"

definition add_waiter :: "string \<Rightarrow> nat \<Rightarrow> waits \<Rightarrow> waits" where
  "add_waiter k ch m = AList.update k (waiters m k @ [ch]) m"

definition removeWaiter :: "waits \<Rightarrow> string \<Rightarrow> nat \<Rightarrow> waits" where
  "removeWaiter m k ch =
     (let ws = remove1 ch (waiters m k) in if ws = [] then AList.delete k m else AList.update k ws m)"

definition drain :: "reply \<Rightarrow> waits \<Rightarrow> session \<Rightarrow> session" where
  "drain r m s = fold (try_send_chan r) (concat (map snd m)) s"

definition drainWaiters :: "session \<Rightarrow> session" where
  "drainWaiters s =
     (let s = (drain (R_key None) (keyWaits s) s)\<lparr>keyWaits := []\<rparr>;
          s = (drain (R_resolve None) (resWaits s) s)\<lparr>resWaits := []\<rparr>
      in (drain (R_presence None) (presWaits s) s)\<lparr>presWaits := []\<rparr>)"

section \<open>Writing\<close>

definition writeJSON :: "'e sess_env_scheme \<Rightarrow> nat \<Rightarrow> clientFrame \<Rightarrow> (session, string option) state" where
  "writeJSON e c f = do {
     t \<leftarrow> sess_tick;
     case write_err e t of
       Some x \<Rightarrow> State_Monad.return (Some x)
     | None \<Rightarrow> do { modify (\<lambda>s. s\<lparr>written := written s @ [(c, f)]\<rparr>); State_Monad.return None }
   }"

definition close_conn :: "(session, unit) state" where
  "close_conn = modify (\<lambda>s. s\<lparr>conn_closed := True\<rparr>)"

definition currentConn :: "(session, nat option \<times> bool) state" where
  "currentConn = gets (\<lambda>s. (conn s, authed s \<and> conn s \<noteq> None))"

definition IsReady :: "(session, bool) state" where
  "IsReady = do { r \<leftarrow> currentConn; State_Monad.return (snd r) }"

definition call_back :: "callback \<Rightarrow> (session, unit) state" where
  "call_back cb = modify (\<lambda>s. s\<lparr>callbacks := callbacks s @ [cb]\<rparr>)"

definition cacheKey :: "string \<Rightarrow> string \<Rightarrow> (session, unit) state" where
  "cacheKey addr pub = do {
     modify (\<lambda>s. s\<lparr>keyCache := AList.update addr pub (keyCache s)\<rparr>);
     call_back (OnKeyLearned addr pub)
   }"

definition CachedKey :: "string \<Rightarrow> (session, string) state" where
  "CachedKey addr = gets (\<lambda>s. null_string (map_of (keyCache s) (normalize_address addr)))"

definition PrimeKey :: "string \<Rightarrow> string \<Rightarrow> (session, unit) state" where
  "PrimeKey addr pub =
     (if pub = [] then State_Monad.return ()
      else modify (\<lambda>s. s\<lparr>keyCache := AList.update (normalize_address addr) pub (keyCache s)\<rparr>))"

text \<open>The goroutine that runs \<open>OnReady\<close>: the callback is made at most once at a time; the agent
  resets the flag when it returns.\<close>

definition launchOnReady :: "(session, unit) state" where
  "launchOnReady = do {
     active \<leftarrow> gets onReadyActive;
     if active then State_Monad.return ()
     else do { modify (\<lambda>s. s\<lparr>onReadyActive := True\<rparr>); call_back OnReady }
   }"

section \<open>Inbound frames\<close>

definition ack :: "'e sess_env_scheme \<Rightarrow> nat \<Rightarrow> string \<Rightarrow> (session, unit) state" where
  "ack e c mid = do { writeJSON e c (ackFrame mid); State_Monad.return () }"

definition emit :: "InboundEvent \<Rightarrow> (session, unit) state" where
  "emit ev = call_back (OnInbound ev)"

definition decode_sys :: "string \<Rightarrow> sys_message option" where
  "decode_sys s = map_option (\<lambda>kvs. \<lparr>sy_Type = str_field kvs ''type'', sy_GroupID = str_field kvs ''group_id'',
       sy_GroupName = str_field kvs ''group_name'', sy_From = str_field kvs ''from'', sy_Action = str_field kvs ''action'',
       sy_Address = str_field kvs ''address'', sy_Members = strs_field kvs ''members''\<rparr>)
     (unmarshal_struct \<lparr>fs_str = [''type'', ''group_id'', ''group_name'', ''from'', ''action'', ''address''], fs_int = [],
       fs_bool = [], fs_strs = [''members'']\<rparr> s)"

text \<open>The event of a group system message, if the payload is one.\<close>

definition system_event :: "serverMessage \<Rightarrow> InboundEvent option" where
  "system_event msg =
     (if sm_GroupID msg \<noteq> [] \<and> has_prefix (trim_space (sm_Encrypted msg)) ''{'' then
        (case decode_sys (sm_Encrypted msg) of
           None \<Rightarrow> None
         | Some sys \<Rightarrow>
             if sy_Type sys = ''group_invite'' then
               Some (no_event\<lparr>ev_Kind := ''group_invite'', ev_ID := sm_ID msg, ev_From := normalize_address (sy_From sys),
                 ev_Ts := sm_Ts msg, ev_GroupID := sy_GroupID sys, ev_GroupName := sy_GroupName sys,
                 ev_Members := lowerAll (sy_Members sys)\<rparr>)
             else if sy_Type sys = ''group_member_update'' then
               Some (no_event\<lparr>ev_Kind := ''group_member_update'', ev_ID := sm_ID msg, ev_From := normalize_address (sy_Address sys),
                 ev_Ts := sm_Ts msg, ev_GroupID := sy_GroupID sys, ev_GroupName := sy_GroupName sys,
                 ev_Action := sy_Action sys, ev_Members := lowerAll (sy_Members sys)\<rparr>)
             else None)
      else None)"

definition handleInboundMessage :: "'e sess_env_scheme \<Rightarrow> nat \<Rightarrow> serverMessage \<Rightarrow> (session, unit) state" where
  "handleInboundMessage e c msg = do {
     (case system_event msg of
        Some ev \<Rightarrow> emit ev
      | None \<Rightarrow> (case DecryptBase64 e (priv_key e) (sm_Encrypted msg) of
            Inl err \<Rightarrow> State_Monad.return ()
          | Inr plaintext \<Rightarrow>
              if sm_GroupID msg \<noteq> [] then
                emit (no_event\<lparr>ev_Kind := ''group'', ev_ID := sm_ID msg, ev_From := normalize_address (sm_From msg),
                  ev_FromName := sm_FromName msg, ev_Plaintext := plaintext, ev_Ts := sm_Ts msg,
                  ev_GroupID := sm_GroupID msg, ev_GroupName := sm_GroupName msg\<rparr>)
              else
                emit (no_event\<lparr>ev_Kind := ''dm'', ev_ID := sm_ID msg, ev_From := normalize_address (sm_From msg),
                  ev_FromName := sm_FromName msg, ev_Plaintext := plaintext, ev_Ts := sm_Ts msg,
                  ev_Verified := fst (VerifyEnvelope e (sm_From msg) (sm_ID msg) (own_address e)
                    (sm_Encrypted msg) (sm_Signature msg))\<rparr>)));
     ack e c (sm_ID msg)
   }"

definition handleInboundReaction :: "'e sess_env_scheme \<Rightarrow> nat \<Rightarrow> serverMessage \<Rightarrow> (session, unit) state" where
  "handleInboundReaction e c msg = do {
     (case DecryptBase64 e (priv_key e) (sm_Encrypted msg) of
        Inl err \<Rightarrow> State_Monad.return ()
      | Inr emoji \<Rightarrow>
          emit (no_event\<lparr>ev_Kind := ''reaction'', ev_ID := sm_ID msg, ev_From := normalize_address (sm_From msg),
            ev_FromName := sm_FromName msg, ev_Plaintext := emoji, ev_Ts := sm_Ts msg,
            ev_Verified := (if sm_GroupID msg = []
              then fst (VerifyEnvelope e (sm_From msg) (sm_ID msg) (own_address e) (sm_Encrypted msg) (sm_Signature msg))
              else True),
            ev_GroupID := sm_GroupID msg, ev_GroupName := sm_GroupName msg, ev_ReactionFor := sm_MessageID msg\<rparr>));
     ack e c (sm_ID msg)
   }"

definition take_keyWaits :: "string \<Rightarrow> (session, nat list) state" where
  "take_keyWaits k = State (\<lambda>s. (waiters (keyWaits s) k, s\<lparr>keyWaits := AList.delete k (keyWaits s)\<rparr>))"

definition take_resWaits :: "string \<Rightarrow> (session, nat list) state" where
  "take_resWaits k = State (\<lambda>s. (waiters (resWaits s) k, s\<lparr>resWaits := AList.delete k (resWaits s)\<rparr>))"

definition take_presWaits :: "string \<Rightarrow> (session, nat list) state" where
  "take_presWaits k = State (\<lambda>s. (waiters (presWaits s) k, s\<lparr>presWaits := AList.delete k (presWaits s)\<rparr>))"

definition handle_key_response :: "serverMessage \<Rightarrow> (session, unit) state" where
  "handle_key_response msg = do {
     let addr = normalize_address (sm_Address msg);
     (case sm_PublicKey msg of
        Some pk \<Rightarrow> if pk \<noteq> [] then cacheKey addr pk else State_Monad.return ()
      | None \<Rightarrow> State_Monad.return ());
     ws \<leftarrow> take_keyWaits addr;
     for_each ws (\<lambda>w. modify (send_chan (R_key (sm_PublicKey msg)) w))
   }"

definition handle_resolve_response :: "serverMessage \<Rightarrow> (session, unit) state" where
  "handle_resolve_response msg = do {
     let label = to_lower (sm_Name msg);
     let res = (if sm_Address msg \<noteq> [] then Some (normalize_address (sm_Address msg), null_string (sm_PublicKey msg)) else None);
     (case (res, sm_PublicKey msg) of
        (Some r, Some pk) \<Rightarrow> cacheKey (fst r) pk
      | _ \<Rightarrow> State_Monad.return ());
     ws \<leftarrow> take_resWaits label;
     for_each ws (\<lambda>w. modify (send_chan (R_resolve res) w))
   }"

definition handle_presence_response :: "serverMessage \<Rightarrow> (session, unit) state" where
  "handle_presence_response msg = do {
     ws \<leftarrow> take_presWaits (normalize_address (sm_Address msg));
     for_each ws (\<lambda>w. modify (send_chan (R_presence (Some (sm_State msg, sm_Message msg))) w))
   }"

definition handle_delivery_status :: "serverMessage \<Rightarrow> (session, unit) state" where
  "handle_delivery_status msg = modify (\<lambda>s. case map_of (delivWait s) (sm_ID msg) of
       None \<Rightarrow> s
     | Some w \<Rightarrow> try_send_chan (R_delivery \<lparr>dr_ID = sm_ID msg, dr_Status = sm_Status msg,
         dr_RecipientState = sm_RecipientState msg, dr_RecipientMsg = null_string (sm_RecipientMsg msg)\<rparr>) w s)"

definition handle_challenge :: "'e sess_env_scheme \<Rightarrow> nat \<Rightarrow> serverMessage \<Rightarrow> (session, unit) state" where
  "handle_challenge e c msg = (case SignPersonal e (sm_Nonce msg) of
       Inl err \<Rightarrow> close_conn
     | Inr sg \<Rightarrow> do {
         err \<leftarrow> writeJSON e c (authFrame (own_address e) sg ''online'');
         if err \<noteq> None then close_conn else State_Monad.return ()
       })"

text \<open>Closing \<open>readyCh\<close> when it is closed already is a panic.\<close>

definition handle_auth_ok :: "'e sess_env_scheme \<Rightarrow> (session, unit) state" where
  "handle_auth_ok e = do {
     now \<leftarrow> sess_now e;
     modify (\<lambda>s. s\<lparr>authed := True, lastPong := now\<rparr>);
     again \<leftarrow> gets ready_closed;
     if again then modify (\<lambda>s. s\<lparr>panicked := True\<rparr>)
     else do {
       modify (\<lambda>s. s\<lparr>ready_closed := True, authed_token := True\<rparr>);
       launchOnReady
     }
   }"

definition handle :: "'e sess_env_scheme \<Rightarrow> nat \<Rightarrow> serverMessage \<Rightarrow> (session, unit) state" where
  "handle e c msg =
     (if sm_Type msg = ''challenge'' then handle_challenge e c msg
      else if sm_Type msg = ''auth_ok'' then handle_auth_ok e
      else if sm_Type msg = ''auth_error'' then close_conn
      else if sm_Type msg = ''key_response'' then handle_key_response msg
      else if sm_Type msg = ''resolve_response'' then handle_resolve_response msg
      else if sm_Type msg = ''presence_response'' then handle_presence_response msg
      else if sm_Type msg = ''delivery_status'' then handle_delivery_status msg
      else if sm_Type msg = ''message'' then handleInboundMessage e c msg
      else if sm_Type msg = ''reaction'' then handleInboundReaction e c msg
      else State_Monad.return ())"

section \<open>The life of a connection\<close>

text \<open>
  The start of \<open>connectOnce\<close>, its tail after \<open>readLoop\<close> returned, its authentication watchdog and
  a tick of \<open>keepAlive\<close>. \<open>authed_token\<close> is the element of \<open>authedCh\<close>; the tail answers it.
\<close>

definition connect_start :: "'e sess_env_scheme \<Rightarrow> (session, unit) state" where
  "connect_start e = do {
     now \<leftarrow> sess_now e;
     modify (\<lambda>s. s\<lparr>conn := Some (next_conn s), next_conn := next_conn s + 1, conn_closed := False,
       authed := False, authed_token := False, lastPong := now\<rparr>)
   }"

definition connect_tail :: "(session, bool) state" where
  "connect_tail = State (\<lambda>s. (authed_token s,
     (drainWaiters (s\<lparr>conn := None, authed := False, ready_closed := False\<rparr>))\<lparr>authed_token := False\<rparr>))"

definition auth_timer :: "(session, unit) state" where
  "auth_timer = do {
     ok \<leftarrow> gets authed;
     if ok then State_Monad.return () else close_conn
   }"

definition keepAlive_tick :: "'e sess_env_scheme \<Rightarrow> nat \<Rightarrow> (session, unit) state" where
  "keepAlive_tick e c = do {
     last \<leftarrow> gets lastPong;
     now \<leftarrow> sess_now e;
     if 90000 < now - last then close_conn
     else do {
       err \<leftarrow> writeJSON e c pingFrame;
       if err \<noteq> None then close_conn else State_Monad.return ()
     }
   }"

definition pong :: "'e sess_env_scheme \<Rightarrow> (session, unit) state" where
  "pong e = do { now \<leftarrow> sess_now e; modify (\<lambda>s. s\<lparr>lastPong := now\<rparr>) }"

text \<open>
  One event of the connection. A connection that was closed reads no more frames, only the error
  that ends its loop; a dial happens only without a connection; after a panic nothing happens.
\<close>

definition session_event :: "'e sess_env_scheme \<Rightarrow> sess_event \<Rightarrow> (session, unit) state" where
  "session_event e ev = do {
     dead \<leftarrow> gets (\<lambda>s. panicked s \<or> stuck s);
     c \<leftarrow> gets conn;
     closed \<leftarrow> gets conn_closed;
     if dead then State_Monad.return ()
     else (case c of
         None \<Rightarrow> (case ev of Ev_Connect \<Rightarrow> connect_start e | _ \<Rightarrow> State_Monad.return ())
       | Some c \<Rightarrow> (case ev of
             Ev_Frame msg \<Rightarrow> if closed then State_Monad.return () else handle e c msg
           | Ev_Pong \<Rightarrow> if closed then State_Monad.return () else pong e
           | Ev_ReadError \<Rightarrow> do { connect_tail; State_Monad.return () }
           | Ev_AuthTimer \<Rightarrow> auth_timer
           | Ev_Keepalive \<Rightarrow> keepAlive_tick e c
           | _ \<Rightarrow> State_Monad.return ()))
   }"

section \<open>Requests\<close>

text \<open>
  The \<open>select\<close> on channel \<open>ch\<close>: the events that happen meanwhile, then its outcome: the reply, the
  timer, or the context and its error.
\<close>

datatype awaited = Got reply | Timed_out | Ctx_done string

definition await_reply :: "'e sess_env_scheme \<Rightarrow> nat \<Rightarrow> (session, awaited) state" where
  "await_reply e ch = do {
     t \<leftarrow> sess_tick;
     for_each (meanwhile e t) (session_event e);
     r \<leftarrow> gets (\<lambda>s. buf s ch);
     case wait_outcome e t of
       Await_ctx x \<Rightarrow> State_Monad.return (Ctx_done x)
     | Await_timer \<Rightarrow> State_Monad.return Timed_out
     | Await_reply \<Rightarrow> (case r of
           Some v \<Rightarrow> do {
             modify (\<lambda>s. s\<lparr>buf := (buf s)(ch := None)\<rparr>);
             State_Monad.return (Got v)
           }
         | None \<Rightarrow> State_Monad.return Timed_out)
   }"

text \<open>The error of a request that got no reply.\<close>

definition wait_error :: "string \<Rightarrow> awaited \<Rightarrow> string" where
  "wait_error timeout r = (case r of Ctx_done x \<Rightarrow> x | _ \<Rightarrow> timeout)"

definition register_key :: "string \<Rightarrow> (session, nat \<times> bool) state" where
  "register_key addr = do {
     ch \<leftarrow> make_chan;
     modify (\<lambda>s. s\<lparr>keyWaits := add_waiter addr ch (keyWaits s)\<rparr>);
     first \<leftarrow> gets (\<lambda>s. length (waiters (keyWaits s) addr) = 1);
     State_Monad.return (ch, first)
   }"

definition register_res :: "string \<Rightarrow> (session, nat \<times> bool) state" where
  "register_res lbl = do {
     ch \<leftarrow> make_chan;
     modify (\<lambda>s. s\<lparr>resWaits := add_waiter lbl ch (resWaits s)\<rparr>);
     first \<leftarrow> gets (\<lambda>s. length (waiters (resWaits s) lbl) = 1);
     State_Monad.return (ch, first)
   }"

definition register_pres :: "string \<Rightarrow> (session, nat \<times> bool) state" where
  "register_pres addr = do {
     ch \<leftarrow> make_chan;
     modify (\<lambda>s. s\<lparr>presWaits := add_waiter addr ch (presWaits s)\<rparr>);
     first \<leftarrow> gets (\<lambda>s. length (waiters (presWaits s) addr) = 1);
     State_Monad.return (ch, first)
   }"

definition register_deliv :: "string \<Rightarrow> (session, nat) state" where
  "register_deliv mid = do {
     ch \<leftarrow> make_chan;
     modify (\<lambda>s. s\<lparr>delivWait := AList.update mid ch (delivWait s)\<rparr>);
     State_Monad.return ch
   }"

definition GetKey :: "'e sess_env_scheme \<Rightarrow> string \<Rightarrow> (session, string \<times> string option) state" where
  "GetKey e address = do {
     let addr = normalize_address address;
     k \<leftarrow> CachedKey addr;
     if k \<noteq> [] then State_Monad.return (k, None)
     else do {
       cr \<leftarrow> currentConn;
       (case cr of
          (Some c, True) \<Rightarrow> do {
            (ch, first) \<leftarrow> register_key addr;
            err \<leftarrow> (if first then writeJSON e c (getKeyFrame addr) else State_Monad.return None);
            case err of
              Some x \<Rightarrow> State_Monad.return ([], Some (''send get_key: '' @ x))
            | None \<Rightarrow> do {
                r \<leftarrow> await_reply e ch;
                case r of
                  Got (R_key (Some pk)) \<Rightarrow> State_Monad.return (pk, None)
                | Got _ \<Rightarrow> State_Monad.return ([], None)
                | _ \<Rightarrow> do {
                    modify (\<lambda>s. s\<lparr>keyWaits := removeWaiter (keyWaits s) addr ch\<rparr>);
                    State_Monad.return ([], Some (wait_error (''get_key timeout for '' @ addr) r))
                  }
              }
          }
        | _ \<Rightarrow> State_Monad.return ([], Some ''relay not ready''))
     }
   }"

definition sendPreparedMessage ::
  "'e sess_env_scheme \<Rightarrow> string \<Rightarrow> string \<Rightarrow> string \<Rightarrow> string \<Rightarrow>
   (session, DeliveryResult \<times> string \<times> string option) state" where
  "sendPreparedMessage e mid toLC encrypted sig = do {
     cr \<leftarrow> currentConn;
     (case cr of
        (Some c, True) \<Rightarrow> do {
          ch \<leftarrow> register_deliv mid;
          err \<leftarrow> writeJSON e c (messageFrame mid toLC encrypted sig);
          res \<leftarrow> (case err of
             Some x \<Rightarrow> State_Monad.return (no_delivery, encrypted, Some (''send message: '' @ x))
           | None \<Rightarrow> do {
               r \<leftarrow> await_reply e ch;
               case r of
                 Got (R_delivery d) \<Rightarrow> State_Monad.return (d, encrypted, None)
               | Got _ \<Rightarrow> State_Monad.return (no_delivery, encrypted, None)
               | Timed_out \<Rightarrow> State_Monad.return
                   (no_delivery\<lparr>dr_ID := mid, dr_Status := ''unknown''\<rparr>, encrypted, Some ''no delivery_status within 15s'')
               | Ctx_done x \<Rightarrow> State_Monad.return (no_delivery, encrypted, Some x)
             });
          modify (\<lambda>s. s\<lparr>delivWait := AList.delete mid (delivWait s)\<rparr>);
          State_Monad.return res
        }
      | _ \<Rightarrow> State_Monad.return (no_delivery, encrypted, Some ''relay not ready''))
   }"

text \<open>The key of a recipient: the given one, or a round trip; \<open>hint\<close> is the end of the error text.\<close>

definition recipient_key :: "'e sess_env_scheme \<Rightarrow> string \<Rightarrow> string \<Rightarrow> string \<Rightarrow> (session, string + string) state" where
  "recipient_key e toLC pub hint =
     (if pub \<noteq> [] then State_Monad.return (Inr pub)
      else do {
        r \<leftarrow> GetKey e toLC;
        State_Monad.return (case r of
            (_, Some err) \<Rightarrow> Inl (''lookup recipient key: '' @ err)
          | (pub, None) \<Rightarrow>
              if pub = [] then Inl (''no public key on relay for '' @ toLC @ hint) else Inr pub)
      })"

definition Session_Send ::
  "'e sess_env_scheme \<Rightarrow> string \<Rightarrow> string \<Rightarrow> string \<Rightarrow> (session, DeliveryResult \<times> string \<times> string option) state" where
  "Session_Send e to plaintext recipientPubHex = do {
     let toLC = normalize_address to;
     k \<leftarrow> recipient_key e toLC recipientPubHex '' (has it ever connected?)'';
     case k of
       Inl err \<Rightarrow> State_Monad.return (no_delivery, [], Some err)
     | Inr pub \<Rightarrow> do {
         t \<leftarrow> sess_tick;
         case EncryptBase64 e t pub plaintext of
           Inl err \<Rightarrow> State_Monad.return (no_delivery, [], Some (''encrypt: '' @ err))
         | Inr encrypted \<Rightarrow> do {
             mid \<leftarrow> newID e;
             case SignEnvelope e mid toLC encrypted of
               Inl err \<Rightarrow> State_Monad.return (no_delivery, encrypted, Some (''sign envelope: '' @ err))
             | Inr sig \<Rightarrow> sendPreparedMessage e mid toLC encrypted sig
           }
       }
   }"

definition SendQueued ::
  "'e sess_env_scheme \<Rightarrow> string \<Rightarrow> string \<Rightarrow> string \<Rightarrow> string \<Rightarrow> (session, string option) state" where
  "SendQueued e mid toLC encrypted sig = do {
     cr \<leftarrow> currentConn;
     case cr of
       (Some c, True) \<Rightarrow> writeJSON e c (messageFrame mid (normalize_address toLC) encrypted sig)
     | _ \<Rightarrow> State_Monad.return (Some ''relay not ready'')
   }"

definition Session_SignEnvelope :: "'e sess_env_scheme \<Rightarrow> string \<Rightarrow> string \<Rightarrow> string \<Rightarrow> string + string" where
  "Session_SignEnvelope e mid to encrypted = SignEnvelope e mid (normalize_address to) encrypted"

definition SendReaction ::
  "'e sess_env_scheme \<Rightarrow> string \<Rightarrow> string \<Rightarrow> string \<Rightarrow> string \<Rightarrow> (session, string option) state" where
  "SendReaction e to messageID emoji recipientPubHex = do {
     let toLC = normalize_address to;
     k \<leftarrow> recipient_key e toLC recipientPubHex [];
     case k of
       Inl err \<Rightarrow> State_Monad.return (Some err)
     | Inr pub \<Rightarrow> do {
         t \<leftarrow> sess_tick;
         case EncryptBase64 e t pub emoji of
           Inl err \<Rightarrow> State_Monad.return (Some (''encrypt: '' @ err))
         | Inr encrypted \<Rightarrow> do {
             mid \<leftarrow> newID e;
             case SignEnvelope e mid toLC encrypted of
               Inl err \<Rightarrow> State_Monad.return (Some (''sign envelope: '' @ err))
             | Inr sig \<Rightarrow> do {
                 cr \<leftarrow> currentConn;
                 case cr of
                   (Some c, True) \<Rightarrow> writeJSON e c (reactionFrame mid toLC messageID encrypted sig)
                 | _ \<Rightarrow> State_Monad.return (Some ''relay not ready'')
               }
           }
       }
   }"

definition Session_Resolve :: "'e sess_env_scheme \<Rightarrow> string \<Rightarrow> (session, string \<times> string \<times> string option) state" where
  "Session_Resolve e label = do {
     let lbl = to_lower (trim_suffix label ''.attn'');
     cr \<leftarrow> currentConn;
     (case cr of
        (Some c, True) \<Rightarrow> do {
          (ch, first) \<leftarrow> register_res lbl;
          err \<leftarrow> (if first then writeJSON e c (resolveFrame lbl) else State_Monad.return None);
          case err of
            Some x \<Rightarrow> State_Monad.return ([], [], Some (''send resolve: '' @ x))
          | None \<Rightarrow> do {
              r \<leftarrow> await_reply e ch;
              case r of
                Got (R_resolve (Some (a, pk))) \<Rightarrow> State_Monad.return (a, pk, None)
              | Got _ \<Rightarrow> State_Monad.return ([], [], None)
              | _ \<Rightarrow> do {
                  modify (\<lambda>s. s\<lparr>resWaits := removeWaiter (resWaits s) lbl ch\<rparr>);
                  State_Monad.return ([], [], Some (wait_error (''resolve timeout for '' @ lbl) r))
                }
            }
        }
      | _ \<Rightarrow> State_Monad.return ([], [], Some ''relay not ready''))
   }"

definition QueryPresence ::
  "'e sess_env_scheme \<Rightarrow> string \<Rightarrow> (session, string \<times> string \<times> bool \<times> string option) state" where
  "QueryPresence e address = do {
     let addr = normalize_address address;
     cr \<leftarrow> currentConn;
     (case cr of
        (Some c, True) \<Rightarrow> do {
          (ch, first) \<leftarrow> register_pres addr;
          err \<leftarrow> (if first then writeJSON e c (presenceQueryFrame addr) else State_Monad.return None);
          case err of
            Some x \<Rightarrow> State_Monad.return ([], [], False, Some (''send presence_query: '' @ x))
          | None \<Rightarrow> do {
              r \<leftarrow> await_reply e ch;
              case r of
                Got (R_presence (Some (st, m))) \<Rightarrow> State_Monad.return (st, m, True, None)
              | Got _ \<Rightarrow> State_Monad.return ([], [], False, None)
              | _ \<Rightarrow> do {
                  modify (\<lambda>s. s\<lparr>presWaits := removeWaiter (presWaits s) addr ch\<rparr>);
                  State_Monad.return ([], [], False, Some (wait_error (''presence_query timeout for '' @ addr) r))
                }
            }
        }
      | _ \<Rightarrow> State_Monad.return ([], [], False, Some ''relay not ready''))
   }"

definition SetPresence :: "'e sess_env_scheme \<Rightarrow> string \<Rightarrow> string \<Rightarrow> (session, string option) state" where
  "SetPresence e st message = do {
     cr \<leftarrow> currentConn;
     case cr of
       (Some c, True) \<Rightarrow> writeJSON e c (presenceSetFrame st (null_if_empty message))
     | _ \<Rightarrow> State_Monad.return (Some ''relay not ready'')
   }"

definition DropConn :: "(session, unit) state" where
  "DropConn = do {
     c \<leftarrow> gets conn;
     if c \<noteq> None then close_conn else State_Monad.return ()
   }"

section \<open>HTTP\<close>

definition do_http :: "'e sess_env_scheme \<Rightarrow> http_request \<Rightarrow> (session, string + nat \<times> string) state" where
  "do_http e rq = do {
     t \<leftarrow> sess_tick;
     modify (\<lambda>s. s\<lparr>http_log := http_log s @ [rq]\<rparr>);
     State_Monad.return (http_do e t rq)
   }"

definition SignedRequest ::
  "'e sess_env_scheme \<Rightarrow> string \<Rightarrow> string \<Rightarrow> body \<Rightarrow> (string \<times> string) list \<Rightarrow> (session, string + nat \<times> string) state" where
  "SignedRequest e meth path rqbody extraHeaders = do {
     let full = httpBaseFromWS (relayURL e) @ path;
     case url_path e full of
       Inl err \<Rightarrow> State_Monad.return (Inl err)
     | Inr p \<Rightarrow> do {
         ts \<leftarrow> sess_now e;
         case SignPersonal e (meth @ '':'' @ p @ '':'' @ itoa ts) of
           Inl err \<Rightarrow> State_Monad.return (Inl (''sign request: '' @ err))
         | Inr sig \<Rightarrow> do_http e \<lparr>rq_method = meth, rq_url = full,
             rq_headers = [(''X-Attn-Address'', own_address e), (''X-Attn-Timestamp'', itoa ts),
               (''X-Attn-Signature'', sig)] @ extraHeaders, rq_body = rqbody\<rparr>
       }
   }"

definition PlainGet :: "'e sess_env_scheme \<Rightarrow> string \<Rightarrow> (session, string + nat \<times> string) state" where
  "PlainGet e path = do_http e \<lparr>rq_method = ''GET'', rq_url = httpBaseFromWS (relayURL e) @ path,
     rq_headers = [], rq_body = NoBody\<rparr>"

end
