(* ===== verification/Session_Steps.thy ===== *)
theory Session_Steps
  imports Relay_Session
begin

text \<open>
  The relay session as a concurrent system. \<open>sess_step\<close> is one atomic step of any goroutine: an event
  of the connection, the registration of a waiter, the receipt of its reply, its withdrawal, a
  write. Every request of \<open>Relay_Session\<close> is a sequence of such steps, so an invariant of the
  steps holds between the steps of any number of requests that overlap. The invariant says that
  pending channels are distinct and empty, which is why the reader goroutine never blocks on one.
\<close>

section \<open>Waiter tables\<close>

definition chans :: "waits \<Rightarrow> nat list" where
  "chans m = concat (map snd m)"

definition keys :: "('a \<times> 'b) list \<Rightarrow> 'a list" where
  "keys m = map fst m"

lemma chans_simps [simp]: "chans [] = []" "chans (p # m) = snd p @ chans m"
  by (simp_all add: chans_def)

lemma keys_simps [simp]: "keys [] = []" "keys (p # m) = fst p # keys m"
  by (simp_all add: keys_def)

lemma waiters_simps [simp]:
  "waiters [] k = []" "waiters (p # m) k = (if fst p = k then snd p else waiters m k)"
  by (simp_all add: waiters_def split: prod.split)

lemma waiters_absent: "k \<notin> set (keys m) \<Longrightarrow> waiters m k = []"
  by (induction m) auto

lemma delete_absent: "k \<notin> set (keys m) \<Longrightarrow> AList.delete k m = m"
  by (simp add: keys_def)

lemma mset_chans_delete:
  "distinct (keys m) \<Longrightarrow> mset (chans m) = mset (waiters m k) + mset (chans (AList.delete k m))"
proof (induction m)
  case (Cons p m)
  then show ?case
    by (cases "fst p = k") (simp_all add: delete_absent)
qed simp

lemma mset_chans_update:
  "distinct (keys m) \<Longrightarrow> mset (chans (AList.update k v m)) + mset (waiters m k) = mset (chans m) + mset v"
proof (induction m)
  case (Cons p m)
  then show ?case
    by (cases "fst p = k"; cases p) (simp_all add: ac_simps)
qed simp

lemma distinct_keys_update: "distinct (keys m) \<Longrightarrow> distinct (keys (AList.update k v m))"
  by (simp add: keys_def distinct_update)

lemma distinct_keys_delete: "distinct (keys m) \<Longrightarrow> distinct (keys (AList.delete k m))"
  by (simp add: keys_def distinct_delete)

lemma mset_add_waiter: "distinct (keys m) \<Longrightarrow> mset (chans (add_waiter k ch m)) = mset (ch # chans m)"
  using mset_chans_update [of m k "waiters m k @ [ch]"] by (simp add: add_waiter_def)

lemma distinct_keys_add_waiter: "distinct (keys m) \<Longrightarrow> distinct (keys (add_waiter k ch m))"
  by (simp add: add_waiter_def distinct_keys_update)

lemma distinct_keys_removeWaiter: "distinct (keys m) \<Longrightarrow> distinct (keys (removeWaiter m k ch))"
  by (simp add: removeWaiter_def Let_def distinct_keys_update distinct_keys_delete)

lemma mset_removeWaiter:
  assumes "distinct (keys m)"
  shows "mset (chans (removeWaiter m k ch)) + mset (waiters m k) = mset (chans m) + mset (remove1 ch (waiters m k))"
  using mset_chans_delete [OF assms, of k] mset_chans_update [OF assms, of k "remove1 ch (waiters m k)"]
  by (cases "remove1 ch (waiters m k) = []") (simp_all add: removeWaiter_def Let_def flip: mset_remove1)

lemma mset_removeWaiter_subset: "distinct (keys m) \<Longrightarrow> mset (chans (removeWaiter m k ch)) \<subseteq># mset (chans m)"
proof -
  assume d: "distinct (keys m)"
  have "mset (remove1 ch (waiters m k)) \<subseteq># mset (waiters m k)"
    by (simp add: diff_subset_eq_self)
  with mset_removeWaiter [OF d, of k ch] show ?thesis
    by (metis (no_types, lifting) add.commute mset_subset_eq_mono_add_left_cancel mset_subset_eq_mono_add_right_cancel)
qed

lemma waiters_subset: "mset (waiters m k) \<subseteq># mset (chans m)"
  by (induction m) (auto simp: subset_mset.add_increasing subset_mset.add_increasing2)

lemma distinct_subset_mset: "mset xs \<subseteq># mset ys \<Longrightarrow> distinct ys \<Longrightarrow> distinct xs"
proof -
  assume sub: "mset xs \<subseteq># mset ys" and ys: "distinct ys"
  obtain zs where "mset zs = mset ys - mset xs"
    using ex_mset by blast
  then have "mset ys = mset (xs @ zs)"
    using sub by simp
  then show "distinct xs"
    using ys mset_eq_imp_distinct_iff by fastforce
qed

section \<open>Atomic steps\<close>

inductive sess_step :: "'e sess_env_scheme \<Rightarrow> session \<Rightarrow> session \<Rightarrow> bool" for e where
  event: "sess_step e s (snd (run_state (session_event e ev) s))"
| tick: "sess_step e s (s\<lparr>x_tick := n\<rparr>)"
| wrote: "sess_step e s (s\<lparr>written := written s @ [f]\<rparr>)"
| prime: "sess_step e s (s\<lparr>keyCache := m\<rparr>)"
| http: "sess_step e s (s\<lparr>http_log := l\<rparr>)"
| reg_key: "sess_step e s (s\<lparr>next_chan := next_chan s + 1, keyWaits := add_waiter k (next_chan s) (keyWaits s)\<rparr>)"
| reg_res: "sess_step e s (s\<lparr>next_chan := next_chan s + 1, resWaits := add_waiter k (next_chan s) (resWaits s)\<rparr>)"
| reg_pres: "sess_step e s (s\<lparr>next_chan := next_chan s + 1, presWaits := add_waiter k (next_chan s) (presWaits s)\<rparr>)"
| reg_deliv: "sess_step e s (s\<lparr>next_chan := next_chan s + 1, delivWait := AList.update k (next_chan s) (delivWait s)\<rparr>)"
| recv: "sess_step e s (s\<lparr>buf := (buf s)(ch := None)\<rparr>)"
| leave_key: "sess_step e s (s\<lparr>keyWaits := removeWaiter (keyWaits s) k ch\<rparr>)"
| leave_res: "sess_step e s (s\<lparr>resWaits := removeWaiter (resWaits s) k ch\<rparr>)"
| leave_pres: "sess_step e s (s\<lparr>presWaits := removeWaiter (presWaits s) k ch\<rparr>)"
| leave_deliv: "sess_step e s (s\<lparr>delivWait := AList.delete k (delivWait s)\<rparr>)"
| drop: "sess_step e s (s\<lparr>conn_closed := True\<rparr>)"
| ready_done: "sess_step e s (s\<lparr>onReadyActive := False\<rparr>)"
| take_callbacks: "sess_step e s (s\<lparr>callbacks := []\<rparr>)"

interpretation steps: effect "(sess_step e)\<^sup>*\<^sup>*" for e
  by unfold_locales auto

lemma step_modify: "(\<And>s. sess_step e s (f s)) \<Longrightarrow> state_io_rel (sess_step e)\<^sup>*\<^sup>* (modify f)"
  by (rule steps.eff_modify) blast

lemma sess_tick_steps [effects]: "state_io_rel (sess_step e)\<^sup>*\<^sup>* sess_tick"
  by (auto simp: sess_tick_def state_io_rel_def intro: sess_step.tick)

lemma sess_now_steps [effects]: "state_io_rel (sess_step e)\<^sup>*\<^sup>* (sess_now e')"
  unfolding sess_now_def by (intro effects)

lemma newID_steps [effects]: "state_io_rel (sess_step e)\<^sup>*\<^sup>* (newID e')"
  unfolding newID_def by (intro effects)

lemma writeJSON_steps [effects]: "state_io_rel (sess_step e)\<^sup>*\<^sup>* (writeJSON e' c f)"
  unfolding writeJSON_def by (intro effects step_modify sess_step.wrote)

lemma event_steps [effects]: "state_io_rel (sess_step e)\<^sup>*\<^sup>* (session_event e ev)"
  by (auto simp: state_io_rel_def intro: sess_step.event)

lemma currentConn_steps [effects]: "state_io_rel (sess_step e)\<^sup>*\<^sup>* currentConn"
  unfolding currentConn_def by (intro effects)

lemma IsReady_steps [effects]: "state_io_rel (sess_step e)\<^sup>*\<^sup>* IsReady"
  unfolding IsReady_def by (intro effects)

lemma CachedKey_steps [effects]: "state_io_rel (sess_step e)\<^sup>*\<^sup>* (CachedKey a)"
  unfolding CachedKey_def by (intro effects)

lemma PrimeKey_steps [effects]: "state_io_rel (sess_step e)\<^sup>*\<^sup>* (PrimeKey a k)"
  unfolding PrimeKey_def by (intro effects step_modify sess_step.prime)

lemma await_reply_steps [effects]: "state_io_rel (sess_step e)\<^sup>*\<^sup>* (await_reply e ch)"
  unfolding await_reply_def
  by (rule steps.eff_bind, intro effects, rule steps.eff_bind, intro effects, rule steps.eff_bind, intro effects)
    (auto split: wait_end.split intro!: effects step_modify sess_step.recv)

lemma run_register:
  "run_state (register_key k) s =
     ((next_chan s, length (waiters (add_waiter k (next_chan s) (keyWaits s)) k) = 1),
      s\<lparr>next_chan := next_chan s + 1, keyWaits := add_waiter k (next_chan s) (keyWaits s)\<rparr>)"
  "run_state (register_res k) s =
     ((next_chan s, length (waiters (add_waiter k (next_chan s) (resWaits s)) k) = 1),
      s\<lparr>next_chan := next_chan s + 1, resWaits := add_waiter k (next_chan s) (resWaits s)\<rparr>)"
  "run_state (register_pres k) s =
     ((next_chan s, length (waiters (add_waiter k (next_chan s) (presWaits s)) k) = 1),
      s\<lparr>next_chan := next_chan s + 1, presWaits := add_waiter k (next_chan s) (presWaits s)\<rparr>)"
  "run_state (register_deliv k) s =
     (next_chan s, s\<lparr>next_chan := next_chan s + 1, delivWait := AList.update k (next_chan s) (delivWait s)\<rparr>)"
  by (simp_all add: register_key_def register_res_def register_pres_def register_deliv_def make_chan_def)

lemma register_steps [effects]:
  "state_io_rel (sess_step e)\<^sup>*\<^sup>* (register_key k)" "state_io_rel (sess_step e)\<^sup>*\<^sup>* (register_res k)"
  "state_io_rel (sess_step e)\<^sup>*\<^sup>* (register_pres k)" "state_io_rel (sess_step e)\<^sup>*\<^sup>* (register_deliv k)"
  unfolding state_io_rel_def run_register
  by (auto intro: sess_step.reg_key sess_step.reg_res sess_step.reg_pres sess_step.reg_deliv simp del: One_nat_def)

lemma eff_case_awaited [effects]:
  "(\<And>v. r = Got v \<Longrightarrow> state_io_rel (sess_step e)\<^sup>*\<^sup>* (f v)) \<Longrightarrow>
   (r = Timed_out \<Longrightarrow> state_io_rel (sess_step e)\<^sup>*\<^sup>* m) \<Longrightarrow>
   (\<And>x. r = Ctx_done x \<Longrightarrow> state_io_rel (sess_step e)\<^sup>*\<^sup>* (g x)) \<Longrightarrow>
   state_io_rel (sess_step e)\<^sup>*\<^sup>* (case r of Got v \<Rightarrow> f v | Timed_out \<Rightarrow> m | Ctx_done x \<Rightarrow> g x)"
  by (cases r) auto

lemma eff_case_reply [effects]:
  "(\<And>x. r = R_key x \<Longrightarrow> state_io_rel (sess_step e)\<^sup>*\<^sup>* (f1 x)) \<Longrightarrow>
   (\<And>x. r = R_resolve x \<Longrightarrow> state_io_rel (sess_step e)\<^sup>*\<^sup>* (f2 x)) \<Longrightarrow>
   (\<And>x. r = R_presence x \<Longrightarrow> state_io_rel (sess_step e)\<^sup>*\<^sup>* (f3 x)) \<Longrightarrow>
   (\<And>x. r = R_delivery x \<Longrightarrow> state_io_rel (sess_step e)\<^sup>*\<^sup>* (f4 x)) \<Longrightarrow>
   state_io_rel (sess_step e)\<^sup>*\<^sup>* (case r of R_key x \<Rightarrow> f1 x | R_resolve x \<Rightarrow> f2 x | R_presence x \<Rightarrow> f3 x | R_delivery x \<Rightarrow> f4 x)"
  by (cases r) auto

lemma GetKey_steps [effects]: "state_io_rel (sess_step e)\<^sup>*\<^sup>* (GetKey e a)"
  unfolding GetKey_def Let_def
  by (intro effects step_modify sess_step.leave_key)

lemma sendPreparedMessage_steps [effects]: "state_io_rel (sess_step e)\<^sup>*\<^sup>* (sendPreparedMessage e i a x y)"
  unfolding sendPreparedMessage_def
  by (intro effects step_modify sess_step.leave_deliv)

lemma recipient_key_steps [effects]: "state_io_rel (sess_step e)\<^sup>*\<^sup>* (recipient_key e a k h)"
  unfolding recipient_key_def by (intro effects)

lemma Send_steps [effects]: "state_io_rel (sess_step e)\<^sup>*\<^sup>* (Session_Send e a m k)"
  unfolding Session_Send_def Let_def by (intro effects)

lemma SendQueued_steps [effects]: "state_io_rel (sess_step e)\<^sup>*\<^sup>* (SendQueued e i a x y)"
  unfolding SendQueued_def by (intro effects)

lemma SendReaction_steps [effects]: "state_io_rel (sess_step e)\<^sup>*\<^sup>* (SendReaction e a i m k)"
  unfolding SendReaction_def Let_def by (intro effects)

lemma Resolve_steps [effects]: "state_io_rel (sess_step e)\<^sup>*\<^sup>* (Session_Resolve e l)"
  unfolding Session_Resolve_def Let_def by (intro effects step_modify sess_step.leave_res)

lemma QueryPresence_steps [effects]: "state_io_rel (sess_step e)\<^sup>*\<^sup>* (QueryPresence e a)"
  unfolding QueryPresence_def Let_def by (intro effects step_modify sess_step.leave_pres)

lemma SetPresence_steps [effects]: "state_io_rel (sess_step e)\<^sup>*\<^sup>* (SetPresence e p m)"
  unfolding SetPresence_def by (intro effects)

lemma DropConn_steps [effects]: "state_io_rel (sess_step e)\<^sup>*\<^sup>* DropConn"
  unfolding DropConn_def close_conn_def by (intro effects step_modify sess_step.drop)

lemma do_http_steps [effects]: "state_io_rel (sess_step e)\<^sup>*\<^sup>* (do_http e' rq)"
  unfolding do_http_def by (intro effects step_modify sess_step.http)

lemma SignedRequest_steps [effects]: "state_io_rel (sess_step e)\<^sup>*\<^sup>* (SignedRequest e' m p b h)"
  unfolding SignedRequest_def Let_def by (intro effects)

lemma PlainGet_steps [effects]: "state_io_rel (sess_step e)\<^sup>*\<^sup>* (PlainGet e' p)"
  unfolding PlainGet_def by (intro effects)

section \<open>The channel invariant\<close>

text \<open>
  \<open>A\<close>, \<open>B\<close>, \<open>C\<close> are the pending key, resolve and presence requests, \<open>D\<close> the pending deliveries,
  \<open>b\<close> the buffers and \<open>n\<close> the number of channels made. Every channel of a pending request is pending
  once, and empty.
\<close>

definition chan_inv :: "waits \<Rightarrow> waits \<Rightarrow> waits \<Rightarrow> (string \<times> nat) list \<Rightarrow> (nat \<Rightarrow> reply option) \<Rightarrow> nat \<Rightarrow> bool" where
  "chan_inv A B C D b n \<longleftrightarrow>
     distinct (keys A) \<and> distinct (keys B) \<and> distinct (keys C) \<and>
     distinct (chans A @ chans B @ chans C) \<and>
     (\<forall>c \<in> set (chans A @ chans B @ chans C). c < n \<and> b c = None) \<and>
     (\<forall>c \<in> snd ` set D. c < n \<and> c \<notin> set (chans A @ chans B @ chans C)) \<and>
     (\<forall>c. n \<le> c \<longrightarrow> b c = None)"

text \<open>The buffers after \<open>r\<close> was sent to the channels \<open>ws\<close>.\<close>

definition fill_all :: "nat list \<Rightarrow> reply \<Rightarrow> (nat \<Rightarrow> reply option) \<Rightarrow> nat \<Rightarrow> reply option" where
  "fill_all ws r b c = (if c \<in> set ws then Some r else b c)"

lemma fill_all_simps [simp]: "fill_all [] r b = b" "fill_all ws r (b(w \<mapsto> r)) = fill_all (w # ws) r b"
  by (auto simp: fill_all_def fun_eq_iff)

lemma chan_inv_swap_res: "chan_inv A B C D b n \<longleftrightarrow> chan_inv B A C D b n"
  unfolding chan_inv_def by auto

lemma chan_inv_swap_pres: "chan_inv A B C D b n \<longleftrightarrow> chan_inv C B A D b n"
  unfolding chan_inv_def by auto

lemma chan_inv_shrink:
  assumes "chan_inv A B C D b n" "distinct (keys A')" "mset (chans A') \<subseteq># mset (chans A)"
  shows "chan_inv A' B C D b n"
proof -
  have "set (chans A') \<subseteq> set (chans A)"
    using assms(3) by (metis set_mset_mono set_mset_mset)
  moreover have "distinct (chans A')"
    using assms(1,3) by (auto simp: chan_inv_def intro: distinct_subset_mset)
  ultimately show ?thesis
    using assms(1,2) unfolding chan_inv_def by auto
qed

lemma chan_inv_leave: "chan_inv A B C D b n \<Longrightarrow> chan_inv (removeWaiter A k ch) B C D b n"
  by (rule chan_inv_shrink)
    (auto simp: chan_inv_def distinct_keys_removeWaiter mset_removeWaiter_subset)

lemma chan_inv_register:
  assumes "chan_inv A B C D b n"
  shows "chan_inv (add_waiter k n A) B C D b (n + 1)"
proof -
  have m: "mset (chans (add_waiter k n A)) = mset (n # chans A)"
    using assms by (simp add: mset_add_waiter chan_inv_def)
  then have eq: "set (chans (add_waiter k n A)) = insert n (set (chans A))"
    by (metis list.simps(15) set_mset_mset)
  have "n \<notin> set (chans A @ chans B @ chans C)"
    using assms unfolding chan_inv_def by blast
  moreover from this have "distinct (chans (add_waiter k n A))"
    using assms mset_eq_imp_distinct_iff [OF m] by (simp add: chan_inv_def)
  moreover have "distinct (keys (add_waiter k n A))"
    using assms by (simp add: chan_inv_def distinct_keys_add_waiter)
  ultimately show ?thesis
    using assms unfolding chan_inv_def by (simp add: eq less_Suc_eq) blast
qed

lemma chan_inv_answer:
  assumes "chan_inv A B C D b n"
  shows "chan_inv (AList.delete k A) B C D (fill_all (waiters A k) r (b)) n"
proof -
  have m: "mset (chans A) = mset (waiters A k @ chans (AList.delete k A))"
    using assms by (simp add: mset_chans_delete [symmetric] chan_inv_def)
  then have s: "set (chans A) = set (waiters A k) \<union> set (chans (AList.delete k A))"
    by (metis set_append set_mset_mset)
  have "distinct (waiters A k @ chans (AList.delete k A))"
    using assms mset_eq_imp_distinct_iff [OF m] by (simp add: chan_inv_def)
  then show ?thesis
    using assms s unfolding chan_inv_def by (auto simp: fill_all_def distinct_keys_delete Ball_def dest: leD)
qed

lemma chan_inv_drain:
  "chan_inv A B C D b n \<Longrightarrow> chan_inv [] B C D (fill_all (chans A) r (b)) n"
  unfolding chan_inv_def by (auto simp: fill_all_def Ball_def dest: leD)

lemma chan_inv_deliv:
  "chan_inv A B C D b n \<Longrightarrow> chan_inv A B C (AList.update k n D) b (n + 1)"
  "chan_inv A B C D b n \<Longrightarrow> chan_inv A B C (AList.delete k D) b n"
  "chan_inv A B C D b n \<Longrightarrow> map_of D k = Some w \<Longrightarrow> chan_inv A B C D (b(w := Some r)) n"
  "chan_inv A B C D b n \<Longrightarrow> chan_inv A B C D (b(ch := None)) n"
proof -
  assume inv: "chan_inv A B C D b n"
  have u: "snd ` set (AList.update k n D) \<subseteq> insert n (snd ` set D)"
    by (induction D) auto
  have "\<forall>c \<in> insert n (snd ` set D). c < n + 1 \<and> c \<notin> set (chans A @ chans B @ chans C)"
    using inv unfolding chan_inv_def by (auto simp: less_Suc_eq)
  with u have "\<forall>c \<in> snd ` set (AList.update k n D). c < n + 1 \<and> c \<notin> set (chans A @ chans B @ chans C)"
    by blast
  then show "chan_inv A B C (AList.update k n D) b (n + 1)"
    using inv unfolding chan_inv_def by (simp add: less_Suc_eq)
  show "chan_inv A B C (AList.delete k D) b n"
    using inv unfolding chan_inv_def by (auto simp: AList.delete_eq)
  show "map_of D k = Some w \<Longrightarrow> chan_inv A B C D (b(w := Some r)) n"
    using inv unfolding chan_inv_def by (force dest: map_of_SomeD)
  show "chan_inv A B C D (b(ch := None)) n"
    using inv unfolding chan_inv_def by simp
qed

section \<open>Invariants of the session\<close>

definition wf_chan :: "session \<Rightarrow> bool" where
  "wf_chan s \<longleftrightarrow>
     chan_inv (keyWaits s) (resWaits s) (presWaits s) (delivWait s) (buf s) (next_chan s) \<and> \<not> stuck s"

text \<open>\<open>readyCh\<close> is closed exactly while the session is authenticated, which needs a connection.\<close>

definition wf_auth :: "session \<Rightarrow> bool" where
  "wf_auth s \<longleftrightarrow> authed s = ready_closed s \<and> (conn s = None \<longrightarrow> \<not> authed s)"

lemma for_each_modify: "run_state (for_each ws (\<lambda>w. modify (f w))) s = ((), fold f ws s)"
  by (induction ws arbitrary: s) auto

lemma fold_send_chan:
  "distinct ws \<Longrightarrow> \<forall>w \<in> set ws. buf s w = None \<Longrightarrow> \<not> stuck s \<Longrightarrow>
   fold (send_chan r) ws s = s\<lparr>buf := fill_all ws r (buf s)\<rparr>"
proof (induction ws arbitrary: s)
  case (Cons a ws)
  have "fold (send_chan r) ws (s\<lparr>buf := (buf s)(a \<mapsto> r)\<rparr>) =
      (s\<lparr>buf := (buf s)(a \<mapsto> r)\<rparr>)\<lparr>buf := fill_all ws r ((buf s)(a \<mapsto> r))\<rparr>"
    by (subst Cons.IH) (use Cons.prems in auto)
  then show ?case using Cons.prems by (simp add: send_chan_def [of r a s] fill_def)
qed simp

lemma fold_try_send_chan:
  "distinct ws \<Longrightarrow> \<forall>w \<in> set ws. buf s w = None \<Longrightarrow>
   fold (try_send_chan r) ws s = s\<lparr>buf := fill_all ws r (buf s)\<rparr>"
proof (induction ws arbitrary: s)
  case (Cons a ws)
  have "fold (try_send_chan r) ws (s\<lparr>buf := (buf s)(a \<mapsto> r)\<rparr>) =
      (s\<lparr>buf := (buf s)(a \<mapsto> r)\<rparr>)\<lparr>buf := fill_all ws r ((buf s)(a \<mapsto> r))\<rparr>"
    by (subst Cons.IH) (use Cons.prems in auto)
  then show ?case using Cons.prems by (simp add: try_send_chan_def [of r a s] fill_def)
qed simp

lemma waiters_of_inv:
  assumes "chan_inv A B C D b n"
  shows "distinct (waiters A k)" "\<forall>w \<in> set (waiters A k). b w = None"
proof -
  have "mset (waiters A k) \<subseteq># mset (chans A)"
    by (rule waiters_subset)
  then have "set (waiters A k) \<subseteq> set (chans A)" "distinct (chans A) \<Longrightarrow> distinct (waiters A k)"
    by (metis set_mset_mono set_mset_mset, rule distinct_subset_mset)
  then show "distinct (waiters A k)" "\<forall>w \<in> set (waiters A k). b w = None"
    using assms unfolding chan_inv_def by auto
qed

text \<open>Answering the waiters of a key: what the reader does, and that it never blocks.\<close>

lemma answer_key:
  assumes "wf_chan s"
  shows "run_state (take_keyWaits k \<bind> (\<lambda>ws. for_each ws (\<lambda>w. modify (send_chan r w)))) s =
    ((), s\<lparr>keyWaits := AList.delete k (keyWaits s),
      buf := (fill_all (waiters (keyWaits s) k) r (buf s))\<rparr>)"
  using assms waiters_of_inv [of "keyWaits s" "resWaits s" "presWaits s" "delivWait s" "buf s" "next_chan s" k]
  by (simp add: take_keyWaits_def for_each_modify fold_send_chan wf_chan_def)

lemma answer_res:
  assumes "wf_chan s"
  shows "run_state (take_resWaits k \<bind> (\<lambda>ws. for_each ws (\<lambda>w. modify (send_chan r w)))) s =
    ((), s\<lparr>resWaits := AList.delete k (resWaits s),
      buf := (fill_all (waiters (resWaits s) k) r (buf s))\<rparr>)"
  using assms waiters_of_inv [of "resWaits s" "keyWaits s" "presWaits s" "delivWait s" "buf s" "next_chan s" k]
  by (simp add: take_resWaits_def for_each_modify fold_send_chan wf_chan_def chan_inv_swap_res [of "resWaits s"])

lemma answer_pres:
  assumes "wf_chan s"
  shows "run_state (take_presWaits k \<bind> (\<lambda>ws. for_each ws (\<lambda>w. modify (send_chan r w)))) s =
    ((), s\<lparr>presWaits := AList.delete k (presWaits s),
      buf := (fill_all (waiters (presWaits s) k) r (buf s))\<rparr>)"
  using assms waiters_of_inv [of "presWaits s" "resWaits s" "keyWaits s" "delivWait s" "buf s" "next_chan s" k]
  by (simp add: take_presWaits_def for_each_modify fold_send_chan wf_chan_def chan_inv_swap_pres [of "presWaits s"])

lemma answer_key_wf:
  "state_io_rel (keeps wf_chan) (take_keyWaits k \<bind> (\<lambda>ws. for_each ws (\<lambda>w. modify (send_chan r w))))"
  unfolding state_io_rel_def keeps_def
proof (intro allI impI)
  fix s assume wf: "wf_chan s"
  then show "wf_chan (snd (run_state (take_keyWaits k \<bind> (\<lambda>ws. for_each ws (\<lambda>w. modify (send_chan r w)))) s))"
    unfolding answer_key [OF wf] by (simp add: wf_chan_def chan_inv_answer)
qed

lemma answer_res_wf:
  "state_io_rel (keeps wf_chan) (take_resWaits k \<bind> (\<lambda>ws. for_each ws (\<lambda>w. modify (send_chan r w))))"
  unfolding state_io_rel_def keeps_def
proof (intro allI impI)
  fix s assume wf: "wf_chan s"
  then show "wf_chan (snd (run_state (take_resWaits k \<bind> (\<lambda>ws. for_each ws (\<lambda>w. modify (send_chan r w)))) s))"
    unfolding answer_res [OF wf]
    using chan_inv_answer [of "resWaits s" "keyWaits s" "presWaits s"]
    by (simp add: wf_chan_def chan_inv_swap_res [of "keyWaits s"])
qed

lemma answer_pres_wf:
  "state_io_rel (keeps wf_chan) (take_presWaits k \<bind> (\<lambda>ws. for_each ws (\<lambda>w. modify (send_chan r w))))"
  unfolding state_io_rel_def keeps_def
proof (intro allI impI)
  fix s assume wf: "wf_chan s"
  then show "wf_chan (snd (run_state (take_presWaits k \<bind> (\<lambda>ws. for_each ws (\<lambda>w. modify (send_chan r w)))) s))"
    unfolding answer_pres [OF wf]
    using chan_inv_answer [of "presWaits s" "resWaits s" "keyWaits s"]
    by (simp add: wf_chan_def chan_inv_swap_pres [of "keyWaits s"])
qed

text \<open>The fields of the channel invariant.\<close>

definition channels :: "session \<Rightarrow> waits \<times> waits \<times> waits \<times> (string \<times> nat) list \<times> (nat \<Rightarrow> reply option) \<times> nat \<times> bool" where
  "channels s = (keyWaits s, resWaits s, presWaits s, delivWait s, buf s, next_chan s, stuck s)"

lemma wf_chan_cong: "channels t = channels s \<Longrightarrow> wf_chan t = wf_chan s"
  by (simp add: wf_chan_def channels_def)

lemma sess_tick_channels [effects]: "state_io_rel (same channels) sess_tick"
  by (simp add: sess_tick_def state_io_rel_def same_def channels_def)

lemma sess_now_channels [effects]: "state_io_rel (same channels) (sess_now e)"
  unfolding sess_now_def by (intro effects)

lemma call_back_channels [effects]: "state_io_rel (same channels) (call_back cb)"
  unfolding call_back_def by (intro frame.eff_modify) (simp add: same_def channels_def)

lemma writeJSON_channels [effects]: "state_io_rel (same channels) (writeJSON e c f)"
  unfolding writeJSON_def by (intro effects frame.eff_modify) (simp add: same_def channels_def)

lemma close_conn_channels [effects]: "state_io_rel (same channels) close_conn"
  unfolding close_conn_def by (intro frame.eff_modify) (simp add: same_def channels_def)

lemma cacheKey_channels [effects]: "state_io_rel (same channels) (cacheKey a k)"
  unfolding cacheKey_def by (intro effects frame.eff_modify) (simp add: same_def channels_def)

lemma launchOnReady_channels [effects]: "state_io_rel (same channels) launchOnReady"
  unfolding launchOnReady_def by (intro effects frame.eff_modify) (simp add: same_def channels_def)

lemma handle_auth_ok_channels [effects]: "state_io_rel (same channels) (handle_auth_ok e)"
  unfolding handle_auth_ok_def by (intro effects frame.eff_modify) (simp_all add: same_def channels_def)

lemma handle_challenge_channels [effects]: "state_io_rel (same channels) (handle_challenge e c m)"
  unfolding handle_challenge_def by (intro effects)

lemma handleInboundMessage_channels [effects]: "state_io_rel (same channels) (handleInboundMessage e c m)"
  unfolding handleInboundMessage_def emit_def ack_def by (intro effects)

lemma handleInboundReaction_channels [effects]: "state_io_rel (same channels) (handleInboundReaction e c m)"
  unfolding handleInboundReaction_def emit_def ack_def by (intro effects)

lemma channels_keep: "state_io_rel (same channels) m \<Longrightarrow> state_io_rel (keeps wf_chan) m"
  by (auto simp: state_io_rel_def same_def keeps_def dest: wf_chan_cong)

lemma handle_key_response_wf: "state_io_rel (keeps wf_chan) (handle_key_response m)"
  unfolding handle_key_response_def Let_def
proof (rule kept.eff_bind)
  show "state_io_rel (keeps wf_chan) (case sm_PublicKey m of None \<Rightarrow> State_Monad.return ()
      | Some pk \<Rightarrow> if pk \<noteq> [] then cacheKey (normalize_address (sm_Address m)) pk else State_Monad.return ())"
    by (rule channels_keep) (intro effects)
  show "state_io_rel (keeps wf_chan) (take_keyWaits (normalize_address (sm_Address m)) \<bind>
      (\<lambda>ws. for_each ws (\<lambda>w. modify (send_chan (R_key (sm_PublicKey m)) w))))" for x :: unit
    by (rule answer_key_wf)
qed

lemma handle_resolve_response_wf: "state_io_rel (keeps wf_chan) (handle_resolve_response m)"
  unfolding handle_resolve_response_def Let_def
proof (rule kept.eff_bind)
  show "state_io_rel (keeps wf_chan)
      (case (if sm_Address m \<noteq> [] then Some (normalize_address (sm_Address m), null_string (sm_PublicKey m)) else None,
         sm_PublicKey m) of (Some r, Some pk) \<Rightarrow> cacheKey (fst r) pk | _ \<Rightarrow> State_Monad.return ())"
    by (rule channels_keep) (intro effects)
  show "state_io_rel (keeps wf_chan) (take_resWaits (to_lower (sm_Name m)) \<bind>
      (\<lambda>ws. for_each ws (\<lambda>w. modify (send_chan (R_resolve r) w))))" for r :: "(string \<times> string) option" and x :: unit
    by (rule answer_res_wf)
qed

lemma handle_presence_response_wf: "state_io_rel (keeps wf_chan) (handle_presence_response m)"
  unfolding handle_presence_response_def by (rule answer_pres_wf)

lemma handle_delivery_status_wf: "state_io_rel (keeps wf_chan) (handle_delivery_status m)"
  unfolding handle_delivery_status_def
  by (rule kept.eff_modify)
    (auto simp: keeps_def wf_chan_def try_send_chan_def fill_def chan_inv_deliv(3) split: option.split)

lemma handle_wf: "state_io_rel (keeps wf_chan) (handle e c m)"
  unfolding handle_def
  by (intro kept.eff_if handle_key_response_wf handle_resolve_response_wf handle_presence_response_wf
      handle_delivery_status_wf kept.eff_return channels_keep [OF handle_challenge_channels]
      channels_keep [OF handle_auth_ok_channels] channels_keep [OF close_conn_channels]
      channels_keep [OF handleInboundMessage_channels] channels_keep [OF handleInboundReaction_channels])

lemma drainWaiters_eq:
  assumes "wf_chan s"
  shows "drainWaiters s = s\<lparr>keyWaits := [], resWaits := [], presWaits := [],
    buf := fill_all (chans (presWaits s)) (R_presence None) (fill_all (chans (resWaits s)) (R_resolve None)
      (fill_all (chans (keyWaits s)) (R_key None) (buf s)))\<rparr>"
proof -
  have d: "distinct (chans (keyWaits s))" "distinct (chans (resWaits s))" "distinct (chans (presWaits s))"
    and e: "\<forall>w \<in> set (chans (keyWaits s)). buf s w = None"
      "\<forall>w \<in> set (chans (resWaits s)). fill_all (chans (keyWaits s)) (R_key None) (buf s) w = None"
      "\<forall>w \<in> set (chans (presWaits s)). fill_all (chans (resWaits s)) (R_resolve None)
        (fill_all (chans (keyWaits s)) (R_key None) (buf s)) w = None"
    using assms unfolding wf_chan_def chan_inv_def fill_all_def by auto
  show ?thesis
    by (simp add: drainWaiters_def drain_def Let_def fold_try_send_chan d e flip: chans_def)
qed

lemma drainWaiters_wf: "wf_chan s \<Longrightarrow> wf_chan (drainWaiters s)"
proof -
  assume wf: "wf_chan s"
  let ?b1 = "fill_all (chans (keyWaits s)) (R_key None) (buf s)"
  let ?b2 = "fill_all (chans (resWaits s)) (R_resolve None) ?b1"
  let ?b3 = "fill_all (chans (presWaits s)) (R_presence None) ?b2"
  have "chan_inv [] (resWaits s) (presWaits s) (delivWait s) ?b1 (next_chan s)"
    using wf by (simp add: wf_chan_def chan_inv_drain)
  then have "chan_inv [] [] (presWaits s) (delivWait s) ?b2 (next_chan s)"
    by (subst chan_inv_swap_res) (rule chan_inv_drain, subst chan_inv_swap_res)
  then have "chan_inv [] [] [] (delivWait s) ?b3 (next_chan s)"
    by (subst chan_inv_swap_pres) (rule chan_inv_drain, subst chan_inv_swap_pres)
  with wf show ?thesis
    by (simp add: drainWaiters_eq [OF wf]) (simp add: wf_chan_def)
qed

lemma connect_tail_wf: "state_io_rel (keeps wf_chan) connect_tail"
proof -
  have "wf_chan s \<Longrightarrow> wf_chan ((drainWaiters (s\<lparr>conn := None, authed := False, ready_closed := False\<rparr>))\<lparr>authed_token := False\<rparr>)" for s
    using drainWaiters_wf [of "s\<lparr>conn := None, authed := False, ready_closed := False\<rparr>"]
    by (simp add: wf_chan_def)
  then show ?thesis
    by (simp add: connect_tail_def state_io_rel_def keeps_def)
qed

lemma connection_channels:
  "state_io_rel (same channels) (connect_start e)" "state_io_rel (same channels) (pong e)"
  "state_io_rel (same channels) auth_timer" "state_io_rel (same channels) (keepAlive_tick e c)"
  unfolding connect_start_def pong_def auth_timer_def keepAlive_tick_def
  by (intro effects frame.eff_modify; simp add: same_def channels_def)+

lemma eff_case_event:
  assumes "effect R"
    and "\<And>m. ev = Ev_Frame m \<Longrightarrow> state_io_rel R (f1 m)" "state_io_rel R f2" "state_io_rel R f3" "state_io_rel R f4"
    "state_io_rel R f5" "state_io_rel R f6" "state_io_rel R f7" "state_io_rel R f8"
  shows "state_io_rel R (case ev of Ev_Frame m \<Rightarrow> f1 m | Ev_Pong \<Rightarrow> f2 | Ev_OtherFrame \<Rightarrow> f3 | Ev_ReadError \<Rightarrow> f4
    | Ev_Connect \<Rightarrow> f5 | Ev_DialFailed \<Rightarrow> f6 | Ev_AuthTimer \<Rightarrow> f7 | Ev_Keepalive \<Rightarrow> f8)"
  using assms(2-) by (cases ev) auto

lemma session_event_wf: "state_io_rel (keeps wf_chan) (session_event e ev)"
  unfolding session_event_def
  by (intro kept.eff_bind kept.eff_gets kept.eff_if kept.eff_case_option eff_case_event kept.effect_axioms
      kept.eff_return handle_wf connect_tail_wf connection_channels [THEN channels_keep])

theorem sess_step_wf_chan: "sess_step e s t \<Longrightarrow> wf_chan s \<Longrightarrow> wf_chan t"
proof (induction rule: sess_step.induct)
  case (event s ev)
  then show ?case
    using session_event_wf [of e ev] by (simp add: state_io_rel_def keeps_def)
next
  case (reg_res s k)
  then show ?case
    using chan_inv_register [of "resWaits s" "keyWaits s" "presWaits s"]
    by (simp add: wf_chan_def chan_inv_swap_res [of "keyWaits s"])
next
  case (reg_pres s k)
  then show ?case
    using chan_inv_register [of "presWaits s" "resWaits s" "keyWaits s"]
    by (simp add: wf_chan_def chan_inv_swap_pres [of "keyWaits s"])
next
  case (leave_res s k ch)
  then show ?case
    using chan_inv_leave [of "resWaits s" "keyWaits s" "presWaits s"]
    by (simp add: wf_chan_def chan_inv_swap_res [of "keyWaits s"])
next
  case (leave_pres s k ch)
  then show ?case
    using chan_inv_leave [of "presWaits s" "resWaits s" "keyWaits s"]
    by (simp add: wf_chan_def chan_inv_swap_pres [of "keyWaits s"])
qed (use chan_inv_register chan_inv_leave chan_inv_deliv in \<open>auto simp: wf_chan_def\<close>)

subsection \<open>Authentication\<close>

definition auth_state :: "session \<Rightarrow> bool \<times> bool \<times> nat option \<times> bool" where
  "auth_state s = (authed s, ready_closed s, conn s, panicked s)"

lemma wf_auth_cong: "auth_state t = auth_state s \<Longrightarrow> wf_auth t = wf_auth s"
  by (simp add: wf_auth_def auth_state_def)

lemma auth_frame [effects]:
  "state_io_rel (same auth_state) sess_tick" "state_io_rel (same auth_state) (call_back cb)"
  "state_io_rel (same auth_state) close_conn" "state_io_rel (same auth_state) (take_keyWaits k)"
  "state_io_rel (same auth_state) (take_resWaits k)" "state_io_rel (same auth_state) (take_presWaits k)"
  "state_io_rel (same auth_state) (modify (send_chan r w))"
  by (auto simp: sess_tick_def call_back_def close_conn_def take_keyWaits_def take_resWaits_def take_presWaits_def
      send_chan_def fill_def state_io_rel_def same_def auth_state_def)

lemma sess_now_auth [effects]: "state_io_rel (same auth_state) (sess_now e)"
  unfolding sess_now_def by (intro effects)

lemma writeJSON_auth [effects]: "state_io_rel (same auth_state) (writeJSON e c f)"
  unfolding writeJSON_def by (intro effects frame.eff_modify) (simp add: same_def auth_state_def)

lemma cacheKey_auth [effects]: "state_io_rel (same auth_state) (cacheKey a k)"
  unfolding cacheKey_def by (intro effects frame.eff_modify) (simp add: same_def auth_state_def)

lemma launchOnReady_auth [effects]: "state_io_rel (same auth_state) launchOnReady"
  unfolding launchOnReady_def by (intro effects frame.eff_modify) (simp add: same_def auth_state_def)

lemma handlers_auth [effects]:
  "state_io_rel (same auth_state) (handle_challenge e c m)" "state_io_rel (same auth_state) (handleInboundMessage e c m)"
  "state_io_rel (same auth_state) (handleInboundReaction e c m)" "state_io_rel (same auth_state) (handle_key_response m)"
  "state_io_rel (same auth_state) (handle_resolve_response m)" "state_io_rel (same auth_state) (handle_presence_response m)"
  unfolding handle_challenge_def handleInboundMessage_def handleInboundReaction_def emit_def ack_def
    handle_key_response_def handle_resolve_response_def handle_presence_response_def Let_def
  by (intro effects)+

lemma handle_delivery_status_auth [effects]: "state_io_rel (same auth_state) (handle_delivery_status m)"
  unfolding handle_delivery_status_def
  by (intro frame.eff_modify) (simp add: same_def auth_state_def try_send_chan_def fill_def split: option.split)

lemma handle_other_auth:
  "sm_Type m \<noteq> ''auth_ok'' \<Longrightarrow> state_io_rel (same auth_state) (handle e c m)"
  unfolding handle_def by (intro effects) simp

lemma same_run: "state_io_rel (same f) m \<Longrightarrow> f (snd (run_state m s)) = f s"
  by (simp add: state_io_rel_def same_def)

lemma run_auth_ok:
  "auth_state (snd (run_state (handle_auth_ok e) s)) =
     (True, True, conn s, panicked s \<or> ready_closed s)"
  by (simp add: handle_auth_ok_def launchOnReady_def call_back_def sess_now_def sess_tick_def auth_state_def)

lemma handle_auth_ok_type: "sm_Type m = ''auth_ok'' \<Longrightarrow> handle e c m = handle_auth_ok e"
  by (simp add: handle_def)

lemma drainWaiters_auth: "auth_state (drainWaiters s) = auth_state s"
proof -
  have "auth_state (fold (try_send_chan r) ws u) = auth_state u" for r ws u
    by (induction ws arbitrary: u) (auto simp: try_send_chan_def fill_def auth_state_def)
  then show ?thesis
    by (simp add: drainWaiters_def drain_def Let_def auth_state_def)
qed

text \<open>What an event does to the authentication: only \<open>auth_ok\<close>, the start and the end of a connection touch it.\<close>

lemma event_auth:
  assumes "\<not> panicked s" "\<not> stuck s"
  shows "auth_state (snd (run_state (session_event e ev) s)) =
    (case (conn s, ev) of
       (None, Ev_Connect) \<Rightarrow> (False, ready_closed s, Some (next_conn s), False)
     | (Some c, Ev_ReadError) \<Rightarrow> (False, False, None, False)
     | (Some c, Ev_Frame m) \<Rightarrow> if \<not> conn_closed s \<and> sm_Type m = ''auth_ok''
         then (True, True, conn s, ready_closed s) else auth_state s
     | _ \<Rightarrow> auth_state s)"
proof -
  have pass: "auth_state (snd (run_state (pong e) s)) = auth_state s"
      "auth_state (snd (run_state auth_timer s)) = auth_state s"
      "auth_state (snd (run_state (keepAlive_tick e c) s)) = auth_state s" for c
    by (rule same_run, simp add: pong_def, intro effects frame.eff_modify, simp add: same_def auth_state_def,
        rule same_run, simp add: auth_timer_def, intro effects,
        rule same_run, simp add: keepAlive_tick_def, intro effects)
  have start: "auth_state (snd (run_state (connect_start e) s)) = (False, ready_closed s, Some (next_conn s), False)"
    using assms by (simp add: connect_start_def sess_now_def sess_tick_def auth_state_def)
  have tail: "auth_state (snd (run_state connect_tail s)) = (False, False, None, False)"
    using assms drainWaiters_auth [of "s\<lparr>conn := None, authed := False, ready_closed := False\<rparr>"]
    by (simp add: connect_tail_def auth_state_def)
  have frm: "auth_state (snd (run_state (handle e c m) s)) =
      (if sm_Type m = ''auth_ok'' then (True, True, conn s, ready_closed s) else auth_state s)" for c m
    using assms by (simp add: handle_auth_ok_type run_auth_ok same_run [OF handle_other_auth])
  show ?thesis
    using assms pass start tail frm
    by (cases "conn s"; cases ev) (simp_all add: session_event_def case_prod_beta)
qed

lemma sess_step_wf_auth: "sess_step e s t \<Longrightarrow> wf_auth s \<Longrightarrow> wf_auth t"
proof (induction rule: sess_step.induct)
  case (event s ev)
  show ?case
  proof (cases "panicked s \<or> stuck s")
    case True
    with event show ?thesis by (simp add: session_event_def)
  next
    case False
    then show ?thesis
      using event event_auth [of s e ev]
      by (auto simp: wf_auth_def auth_state_def split: option.splits sess_event.splits if_splits)
  qed
qed (auto simp: wf_auth_def)

end
