(* ===== verification/Session_Props.thy ===== *)
theory Session_Props
  imports Session_Steps
begin

text \<open>
  The properties of the relay session. Reachable means reachable by the atomic steps of
  \<open>Session_Steps\<close> from \<open>NewSession\<close>, so they hold between the steps of any overlapping requests,
  frames, disconnects and timers.
\<close>

lemma reachable_wf:
  assumes "(sess_step e)\<^sup>*\<^sup>* NewSession s"
  shows "wf_chan s \<and> wf_auth s"
  using assms
proof (induction rule: rtranclp_induct)
  case base
  then show ?case by (simp add: wf_chan_def chan_inv_def wf_auth_def NewSession_def)
qed (auto intro: sess_step_wf_chan sess_step_wf_auth)

definition no_msg :: serverMessage where
  "no_msg = \<lparr>sm_Type = [], sm_Nonce = [], sm_Address = [], sm_Error = [], sm_ID = [], sm_From = [], sm_FromName = [],
     sm_Encrypted = [], sm_Signature = [], sm_Ts = 0, sm_GroupID = [], sm_GroupName = [], sm_MessageID = [],
     sm_PublicKey = None, sm_Name = [], sm_State = [], sm_Message = [], sm_Status = [], sm_RecipientState = [],
     sm_RecipientMsg = None\<rparr>"

text \<open>A world in which no write fails and nothing happens during a wait.\<close>

definition sample_sess_env :: sess_env where
  "sample_sess_env = crypto_env.extend sample_crypto_env (sess_env.fields (\<lambda>n. 1700000000000 + int n) ''wss://relay.example/ws''
     (\<lambda>n. None) (\<lambda>n. ''id-'' @ nat_str n) (\<lambda>n. []) (\<lambda>n. Await_reply) (\<lambda>u. Inr ''/p'')
     (\<lambda>n r. Inr (200, [])))"

text \<open>A connected session after its authentication, with one key request pending.\<close>

definition run_events :: "'e sess_env_scheme \<Rightarrow> sess_event list \<Rightarrow> session \<Rightarrow> session" where
  "run_events e evs s = snd (run_state (for_each evs (session_event e)) s)"

lemma run_events_reachable: "(sess_step e)\<^sup>*\<^sup>* NewSession s \<Longrightarrow> (sess_step e)\<^sup>*\<^sup>* NewSession (run_events e evs s)"
proof -
  have "state_io_rel (sess_step e)\<^sup>*\<^sup>* (for_each evs (session_event e))"
    by (intro effects)
  then show "(sess_step e)\<^sup>*\<^sup>* NewSession s \<Longrightarrow> ?thesis"
    by (auto simp: run_events_def state_io_rel_def intro: rtranclp_trans)
qed

definition sample_session :: session where
  "sample_session = run_events sample_sess_env [Ev_Connect, Ev_Frame (no_msg\<lparr>sm_Type := ''auth_ok''\<rparr>)] NewSession"

definition waiting_session :: session where
  "waiting_session = snd (run_state (register_key ''0xcd'') sample_session)"

lemma sample_session_reachable [intro]: "(sess_step sample_sess_env)\<^sup>*\<^sup>* NewSession sample_session"
  unfolding sample_session_def by (rule run_events_reachable) simp

lemma waiting_session_reachable [intro]: "(sess_step sample_sess_env)\<^sup>*\<^sup>* NewSession waiting_session"
  unfolding waiting_session_def run_register
  using sample_session_reachable sess_step.reg_key [of sample_sess_env sample_session "''0xcd''"]
  by (auto intro: rtranclp.rtrancl_into_rtrancl)

text \<open>C22: the reader goroutine never blocks on a waiter's channel: in no reachable state of the
  session, whatever requests overlap, does the delivery of a response, a disconnect or any other event
  find the channel of a pending request full.\<close>

theorem reader_never_blocks:
  assumes "(sess_step e)\<^sup>*\<^sup>* NewSession s"
  shows "\<not> stuck s"
  using reachable_wf [OF assms] by (simp add: wf_chan_def)

lemma reader_never_blocks_witness: "\<not> stuck waiting_session"
  by (rule reader_never_blocks [OF waiting_session_reachable])





text \<open>Every message and reaction frame is acknowledged, whatever it holds: the frame is answered by
  exactly one ack with its id on the same connection, also when decryption fails, and at most one
  event reaches the agent for it.\<close>

theorem inbound_always_acked:
  assumes "sm_Type m = ''message'' \<or> sm_Type m = ''reaction''" "write_err e (x_tick s) = None"
  shows "written (snd (run_state (handle e c m) s)) = written s @ [(c, ackFrame (sm_ID m))] \<and>
    (\<exists>evs. callbacks (snd (run_state (handle e c m) s)) = callbacks s @ evs \<and> length evs \<le> 1)"
  using assms
  by (auto simp: handle_def handleInboundMessage_def handleInboundReaction_def ack_def emit_def call_back_def
      writeJSON_def sess_tick_def split: option.split sum.split)

lemma inbound_always_acked_witness:
  "written (snd (run_state (handle sample_sess_env 0 (no_msg\<lparr>sm_Type := ''message'', sm_ID := ''x''\<rparr>)) sample_session)) =
     written sample_session @ [(0, ackFrame ''x'')]"
proof -
  have "write_err sample_sess_env (x_tick sample_session) = None" by code_simp
  then show ?thesis
    using inbound_always_acked [of "no_msg\<lparr>sm_Type := ''message'', sm_ID := ''x''\<rparr>" sample_sess_env sample_session 0]
    by simp
qed

lemma dm_event:
  assumes "sm_Type m = ''message''" "sm_GroupID m = []"
  shows "callbacks (snd (run_state (handle e c m) s)) = callbacks s @
    (case DecryptBase64 e (priv_key e) (sm_Encrypted m) of
       Inl err \<Rightarrow> []
     | Inr pt \<Rightarrow> [OnInbound (no_event\<lparr>ev_Kind := ''dm'', ev_ID := sm_ID m, ev_From := normalize_address (sm_From m),
         ev_FromName := sm_FromName m, ev_Plaintext := pt, ev_Ts := sm_Ts m,
         ev_Verified := fst (VerifyEnvelope e (sm_From m) (sm_ID m) (own_address e) (sm_Encrypted m) (sm_Signature m))\<rparr>)])"
  using assms
  by (auto simp: handle_def handleInboundMessage_def system_event_def ack_def emit_def call_back_def
      writeJSON_def sess_tick_def split: option.split sum.split)

text \<open>A direct message is marked verified exactly if the signature over its own id, this agent's
  address and the ciphertext recovers the claimed sender; the event carries the normalised sender and
  the decrypted text, and a message that does not decrypt produces no event.\<close>

theorem dm_event_verified:
  assumes "sm_Type m = ''message''" "sm_GroupID m = []"
  shows "callbacks (snd (run_state (handle e c m) s)) = callbacks s @
    (case DecryptBase64 e (priv_key e) (sm_Encrypted m) of
       Inl err \<Rightarrow> []
     | Inr pt \<Rightarrow> [OnInbound (no_event\<lparr>ev_Kind := ''dm'', ev_ID := sm_ID m, ev_From := normalize_address (sm_From m),
         ev_FromName := sm_FromName m, ev_Plaintext := pt, ev_Ts := sm_Ts m,
         ev_Verified := (case RecoverPersonal e (serializeEnvelope (sm_ID m) (own_address e) (sm_Encrypted m)) (sm_Signature m) of
            Inl err \<Rightarrow> False | Inr a \<Rightarrow> equal_fold a (sm_From m))\<rparr>)])"
  using dm_event [OF assms, of e c s] by (simp add: VerifyEnvelope_def split: sum.split)

definition signed_dm :: serverMessage where
  "signed_dm = no_msg\<lparr>sm_Type := ''message'', sm_ID := ''x'', sm_From := ''0xAB'', sm_Encrypted := ''Ymth'',
     sm_Signature := replicate 65 (CHR 0x1B)\<rparr>"

lemma dm_event_verified_witness:
  "callbacks (snd (run_state (handle sample_sess_env 0 signed_dm) NewSession)) =
     [OnInbound (no_event\<lparr>ev_Kind := ''dm'', ev_ID := ''x'', ev_From := ''0xab'', ev_Plaintext := ''akb'', ev_Verified := True\<rparr>)]"
proof -
  have "DecryptBase64 sample_sess_env (priv_key sample_sess_env) (sm_Encrypted signed_dm) = Inr ''akb''"
    "RecoverPersonal sample_sess_env (serializeEnvelope (sm_ID signed_dm) (own_address sample_sess_env) (sm_Encrypted signed_dm))
      (sm_Signature signed_dm) = Inr ''0xab''" "equal_fold ''0xab'' ''0xAB''" "normalize_address ''0xAB'' = ''0xab''"
    by code_simp+
  then show ?thesis
    using dm_event_verified [of signed_dm sample_sess_env 0 NewSession]
    by (simp add: signed_dm_def no_msg_def no_event_def NewSession_def)
qed

section \<open>Key requests\<close>

lemma waiters_delete: "waiters (AList.delete k m) j = (if j = k then [] else waiters m j)"
  by (simp add: waiters_def delete_conv')

lemma waiters_update: "waiters (AList.update k v m) j = (if j = k then v else waiters m j)"
  by (simp add: waiters_def update_conv')

lemma waiters_add: "waiters (add_waiter k ch m) j = (if j = k then waiters m k @ [ch] else waiters m j)"
  by (simp add: add_waiter_def waiters_update)

lemma waiters_remove: "waiters (removeWaiter m k ch) j = (if j = k then remove1 ch (waiters m k) else waiters m j)"
  by (auto simp: removeWaiter_def Let_def waiters_update waiters_delete)

text \<open>An event leaves the waiters of a key as they are, or answers all of them.\<close>

definition answers :: "session \<Rightarrow> session \<Rightarrow> bool" where
  "answers s t \<longleftrightarrow> (\<forall>k. waiters (keyWaits t) k = waiters (keyWaits s) k \<or> waiters (keyWaits t) k = [])"

interpretation answering: effect answers
  by unfold_locales (auto simp: answers_def, metis)

lemma same_channels_answers: "state_io_rel (same channels) m \<Longrightarrow> state_io_rel answers m"
  by (auto simp: state_io_rel_def same_def answers_def channels_def)

lemma answers_modify: "(\<And>s. keyWaits (f s) = keyWaits s) \<Longrightarrow> state_io_rel answers (modify f)"
  by (simp add: state_io_rel_def answers_def)

lemma take_waits_answers [effects]:
  "state_io_rel answers (take_keyWaits k)" "state_io_rel answers (take_resWaits k)" "state_io_rel answers (take_presWaits k)"
  by (auto simp: state_io_rel_def answers_def take_keyWaits_def take_resWaits_def take_presWaits_def waiters_delete)

lemma send_chan_answers [effects]: "state_io_rel answers (modify (send_chan r w))"
  by (rule answers_modify) (simp add: send_chan_def fill_def)

lemma handle_answers: "state_io_rel answers (handle e c m)"
  unfolding handle_def handle_key_response_def handle_resolve_response_def handle_presence_response_def Let_def
  by (intro effects same_channels_answers [OF handle_challenge_channels] same_channels_answers [OF handle_auth_ok_channels]
      same_channels_answers [OF close_conn_channels] same_channels_answers [OF handleInboundMessage_channels]
      same_channels_answers [OF handleInboundReaction_channels] same_channels_answers [OF cacheKey_channels])
    (simp add: handle_delivery_status_def, rule answers_modify, simp add: try_send_chan_def fill_def split: option.split)

lemma drainWaiters_answers: "keyWaits (drainWaiters s) = []"
proof -
  have keep: "keyWaits (fold (try_send_chan r) ws u) = keyWaits u" for r ws u
    by (induction ws arbitrary: u) (auto simp: try_send_chan_def fill_def)
  show ?thesis by (simp add: drainWaiters_def drain_def Let_def keep)
qed

lemma session_event_answers [effects]: "state_io_rel answers (session_event e ev)"
proof -
  have "state_io_rel answers connect_tail"
    by (simp add: connect_tail_def state_io_rel_def answers_def drainWaiters_answers)
  then show ?thesis
    unfolding session_event_def
    by (intro answering.eff_bind answering.eff_gets answering.eff_if answering.eff_case_option eff_case_event
        answering.effect_axioms answering.eff_return handle_answers connection_channels [THEN same_channels_answers])
qed

text \<open>A wait: the events that happen, then the reply is taken from the channel or nothing is.\<close>

lemma await_reply_cases:
  assumes "run_state (await_reply e ch) s = (r, t)"
  obtains u where "answers s u" "wf_chan s \<Longrightarrow> wf_chan u"
    "case r of Got v \<Rightarrow> buf u ch = Some v \<and> t = u\<lparr>buf := (buf u)(ch := None)\<rparr> | _ \<Rightarrow> t = u"
proof -
  let ?s = "s\<lparr>x_tick := Suc (x_tick s)\<rparr>"
  let ?m = "for_each (meanwhile e (x_tick s)) (session_event e)"
  define u where "u = snd (run_state ?m ?s)"
  have "state_io_rel answers ?m" "state_io_rel (keeps wf_chan) ?m"
    by (intro effects session_event_wf)+
  then have "answers ?s u" "wf_chan ?s \<longrightarrow> wf_chan u"
    by (auto simp: u_def state_io_rel_def keeps_def)
  then have "answers s u" "wf_chan s \<Longrightarrow> wf_chan u"
    by (auto simp: answers_def wf_chan_def)
  moreover have "case r of Got v \<Rightarrow> buf u ch = Some v \<and> t = u\<lparr>buf := (buf u)(ch := None)\<rparr> | _ \<Rightarrow> t = u"
    using assms by (auto simp: await_reply_def sess_tick_def u_def split: prod.splits wait_end.splits option.splits)
  ultimately show thesis by (rule that)
qed

text \<open>A key request leaves nothing behind: when the request frame could be written, then, whatever
  happens while it waits and however the wait ends (reply, disconnect, timer or cancelled context), its
  channel is pending under no key afterwards.\<close>

theorem GetKey_leaves_no_waiter:
  assumes "(sess_step e)\<^sup>*\<^sup>* NewSession s" "write_err e (x_tick s) = None" "run_state (GetKey e a) s = (res, t)"
  shows "\<forall>k. next_chan s \<notin> set (waiters (keyWaits t) k)"
proof -
  let ?k = "normalize_address a" and ?ch = "next_chan s"
  have wf: "wf_chan s" using reachable_wf [OF assms(1)] by simp
  have fresh: "?ch \<notin> set (waiters (keyWaits s) k)" for k
  proof -
    have "set (waiters (keyWaits s) k) \<subseteq> set (chans (keyWaits s))"
      by (metis set_mset_mono set_mset_mset waiters_subset)
    then show ?thesis using wf by (auto simp: wf_chan_def chan_inv_def)
  qed
  show ?thesis
  proof (cases "t = s")
    case True
    with fresh show ?thesis by simp
  next
    case False
    define s1 where "s1 = s\<lparr>next_chan := ?ch + 1, keyWaits := add_waiter ?k ?ch (keyWaits s)\<rparr>"
    define first where "first = (length (waiters (keyWaits s1) ?k) = 1)"
    define c where "c = the (conn s)"
    define s2 where "s2 = (if first then s1\<lparr>x_tick := x_tick s + 1, written := written s @ [(c, getKeyFrame ?k)]\<rparr> else s1)"
    obtain r u where await: "run_state (await_reply e ?ch) s2 = (r, u)"
      and t: "t = (case r of Got v \<Rightarrow> u | _ \<Rightarrow> u\<lparr>keyWaits := removeWaiter (keyWaits u) ?k ?ch\<rparr>)"
      using assms(2,3) False
      by (auto simp: GetKey_def Let_def CachedKey_def currentConn_def run_register writeJSON_def sess_tick_def
          s1_def s2_def first_def c_def split: prod.splits option.splits if_splits awaited.splits reply.splits bool.splits)
    have s2: "keyWaits s2 = add_waiter ?k ?ch (keyWaits s)" "wf_chan s2"
      using wf chan_inv_register [of "keyWaits s"] by (auto simp: s2_def s1_def wf_chan_def)
    from await obtain v where v: "answers s2 v" "wf_chan v"
      "case r of Got x \<Rightarrow> buf v ?ch = Some x \<and> u = v\<lparr>buf := (buf v)(?ch := None)\<rparr> | _ \<Rightarrow> u = v"
      by (rule await_reply_cases) (use s2(2) in auto)
    have other: "?ch \<notin> set (waiters (keyWaits v) k)" if "k \<noteq> ?k" for k
      using v(1) fresh [of k] that by (auto simp: answers_def s2(1) waiters_add) (metis empty_iff list.set(1))
    have dist: "distinct (waiters (keyWaits v) k)" and empty: "\<forall>w \<in> set (waiters (keyWaits v) k). buf v w = None" for k
      using waiters_of_inv v(2) by (auto simp: wf_chan_def)
    show ?thesis
    proof (cases r)
      case (Got x)
      then have "?ch \<notin> set (waiters (keyWaits v) k)" for k
        using v(3) empty [of k] by auto
      with Got v(3) show ?thesis by (simp add: t)
    qed (use v(3) other dist in \<open>auto simp: t waiters_remove\<close>)
  qed
qed

lemma GetKey_leaves_no_waiter_witness:
  "\<forall>k. 0 \<notin> set (waiters (keyWaits (snd (run_state (GetKey sample_sess_env ''0xCD'') sample_session))) k)"
proof -
  obtain res t where r: "run_state (GetKey sample_sess_env ''0xCD'') sample_session = (res, t)"
    by fastforce
  have "write_err sample_sess_env (x_tick sample_session) = None" "next_chan sample_session = 0"
    by code_simp+
  with GetKey_leaves_no_waiter [OF sample_session_reachable _ r] show ?thesis
    by (simp add: r)
qed

lemma normalize_address_lc: "normalize_address a = lc a"
  by (simp add: normalize_address_def lc_def)

lemma normalize_address_idem [simp]: "normalize_address (normalize_address a) = normalize_address a"
  by (simp add: normalize_address_lc)

text \<open>C39: but a key request whose frame could not be written does leave its waiter, and the next request
  for the same address, on a healthy connection, finds it, takes itself for the second one, writes no
  \<open>get_key\<close> frame and runs into its timeout, unless something else answers.\<close>

theorem GetKey_failed_write_mutes_next:
  assumes "conn s = Some c" "authed s" "map_of (keyCache s) (normalize_address a) = None"
    and "waiters (keyWaits s) (normalize_address a) = []" "write_err e (x_tick s) = Some x" "buf s (next_chan s + 1) = None"
    and "run_state (GetKey e a) s = (res, t)" "run_state (GetKey e' a) t = (res', u)"
    and "meanwhile e' (x_tick t) = []" "wait_outcome e' (x_tick t) = Await_reply"
  shows "res = ([], Some (''send get_key: '' @ x)) \<and> waiters (keyWaits t) (normalize_address a) = [next_chan s] \<and>
    written u = written t \<and> res' = ([], Some (''get_key timeout for '' @ normalize_address a))"
proof -
  let ?k = "normalize_address a"
  have t: "res = ([], Some (''send get_key: '' @ x))"
      "t = s\<lparr>next_chan := next_chan s + 1, keyWaits := add_waiter ?k (next_chan s) (keyWaits s), x_tick := x_tick s + 1\<rparr>"
    using assms(1-5,7)
    by (auto simp: GetKey_def Let_def CachedKey_def null_string_def currentConn_def run_register writeJSON_def
        sess_tick_def waiters_add)
  have "waiters (keyWaits t) ?k = [next_chan s]"
    using assms(4) by (simp add: t waiters_add)
  then have "length (waiters (add_waiter ?k (next_chan t) (keyWaits t)) ?k) = 2"
    by (simp add: waiters_add)
  then have "written u = written t \<and> res' = ([], Some (''get_key timeout for '' @ ?k))"
    using assms(1-3,6,8-)
    by (auto simp: GetKey_def Let_def CachedKey_def null_string_def currentConn_def run_register
        await_reply_def sess_tick_def wait_error_def t(2))
  with t(1) \<open>waiters (keyWaits t) ?k = [next_chan s]\<close> show ?thesis by simp
qed

lemma GetKey_failed_write_mutes_next_witness:
  "fst (run_state (GetKey sample_sess_env ''0xCD'') (snd (run_state
     (GetKey (sample_sess_env\<lparr>write_err := (\<lambda>n. Some ''broken pipe'')\<rparr>) ''0xCD'') sample_session))) =
   ([], Some ''get_key timeout for 0xcd'')"
proof -
  let ?e = "sample_sess_env\<lparr>write_err := (\<lambda>n. Some ''broken pipe'')\<rparr>"
  obtain res t where r: "run_state (GetKey ?e ''0xCD'') sample_session = (res, t)" by fastforce
  obtain res' u where r': "run_state (GetKey sample_sess_env ''0xCD'') t = (res', u)" by fastforce
  have s: "conn sample_session = Some 0" "authed sample_session" "map_of (keyCache sample_session) (normalize_address ''0xCD'') = None"
    "waiters (keyWaits sample_session) (normalize_address ''0xCD'') = []" "buf sample_session (next_chan sample_session + 1) = None"
    "normalize_address ''0xCD'' = ''0xcd''"
    by code_simp+
  have "write_err ?e (x_tick sample_session) = Some ''broken pipe''" "meanwhile sample_sess_env n = []"
    "wait_outcome sample_sess_env n = Await_reply" for n
    by (simp_all add: sample_sess_env_def crypto_env.extend_def sess_env.fields_def)
  with GetKey_failed_write_mutes_next [OF s(1-4) _ s(5) r r', of "''broken pipe''"] show ?thesis
    by (simp add: r r' s(6))
qed

end
