(* ===== verification/Names_Client.thy ===== *)
theory Names_Client
  imports Relay_Session
begin

text \<open>
  Package \<open>internal/names\<close> (\<open>names.go\<close>): the client of the \<open>.attn\<close> registrar contract. Reads are
  \<open>eth_call\<close>s; the writes only encode their calldata and stop at the gate. The ABI codec, the
  RPC node and the reading of an address are the fields \<open>abi_pack\<close>, \<open>abi_unpack\<close>, \<open>eth_call\<close> and
  \<open>HexToAddress\<close> of the world. The state keeps the
  contract calls made; the package has no call that sends a transaction. \<open>n_panicked\<close> records an index out of range on an empty result tuple. An address is the
  checksummed text of \<open>common.Address.Hex\<close>, a \<open>bytes32\<close> its 32 bytes.
\<close>

datatype abi_value = A_string string | A_address string | A_uint nat | A_bool bool | A_bytes32 string

record eth_msg =
  em_From :: string
  em_To :: string
  em_Value :: nat
  em_Data :: string

record names_env = sess_env +
  abi_pack :: "string \<Rightarrow> abi_value list \<Rightarrow> string + string"
  abi_unpack :: "string \<Rightarrow> string \<Rightarrow> string + abi_value list"
  eth_call :: "nat \<Rightarrow> eth_msg \<Rightarrow> string + string"
  base_dial :: "string option"
  HexToAddress :: "string \<Rightarrow> string"

record names_client =
  n_calls :: "eth_msg list"
  n_panicked :: bool

definition new_names_client :: names_client where
  "new_names_client = \<lparr>n_calls = [], n_panicked = False\<rparr>"

definition zero_address :: string where
  "zero_address = ''0x0000000000000000000000000000000000000000''"

definition ContractAddress :: string where
  "ContractAddress = ''0x5caDD2F7d8fC6B35bb220cC3DB8DBc187E02dC7A''"

definition normalizeLabel :: "string \<Rightarrow> string" where
  "normalizeLabel label = trim_suffix (to_lower (trim_space label)) ''.attn''"

section \<open>Reads\<close>

text \<open>\<open>eth.CallContract\<close>: the world answers the n-th call.\<close>

definition CallContract :: "'e names_env_scheme \<Rightarrow> eth_msg \<Rightarrow> (names_client, string + string) state" where
  "CallContract e m = do {
     t \<leftarrow> gets (\<lambda>s. length (n_calls s));
     modify (\<lambda>s. s\<lparr>n_calls := n_calls s @ [m]\<rparr>);
     State_Monad.return (eth_call e t m)
   }"

definition call_method ::
  "'e names_env_scheme \<Rightarrow> string \<Rightarrow> abi_value list \<Rightarrow> (names_client, string + abi_value list) state" where
  "call_method e meth args = (case abi_pack e meth args of
       Inl err \<Rightarrow> State_Monad.return (Inl (''pack '' @ meth @ '': '' @ err))
     | Inr d \<Rightarrow> do {
         r \<leftarrow> CallContract e \<lparr>em_From = [], em_To = ContractAddress, em_Value = 0, em_Data = d\<rparr>;
         case r of
           Inl err \<Rightarrow> State_Monad.return (Inl (''eth_call '' @ meth @ '': '' @ err))
         | Inr out \<Rightarrow> State_Monad.return (case abi_unpack e meth out of
               Inl err \<Rightarrow> Inl (''unpack '' @ meth @ '': '' @ err)
             | Inr vals \<Rightarrow> Inr vals)
       })"

definition names_panic :: "(names_client, string + 'a) state" where
  "names_panic = do {
     modify (\<lambda>s. s\<lparr>n_panicked := True\<rparr>);
     State_Monad.return (Inl ''runtime error: index out of range'')
   }"

text \<open>\<open>vals[0].(T)\<close> with its error text.\<close>

definition first_value ::
  "(abi_value \<Rightarrow> 'a option) \<Rightarrow> string \<Rightarrow> string + abi_value list \<Rightarrow> (names_client, string + 'a) state" where
  "first_value T msg r = (case r of
       Inl err \<Rightarrow> State_Monad.return (Inl err)
     | Inr [] \<Rightarrow> names_panic
     | Inr (v # vs) \<Rightarrow> State_Monad.return (case T v of None \<Rightarrow> Inl msg | Some x \<Rightarrow> Inr x))"

fun as_string :: "abi_value \<Rightarrow> string option" where
  "as_string (A_string s) = Some s" | "as_string _ = None"

fun as_address :: "abi_value \<Rightarrow> string option" where
  "as_address (A_address s) = Some s" | "as_address _ = None"

fun as_uint :: "abi_value \<Rightarrow> nat option" where
  "as_uint (A_uint n) = Some n" | "as_uint _ = None"

fun as_bool :: "abi_value \<Rightarrow> bool option" where
  "as_bool (A_bool b) = Some b" | "as_bool _ = None"

fun as_bytes32 :: "abi_value \<Rightarrow> string option" where
  "as_bytes32 (A_bytes32 s) = Some s" | "as_bytes32 _ = None"

definition Names_Resolve :: "'e names_env_scheme \<Rightarrow> string \<Rightarrow> (names_client, string + string \<times> string) state" where
  "Names_Resolve e label = do {
     r \<leftarrow> call_method e ''resolve'' [A_string (normalizeLabel label)];
     State_Monad.return (case r of
         Inl err \<Rightarrow> Inl err
       | Inr vals \<Rightarrow>
           if length vals \<noteq> 2 then Inl (''resolve: expected 2 outputs, got '' @ nat_str (length vals))
           else (case as_address (vals ! 0) of
               None \<Rightarrow> Inl ''resolve: owner not an address''
             | Some owner \<Rightarrow> (case as_bytes32 (vals ! 1) of
                   None \<Rightarrow> Inl ''resolve: node not bytes32''
                 | Some node \<Rightarrow> Inr (owner, node))))
   }"

definition PrimaryNameOf :: "'e names_env_scheme \<Rightarrow> string \<Rightarrow> (names_client, string + string) state" where
  "PrimaryNameOf e addr = do {
     r \<leftarrow> call_method e ''primaryNameOf'' [A_address addr];
     first_value as_string ''primaryNameOf: not a string'' r
   }"

definition Available :: "'e names_env_scheme \<Rightarrow> string \<Rightarrow> (names_client, string + bool) state" where
  "Available e label = do {
     r \<leftarrow> call_method e ''available'' [A_string (normalizeLabel label)];
     first_value as_bool ''available: not a bool'' r
   }"

definition RegistrationFee :: "'e names_env_scheme \<Rightarrow> (names_client, string + nat) state" where
  "RegistrationFee e = do {
     r \<leftarrow> call_method e ''registrationFee'' [];
     first_value as_uint ''registrationFee: not a uint256'' r
   }"

definition Namehash :: "'e names_env_scheme \<Rightarrow> string \<Rightarrow> (names_client, string + string) state" where
  "Namehash e label = do {
     r \<leftarrow> call_method e ''namehash'' [A_string (normalizeLabel label)];
     first_value as_bytes32 ''namehash: not bytes32'' r
   }"

definition BalanceOf :: "'e names_env_scheme \<Rightarrow> string \<Rightarrow> (names_client, string + nat) state" where
  "BalanceOf e addr = do {
     r \<leftarrow> call_method e ''balanceOf'' [A_address addr];
     first_value as_uint ''balanceOf: not a uint256'' r
   }"

definition OwnerOf :: "'e names_env_scheme \<Rightarrow> nat \<Rightarrow> (names_client, string + string) state" where
  "OwnerOf e tokenID = do {
     r \<leftarrow> call_method e ''ownerOf'' [A_uint tokenID];
     first_value as_address ''ownerOf: not an address'' r
   }"

text \<open>\<open>SetBytes\<close>: big-endian.\<close>

definition TokenIDFromNode :: "string \<Rightarrow> nat" where
  "TokenIDFromNode node = fold (\<lambda>c n. n * 256 + of_char c) node 0"

section \<open>Writes and their gate\<close>

definition PackRegister :: "'e names_env_scheme \<Rightarrow> string \<Rightarrow> string + string" where
  "PackRegister e label = abi_pack e ''register'' [A_string (normalizeLabel label)]"

definition PackTransferFrom :: "'e names_env_scheme \<Rightarrow> string \<Rightarrow> string \<Rightarrow> nat \<Rightarrow> string + string" where
  "PackTransferFrom e from to tokenID = abi_pack e ''transferFrom'' [A_address from, A_address to, A_uint tokenID]"

definition PackSetPrimaryName :: "'e names_env_scheme \<Rightarrow> string \<Rightarrow> string + string" where
  "PackSetPrimaryName e label = abi_pack e ''setPrimaryName'' [A_string (normalizeLabel label)]"

definition SimulateRegister ::
  "'e names_env_scheme \<Rightarrow> string \<Rightarrow> string \<Rightarrow> nat \<Rightarrow> (names_client, string option) state" where
  "SimulateRegister e from label fee = (case PackRegister e label of
       Inl err \<Rightarrow> State_Monad.return (Some err)
     | Inr d \<Rightarrow> do {
         r \<leftarrow> CallContract e \<lparr>em_From = from, em_To = ContractAddress, em_Value = fee, em_Data = d\<rparr>;
         State_Monad.return (case r of Inl err \<Rightarrow> Some err | Inr out \<Rightarrow> None)
       })"

definition ErrPaidWriteGated :: string where
  "ErrPaidWriteGated = ''paid on-chain write is GATED (0.001 ETH, irreversible on Base mainnet) '' @ em_dash @
     '' requires explicit operator approval, refused in M1''"

definition errNotImplemented :: string where
  "errNotImplemented = ''broadcast not implemented in M1 (gate is a hard stop, not a TODO)''"

text \<open>The common shape of the three \<open>Send\<close> functions: calldata and error.\<close>

definition gate :: "string + string \<Rightarrow> bool \<Rightarrow> string \<times> string option" where
  "gate r allow = (case r of
       Inl err \<Rightarrow> ([], Some err)
     | Inr d \<Rightarrow> if \<not> allow then (d, Some ErrPaidWriteGated) else (d, Some errNotImplemented))"

definition SendRegister :: "'e names_env_scheme \<Rightarrow> string \<Rightarrow> bool \<Rightarrow> string \<times> string option" where
  "SendRegister e label allow = gate (PackRegister e label) allow"

definition SendTransferName ::
  "'e names_env_scheme \<Rightarrow> string \<Rightarrow> string \<Rightarrow> nat \<Rightarrow> bool \<Rightarrow> string \<times> string option" where
  "SendTransferName e from to tokenID allow = gate (PackTransferFrom e from to tokenID) allow"

definition SendSetPrimaryName :: "'e names_env_scheme \<Rightarrow> string \<Rightarrow> bool \<Rightarrow> string \<times> string option" where
  "SendSetPrimaryName e label allow = gate (PackSetPrimaryName e label) allow"

lemma gate_refuses: "snd (gate r allow) \<noteq> None"
  by (cases r) (simp_all add: gate_def)

end
