(* ===== verification/Agent_Util.thy ===== *)
theory Agent_Util
  imports Names_Client
begin

text \<open>
  The pure helpers of package \<open>internal/agent\<close> (\<open>util.go\<close> and the ends of \<open>agent.go\<close> and \<open>ops.go\<close>):
  addresses, emoji shortcodes, durations in 64-bit nanoseconds, the texts of the operations and
  the reading of an operation's arguments. An argument is a Go \<open>any\<close>: what \<open>encoding/json\<close> decodes
  into, or a Go value a caller in the daemon passed. A \<open>float64\<close> is given by its mantissa and
  binary exponent.
\<close>

section \<open>Addresses and words\<close>

definition isValidAddress :: "string \<Rightarrow> bool" where
  "isValidAddress a \<longleftrightarrow> length a = 42 \<and> take 2 a = ''0x'' \<and> list_all is_hex (drop 2 a)"

definition normalize_addr :: "string \<Rightarrow> string" where
  "normalize_addr a = to_lower (trim_space a)"

definition emojiMap :: "(string \<times> string) list" where
  "emojiMap = [
     (''thumbs_up'', [CHR 0xF0, CHR 0x9F, CHR 0x91, CHR 0x8D]),
     (''thumbs_down'', [CHR 0xF0, CHR 0x9F, CHR 0x91, CHR 0x8E]),
     (''heart'', [CHR 0xE2, CHR 0x9D, CHR 0xA4, CHR 0xEF, CHR 0xB8, CHR 0x8F]),
     (''fire'', [CHR 0xF0, CHR 0x9F, CHR 0x94, CHR 0xA5]),
     (''check'', [CHR 0xE2, CHR 0x9C, CHR 0x85]),
     (''x'', [CHR 0xE2, CHR 0x9D, CHR 0x8C]),
     (''star'', [CHR 0xE2, CHR 0xAD, CHR 0x90]),
     (''eyes'', [CHR 0xF0, CHR 0x9F, CHR 0x91, CHR 0x80]),
     (''rocket'', [CHR 0xF0, CHR 0x9F, CHR 0x9A, CHR 0x80]),
     (''party'', [CHR 0xF0, CHR 0x9F, CHR 0x8E, CHR 0x89]),
     (''wave'', [CHR 0xF0, CHR 0x9F, CHR 0x91, CHR 0x8B]),
     (''clap'', [CHR 0xF0, CHR 0x9F, CHR 0x91, CHR 0x8F]),
     (''laugh'', [CHR 0xF0, CHR 0x9F, CHR 0x98, CHR 0x82]),
     (''think'', [CHR 0xF0, CHR 0x9F, CHR 0xA4, CHR 0x94]),
     (''hundred'', [CHR 0xF0, CHR 0x9F, CHR 0x92, CHR 0xAF]),
     (''pray'', [CHR 0xF0, CHR 0x9F, CHR 0x99, CHR 0x8F])]"

definition emojiToUnicode :: "string \<Rightarrow> string" where
  "emojiToUnicode inp = (case map_of emojiMap inp of Some v \<Rightarrow> v | None \<Rightarrow> inp)"

fun firstNonEmpty :: "string list \<Rightarrow> string" where
  "firstNonEmpty [] = []"
| "firstNonEmpty (v # vals) = (if v \<noteq> [] then v else firstNonEmpty vals)"

definition datePart :: "string \<Rightarrow> string" where
  "datePart ts = (case index_byte ts (CHR ''T'') of Some i \<Rightarrow> take i ts | None \<Rightarrow> ts)"

section \<open>Durations\<close>

definition int64 :: "int \<Rightarrow> int" where
  "int64 x = (x + 2 ^ 63) mod 2 ^ 64 - 2 ^ 63"

text \<open>The class \<open>\s\<close> of Go's regular expressions, which has no vertical tab.\<close>

definition re_space :: "char \<Rightarrow> bool" where
  "re_space c \<longleftrightarrow> c \<in> {CHR 0x09, CHR 0x0A, CHR 0x0C, CHR 0x0D, CHR 0x20}"

text \<open>\<open>strconv.ParseInt(s, 10, 64)\<close>: the value, clamped when out of range, and whether it is exact.\<close>

definition ParseInt :: "string \<Rightarrow> int \<times> bool" where
  "ParseInt s =
     (let neg = (s \<noteq> [] \<and> hd s = CHR ''-'');
          ds = (if s \<noteq> [] \<and> (hd s = CHR ''-'' \<or> hd s = CHR ''+'') then tl s else s);
          v = digits_val ds
      in if ds = [] \<or> \<not> list_all is_digit ds then (0, False)
         else if neg then (if 2 ^ 63 < v then (- (2 ^ 63), False) else (- v, True))
         else if 2 ^ 63 \<le> v then (2 ^ 63 - 1, False) else (v, True))"

definition Atoi :: "string \<Rightarrow> int option" where
  "Atoi s = (case ParseInt s of (v, ok) \<Rightarrow> if ok then Some v else None)"

definition Minute :: int where "Minute = 60 * 1000000000"
definition Hour :: int where "Hour = 60 * Minute"

fun unit_ns :: "string \<Rightarrow> int option" where
  "unit_ns u = (if u = ''m'' then Some Minute else if u = ''h'' then Some Hour
     else if u = ''d'' then Some (24 * Hour) else if u = ''w'' then Some (7 * 24 * Hour) else None)"

text \<open>The match of \<open>^(\d+)\s*(m|h|d|w)$\<close>: its first group and the unit of its second.\<close>

definition durationRe :: "string \<Rightarrow> (string \<times> int) option" where
  "durationRe s =
     (let ds = takeWhile is_digit s; u = dropWhile re_space (dropWhile is_digit s)
      in if ds = [] then None else map_option (Pair ds) (unit_ns u))"

definition parseDuration :: "string \<Rightarrow> int option" where
  "parseDuration inp = (case durationRe (to_lower (trim_space inp)) of
       None \<Rightarrow> None
     | Some (ds, u) \<Rightarrow> (case Atoi ds of None \<Rightarrow> None | Some n \<Rightarrow> Some (int64 (n * u))))"

definition Milliseconds :: "int \<Rightarrow> int" where
  "Milliseconds d = d sdiv 1000000"

definition formatRemaining :: "int \<Rightarrow> string" where
  "formatRemaining ms =
     (if ms < 60000 then itoa ((ms + 999) sdiv 1000) @ ''s''
      else if ms < 3600000 then itoa ((ms + 59999) sdiv 60000) @ ''m''
      else if ms < 86400000 then itoa ((ms + 3599999) sdiv 3600000) @ ''h''
      else itoa ((ms + 86399999) sdiv 86400000) @ ''d'')"

definition isGlobalMuteTarget :: "string \<Rightarrow> bool" where
  "isGlobalMuteTarget inp = (let t = to_lower (trim_space inp) in t = ''all'' \<or> t = ''*'' \<or> t = ''everyone'')"

text \<open>\<open>now\<close> is what the clock shows when the text is made.\<close>

definition durSuffix :: "int \<Rightarrow> int \<Rightarrow> string" where
  "durSuffix untilMs now = (if untilMs \<le> 0 then '' indefinitely'' else '' for '' @ formatRemaining (untilMs - now))"

definition arrivedSuffix :: "nat \<Rightarrow> string" where
  "arrivedSuffix n = (if n = 0 then [] else
     '' '' @ em_dash @ '' '' @ nat_str n @ '' message'' @ (if n = 1 then [] else ''s'') @
     '' arrived while muted (use history to read)'')"

section \<open>Wei\<close>

text \<open>
  \<open>Rat.FloatString(6)\<close> of a fee over \<open>10^18\<close>, rounded half up, then without trailing zeros and
  without a trailing point. \<open>None\<close> is the \<open>nil\<close> fee.
\<close>

definition trim_right_char :: "char \<Rightarrow> string \<Rightarrow> string" where
  "trim_right_char c s = rev (dropWhile (\<lambda>x. x = c) (rev s))"

definition weiToEth :: "nat option \<Rightarrow> string" where
  "weiToEth wei = (case wei of None \<Rightarrow> ''0'' | Some w \<Rightarrow>
     (let r = (2 * w + 10 ^ 12) div (2 * 10 ^ 12);
          s = trim_right_char (CHR ''.'') (trim_right_char (CHR ''0'')
                (nat_str (r div 10 ^ 6) @ ''.'' @ pad 6 (int (r mod 10 ^ 6))))
      in if s = [] then ''0'' else s))"

definition simErrString :: "string option \<Rightarrow> string" where
  "simErrString err = (case err of None \<Rightarrow> ''ok (eth_call would succeed)'' | Some x \<Rightarrow> ''would revert: '' @ x)"

section \<open>Arguments\<close>

datatype arg = AString string | ABool bool | AFloat int int | AInt int | ANumber string
  | AStrings "string list" | AList "arg list" | AObject "(string \<times> arg) list" | ANil

type_synonym args = "(string \<times> arg) list"

text \<open>\<open>int(n)\<close> of the \<open>float64\<close> \<open>m * 2 ^ x\<close>: truncation; out of range the value that amd64 gives.\<close>

definition float_int :: "int \<Rightarrow> int \<Rightarrow> int" where
  "float_int m x =
     (let v = (if 0 \<le> x then m * 2 ^ nat x else m sdiv 2 ^ nat (- x))
      in if - (2 ^ 63) \<le> v \<and> v < 2 ^ 63 then v else - (2 ^ 63))"

text \<open>
  What \<open>encoding/json\<close> decodes into an \<open>any\<close>: numbers become the nearest \<open>float64\<close>, half to even;
  a number beyond its range is an error. An integer of up to 53 bits is itself.
\<close>

fun bits :: "nat \<Rightarrow> nat" where
  "bits n = (if n = 0 then 0 else Suc (bits (n div 2)))"

declare bits.simps [simp del]

definition half_even :: "nat \<Rightarrow> nat \<Rightarrow> nat" where
  "half_even p q = (let d = p div q; r = p mod q
     in if 2 * r < q then d else if q < 2 * r then d + 1 else d + d mod 2)"

text \<open>The quotient \<open>p / q\<close>, with the exponent for which the mantissa has 53 bits.\<close>

definition float_quotient :: "nat \<Rightarrow> nat \<Rightarrow> (int \<times> int) option" where
  "float_quotient p q =
     (if q = 1 \<and> p \<le> 2 ^ 53 then Some (int p, 0)
      else let e1 = int (bits p) - int (bits q) - 53;
               num = (\<lambda>x. p * 2 ^ nat (- x)); den = (\<lambda>x. q * 2 ^ nat x);
               e2 = (if num e1 < 2 ^ 53 * den e1 then e1 else e1 + 1);
               x = max (- 1074) e2;
               m = half_even (num x) (den x)
        in if 2 ^ 1024 \<le> (if 0 \<le> x then m * 2 ^ nat x else m div 2 ^ nat (- x)) then None else Some (int m, x))"

text \<open>A literal with fraction or exponent: its digits and the power of ten.\<close>

definition float_literal :: "string \<Rightarrow> (int \<times> int) option" where
  "float_literal s =
     (let neg = (s \<noteq> [] \<and> hd s = CHR ''-'');
          a = (if neg then tl s else s);
          ip = takeWhile is_digit a;
          b = drop (length ip) a;
          fs = (if b \<noteq> [] \<and> hd b = CHR ''.'' then takeWhile is_digit (tl b) else []);
          c = dropWhile (\<lambda>x. x \<notin> {CHR ''e'', CHR ''E''}) b;
          eneg = (1 < length c \<and> c ! 1 = CHR ''-'');
          x = (if eneg then - digits_val (filter is_digit c) else digits_val (filter is_digit c)) - int (length fs);
          d = nat (digits_val (ip @ fs))
      in map_option (\<lambda>(m, y). (if neg then - m else m, y)) (float_quotient (d * 10 ^ nat x) (10 ^ nat (- x))))"

definition json_float :: "json \<Rightarrow> (int \<times> int) option" where
  "json_float j = (case j of
       JInt i \<Rightarrow> map_option (\<lambda>(m, y). (if i < 0 then - m else m, y)) (float_quotient (nat \<bar>i\<bar>) 1)
     | JNum n \<Rightarrow> float_literal n
     | _ \<Rightarrow> None)"

fun floats_fit :: "json \<Rightarrow> bool" where
  "floats_fit (JInt i) = (json_float (JInt i) \<noteq> None)"
| "floats_fit (JNum n) = (json_float (JNum n) \<noteq> None)"
| "floats_fit (JList xs) = list_all floats_fit xs"
| "floats_fit (JObj kvs) = list_all (\<lambda>(k, v). floats_fit v) kvs"
| "floats_fit j = True"

fun json_arg :: "json \<Rightarrow> arg" where
  "json_arg JNull = ANil"
| "json_arg (JStr s) = AString s"
| "json_arg (JInt i) = (case json_float (JInt i) of Some (m, x) \<Rightarrow> AFloat m x | None \<Rightarrow> ANil)"
| "json_arg (JNum n) = (case json_float (JNum n) of Some (m, x) \<Rightarrow> AFloat m x | None \<Rightarrow> ANil)"
| "json_arg (JBool b) = ABool b"
| "json_arg (JList xs) = AList (map json_arg xs)"
| "json_arg (JObj kvs) = AObject (map (\<lambda>(k, v). (k, json_arg v)) kvs)"

text \<open>A \<open>map[string]any\<close>: of the values of a key the last counts, and \<open>null\<close> is the empty map.\<close>

definition json_args :: "json \<Rightarrow> args option" where
  "json_args j = (case j of
       JNull \<Rightarrow> Some []
     | JObj kvs \<Rightarrow> if floats_fit j then Some (rev (map (\<lambda>(k, v). (k, json_arg v)) kvs)) else None
     | _ \<Rightarrow> None)"

definition stringArg :: "args \<Rightarrow> string \<Rightarrow> string" where
  "stringArg args k = (case map_of args k of Some (AString s) \<Rightarrow> s | _ \<Rightarrow> [])"

definition intArg :: "args \<Rightarrow> string \<Rightarrow> int \<Rightarrow> int" where
  "intArg args key dflt = (case map_of args key of
       None \<Rightarrow> dflt
     | Some v \<Rightarrow> (case v of
           AFloat m x \<Rightarrow> float_int m x
         | AInt n \<Rightarrow> n
         | ANumber s \<Rightarrow> fst (ParseInt s)
         | AString s \<Rightarrow> (case Atoi s of Some i \<Rightarrow> i | None \<Rightarrow> dflt)
         | _ \<Rightarrow> dflt))"

definition boolArg :: "args \<Rightarrow> string \<Rightarrow> bool" where
  "boolArg args key = (case map_of args key of Some (ABool b) \<Rightarrow> b | _ \<Rightarrow> False)"

fun strings_of :: "arg list \<Rightarrow> string list" where
  "strings_of [] = []"
| "strings_of (a # as) = (case a of AString s \<Rightarrow> s # strings_of as | _ \<Rightarrow> strings_of as)"

definition strSlice :: "arg option \<Rightarrow> string list" where
  "strSlice v = (case v of Some (AStrings ss) \<Rightarrow> ss | Some (AList as) \<Rightarrow> strings_of as | _ \<Rightarrow> [])"

end
