(* ===== verification/Agent_Core.thy ===== *)
theory Agent_Core
  imports Agent_Util
begin

text \<open>
  The orchestrator of the daemon, package \<open>internal/agent\<close>: its state (\<open>agent.go\<close>), the policy and
  persistence of inbound events, what is surfaced to the operator (\<open>surface.go\<close>), and the start and
  the reconnect work of the relay session. The agent owns the store, the relay session, the
  names client and the local mesh; a call of one of them is \<open>db\<close>, \<open>relay\<close>, \<open>on_chain\<close> or \<open>local_mesh\<close>.

  The callbacks the session makes while a request waits are run by \<open>relay\<close> when the request
  returns, before the operation goes on: they touch the store, the surface and the connection,
  none of which the waiting request reads. Logging is left out. A download of an inbound file is a
  goroutine: it is put in \<open>downloads\<close> and ends in a step of its own (\<open>Agent_Files\<close>).
\<close>

section \<open>State\<close>

text \<open>\<open>Result\<close>: the line for the operator and the data for the caller.\<close>

record Result =
  res_Text :: string
  res_Data :: "(string \<times> json) list"

definition text_result :: "string \<Rightarrow> Result" where
  "text_result t = \<lparr>res_Text = t, res_Data = []\<rparr>"

record SurfaceEvent =
  sf_Type :: string
  sf_From :: string
  sf_FromName :: string
  sf_Message :: string
  sf_MessageID :: string
  sf_Ts :: int
  sf_Trust :: string
  sf_GroupID :: string
  sf_GroupName :: string
  sf_Local :: bool
  sf_DeliveryMode :: string
  sf_ReactionFor :: string
  sf_Filename :: string
  sf_Path :: string
  sf_Size :: nat

definition no_surface :: SurfaceEvent where
  "no_surface = \<lparr>sf_Type = [], sf_From = [], sf_FromName = [], sf_Message = [], sf_MessageID = [], sf_Ts = 0,
     sf_Trust = [], sf_GroupID = [], sf_GroupName = [], sf_Local = False, sf_DeliveryMode = [],
     sf_ReactionFor = [], sf_Filename = [], sf_Path = [], sf_Size = 0\<rparr>"

definition deliverSteer :: string where "deliverSteer = ''steer''"
definition deliverFollowUp :: string where "deliverFollowUp = ''followUp''"

record fileRef =
  fr_Type :: string
  fr_URL :: string
  fr_Key :: string
  fr_Filename :: string
  fr_Size :: int
  fr_Mime :: string

text \<open>A parsed URL, as far as the program looks at it.\<close>

record url =
  u_Scheme :: string
  u_Host :: string
  u_Hostname :: string

text \<open>
  The world of the agent: its clock, URL parsing and name lookup, the interruption of a body that is read, the directories, and the
  files it reads and writes with their failures.
\<close>

record agent_env = names_env +
  agent_clock :: "nat \<Rightarrow> int"
  url_parse :: "string \<Rightarrow> string + url"
  lookup_ip :: "nat \<Rightarrow> string \<Rightarrow> string + nat list list"
  body_err :: "nat \<Rightarrow> string option"
  InboxDir :: string
  getwd :: "string + string"
  file_size :: "nat \<Rightarrow> string \<Rightarrow> string + nat"
  file_read :: "nat \<Rightarrow> string \<Rightarrow> string + string"
  open_err :: "nat \<Rightarrow> string option"
  save_err :: "nat \<Rightarrow> (nat \<times> string) option"

record agent =
  a_tick :: nat
  st :: store
  sess :: session
  names :: "names_client option"
  mesh :: "Registry option"
  selfName :: string
  lastInboundFrom :: string
  lastInboundGroup :: string
  lastInboundMessageID :: string
  presenceState :: string
  presenceMessage :: string
  surfaceSink :: bool
  surfaced :: "SurfaceEvent list"
  downloads :: "(InboundEvent \<times> fileRef) list"
  files :: "(string \<times> string) list"

definition maxInboundDownloads :: nat where
  "maxInboundDownloads = 8"

definition NewAgent :: "store \<Rightarrow> agent" where
  "NewAgent s = \<lparr>a_tick = 0, st = s, sess = NewSession, names = None, mesh = None, selfName = [],
     lastInboundFrom = [], lastInboundGroup = [], lastInboundMessageID = [], presenceState = ''online'',
     presenceMessage = [], surfaceSink = False, surfaced = [], downloads = [], files = []\<rparr>"

definition agent_step_tick :: "(agent, nat) state" where
  "agent_step_tick = State (\<lambda>a. (a_tick a, a\<lparr>a_tick := a_tick a + 1\<rparr>))"

definition agent_now :: "'e agent_env_scheme \<Rightarrow> (agent, int) state" where
  "agent_now e = do { t \<leftarrow> agent_step_tick; State_Monad.return (agent_clock e t) }"

text \<open>Calls of the components. The code calls the names client and the mesh only after its check for
  \<open>nil\<close>; a \<open>nil\<close> pointer stays one.\<close>

definition db :: "(store, 'a) state \<Rightarrow> (agent, 'a) state" where
  "db = zoom st (\<lambda>s a. a\<lparr>st := s\<rparr>)"

definition on_session :: "(session, 'a) state \<Rightarrow> (agent, 'a) state" where
  "on_session = zoom sess (\<lambda>s a. a\<lparr>sess := s\<rparr>)"

definition on_chain :: "(names_client, 'a) state \<Rightarrow> (agent, 'a) state" where
  "on_chain = zoom (\<lambda>a. the (names a)) (\<lambda>n a. a\<lparr>names := map_option (\<lambda>_. n) (names a)\<rparr>)"

definition local_mesh :: "(Registry, 'a) state \<Rightarrow> (agent, 'a) state" where
  "local_mesh = zoom (\<lambda>a. the (mesh a)) (\<lambda>r a. a\<lparr>mesh := map_option (\<lambda>_. r) (mesh a)\<rparr>)"

text \<open>\<open>_ = call\<close>: the error is dropped.\<close>

definition ignore :: "('s, 'a) state \<Rightarrow> ('s, unit) state" where
  "ignore m = do { m; State_Monad.return () }"

definition SetMesh :: "Registry \<Rightarrow> string \<Rightarrow> (agent, unit) state" where
  "SetMesh reg self = modify (\<lambda>a. a\<lparr>mesh := Some reg, selfName := (if self = [] then ''main'' else self)\<rparr>)"

definition OnSurface :: "bool \<Rightarrow> (agent, unit) state" where
  "OnSurface sink = modify (\<lambda>a. a\<lparr>surfaceSink := sink\<rparr>)"

definition surface :: "SurfaceEvent \<Rightarrow> (agent, unit) state" where
  "surface ev = modify (\<lambda>a. if surfaceSink a then a\<lparr>surfaced := surfaced a @ [ev]\<rparr> else a)"

definition ContactsView :: "'e agent_env_scheme \<Rightarrow> (agent, Contact list \<times> string option) state" where
  "ContactsView e = db (GetContacts e)"

definition HistoryView :: "'e agent_env_scheme \<Rightarrow> string \<Rightarrow> int \<Rightarrow> (agent, Message list \<times> string option) state" where
  "HistoryView e peer limit = db (GetHistory e peer limit)"

definition tsISO :: "'e agent_env_scheme \<Rightarrow> int \<Rightarrow> (agent, string) state" where
  "tsISO e ms =
     (if ms \<le> 0 then do { now \<leftarrow> agent_now e; State_Monad.return (iso_ms now) }
      else State_Monad.return (iso_ms ms))"


section \<open>Inbound policy\<close>

definition syncContactName :: "'e agent_env_scheme \<Rightarrow> string \<Rightarrow> string \<Rightarrow> (agent, unit) state" where
  "syncContactName e address relayName =
     (if relayName = [] then State_Monad.return ()
      else do {
        r \<leftarrow> db (GetContactName e address);
        if relayName \<noteq> fst r then ignore (db (UpdateContactName e address relayName))
        else State_Monad.return ()
      })"

text \<open>A \<open>&&\<close> or \<open>||\<close> chain of queries: the later ones run only when they are needed.\<close>

definition muted :: "'e agent_env_scheme \<Rightarrow> string \<Rightarrow> string \<Rightarrow> (agent, bool) state" where
  "muted e from groupID = do {
     allm \<leftarrow> db (IsAllMuted e);
     if fst allm then State_Monad.return True
     else do {
       g \<leftarrow> (if groupID \<noteq> [] then db (IsMuted e groupID MuteGroup) else State_Monad.return (False, None));
       if fst g then State_Monad.return True
       else do { m \<leftarrow> db (IsMuted e from MuteAgent); State_Monad.return (fst m) }
     }
   }"

definition setLastInbound :: "'e agent_env_scheme \<Rightarrow> string \<Rightarrow> string \<Rightarrow> string \<Rightarrow> (agent, unit) state" where
  "setLastInbound e from grp msgID = do {
     modify (\<lambda>a. a\<lparr>lastInboundFrom := from, lastInboundGroup := grp, lastInboundMessageID := msgID\<rparr>);
     ignore (db (MetaSet e ''last_inbound_from'' from));
     ignore (db (MetaSet e ''last_inbound_group'' grp));
     ignore (db (MetaSet e ''last_inbound_msgid'' msgID))
   }"

definition getLastInbound :: "'e agent_env_scheme \<Rightarrow> (agent, string \<times> string \<times> string) state" where
  "getLastInbound e = do {
     from \<leftarrow> gets lastInboundFrom;
     grp \<leftarrow> gets lastInboundGroup;
     msgID \<leftarrow> gets lastInboundMessageID;
     if from = [] \<and> msgID = [] then do {
       f \<leftarrow> db (MetaGet e ''last_inbound_from'');
       g \<leftarrow> db (MetaGet e ''last_inbound_group'');
       m \<leftarrow> db (MetaGet e ''last_inbound_msgid'');
       State_Monad.return (fst f, fst g, fst m)
     } else State_Monad.return (from, grp, msgID)
   }"

text \<open>The event of a message surfaced as it is, and the one of a reaction.\<close>

definition message_surface :: "InboundEvent \<Rightarrow> string \<Rightarrow> SurfaceEvent" where
  "message_surface ev mode = no_surface\<lparr>sf_Type := ''message'', sf_From := ev_From ev, sf_FromName := ev_FromName ev,
     sf_Message := ev_Plaintext ev, sf_MessageID := ev_ID ev, sf_Ts := ev_Ts ev, sf_DeliveryMode := mode\<rparr>"

definition decode_file :: "string \<Rightarrow> fileRef option" where
  "decode_file s = map_option (\<lambda>kvs. \<lparr>fr_Type = str_field kvs ''type'', fr_URL = str_field kvs ''url'',
       fr_Key = str_field kvs ''key'', fr_Filename = str_field kvs ''filename'', fr_Size = int_field kvs ''size'',
       fr_Mime = str_field kvs ''mime''\<rparr>)
     (unmarshal_struct \<lparr>fs_str = [''type'', ''url'', ''key'', ''filename'', ''mime''], fs_int = [''size''],
       fs_bool = [], fs_strs = []\<rparr> s)"

definition parseFileRef :: "string \<Rightarrow> fileRef option" where
  "parseFileRef plaintext =
     (let s = trim_space plaintext
      in if \<not> has_prefix s ''{'' then None
         else (case decode_file s of
             None \<Rightarrow> None
           | Some fr \<Rightarrow> if fr_Type fr \<noteq> ''file'' \<or> fr_URL fr = [] then None else Some fr))"

text \<open>The semaphore has \<open>maxInboundDownloads\<close> slots; one is taken per running download.\<close>

definition surfaceInboundDM :: "'e agent_env_scheme \<Rightarrow> InboundEvent \<Rightarrow> (agent, unit) state" where
  "surfaceInboundDM e ev = (case parseFileRef (ev_Plaintext ev) of
       Some fr \<Rightarrow> do {
         busy \<leftarrow> gets (\<lambda>a. length (downloads a));
         if busy < maxInboundDownloads
         then modify (\<lambda>a. a\<lparr>downloads := downloads a @ [(ev, fr)]\<rparr>)
         else surface (message_surface ev deliverSteer)
       }
     | None \<Rightarrow> surface (message_surface ev deliverSteer))"

definition handleInboundDM :: "'e agent_env_scheme \<Rightarrow> InboundEvent \<Rightarrow> (agent, unit) state" where
  "handleInboundDM e ev =
     (if \<not> ev_Verified ev then State_Monad.return ()
      else do {
        syncContactName e (ev_From ev) (ev_FromName ev);
        isContact \<leftarrow> db (IsContact e (ev_From ev));
        if \<not> fst isContact then do {
          ignore (db (SavePending e (ev_ID ev) (ev_From ev) (ev_Plaintext ev) (ev_Ts ev)));
          notified \<leftarrow> db (HasPendingNotified e (ev_From ev));
          if \<not> fst notified then do {
            ignore (db (MarkPendingNotified e (ev_From ev)));
            surface ((message_surface ev deliverFollowUp)\<lparr>sf_Trust := ''pending''\<rparr>)
          } else State_Monad.return ()
        } else do {
          ts \<leftarrow> tsISO e (ev_Ts ev);
          ignore (db (SaveMessage e (ev_ID ev) (ev_From ev) ''inbound'' (ev_Plaintext ev) ts));
          m \<leftarrow> muted e (ev_From ev) [];
          if m then State_Monad.return ()
          else do {
            setLastInbound e (ev_From ev) [] (ev_ID ev);
            surfaceInboundDM e ev
          }
        }
      })"

definition handleInboundGroup :: "'e agent_env_scheme \<Rightarrow> InboundEvent \<Rightarrow> (agent, unit) state" where
  "handleInboundGroup e ev = do {
     syncContactName e (ev_From ev) (ev_FromName ev);
     ts \<leftarrow> tsISO e (ev_Ts ev);
     ignore (db (SaveMessage e (ev_ID ev) (ev_GroupID ev) ''inbound'' (ev_Plaintext ev) ts));
     m \<leftarrow> muted e (ev_From ev) (ev_GroupID ev);
     if m then State_Monad.return ()
     else do {
       setLastInbound e (ev_From ev) (ev_GroupID ev) (ev_ID ev);
       surface ((message_surface ev deliverFollowUp)\<lparr>sf_GroupID := ev_GroupID ev, sf_GroupName := ev_GroupName ev\<rparr>)
     }
   }"

definition save_reaction :: "'e agent_env_scheme \<Rightarrow> InboundEvent \<Rightarrow> (agent, unit) state" where
  "save_reaction e ev = do {
     ts \<leftarrow> tsISO e (ev_Ts ev);
     ignore (db (SaveReaction e (ev_ReactionFor ev) (ev_From ev) (ev_Plaintext ev) ts));
     surface ((message_surface ev deliverSteer)\<lparr>sf_Trust := ''reaction'', sf_GroupID := ev_GroupID ev,
       sf_GroupName := ev_GroupName ev, sf_ReactionFor := ev_ReactionFor ev\<rparr>)
   }"

definition Agent_handleInboundReaction :: "'e agent_env_scheme \<Rightarrow> InboundEvent \<Rightarrow> (agent, unit) state" where
  "Agent_handleInboundReaction e ev =
     (if ev_GroupID ev = [] then
        (if \<not> ev_Verified ev then State_Monad.return ()
         else do {
           ok \<leftarrow> db (IsContact e (ev_From ev));
           if \<not> fst ok then State_Monad.return () else save_reaction e ev
         })
      else save_reaction e ev)"

definition handleInbound :: "'e agent_env_scheme \<Rightarrow> InboundEvent \<Rightarrow> (agent, unit) state" where
  "handleInbound e ev = do {
     isBlocked \<leftarrow> db (IsBlocked e (ev_From ev));
     if fst isBlocked then State_Monad.return ()
     else if ev_Kind ev = ''dm'' then handleInboundDM e ev
     else if ev_Kind ev = ''group'' then handleInboundGroup e ev
     else if ev_Kind ev = ''group_invite'' then
       ignore (db (SaveGroupInvite e \<lparr>gi_id = ev_GroupID ev, gi_name = ev_GroupName ev, gi_from = ev_From ev,
         gi_members = ev_Members ev, gi_ts = ev_Ts ev\<rparr>))
     else if ev_Kind ev = ''group_member_update'' then
       (if ev_Action ev = ''joined'' then ignore (db (AddGroupMember e (ev_GroupID ev) (ev_From ev) []))
        else if ev_Action ev = ''left'' then ignore (db (RemoveGroupMember e (ev_GroupID ev) (ev_From ev)))
        else State_Monad.return ())
     else if ev_Kind ev = ''reaction'' then Agent_handleInboundReaction e ev
     else State_Monad.return ()
   }"

section \<open>The relay session of the agent\<close>

definition onKeyLearned :: "'e agent_env_scheme \<Rightarrow> string \<Rightarrow> string \<Rightarrow> (agent, unit) state" where
  "onKeyLearned e address pubHex = ignore (db (SaveKeyCache e address pubHex))"

definition flush_item :: "'e agent_env_scheme \<Rightarrow> OutboxItem \<Rightarrow> (agent, unit) state" where
  "flush_item e it =
     (if 10 \<le> o_attempts it then ignore (db (DeleteOutbox e (o_id it)))
      else do {
        err \<leftarrow> on_session (SendQueued e (o_id it) (o_to it) (o_encrypted it) (o_signature it));
        if err \<noteq> None then ignore (db (IncrementOutboxAttempts e (o_id it)))
        else ignore (db (DeleteOutbox e (o_id it)))
      })"

definition flushOutbox :: "'e agent_env_scheme \<Rightarrow> (agent, unit) state" where
  "flushOutbox e = do {
     r \<leftarrow> db (GetOutbox e);
     case r of
       (items, Some err) \<Rightarrow> State_Monad.return ()
     | (items, None) \<Rightarrow> for_each items (flush_item e)
   }"

definition onReady :: "'e agent_env_scheme \<Rightarrow> (agent, unit) state" where
  "onReady e = do {
     pState \<leftarrow> gets presenceState;
     pMsg \<leftarrow> gets presenceMessage;
     ignore (on_session (SetPresence e pState pMsg));
     flushOutbox e
   }"

text \<open>A callback of the session; the single-flight flag of \<open>OnReady\<close> is reset when it returns.\<close>

definition run_callback :: "'e agent_env_scheme \<Rightarrow> callback \<Rightarrow> (agent, unit) state" where
  "run_callback e cb = (case cb of
       OnInbound ev \<Rightarrow> handleInbound e ev
     | OnKeyLearned addr pub \<Rightarrow> onKeyLearned e addr pub
     | OnReady \<Rightarrow> do { onReady e; modify (\<lambda>a. a\<lparr>sess := (sess a)\<lparr>onReadyActive := False\<rparr>\<rparr>) })"

definition take_callbacks :: "(agent, callback list) state" where
  "take_callbacks = State (\<lambda>a. (callbacks (sess a), a\<lparr>sess := (sess a)\<lparr>callbacks := []\<rparr>\<rparr>))"

definition relay :: "'e agent_env_scheme \<Rightarrow> (session, 'a) state \<Rightarrow> (agent, 'a) state" where
  "relay e m = do {
     r \<leftarrow> on_session m;
     cbs \<leftarrow> take_callbacks;
     for_each cbs (run_callback e);
     State_Monad.return r
   }"

definition cachedKey :: "'e agent_env_scheme \<Rightarrow> string \<Rightarrow> (agent, string) state" where
  "cachedKey e addr = do {
     k \<leftarrow> on_session (CachedKey addr);
     if k \<noteq> [] then State_Monad.return k
     else do {
       r \<leftarrow> db (GetKeyCache e addr);
       if fst r \<noteq> [] then do { on_session (PrimeKey addr (fst r)); State_Monad.return (fst r) }
       else State_Monad.return []
     }
   }"

definition RelayReady :: "(agent, bool) state" where
  "RelayReady = on_session IsReady"

text \<open>\<open>Start\<close>, up to the connect loop it launches.\<close>

definition Start :: "'e agent_env_scheme \<Rightarrow> (agent, unit) state" where
  "Start e = do {
     v \<leftarrow> db (MetaGet e ''presence_state'');
     (case v of (x, ok, err) \<Rightarrow>
        if ok \<and> (x = ''online'' \<or> x = ''away'') then modify (\<lambda>a. a\<lparr>presenceState := x\<rparr>)
        else State_Monad.return ());
     v \<leftarrow> db (MetaGet e ''presence_message'');
     (case v of (x, ok, err) \<Rightarrow>
        if ok then modify (\<lambda>a. a\<lparr>presenceMessage := x\<rparr>) else State_Monad.return ());
     (case base_dial e of
        Some err \<Rightarrow> State_Monad.return ()
      | None \<Rightarrow> modify (\<lambda>a. a\<lparr>names := Some new_names_client\<rparr>))
   }"

end
