(* ===== verification/Agent_Files.thy ===== *)
theory Agent_Files
  imports Agent_Core
begin

text \<open>
  Inbound files (\<open>surface.go\<close>): where a downloaded file may land, which URLs may be fetched, and the
  download itself. \<open>filepath\<close> is modelled for Unix paths. The files of the inbox are the map
  \<open>files\<close> of the agent, to which \<open>O_CREATE|O_EXCL\<close> adds. The lemmas show that a file lands directly
  in the inbox and never replaces another.
\<close>

section \<open>Package filepath\<close>

fun split_slash :: "string \<Rightarrow> string list" where
  "split_slash [] = [[]]"
| "split_slash (c # s) =
     (if c = CHR ''/'' then [] # split_slash s
      else (case split_slash s of [] \<Rightarrow> [[c]] | p # ps \<Rightarrow> (c # p) # ps))"

text \<open>The elements of a cleaned path, newest first; \<open>..\<close> at the root is dropped.\<close>

fun clean_elems :: "bool \<Rightarrow> string list \<Rightarrow> string list \<Rightarrow> string list" where
  "clean_elems rooted acc [] = rev acc"
| "clean_elems rooted acc (p # ps) =
     (if p = [] \<or> p = ''.'' then clean_elems rooted acc ps
      else if p = ''..'' then
        (if acc \<noteq> [] \<and> hd acc \<noteq> ''..'' then clean_elems rooted (tl acc) ps
         else if rooted then clean_elems rooted acc ps
         else clean_elems rooted (p # acc) ps)
      else clean_elems rooted (p # acc) ps)"

definition is_abs :: "string \<Rightarrow> bool" where
  "is_abs p \<longleftrightarrow> has_prefix p ''/''"

definition Clean :: "string \<Rightarrow> string" where
  "Clean p =
     (let s = (if is_abs p then ''/'' else []) @ join (clean_elems (is_abs p) [] (split_slash p)) ''/''
      in if s = [] then ''.'' else s)"

definition path_join :: "string \<Rightarrow> string \<Rightarrow> string" where
  "path_join a b =
     (if a = [] then (if b = [] then [] else Clean b) else Clean (a @ ''/'' @ b))"

definition Abs :: "'e agent_env_scheme \<Rightarrow> string \<Rightarrow> string + string" where
  "Abs e p = (if is_abs p then Inr (Clean p)
     else (case getwd e of Inl err \<Rightarrow> Inl err | Inr wd \<Rightarrow> Inr (path_join wd p)))"

definition strip_slashes :: "string \<Rightarrow> string" where
  "strip_slashes p = rev (dropWhile (\<lambda>c. c = CHR ''/'') (rev p))"

text \<open>The part after the last slash, and the part up to it.\<close>

definition after_slash :: "string \<Rightarrow> string" where
  "after_slash p = rev (takeWhile (\<lambda>c. c \<noteq> CHR ''/'') (rev p))"

definition upto_slash :: "string \<Rightarrow> string" where
  "upto_slash p = rev (dropWhile (\<lambda>c. c \<noteq> CHR ''/'') (rev p))"

definition Base :: "string \<Rightarrow> string" where
  "Base p = (if p = [] then ''.'' else
     (let b = after_slash (strip_slashes p) in if b = [] then ''/'' else b))"

definition Dir :: "string \<Rightarrow> string" where
  "Dir p = Clean (upto_slash p)"

text \<open>The suffix from the last dot of the last element.\<close>

definition Ext :: "string \<Rightarrow> string" where
  "Ext p = (let b = after_slash p in
     if CHR ''.'' \<in> set b then CHR ''.'' # rev (takeWhile (\<lambda>c. c \<noteq> CHR ''.'') (rev b)) else [])"

section \<open>The inbox\<close>

definition unsafeFileName :: "string \<Rightarrow> bool" where
  "unsafeFileName name \<longleftrightarrow> name \<in> {[], ''.'', ''..'', ''/''} \<or> CHR ''/'' \<in> set name"

definition inboxDest :: "'e agent_env_scheme \<Rightarrow> fileRef \<Rightarrow> string + string" where
  "inboxDest e fr =
     (let name = Base (fr_Filename fr);
          name = (if unsafeFileName name then Base (fr_Key fr) else name)
      in if unsafeFileName name then Inl ''inbound file: no safe filename in ref''
         else (case Abs e (InboxDir e) of
             Inl err \<Rightarrow> Inl err
           | Inr inboxAbs \<Rightarrow> (case Abs e (path_join inboxAbs name) of
                 Inl err \<Rightarrow> Inl err
               | Inr dstAbs \<Rightarrow>
                   if Dir dstAbs \<noteq> inboxAbs \<or> \<not> has_prefix dstAbs (inboxAbs @ ''/'')
                   then Inl (''inbound file: path '' @ quote dstAbs @ '' escapes inbox '' @ quote inboxAbs)
                   else Inr dstAbs)))"

text \<open>
  One candidate of \<open>writeNoClobber\<close>: the exclusive open fails when the file exists (then the next one
  is tried) or as the world says; a write or close that fails has written the bytes the world says.
\<close>

datatype open_result = Opened | Exists | Open_failed string

definition open_excl :: "'e agent_env_scheme \<Rightarrow> string \<Rightarrow> (agent, open_result) state" where
  "open_excl e p = do {
     ex \<leftarrow> gets (\<lambda>a. p \<in> fst ` set (files a));
     if ex then State_Monad.return Exists
     else do {
       t \<leftarrow> agent_step_tick;
       case open_err e t of
         Some err \<Rightarrow> State_Monad.return (Open_failed err)
       | None \<Rightarrow> do { modify (\<lambda>a. a\<lparr>files := files a @ [(p, [])]\<rparr>); State_Monad.return Opened }
     }
   }"

definition set_content :: "string \<Rightarrow> string \<Rightarrow> agent \<Rightarrow> agent" where
  "set_content p data a = a\<lparr>files := map (\<lambda>(q, c). if q = p then (q, data) else (q, c)) (files a)\<rparr>"

definition write_file :: "'e agent_env_scheme \<Rightarrow> string \<Rightarrow> string \<Rightarrow> (agent, string option) state" where
  "write_file e p data = do {
     t \<leftarrow> agent_step_tick;
     case save_err e t of
       Some (n, err) \<Rightarrow> do { modify (set_content p (take n data)); State_Monad.return (Some err) }
     | None \<Rightarrow> do { modify (set_content p data); State_Monad.return None }
   }"

definition candidate :: "string \<Rightarrow> nat \<Rightarrow> string" where
  "candidate dst i =
     (let ext = Ext dst; base = trim_suffix dst ext
      in if i = 0 then dst else base @ ''-'' @ nat_str i @ ext)"

text \<open>\<open>n\<close> candidates are left, the next one is number \<open>i\<close>.\<close>

fun try_write :: "'e agent_env_scheme \<Rightarrow> string \<Rightarrow> string \<Rightarrow> nat \<Rightarrow> nat \<Rightarrow> (agent, string + string) state" where
  "try_write e dst data i 0 =
     State_Monad.return (Inl (''inbound file: too many name collisions for '' @ quote dst))"
| "try_write e dst data i (Suc n) = do {
     let p = candidate dst i;
     r \<leftarrow> open_excl e p;
     case r of
       Exists \<Rightarrow> try_write e dst data (i + 1) n
     | Open_failed err \<Rightarrow> State_Monad.return (Inl (''save file: '' @ err))
     | Opened \<Rightarrow> do {
         werr \<leftarrow> write_file e p data;
         State_Monad.return (case werr of Some err \<Rightarrow> Inl (''save file: '' @ err) | None \<Rightarrow> Inr p)
       }
   }"

definition writeNoClobber :: "'e agent_env_scheme \<Rightarrow> string \<Rightarrow> string \<Rightarrow> (agent, string + string) state" where
  "writeNoClobber e dst data = try_write e dst data 0 1000"

section \<open>Fetching\<close>

definition maxInboundFile :: nat where
  "maxInboundFile = 12 * 1024 * 1024"

definition relayURLAllowed :: "'e agent_env_scheme \<Rightarrow> string \<Rightarrow> string \<Rightarrow> string option" where
  "relayURLAllowed e rawURL relayBase = (case url_parse e rawURL of
       Inl err \<Rightarrow> Some (''inbound file: bad url: '' @ err)
     | Inr u \<Rightarrow> (case url_parse e relayBase of
           Inl err \<Rightarrow> Some (''inbound file: relay base unknown ('' @ quote relayBase @ '')'')
         | Inr rb \<Rightarrow>
             if u_Host rb = [] then Some (''inbound file: relay base unknown ('' @ quote relayBase @ '')'')
             else if \<not> equal_fold (u_Scheme u) (u_Scheme rb)
             then Some (''inbound file: url scheme '' @ quote (u_Scheme u) @ '' != relay scheme '' @ quote (u_Scheme rb))
             else if \<not> equal_fold (u_Host u) (u_Host rb)
             then Some (''inbound file: url host '' @ quote (u_Host u) @ '' is not the relay '' @ quote (u_Host rb))
             else None))"

text \<open>An IP is its 4 or 16 bytes; \<open>To4\<close> reads the IPv4 address an IPv6 address may carry.\<close>

definition To4 :: "nat list \<Rightarrow> nat list option" where
  "To4 ip = (if length ip = 4 then Some ip
     else if length ip = 16 \<and> take 12 ip = replicate 10 0 @ [255, 255] then Some (drop 12 ip)
     else None)"

definition IsLoopback :: "nat list \<Rightarrow> bool" where
  "IsLoopback ip = (case To4 ip of Some v4 \<Rightarrow> v4 ! 0 = 127 | None \<Rightarrow> ip = replicate 15 0 @ [1])"

definition IsLinkLocalUnicast :: "nat list \<Rightarrow> bool" where
  "IsLinkLocalUnicast ip = (case To4 ip of
       Some v4 \<Rightarrow> v4 ! 0 = 169 \<and> v4 ! 1 = 254
     | None \<Rightarrow> length ip = 16 \<and> ip ! 0 = 254 \<and> ip ! 1 div 64 = 2)"

definition IsLinkLocalMulticast :: "nat list \<Rightarrow> bool" where
  "IsLinkLocalMulticast ip = (case To4 ip of
       Some v4 \<Rightarrow> v4 ! 0 = 224 \<and> v4 ! 1 = 0 \<and> v4 ! 2 = 0
     | None \<Rightarrow> length ip = 16 \<and> ip ! 0 = 255 \<and> ip ! 1 mod 16 = 2)"

definition IsUnspecified :: "nat list \<Rightarrow> bool" where
  "IsUnspecified ip = (case To4 ip of Some v4 \<Rightarrow> v4 = replicate 4 0 | None \<Rightarrow> ip = replicate 16 0)"

definition blockedFetchIP :: "nat list \<Rightarrow> bool" where
  "blockedFetchIP ip \<longleftrightarrow> IsLoopback ip \<or> IsLinkLocalUnicast ip \<or> IsLinkLocalMulticast ip \<or> IsUnspecified ip"

text \<open>\<open>net.IP.String\<close> of an IPv4 address; the text of an IPv6 address is only in an error message and
  is left as its bytes.\<close>

definition ip_str :: "nat list \<Rightarrow> string" where
  "ip_str ip = (case To4 ip of Some v4 \<Rightarrow> join (map nat_str v4) ''.'' | None \<Rightarrow> map char_of ip)"

definition validateAbsoluteFileURL :: "'e agent_env_scheme \<Rightarrow> string \<Rightarrow> (agent, string option) state" where
  "validateAbsoluteFileURL e rawURL = (case relayURLAllowed e rawURL (httpBaseFromWS (relayURL e)) of
       Some err \<Rightarrow> State_Monad.return (Some err)
     | None \<Rightarrow> (case url_parse e rawURL of
           Inl err \<Rightarrow> State_Monad.return (Some (''inbound file: bad url: '' @ err))
         | Inr u \<Rightarrow> do {
             t \<leftarrow> agent_step_tick;
             State_Monad.return (case lookup_ip e t (u_Hostname u) of
                 Inl err \<Rightarrow> Some (''inbound file: cannot resolve '' @ quote (u_Hostname u) @ '': '' @ err)
               | Inr ips \<Rightarrow> (case find blockedFetchIP ips of
                     Some ip \<Rightarrow> Some (''inbound file: '' @ quote (u_Hostname u) @ '' resolves to blocked address '' @ ip_str ip)
                   | None \<Rightarrow> None))
           }))"

text \<open>The closure \<open>read\<close>: status, the limited read of the body, and the cap.\<close>

definition read_blob :: "'e agent_env_scheme \<Rightarrow> nat \<times> string \<Rightarrow> (agent, string + string) state" where
  "read_blob e resp = (case resp of (status, content) \<Rightarrow>
     if status div 100 \<noteq> 2 then State_Monad.return (Inl (''download status '' @ nat_str status))
     else do {
       t \<leftarrow> agent_step_tick;
       State_Monad.return (case body_err e t of
           Some err \<Rightarrow> Inl err
         | None \<Rightarrow> (let data = take (maxInboundFile + 1) content
             in if maxInboundFile < length data
                then Inl (''inbound file exceeds '' @ nat_str maxInboundFile @ ''-byte cap'')
                else Inr data))
     })"

definition fetchFileBlob :: "'e agent_env_scheme \<Rightarrow> string \<Rightarrow> (agent, string + string) state" where
  "fetchFileBlob e rawURL =
     (if has_prefix rawURL ''http://'' \<or> has_prefix rawURL ''https://'' then do {
        bad \<leftarrow> validateAbsoluteFileURL e rawURL;
        case bad of
          Some err \<Rightarrow> State_Monad.return (Inl err)
        | None \<Rightarrow> do {
            resp \<leftarrow> on_session (do_http e \<lparr>rq_method = ''GET'', rq_url = rawURL, rq_headers = [], rq_body = NoBody\<rparr>);
            case resp of Inl err \<Rightarrow> State_Monad.return (Inl err) | Inr r \<Rightarrow> read_blob e r
          }
      }
      else if \<not> has_prefix rawURL ''/'' \<or> has_prefix rawURL ''//''
      then State_Monad.return (Inl (''inbound file: unsupported url '' @ quote rawURL))
      else do {
        resp \<leftarrow> on_session (PlainGet e rawURL);
        let signed = do {
          resp \<leftarrow> on_session (SignedRequest e ''GET'' rawURL NoBody []);
          (case resp of Inl err \<Rightarrow> State_Monad.return (Inl err) | Inr r \<Rightarrow> read_blob e r)
        };
        case resp of
          Inr r \<Rightarrow> if fst r div 100 = 2 then read_blob e r else signed
        | Inl err \<Rightarrow> signed
      })"

definition downloadInboundFile :: "'e agent_env_scheme \<Rightarrow> fileRef \<Rightarrow> (agent, string + string \<times> nat) state" where
  "downloadInboundFile e fr = (case inboxDest e fr of
       Inl err \<Rightarrow> State_Monad.return (Inl err)
     | Inr dst \<Rightarrow> do {
         blob \<leftarrow> fetchFileBlob e (fr_URL fr);
         case blob of
           Inl err \<Rightarrow> State_Monad.return (Inl err)
         | Inr b \<Rightarrow> (case DecryptBinary e (priv_key e) b of
               Inl err \<Rightarrow> State_Monad.return (Inl (''decrypt file: '' @ err))
             | Inr plain \<Rightarrow> do {
                 saved \<leftarrow> writeNoClobber e dst plain;
                 State_Monad.return (case saved of Inl err \<Rightarrow> Inl err | Inr p \<Rightarrow> Inr (p, length plain))
               })
       })"

definition surfaceInboundFile :: "'e agent_env_scheme \<Rightarrow> InboundEvent \<Rightarrow> fileRef \<Rightarrow> (agent, unit) state" where
  "surfaceInboundFile e ev fr = do {
     r \<leftarrow> downloadInboundFile e fr;
     case r of
       Inl err \<Rightarrow> surface (message_surface ev deliverSteer)
     | Inr (path, n) \<Rightarrow> surface (no_surface\<lparr>sf_Type := ''file'', sf_From := ev_From ev,
         sf_FromName := ev_FromName ev, sf_Filename := fr_Filename fr, sf_Path := path, sf_Size := n,
         sf_MessageID := ev_ID ev, sf_Ts := ev_Ts ev, sf_DeliveryMode := deliverSteer\<rparr>)
   }"

text \<open>The download goroutine number \<open>i\<close> runs, and frees its slot.\<close>

definition run_download :: "'e agent_env_scheme \<Rightarrow> nat \<Rightarrow> (agent, unit) state" where
  "run_download e i = do {
     ds \<leftarrow> gets downloads;
     if i < length ds then do {
       (case ds ! i of (ev, fr) \<Rightarrow> surfaceInboundFile e ev fr);
       modify (\<lambda>a. a\<lparr>downloads := remove1 (ds ! i) (downloads a)\<rparr>)
     } else State_Monad.return ()
   }"

end
