(* ===== verification/Agent_Send.thy ===== *)
theory Agent_Send
  imports Agent_Files
begin

text \<open>
  The messaging operations of the agent (\<open>ops.go\<close>): name resolution, sending to the local mesh, to the
  relay or to the outbox, replies, reactions, files, and group messages. An operation
  returns its error text or its \<open>Result\<close>.
\<close>

type_synonym op = "(agent, string + Result) state"

abbreviation fail :: "string \<Rightarrow> op" where
  "fail err \<equiv> State_Monad.return (Inl err)"

abbreviation ok :: "string \<Rightarrow> (string \<times> json) list \<Rightarrow> op" where
  "ok t d \<equiv> State_Monad.return (Inr \<lparr>res_Text = t, res_Data = d\<rparr>)"

abbreviation ok_text :: "string \<Rightarrow> op" where
  "ok_text t \<equiv> State_Monad.return (Inr (text_result t))"

section \<open>Relay requests\<close>

text \<open>The one field of an answer that is looked at; with the errors ignored, what was assigned to it.\<close>

definition decode_text :: "string \<Rightarrow> string \<Rightarrow> string option" where
  "decode_text f content = (case decode_struct (strings_only [f]) content of
       Decoded kvs \<Rightarrow> Some (str_field kvs f)
     | _ \<Rightarrow> None)"

definition decode_url :: "string \<Rightarrow> string" where
  "decode_url content = (case decode_first content of
       Decoded (JObj kvs) \<Rightarrow> (case filter is_str (field_values ''url'' kvs) of v # vs \<Rightarrow> the_str v | _ \<Rightarrow> [])
     | _ \<Rightarrow> [])"

definition signedRaw ::
  "'e agent_env_scheme \<Rightarrow> string \<Rightarrow> string \<Rightarrow> body \<Rightarrow> (agent, string + string) state" where
  "signedRaw e meth path content = do {
     resp \<leftarrow> on_session (SignedRequest e meth path content
       (if content \<noteq> NoBody then [(''Content-Type'', ''application/json'')] else []));
     State_Monad.return (case resp of
         Inl err \<Rightarrow> Inl err
       | Inr (status, respBody) \<Rightarrow>
           if status div 100 \<noteq> 2
           then Inl (''relay '' @ meth @ '' '' @ path @ '' failed ('' @ nat_str status @ ''): '' @ trim_space respBody)
           else Inr respBody)
   }"

definition signedJSON ::
  "'e agent_env_scheme \<Rightarrow> string \<Rightarrow> string \<Rightarrow> json \<Rightarrow> (agent, string + string) state" where
  "signedJSON e meth path content = signedRaw e meth path (JsonBody content)"

section \<open>Contacts and names\<close>

text \<open>The loop of \<open>addContactAndFlush\<close> over the flushed messages.\<close>

definition save_pending :: "'e agent_env_scheme \<Rightarrow> string \<Rightarrow> PendingMsg \<Rightarrow> (agent, unit) state" where
  "save_pending e address pm = do {
     ts \<leftarrow> tsISO e (pm_ts pm);
     ignore (db (SaveMessage e (pm_id pm) address ''inbound'' (pm_plaintext pm) ts))
   }"

definition addContactAndFlush :: "'e agent_env_scheme \<Rightarrow> string \<Rightarrow> string \<Rightarrow> (agent, nat) state" where
  "addContactAndFlush e address name = do {
     ignore (db (AddContact e address name));
     r \<leftarrow> db (FlushPending e address);
     case r of (msgs, err) \<Rightarrow>
       if err \<noteq> None \<or> msgs = [] then State_Monad.return 0
       else do {
         for_each msgs (save_pending e address);
         State_Monad.return (length msgs)
       }
   }"

text \<open>The four sources of a name, each asked only when the ones before gave nothing.\<close>

definition resolve_relay :: "'e agent_env_scheme \<Rightarrow> string \<Rightarrow> (agent, string) state" where
  "resolve_relay e label = do {
     ready \<leftarrow> RelayReady;
     if \<not> ready then State_Monad.return []
     else do {
       r \<leftarrow> relay e (Session_Resolve e label);
       case r of (addr, pub, err) \<Rightarrow>
         if err = None \<and> addr \<noteq> [] then do {
           (if pub \<noteq> [] then ignore (db (SaveKeyCache e addr pub)) else State_Monad.return ());
           State_Monad.return addr
         } else State_Monad.return []
     }
   }"

definition resolve_http :: "'e agent_env_scheme \<Rightarrow> string \<Rightarrow> (agent, string) state" where
  "resolve_http e label = do {
     resp \<leftarrow> on_session (PlainGet e (''/resolve?name='' @ label));
     State_Monad.return (case resp of
         Inl err \<Rightarrow> []
       | Inr (status, content) \<Rightarrow>
           if status div 100 \<noteq> 2 then []
           else (case decode_text ''address'' content of
               None \<Rightarrow> []
             | Some a \<Rightarrow> if a \<noteq> [] \<and> a \<noteq> zero_address then normalize_addr a else []))
   }"

definition resolve_chain :: "'e agent_env_scheme \<Rightarrow> string \<Rightarrow> (agent, string) state" where
  "resolve_chain e label = do {
     nc \<leftarrow> gets names;
     if nc = None then State_Monad.return []
     else do {
       r \<leftarrow> on_chain (Names_Resolve e label);
       State_Monad.return (case r of
           Inl err \<Rightarrow> []
         | Inr (owner, node) \<Rightarrow> if owner \<noteq> zero_address then to_lower owner else [])
     }
   }"

definition resolve_contacts :: "'e agent_env_scheme \<Rightarrow> string \<Rightarrow> (agent, string) state" where
  "resolve_contacts e label = do {
     c \<leftarrow> db (GetContactByName e (label @ ''.attn''));
     if fst c \<noteq> [] then State_Monad.return (fst c)
     else do { c \<leftarrow> db (GetContactByName e label); State_Monad.return (fst c) }
   }"

definition or_else :: "string \<Rightarrow> (agent, string) state \<Rightarrow> (agent, string) state" where
  "or_else addr m = (if addr = [] then m else State_Monad.return addr)"

definition name_label :: "string \<Rightarrow> string" where
  "name_label inp = to_lower (trim_suffix (trim_space inp) ''.attn'')"

definition resolveName :: "'e agent_env_scheme \<Rightarrow> string \<Rightarrow> (agent, string \<times> string option) state" where
  "resolveName e inp = do {
     let label = name_label inp;
     if length label < 3 then State_Monad.return ([], Some ''invalid name'')
     else do {
       addr \<leftarrow> resolve_relay e label;
       addr \<leftarrow> or_else addr (resolve_http e label);
       addr \<leftarrow> or_else addr (resolve_chain e label);
       addr \<leftarrow> or_else addr (resolve_contacts e label);
       (if addr \<noteq> [] then ignore (addContactAndFlush e addr (label @ ''.attn'')) else State_Monad.return ());
       State_Monad.return (addr, None)
     }
   }"

text \<open>\<open>strings.TrimSuffix(strings.ToLower(to), ".attn") + ".attn (addr)"\<close>.\<close>

definition attn_display :: "string \<Rightarrow> string \<Rightarrow> string" where
  "attn_display to addr = trim_suffix (to_lower to) ''.attn'' @ ''.attn ('' @ addr @ '')''"

definition fetchPrimaryName :: "'e agent_env_scheme \<Rightarrow> string \<Rightarrow> (agent, string) state" where
  "fetchPrimaryName e address = do {
     resp \<leftarrow> on_session (PlainGet e (''/primary?address='' @ normalize_addr address));
     State_Monad.return (case resp of
         Inl err \<Rightarrow> []
       | Inr (status, content) \<Rightarrow>
           if status div 100 \<noteq> 2 then []
           else (case decode_text ''name'' content of None \<Rightarrow> [] | Some n \<Rightarrow> n))
   }"

section \<open>Sending\<close>

definition meshAndSelf :: "(agent, Registry option \<times> string) state" where
  "meshAndSelf = gets (\<lambda>a. (mesh a, selfName a))"

text \<open>The frame of a local message: id, then clock.\<close>

definition local_frame :: "'e agent_env_scheme \<Rightarrow> string \<Rightarrow> string \<Rightarrow> bool \<Rightarrow> (agent, Frame) state" where
  "local_frame e self message bcast = do {
     mid \<leftarrow> on_session (newID e);
     now \<leftarrow> agent_now e;
     State_Monad.return \<lparr>f_ID = mid, f_From = self, f_FromAddress = own_address e, f_Text = message,
       f_Ts = now, f_Broadcast = bcast, f_ReactionFor = []\<rparr>
   }"

definition sendLocalTo :: "'e agent_env_scheme \<Rightarrow> nat \<Rightarrow> string \<Rightarrow> string \<Rightarrow> op" where
  "sendLocalTo e entry self message = do {
     frame \<leftarrow> local_frame e self message False;
     name \<leftarrow> local_mesh (gets (\<lambda>r. e_Name (heap r ! entry)));
     err \<leftarrow> local_mesh (RouteTo e (Some entry) frame);
     case err of
       Some x \<Rightarrow> fail (''local delivery to '' @ quote name @ '' failed: '' @ x)
     | None \<Rightarrow> do {
         ignore (db (SaveMessage e (f_ID frame) (''local:'' @ name) ''outbound'' message []));
         ok (''Message sent to local session '' @ quote name @ '' (relay bypassed)'')
           [(''id'', JStr (f_ID frame)), (''status'', JStr ''delivered''), (''local'', JBool True), (''to'', JStr name)]
       }
   }"

definition sendLocalBroadcast :: "'e agent_env_scheme \<Rightarrow> string \<Rightarrow> string \<Rightarrow> op" where
  "sendLocalBroadcast e self message = do {
     frame \<leftarrow> local_frame e self message True;
     sent \<leftarrow> local_mesh (Broadcast e frame self);
     if sent = [] then fail ''no local peers are running''
     else do {
       ignore (db (SaveMessage e (f_ID frame) ''local:all'' ''outbound'' message []));
       ok (''Message broadcast to '' @ nat_str (length sent) @ '' local session(s): '' @ join sent '', '')
         [(''id'', JStr (f_ID frame)), (''status'', JStr ''delivered''), (''local'', JBool True),
          (''recipients'', JInt (int (length sent))), (''sessions'', JList (map JStr sent))]
     }
   }"

text \<open>The record of a message that went out: history, then the recipient as a contact.\<close>

definition sent_to :: "'e agent_env_scheme \<Rightarrow> string \<Rightarrow> string \<Rightarrow> string \<Rightarrow> (agent, unit) state" where
  "sent_to e mid addr message = do {
     ignore (db (SaveMessage e mid addr ''outbound'' message []));
     ignore (addContactAndFlush e addr [])
   }"

definition send_online :: "'e agent_env_scheme \<Rightarrow> string \<Rightarrow> string \<Rightarrow> string \<Rightarrow> string \<Rightarrow> op" where
  "send_online e addr display message pub = do {
     r \<leftarrow> relay e (Session_Send e addr message pub);
     case r of (res, encrypted, err) \<Rightarrow>
       (case err of
          Some x \<Rightarrow>
            if encrypted \<noteq> [] \<and> contains x ''delivery_status'' then do {
              sent_to e (dr_ID res) addr message;
              ok (''Message sent to '' @ display @ '' (no delivery confirmation within 15s)'')
                [(''id'', JStr (dr_ID res)), (''status'', JStr ''unconfirmed'')]
            } else fail x
        | None \<Rightarrow> do {
            sent_to e (dr_ID res) addr message;
            ok (''Message sent to '' @ display)
              [(''id'', JStr (dr_ID res)), (''status'', JStr (dr_Status res)),
               (''recipient_state'', JStr (dr_RecipientState res)), (''ciphertext_len'', JInt (int (length encrypted)))]
          })
   }"

definition send_offline :: "'e agent_env_scheme \<Rightarrow> string \<Rightarrow> string \<Rightarrow> string \<Rightarrow> string \<Rightarrow> op" where
  "send_offline e addr display message pub =
     (if pub = [] then fail (''relay offline and recipient key not cached '' @ em_dash @ '' cannot queue'')
      else do {
        mid \<leftarrow> on_session (newID e);
        t \<leftarrow> on_session sess_tick;
        case EncryptBase64 e t pub message of
          Inl err \<Rightarrow> fail (''encrypt: '' @ err)
        | Inr encrypted \<Rightarrow> (case Session_SignEnvelope e mid addr encrypted of
              Inl err \<Rightarrow> fail err
            | Inr sig \<Rightarrow> do {
                now \<leftarrow> agent_now e;
                r \<leftarrow> db (SaveOutbox e mid addr encrypted sig now);
                case r of
                  Some err \<Rightarrow> fail err
                | None \<Rightarrow> do {
                    sent_to e mid addr message;
                    ok (''Message queued for '' @ display @ '' (relay offline). Will send on reconnect.'')
                      [(''id'', JStr mid), (''status'', JStr ''queued'')]
                  }
              })
      })"

text \<open>The relay path of \<open>Send\<close>, for what the local mesh does not take.\<close>

definition send_relay :: "'e agent_env_scheme \<Rightarrow> string \<Rightarrow> string \<Rightarrow> op" where
  "send_relay e to message = do {
     target \<leftarrow> (if isValidAddress to then State_Monad.return (Inr (to, to))
       else do {
         r \<leftarrow> resolveName e to;
         State_Monad.return (case r of (resolved, err) \<Rightarrow>
           if err \<noteq> None \<or> resolved = []
           then Inl (''could not resolve '' @ quote to @ '' (not a local session or registered .attn name)'')
           else Inr (resolved, attn_display to resolved))
       });
     case target of
       Inl err \<Rightarrow> fail err
     | Inr (addr, display) \<Rightarrow> do {
         let addr = normalize_addr addr;
         pub \<leftarrow> cachedKey e addr;
         ready \<leftarrow> RelayReady;
         if ready then send_online e addr display message pub
         else send_offline e addr display message pub
       }
   }"

definition Agent_Send :: "'e agent_env_scheme \<Rightarrow> string \<Rightarrow> string \<Rightarrow> op" where
  "Agent_Send e to message =
     (if to = [] then fail ''recipient is required''
      else do {
        ms \<leftarrow> meshAndSelf;
        case ms of
          (Some reg, self) \<Rightarrow>
            if to = ''all'' then sendLocalBroadcast e self message
            else if \<not> isValidAddress to \<and> \<not> has_suffix (to_lower to) ''.attn'' then do {
              entry \<leftarrow> local_mesh (Resolve to);
              case entry of
                Some p \<Rightarrow> sendLocalTo e p self message
              | None \<Rightarrow> send_relay e to message
            }
            else send_relay e to message
        | (None, self) \<Rightarrow>
            if to = ''all''
            then fail (''local broadcast ('' @ quote ''all'' @ '') requires the local mesh (the HTTP/WS interface) '' @
              em_dash @ '' unavailable in control-only mode'')
            else send_relay e to message
      })"


section \<open>Groups\<close>

text \<open>The ciphertexts per recipient; the agent itself and members without a key are left out.\<close>

definition member_key :: "'e agent_env_scheme \<Rightarrow> string \<Rightarrow> (agent, string) state" where
  "member_key e addr = do {
     pub \<leftarrow> cachedKey e addr;
     if pub \<noteq> [] then State_Monad.return pub
     else do { r \<leftarrow> relay e (GetKey e addr); State_Monad.return (fst r) }
   }"

fun encrypt_members ::
  "'e agent_env_scheme \<Rightarrow> string \<Rightarrow> GroupMember list \<Rightarrow> (string \<times> string) list \<Rightarrow>
   (agent, (string \<times> string) list) state" where
  "encrypt_members e plaintext [] blobs = State_Monad.return blobs"
| "encrypt_members e plaintext (m # ms) blobs =
     (if normalize_addr (fst m) = own_address e then encrypt_members e plaintext ms blobs
      else do {
        pub \<leftarrow> member_key e (fst m);
        if pub = [] then encrypt_members e plaintext ms blobs
        else do {
          t \<leftarrow> on_session sess_tick;
          encrypt_members e plaintext ms (case EncryptBase64 e t pub plaintext of
              Inl err \<Rightarrow> blobs
            | Inr ct \<Rightarrow> AList.update (normalize_addr (fst m)) ct blobs)
        }
      })"

definition encryptForMembers ::
  "'e agent_env_scheme \<Rightarrow> GroupMember list \<Rightarrow> string \<Rightarrow> (agent, (string \<times> string) list) state" where
  "encryptForMembers e members plaintext = encrypt_members e plaintext members []"

definition json_map :: "(string \<times> string) list \<Rightarrow> json" where
  "json_map m = JObj (map (\<lambda>(k, v). (k, JStr v)) m)"

definition SendGroup :: "'e agent_env_scheme \<Rightarrow> string \<Rightarrow> string \<Rightarrow> op" where
  "SendGroup e groupID message = do {
     r \<leftarrow> db (GetGroupMembers e groupID);
     let members = fst r;
     if members = [] then fail ''group not found or has no members''
     else do {
       n \<leftarrow> db (GetGroupName e groupID);
       blobs \<leftarrow> encryptForMembers e members message;
       if blobs = [] then fail ''could not encrypt for any group member''
       else do {
         mid \<leftarrow> on_session (newID e);
         r \<leftarrow> signedJSON e ''POST'' (''/groups/'' @ groupID @ ''/send'') (JObj [(''id'', JStr mid),
           (''from'', JStr (own_address e)), (''group_id'', JStr groupID), (''group_name'', JStr (fst n)),
           (''blobs'', json_map blobs)]);
         case r of
           Inl err \<Rightarrow> fail err
         | Inr x \<Rightarrow> do {
             ignore (db (SaveMessage e mid groupID ''outbound'' message []));
             ok (''Message sent to group '' @ quote (fst n) @ '' ('' @ nat_str (length members) @ '' members)'')
               [(''id'', JStr mid), (''recipients'', JInt (int (length blobs)))]
           }
       }
     }
   }"

section \<open>Replies and reactions\<close>

definition Reply :: "'e agent_env_scheme \<Rightarrow> string \<Rightarrow> op" where
  "Reply e message = do {
     last \<leftarrow> getLastInbound e;
     case last of (from, grp, m) \<Rightarrow>
       (let target = (if grp = [] then from else grp)
        in if target = [] then fail ''no recent inbound message to reply to''
           else if grp \<noteq> [] then SendGroup e grp message
           else Agent_Send e target message)
   }"

definition reactGroup :: "'e agent_env_scheme \<Rightarrow> string \<Rightarrow> string \<Rightarrow> string \<Rightarrow> op" where
  "reactGroup e groupID messageID emoji = do {
     r \<leftarrow> db (GetGroupMembers e groupID);
     let members = fst r;
     if members = [] then fail ''group not found or has no members''
     else do {
       n \<leftarrow> db (GetGroupName e groupID);
       blobs \<leftarrow> encryptForMembers e members emoji;
       if blobs = [] then fail ''could not encrypt for any group member''
       else do {
         mid \<leftarrow> on_session (newID e);
         r \<leftarrow> signedJSON e ''POST'' (''/groups/'' @ groupID @ ''/react'') (JObj [(''id'', JStr mid),
           (''from'', JStr (own_address e)), (''group_id'', JStr groupID), (''group_name'', JStr (fst n)),
           (''message_id'', JStr messageID), (''blobs'', json_map blobs)]);
         case r of
           Inl err \<Rightarrow> fail err
         | Inr x \<Rightarrow> do {
             ignore (db (SaveReaction e messageID (own_address e) emoji []));
             ok_text (''Reacted '' @ emoji @ '' in group '' @ quote (fst n))
           }
       }
     }
   }"

text \<open>What is reacted to: the message id, the recipient and the group; for the last inbound message, or
  for a stored one.\<close>

definition react_last :: "'e agent_env_scheme \<Rightarrow> (agent, string + string \<times> string \<times> string) state" where
  "react_last e = do {
     last \<leftarrow> getLastInbound e;
     State_Monad.return (case last of (from, grp, lastMsgID) \<Rightarrow>
       if lastMsgID = []
       then Inl (''no message to react to '' @ em_dash @ '' provide message_id or receive a message first'')
       else if from = [] \<and> grp = [] then Inl ''no recent inbound message to react to''
       else Inr (lastMsgID, from, grp))
   }"

definition react_stored :: "'e agent_env_scheme \<Rightarrow> string \<Rightarrow> (agent, string + string \<times> string \<times> string) state" where
  "react_stored e messageID = do {
     getLastInbound e;
     r \<leftarrow> db (GetMessageByID e messageID);
     State_Monad.return (case r of
         (Some msg, None) \<Rightarrow>
           if m_direction msg = ''outbound'' then Inl ''cannot react to your own outbound message''
           else if isValidAddress (m_peer msg) then Inr (messageID, m_peer msg, [])
           else Inr (messageID, [], m_peer msg)
       | _ \<Rightarrow> Inl (''message not found: '' @ messageID))
   }"

definition React :: "'e agent_env_scheme \<Rightarrow> string \<Rightarrow> string \<Rightarrow> op" where
  "React e emoji messageID =
     (if emoji = [] then fail ''emoji is required''
      else do {
        let emoji = emojiToUnicode emoji;
        target \<leftarrow> (if messageID = [] then react_last e else react_stored e messageID);
        case target of
          Inl err \<Rightarrow> fail err
        | Inr (mid, recipient, groupID) \<Rightarrow>
            if groupID \<noteq> [] then reactGroup e groupID mid emoji
            else do {
              pub \<leftarrow> cachedKey e recipient;
              r \<leftarrow> relay e (SendReaction e recipient mid emoji pub);
              case r of
                Some err \<Rightarrow> fail (''send reaction: '' @ err)
              | None \<Rightarrow> do {
                  ignore (db (SaveReaction e mid (own_address e) emoji []));
                  ok_text (''Reacted '' @ emoji @ '' to message from '' @ recipient)
                }
            }
      })"

section \<open>Files\<close>

definition maxSendFile :: nat where
  "maxSendFile = 10 * 1024 * 1024"

text \<open>The upload of the encrypted file under a new key, the reference to it, and its sending.\<close>

definition file_reference :: "string \<Rightarrow> string \<Rightarrow> string \<Rightarrow> nat \<Rightarrow> json" where
  "file_reference url key path n = JObj [(''type'', JStr ''file''), (''url'', JStr url), (''key'', JStr key),
     (''filename'', JStr (Base path)), (''size'', JInt (int n)), (''mime'', JStr ''application/octet-stream'')]"

definition upload_and_send :: "'e agent_env_scheme \<Rightarrow> string \<Rightarrow> string \<Rightarrow> nat \<Rightarrow> string \<Rightarrow> op" where
  "upload_and_send e addr path n blob = do {
     fileKey \<leftarrow> on_session (newID e);
     resp \<leftarrow> on_session (SignedRequest e ''POST'' ''/upload'' (RawBody blob) [(''X-File-Key'', fileKey)]);
     case resp of
       Inl err \<Rightarrow> fail (''upload: '' @ err)
     | Inr (status, content) \<Rightarrow>
         if status div 100 \<noteq> 2
         then fail (''upload failed ('' @ nat_str status @ ''): '' @ trim_space content)
         else Agent_Send e addr (marshal (file_reference (decode_url content) fileKey path n))
   }"

definition send_file_to :: "'e agent_env_scheme \<Rightarrow> string \<Rightarrow> string \<Rightarrow> op" where
  "send_file_to e addr path = do {
     t \<leftarrow> agent_step_tick;
     case file_size e t path of
       Inl err \<Rightarrow> fail (''file not found: '' @ path)
     | Inr n \<Rightarrow>
         if maxSendFile < n then fail ''file too large (max 10 MB)''
         else do {
           t \<leftarrow> agent_step_tick;
           case file_read e t path of
             Inl err \<Rightarrow> fail err
           | Inr data \<Rightarrow> do {
               pub \<leftarrow> cachedKey e addr;
               k \<leftarrow> (if pub \<noteq> [] then State_Monad.return (pub, None) else relay e (GetKey e addr));
               if snd k \<noteq> None \<or> fst k = [] then fail (''could not find public key for '' @ addr)
               else do {
                 t \<leftarrow> on_session sess_tick;
                 case EncryptBinary e t (fst k) data of
                   Inl err \<Rightarrow> fail (''encrypt file: '' @ err)
                 | Inr blob \<Rightarrow> upload_and_send e addr path n blob
               }
             }
         }
   }"

definition SendFile :: "'e agent_env_scheme \<Rightarrow> string \<Rightarrow> string \<Rightarrow> op" where
  "SendFile e to path =
     (if to = [] \<or> path = [] then fail ''recipient and path are required''
      else if isValidAddress to then send_file_to e (normalize_addr to) path
      else do {
        r \<leftarrow> resolveName e to;
        case r of (resolved, err) \<Rightarrow>
          if err \<noteq> None \<or> resolved = [] then fail (''could not resolve '' @ quote to)
          else send_file_to e (normalize_addr resolved) path
      })"

end
