(* ===== verification/Agent_Ops.thy ===== *)
theory Agent_Ops
  imports Agent_Send
begin

text \<open>
  The other operations of the agent (\<open>ops.go\<close>): contacts, history, groups, the local sessions, \<open>.attn\<close>
  names, mutes and presence, and \<open>Dispatch\<close>, which the control socket, the HTTP API and the MCP
  server drive. The texts are built from the same pieces as in the code.
\<close>

section \<open>Contacts\<close>

definition Agent_AddContact :: "'e agent_env_scheme \<Rightarrow> string \<Rightarrow> string \<Rightarrow> op" where
  "Agent_AddContact e address name =
     (if \<not> isValidAddress address then fail ''invalid Ethereum address''
      else do {
        pn \<leftarrow> fetchPrimaryName e address;
        let name = (if pn \<noteq> [] then pn else name);
        flushed \<leftarrow> addContactAndFlush e address name;
        let label = (if name \<noteq> [] then name @ '' ('' @ address @ '')'' else address);
        if 0 < flushed
        then ok_text (''Added '' @ label @ '' as contact. Delivered '' @ nat_str flushed @ '' pending message(s).'')
        else ok_text (''Added '' @ label @ '' as contact.'')
      })"

text \<open>An operation that ends with the error of its statement, or with a text.\<close>

definition finish :: "string option \<Rightarrow> string \<Rightarrow> op" where
  "finish err t = (case err of Some x \<Rightarrow> fail x | None \<Rightarrow> ok_text t)"

definition Agent_RemoveContact :: "'e agent_env_scheme \<Rightarrow> string \<Rightarrow> op" where
  "Agent_RemoveContact e address =
     (if \<not> isValidAddress address then fail ''invalid Ethereum address''
      else do {
        err \<leftarrow> db (RemoveContact e address);
        finish err (''Removed '' @ address @ '' from contacts.'')
      })"

definition Block :: "'e agent_env_scheme \<Rightarrow> string \<Rightarrow> bool \<Rightarrow> op" where
  "Block e address unblock =
     (if \<not> isValidAddress address then fail ''invalid Ethereum address''
      else if unblock then do {
        err \<leftarrow> db (UnblockContact e address);
        finish err (''Unblocked '' @ address @ ''.'')
      }
      else do {
        err \<leftarrow> db (BlockContact e address);
        finish err (''Blocked '' @ address @ ''. All messages from them will be silently dropped.'')
      })"

text \<open>The lines of a listing, or the line \<open>(none)\<close>.\<close>

definition lines_or_none :: "string list \<Rightarrow> string" where
  "lines_or_none ls = (if ls = [] then ''  (none)'' @ nl else concat ls)"

definition contact_line :: "Contact \<Rightarrow> string" where
  "contact_line c = (case c of (address, name, added) \<Rightarrow>
     ''  '' @ (if name \<noteq> [] then name @ '' '' @ em_dash @ '' '' @ address else address) @
     '' (added '' @ datePart added @ '')'' @ nl)"

definition pending_line :: "string \<times> nat \<Rightarrow> string" where
  "pending_line p = ''  '' @ fst p @ '' ('' @ nat_str (snd p) @ '' message(s))'' @ nl"

definition blocked_line :: "Blocked \<Rightarrow> string" where
  "blocked_line b = ''  '' @ b_address b @ '' (blocked '' @ datePart (b_at b) @ '')'' @ nl"

definition Contacts :: "'e agent_env_scheme \<Rightarrow> op" where
  "Contacts e = do {
     cs \<leftarrow> db (GetContacts e);
     ps \<leftarrow> db (GetPendingSenders e);
     bs \<leftarrow> db (GetBlocked e);
     ok (''Your address: '' @ own_address e @ nl @ nl @
         ''Contacts ('' @ nat_str (length (fst cs)) @ ''):'' @ nl @ lines_or_none (map contact_line (fst cs)) @
         nl @ ''Pending requests ('' @ nat_str (length (fst ps)) @ ''):'' @ nl @ lines_or_none (map pending_line (fst ps)) @
         nl @ ''Blocked ('' @ nat_str (length (fst bs)) @ ''):'' @ nl @ lines_or_none (map blocked_line (fst bs)))
       [(''contacts'', JInt (int (length (fst cs)))), (''pending'', JInt (int (length (fst ps)))),
        (''blocked'', JInt (int (length (fst bs))))]
   }"

section \<open>History\<close>

definition history_line :: "Reaction list \<Rightarrow> Message \<Rightarrow> string" where
  "history_line rs m =
     (let arrow = (if m_direction m = ''inbound'' then arrow_left else arrow_right);
          t = trim_suffix (replace_first (m_ts m) ''T'' '' '') ''Z'';
          es = map r_emoji (filter (\<lambda>r. r_message r = m_id m) rs)
      in ''['' @ t @ ''] '' @ arrow @ '' '' @ m_content m @
         (if es \<noteq> [] then '' [reactions: '' @ join es '', '' @ '']'' else []) @ nl)"

definition History :: "'e agent_env_scheme \<Rightarrow> string \<Rightarrow> int \<Rightarrow> op" where
  "History e peer limit =
     (if peer = [] then fail ([CHR 0x60] @ ''with'' @ [CHR 0x60] @ '' is required'')
      else do {
        r \<leftarrow> db (GetHistory e peer limit);
        case r of
          (msgs, Some err) \<Rightarrow> fail err
        | (msgs, None) \<Rightarrow>
            if msgs = [] then ok_text (''No messages found with '' @ peer)
            else do {
              rs \<leftarrow> db (GetReactionsForMessages e (map m_id msgs));
              n \<leftarrow> db (GetContactName e peer);
              n \<leftarrow> (if fst n = [] then db (GetGroupName e peer) else State_Monad.return n);
              let header = (if fst n \<noteq> [] then ''Messages with '' @ fst n @ '' ('' @ peer @ '')''
                else ''Messages with '' @ peer);
              ok (header @ '':'' @ nl @ concat (map (history_line (fst rs)) msgs))
                [(''count'', JInt (int (length msgs)))]
            }
      })"

section \<open>Groups\<close>

text \<open>The loop of \<open>CreateGroup\<close>: valid members are normalised and added once, after the agent.\<close>

fun collect_members :: "string list \<Rightarrow> string list \<Rightarrow> string + string list" where
  "collect_members all [] = Inr all"
| "collect_members all (m # ms) =
     (if \<not> isValidAddress m then Inl (''invalid address: '' @ m)
      else let lm = normalize_addr m
           in collect_members (if lm \<in> set all then all else all @ [lm]) ms)"

definition Agent_CreateGroup :: "'e agent_env_scheme \<Rightarrow> string \<Rightarrow> string list \<Rightarrow> op" where
  "Agent_CreateGroup e name members =
     (if name = [] then fail ''group name is required''
      else if members = [] then fail ''at least one member is required''
      else (case collect_members [own_address e] members of
          Inl err \<Rightarrow> fail err
        | Inr all \<Rightarrow> do {
            gid \<leftarrow> on_session (newID e);
            err \<leftarrow> db (CreateGroup e gid name (map (\<lambda>m. (m, [])) all));
            case err of
              Some x \<Rightarrow> fail x
            | None \<Rightarrow> do {
                r \<leftarrow> signedJSON e ''POST'' ''/groups'' (JObj [(''id'', JStr gid), (''name'', JStr name),
                  (''members'', JList (map JStr all)), (''admin'', JStr (own_address e))]);
                case r of
                  Inl err \<Rightarrow> fail (''create group on relay: '' @ err)
                | Inr x \<Rightarrow> ok (''Created group '' @ quote name @ '' ('' @ nat_str (length all) @ '' members). ID: '' @ gid)
                    [(''group_id'', JStr gid), (''members'', JInt (int (length all)))]
              }
          }))"

definition AddToGroup :: "'e agent_env_scheme \<Rightarrow> string \<Rightarrow> string \<Rightarrow> string \<Rightarrow> op" where
  "AddToGroup e groupID address name =
     (if \<not> isValidAddress address then fail ''invalid Ethereum address''
      else do {
        err \<leftarrow> db (AddGroupMember e groupID address name);
        case err of
          Some x \<Rightarrow> fail x
        | None \<Rightarrow> do {
            r \<leftarrow> signedJSON e ''POST'' (''/groups/'' @ groupID @ ''/members'')
              (JObj [(''address'', JStr (normalize_addr address))]);
            case r of
              Inl err \<Rightarrow> fail err
            | Inr x \<Rightarrow> ok_text (''Added '' @
                (if name \<noteq> [] then name @ '' ('' @ address @ '')'' else address) @ '' to group.'')
          }
      })"

definition member_path :: "string \<Rightarrow> string \<Rightarrow> string" where
  "member_path groupID addr = ''/groups/'' @ groupID @ ''/members/'' @ addr"

definition LeaveGroup :: "'e agent_env_scheme \<Rightarrow> string \<Rightarrow> op" where
  "LeaveGroup e groupID = do {
     n \<leftarrow> db (GetGroupName e groupID);
     if fst n = [] then fail ''group not found''
     else do {
       r \<leftarrow> signedRaw e ''DELETE'' (member_path groupID (own_address e)) NoBody;
       case r of
         Inl err \<Rightarrow> fail err
       | Inr x \<Rightarrow> do {
           ignore (db (DeleteGroup e groupID));
           ok_text (''Left group '' @ quote (fst n) @ ''.'')
         }
     }
   }"

definition AcceptGroup :: "'e agent_env_scheme \<Rightarrow> string \<Rightarrow> op" where
  "AcceptGroup e groupID = do {
     invites \<leftarrow> db (GetGroupInvites e);
     case find (\<lambda>iv. gi_id iv = groupID) (fst invites) of
       None \<Rightarrow> fail ''no pending invite for this group ID''
     | Some iv \<Rightarrow> do {
         err \<leftarrow> db (CreateGroup e groupID (gi_name iv) (map (\<lambda>m. (m, [])) (gi_members iv)));
         case err of
           Some x \<Rightarrow> fail x
         | None \<Rightarrow> do {
             r \<leftarrow> signedJSON e ''POST'' (''/groups/'' @ groupID @ ''/accept'')
               (JObj [(''address'', JStr (own_address e))]);
             case r of
               Inl err \<Rightarrow> fail err
             | Inr x \<Rightarrow> do {
                 ignore (db (DeleteGroupInvite e groupID));
                 ok_text (''Joined group '' @ quote (gi_name iv) @ '' ('' @ nat_str (length (gi_members iv)) @ '' members).'')
               }
           }
       }
   }"

definition DeclineGroup :: "'e agent_env_scheme \<Rightarrow> string \<Rightarrow> op" where
  "DeclineGroup e groupID = do {
     invites \<leftarrow> db (GetGroupInvites e);
     case find (\<lambda>iv. gi_id iv = groupID) (fst invites) of
       None \<Rightarrow> fail ''no pending invite for this group ID''
     | Some iv \<Rightarrow> do {
         ignore (signedRaw e ''DELETE'' (member_path groupID (own_address e)) NoBody);
         ignore (db (DeleteGroupInvite e groupID));
         ok_text (''Declined invite for group '' @ quote (gi_name iv) @ ''.'')
       }
   }"

definition KickFromGroup :: "'e agent_env_scheme \<Rightarrow> string \<Rightarrow> string \<Rightarrow> op" where
  "KickFromGroup e groupID address =
     (if \<not> isValidAddress address then fail ''invalid Ethereum address''
      else do {
        r \<leftarrow> signedRaw e ''DELETE'' (member_path groupID (normalize_addr address)) NoBody;
        case r of
          Inl err \<Rightarrow> fail err
        | Inr x \<Rightarrow> do {
            ignore (db (RemoveGroupMember e groupID address));
            ok_text (''Kicked '' @ address @ '' from the group.'')
          }
      })"

definition TransferGroupAdmin :: "'e agent_env_scheme \<Rightarrow> string \<Rightarrow> string \<Rightarrow> op" where
  "TransferGroupAdmin e groupID address =
     (if \<not> isValidAddress address then fail ''invalid Ethereum address''
      else do {
        r \<leftarrow> signedJSON e ''POST'' (''/groups/'' @ groupID @ ''/transfer'')
          (JObj [(''from'', JStr (own_address e)), (''to'', JStr (normalize_addr address))]);
        case r of
          Inl err \<Rightarrow> fail err
        | Inr x \<Rightarrow> ok_text (''Transferred admin to '' @ address @ ''.'')
      })"

definition invite_line :: "GroupInvite \<Rightarrow> string" where
  "invite_line iv = ''  '' @ quote (gi_name iv) @ '' from '' @ gi_from iv @ '' ('' @ nat_str (length (gi_members iv)) @
     '' members)'' @ nl @ ''  ID: '' @ gi_id iv @ nl"

definition member_line :: "GroupMember \<Rightarrow> string" where
  "member_line m = ''    '' @ (if snd m \<noteq> [] then snd m @ '' '' @ em_dash @ '' '' @ fst m else fst m) @ nl"

definition group_text :: "'e agent_env_scheme \<Rightarrow> group_row \<times> nat \<Rightarrow> (agent, string) state" where
  "group_text e g = do {
     members \<leftarrow> db (GetGroupMembers e (g_id (fst g)));
     State_Monad.return (nl @ ''  '' @ g_name (fst g) @ '' ('' @ nat_str (snd g) @ '' members)'' @ nl @
       ''  ID: '' @ g_id (fst g) @ nl @ concat (map member_line (fst members)))
   }"

definition Groups :: "'e agent_env_scheme \<Rightarrow> op" where
  "Groups e = do {
     gs \<leftarrow> db (GetGroups e);
     ivs \<leftarrow> db (GetGroupInvites e);
     parts \<leftarrow> traverse_list (group_text e) (fst gs);
     ok ((if fst ivs \<noteq> [] then ''Pending Invites ('' @ nat_str (length (fst ivs)) @ ''):'' @ nl @
            concat (map invite_line (fst ivs)) @ nl else []) @
         ''Groups ('' @ nat_str (length (fst gs)) @ ''):'' @ nl @ lines_or_none parts)
       [(''groups'', JInt (int (length (fst gs)))), (''invites'', JInt (int (length (fst ivs))))]
   }"

section \<open>Local sessions\<close>

definition transport_str :: "Transport \<Rightarrow> string" where
  "transport_str t = (case t of TransportWS \<Rightarrow> ''ws-subscriber'' | TransportHTTP \<Rightarrow> ''http-target'')"

definition peer_line :: "string \<Rightarrow> View \<Rightarrow> string" where
  "peer_line self v = ''  '' @ (if v_Name v = self then arrow_right @ '' '' else ''  '') @ v_Name v @
     (if v_Harness v \<noteq> [] then '' ['' @ v_Harness v @ '']'' else []) @ nl"

definition peer_json :: "View \<Rightarrow> json" where
  "peer_json v = JObj [(''name'', JStr (v_Name v)), (''harness'', JStr (v_Harness v)),
     (''transport'', JStr (transport_str (v_Transport v))), (''online'', JBool True)]"

definition Peers :: "'e agent_env_scheme \<Rightarrow> op" where
  "Peers e = do {
     ms \<leftarrow> meshAndSelf;
     case ms of
       (None, self) \<Rightarrow> ok (''Local mesh is not enabled (control-only mode '' @ em_dash @ '' no HTTP/WS interface).'')
         [(''peers'', JList []), (''count'', JInt 0)]
     | (Some reg, self) \<Rightarrow> do {
         views \<leftarrow> local_mesh ListViews;
         ok (''Local sessions ('' @ nat_str (length views) @ ''):'' @ nl @ lines_or_none (map (peer_line self) views))
           [(''peers'', JList (map peer_json views)), (''count'', JInt (int (length views)))]
       }
   }"


section \<open>Names\<close>

definition bytes_hex :: "string \<Rightarrow> string" where
  "bytes_hex s = concat (map (\<lambda>c. [hex_digit (of_char c div 16), hex_digit (of_char c mod 16)]) s)"

definition attn_label :: "string \<Rightarrow> string" where
  "attn_label label = to_lower (trim_suffix label ''.attn'')"

definition lookup_address :: "'e agent_env_scheme \<Rightarrow> string \<Rightarrow> op" where
  "lookup_address e q = do {
     nc \<leftarrow> gets names;
     if nc = None then fail ''Base RPC unavailable''
     else do {
       r \<leftarrow> on_chain (PrimaryNameOf e (HexToAddress e q));
       case r of
         Inl err \<Rightarrow> fail err
       | Inr name \<Rightarrow>
           if name = [] then ok_text (''No primary .attn name set for '' @ q)
           else ok (q @ '' '' @ arrow_right @ '' '' @ name @ ''.attn'') [(''name'', JStr (name @ ''.attn''))]
     }
   }"

definition lookup_chain :: "'e agent_env_scheme \<Rightarrow> string \<Rightarrow> op" where
  "lookup_chain e label = do {
     nc \<leftarrow> gets names;
     if nc = None then fail ''Base RPC unavailable and relay resolve failed''
     else do {
       r \<leftarrow> on_chain (Names_Resolve e label);
       case r of
         Inl err \<Rightarrow> fail err
       | Inr (owner, node) \<Rightarrow>
           if owner = zero_address then ok_text (quote (label @ ''.attn'') @ '' is not registered.'')
           else ok (label @ ''.attn '' @ arrow_right @ '' '' @ to_lower owner) [(''address'', JStr (to_lower owner))]
     }
   }"

definition Agent_Lookup :: "'e agent_env_scheme \<Rightarrow> string \<Rightarrow> op" where
  "Agent_Lookup e q =
     (if q = [] then fail ''query is required''
      else if has_prefix q ''0x'' then lookup_address e q
      else do {
        let label = attn_label q;
        ready \<leftarrow> RelayReady;
        if \<not> ready then lookup_chain e label
        else do {
          r \<leftarrow> relay e (Session_Resolve e label);
          case r of (addr, pub, err) \<Rightarrow>
            if err = None \<and> addr \<noteq> [] then
              ok (label @ ''.attn '' @ arrow_right @ '' '' @ addr @
                  (if pub \<noteq> [] then '' (connected)'' else '' (never connected)''))
                [(''address'', JStr addr), (''connected'', JBool (pub \<noteq> []))]
            else lookup_chain e label
        }
      })"

definition names_count :: "'e agent_env_scheme \<Rightarrow> string \<Rightarrow> op" where
  "names_count e target = do {
     nc \<leftarrow> gets names;
     if nc = None then fail ''Base RPC unavailable''
     else do {
       r \<leftarrow> on_chain (BalanceOf e (HexToAddress e target));
       case r of
         Inl err \<Rightarrow> fail err
       | Inr n \<Rightarrow> ok (target @ '' owns '' @ nat_str n @ '' .attn name(s). Connect to relay for the full listing.'')
           [(''count'', JStr (nat_str n))]
     }
   }"

definition decode_names :: "string \<Rightarrow> string list option" where
  "decode_names content = (case decode_struct \<lparr>fs_str = [], fs_int = [], fs_bool = [], fs_strs = [''names'']\<rparr> content of
       Decoded kvs \<Rightarrow> Some (strs_field kvs ''names'')
     | _ \<Rightarrow> None)"

definition Agent_Names :: "'e agent_env_scheme \<Rightarrow> string \<Rightarrow> op" where
  "Agent_Names e address = do {
     let target = (if normalize_addr address = [] then own_address e else normalize_addr address);
     resp \<leftarrow> on_session (PlainGet e (''/names?address='' @ target));
     case (case resp of
         Inl err \<Rightarrow> None
       | Inr (status, content) \<Rightarrow> if status div 100 \<noteq> 2 then None else decode_names content) of
       Some ns \<Rightarrow>
         if ns = [] then ok_text (''No .attn names found for '' @ target)
         else ok (''Names owned by '' @ target @ '':'' @ nl @ concat (map (\<lambda>n. ''  '' @ n @ ''.attn'' @ nl) ns))
           [(''names'', JList (map JStr ns))]
     | None \<Rightarrow> names_count e target
   }"

definition gated_error :: "string option \<Rightarrow> string" where
  "gated_error err = (case err of None \<Rightarrow> ''<nil>'' | Some x \<Rightarrow> x)"

text \<open>The end of \<open>RegisterName\<close>, when the name is free and the fee known.\<close>

definition register_gated :: "'e agent_env_scheme \<Rightarrow> string \<Rightarrow> nat \<Rightarrow> op" where
  "register_gated e label fee = do {
     simErr \<leftarrow> on_chain (SimulateRegister e (HexToAddress e (own_address e)) label fee);
     let (calldata, gateErr) = SendRegister e label False;
     ok (''GATED '' @ em_dash @ '' register '' @ quote (label @ ''.attn'') @ '' would cost '' @ weiToEth (Some fee) @
         '' ETH (irreversible on Base mainnet). Path validated but NOT broadcast: '' @ gated_error gateErr)
       [(''gated'', JBool True), (''label'', JStr label), (''fee_wei'', JStr (nat_str fee)),
        (''calldata'', JStr (''0x'' @ bytes_hex calldata)), (''simulation'', JStr (simErrString simErr))]
   }"

definition RegisterName :: "'e agent_env_scheme \<Rightarrow> string \<Rightarrow> op" where
  "RegisterName e label =
     (if label = [] then fail ''label is required''
      else do {
        nc \<leftarrow> gets names;
        let label = attn_label label;
        if nc = None then fail ''Base RPC unavailable''
        else if length label < 3 \<or> 32 < length label then fail ''label must be 3-32 characters''
        else do {
          avail \<leftarrow> on_chain (Available e label);
          case avail of
            Inl err \<Rightarrow> fail err
          | Inr False \<Rightarrow> fail (quote (label @ ''.attn'') @ '' is already taken'')
          | Inr True \<Rightarrow> do {
              fee \<leftarrow> on_chain (RegistrationFee e);
              case fee of Inl err \<Rightarrow> fail err | Inr f \<Rightarrow> register_gated e label f
            }
        }
      })"

definition TransferName :: "'e agent_env_scheme \<Rightarrow> string \<Rightarrow> string \<Rightarrow> op" where
  "TransferName e label to =
     (if label = [] then fail ''label is required''
      else if \<not> isValidAddress to then fail ''invalid recipient address''
      else do {
        nc \<leftarrow> gets names;
        if nc = None then fail ''Base RPC unavailable''
        else do {
          let label = attn_label label;
          node \<leftarrow> on_chain (Namehash e label);
          case node of
            Inl err \<Rightarrow> fail err
          | Inr nd \<Rightarrow>
              (let tokenID = TokenIDFromNode nd;
                   (calldata, gateErr) = SendTransferName e (HexToAddress e (own_address e)) (HexToAddress e to) tokenID False
               in ok (''GATED '' @ em_dash @ '' transfer '' @ quote (label @ ''.attn'') @ '' to '' @ to @
                      '' would mutate on-chain state (gas, irreversible). NOT broadcast: '' @ gated_error gateErr)
                    [(''gated'', JBool True), (''label'', JStr label), (''token_id'', JStr (nat_str tokenID)),
                     (''calldata'', JStr (''0x'' @ bytes_hex calldata))])
        }
      })"

definition SetPrimaryName :: "'e agent_env_scheme \<Rightarrow> string \<Rightarrow> op" where
  "SetPrimaryName e label =
     (if label = [] then fail ''label is required''
      else do {
        nc \<leftarrow> gets names;
        if nc = None then fail ''Base RPC unavailable''
        else (let label = attn_label label;
                  (calldata, gateErr) = SendSetPrimaryName e label False
              in ok (''GATED '' @ em_dash @ '' set primary name to '' @ quote (label @ ''.attn'') @
                     '' would mutate on-chain state (gas). NOT broadcast: '' @ gated_error gateErr)
                   [(''gated'', JBool True), (''label'', JStr label), (''calldata'', JStr (''0x'' @ bytes_hex calldata))])
      })"

section \<open>Mutes\<close>

text \<open>The target, its kind and its label.\<close>

definition resolveMuteTarget :: "'e agent_env_scheme \<Rightarrow> string \<Rightarrow> (agent, string + string \<times> string \<times> string) state" where
  "resolveMuteTarget e inp = do {
     let t = trim_space inp;
     if isValidAddress t then State_Monad.return (Inr (normalize_addr t, MuteAgent, normalize_addr t))
     else do {
       gs \<leftarrow> db (GetGroups e);
       case find (\<lambda>g. g_id (fst g) = t) (fst gs) of
         Some g \<Rightarrow> State_Monad.return (Inr (g_id (fst g), MuteGroup, g_name (fst g) @ '' ('' @ g_id (fst g) @ '')''))
       | None \<Rightarrow> do {
           r \<leftarrow> resolveName e t;
           State_Monad.return (if fst r \<noteq> [] then Inr (fst r, MuteAgent, attn_display t (fst r))
             else Inl (''could not resolve '' @ quote inp @ '' '' @ em_dash @
               '' expected address, .attn name, group ID, or '' @ quote ''all''))
         }
     }
   }"

text \<open>The deadline of a mute: none, or the clock plus the duration.\<close>

definition mute_deadline :: "'e agent_env_scheme \<Rightarrow> string \<Rightarrow> (agent, int option) state" where
  "mute_deadline e duration =
     (if duration = [] then State_Monad.return (Some 0)
      else (case parseDuration duration of
          None \<Rightarrow> State_Monad.return None
        | Some d \<Rightarrow> do { now \<leftarrow> agent_now e; State_Monad.return (Some (int64 (now + Milliseconds d))) }))"

definition dur_suffix :: "'e agent_env_scheme \<Rightarrow> int \<Rightarrow> (agent, string) state" where
  "dur_suffix e untilMs =
     (if untilMs \<le> 0 then State_Monad.return (durSuffix untilMs 0)
      else do { now \<leftarrow> agent_now e; State_Monad.return (durSuffix untilMs now) })"

definition Agent_Mute :: "'e agent_env_scheme \<Rightarrow> string \<Rightarrow> string \<Rightarrow> op" where
  "Agent_Mute e target duration =
     (if target = [] then fail ''target is required''
      else do {
        d \<leftarrow> mute_deadline e duration;
        case d of
          None \<Rightarrow> fail (''invalid duration '' @ quote duration @ '' '' @ em_dash @ '' use e.g. 30m, 1h, 1d, 7d'')
        | Some untilMs \<Rightarrow>
            if isGlobalMuteTarget target then do {
              err \<leftarrow> db (AddMute e AllMuteTarget MuteAll untilMs);
              case err of
                Some x \<Rightarrow> fail x
              | None \<Rightarrow> do {
                  sfx \<leftarrow> dur_suffix e untilMs;
                  ok_text (''Muted all inbound'' @ sfx @ ''. Messages still save to history but skip surfacing.'')
                }
            }
            else do {
              r \<leftarrow> resolveMuteTarget e target;
              case r of
                Inl err \<Rightarrow> fail err
              | Inr (tgt, kind, label) \<Rightarrow> do {
                  err \<leftarrow> db (AddMute e tgt kind untilMs);
                  case err of
                    Some x \<Rightarrow> fail x
                  | None \<Rightarrow> do {
                      sfx \<leftarrow> dur_suffix e untilMs;
                      ok_text (''Muted '' @ kind @ '' '' @ label @ sfx @ ''.'')
                    }
                }
            }
      })"

definition unmute_all :: "'e agent_env_scheme \<Rightarrow> op" where
  "unmute_all e = do {
     r \<leftarrow> db (GetMuteCreatedAt e AllMuteTarget MuteAll);
     case r of (since, found, err) \<Rightarrow>
       if \<not> found then ok_text ''Global mute was not active''
       else do {
         n \<leftarrow> db (CountAllInboundSince e since);
         ignore (db (RemoveMute e AllMuteTarget MuteAll));
         ok_text (''Unmuted all'' @ arrivedSuffix (fst n))
       }
   }"

definition Unmute :: "'e agent_env_scheme \<Rightarrow> string \<Rightarrow> op" where
  "Unmute e target =
     (if target = [] then fail ''target is required''
      else if isGlobalMuteTarget target then unmute_all e
      else do {
        r \<leftarrow> resolveMuteTarget e target;
        case r of
          Inl err \<Rightarrow> fail err
        | Inr (tgt, kind, label) \<Rightarrow> do {
            c \<leftarrow> db (GetMuteCreatedAt e tgt kind);
            case c of (since, found, err) \<Rightarrow>
              if \<not> found then ok_text (label @ '' was not muted'')
              else do {
                n \<leftarrow> db (CountInboundSince e tgt since);
                removed \<leftarrow> db (RemoveMute e tgt kind);
                if \<not> fst removed then ok_text (label @ '' was not muted'')
                else ok_text (''Unmuted '' @ label @ arrivedSuffix (fst n))
              }
          }
      })"

definition mute_line :: "'e agent_env_scheme \<Rightarrow> int \<Rightarrow> Mute \<Rightarrow> (agent, string) state" where
  "mute_line e now m =
     (let remaining = (case mu_until m of None \<Rightarrow> ''indefinite'' | Some u \<Rightarrow> formatRemaining (u - now))
      in if mu_kind m = MuteAll
         then State_Monad.return (''- all: global mute '' @ em_dash @ '' '' @ remaining @ nl)
         else do {
           n \<leftarrow> (if mu_kind m = MuteAgent then db (GetContactName e (mu_target m)) else db (GetGroupName e (mu_target m)));
           let name = (if fst n \<noteq> [] then fst n else mu_target m);
           State_Monad.return (''- '' @ mu_kind m @ '': '' @ name @
             (if name \<noteq> mu_target m then '' ('' @ mu_target m @ '')'' else []) @
             '' '' @ em_dash @ '' '' @ remaining @ nl)
         })"

definition Mutes :: "'e agent_env_scheme \<Rightarrow> op" where
  "Mutes e = do {
     ms \<leftarrow> db (GetMutes e);
     if fst ms = [] then ok_text ''No active mutes''
     else do {
       now \<leftarrow> agent_now e;
       parts \<leftarrow> traverse_list (mute_line e now) (fst ms);
       ok (''Active mutes ('' @ nat_str (length (fst ms)) @ ''):'' @ nl @ concat parts)
         [(''count'', JInt (int (length (fst ms))))]
     }
   }"

section \<open>Presence\<close>

definition status_suffix :: "string \<Rightarrow> string \<Rightarrow> string" where
  "status_suffix state message =
     (if state \<noteq> ''away'' then ''. Messages deliver immediately.''
      else if message \<noteq> []
      then ''. Senders will see: '' @ [CHR 0x22] @ ''away: '' @ message @ [CHR 0x22] @ ''. Messages queue at relay until you return.''
      else ''. Senders will see you as away. Messages queue at relay until you return.'')"

definition Status :: "'e agent_env_scheme \<Rightarrow> string \<Rightarrow> string \<Rightarrow> op" where
  "Status e state message =
     (if state \<noteq> ''online'' \<and> state \<noteq> ''away''
      then fail (''state must be '' @ quote ''online'' @ '' or '' @ quote ''away'')
      else do {
        let message = trim_space message;
        modify (\<lambda>a. a\<lparr>presenceState := state, presenceMessage := message\<rparr>);
        ignore (db (MetaSet e ''presence_state'' state));
        ignore (db (MetaSet e ''presence_message'' message));
        relayErr \<leftarrow> on_session (SetPresence e state message);
        ok (''Status set to '' @ state @ status_suffix state message @ (if relayErr \<noteq> None
            then '' (relay offline '' @ em_dash @ '' applied locally, will re-assert on reconnect)'' else []))
          [(''state'', JStr state), (''message'', JStr message), (''relay_applied'', JBool (relayErr = None))]
      })"

definition presence_of :: "'e agent_env_scheme \<Rightarrow> string \<Rightarrow> string \<Rightarrow> op" where
  "presence_of e addr label = do {
     r \<leftarrow> relay e (QueryPresence e addr);
     case r of (state, msg, found, err) \<Rightarrow>
       (case err of
          Some x \<Rightarrow> fail x
        | None \<Rightarrow>
            if \<not> found then ok_text (label @ '': unknown (no response from relay)'')
            else ok (label @ '' is '' @ state @
                (if msg \<noteq> [] then '': '' @ [CHR 0x22] @ msg @ [CHR 0x22] else []))
              [(''state'', JStr state), (''message'', JStr msg)])
   }"

definition StatusOf :: "'e agent_env_scheme \<Rightarrow> string \<Rightarrow> op" where
  "StatusOf e target =
     (if target = [] then fail ''target is required''
      else if isValidAddress target then presence_of e target target
      else do {
        r \<leftarrow> resolveName e target;
        case r of (resolved, err) \<Rightarrow>
          if err \<noteq> None \<or> resolved = [] then fail (''could not resolve '' @ quote target)
          else presence_of e resolved (attn_display target resolved)
      })"

section \<open>Dispatch\<close>

definition Dispatch :: "'e agent_env_scheme \<Rightarrow> string \<Rightarrow> args \<Rightarrow> op" where
  "Dispatch e oper args =
     (let s = stringArg args in
      if oper = ''send'' then Agent_Send e (s ''to'') (s ''message'')
      else if oper = ''reply'' then Reply e (s ''message'')
      else if oper = ''send_file'' then SendFile e (s ''to'') (s ''path'')
      else if oper = ''history'' then History e (s ''with'') (intArg args ''limit'' 20)
      else if oper = ''add_contact'' then Agent_AddContact e (s ''address'') (s ''name'')
      else if oper = ''remove_contact'' then Agent_RemoveContact e (s ''address'')
      else if oper = ''block'' then Block e (s ''address'') (boolArg args ''unblock'')
      else if oper = ''contacts'' then Contacts e
      else if oper = ''create_group'' then Agent_CreateGroup e (s ''name'') (strSlice (map_of args ''members''))
      else if oper = ''send_group'' then SendGroup e (s ''group_id'') (s ''message'')
      else if oper = ''add_to_group'' then AddToGroup e (s ''group_id'') (s ''address'') (s ''name'')
      else if oper = ''leave_group'' then LeaveGroup e (s ''group_id'')
      else if oper = ''accept_group'' then AcceptGroup e (s ''group_id'')
      else if oper = ''decline_group'' then DeclineGroup e (s ''group_id'')
      else if oper = ''kick_from_group'' then KickFromGroup e (s ''group_id'') (s ''address'')
      else if oper = ''transfer_group_admin'' then TransferGroupAdmin e (s ''group_id'') (s ''address'')
      else if oper = ''groups'' then Groups e
      else if oper = ''peers'' then Peers e
      else if oper = ''react'' then React e (s ''emoji'') (s ''message_id'')
      else if oper = ''register_name'' then RegisterName e (firstNonEmpty [s ''label'', s ''name''])
      else if oper = ''lookup'' then Agent_Lookup e (s ''query'')
      else if oper = ''names'' then Agent_Names e (s ''address'')
      else if oper = ''transfer_name'' then TransferName e (firstNonEmpty [s ''label'', s ''name'']) (s ''to'')
      else if oper = ''set_primary_name'' then SetPrimaryName e (firstNonEmpty [s ''label'', s ''name''])
      else if oper = ''mute'' then Agent_Mute e (s ''target'') (s ''duration'')
      else if oper = ''unmute'' then Unmute e (s ''target'')
      else if oper = ''mutes'' then Mutes e
      else if oper = ''status'' then Status e (s ''state'') (s ''message'')
      else if oper = ''status_of'' then StatusOf e (s ''target'')
      else fail (''unknown op: '' @ oper))"

end
