(* ===== verification/Agent_Laws.thy ===== *)
theory Agent_Laws
  imports Agent_Ops Session_Steps
begin

text \<open>
  How the agent composes its parts. The locale \<open>agent_rel\<close> lifts a relation kept by the store's
  statements to the whole agent: every operation, callback and download moves the store by that
  relation, the relay session by its atomic steps, and leaves the registrations of the local mesh
  as they are. It is proved once, operation by operation, and interpreted with the relations of
  the store; the frame of the block list is an interpretation of its own, since only \<open>Block\<close>
  writes that table.
\<close>

section \<open>Programs with several states\<close>

context effect
begin

lemma eff_ignore [effects]: "state_io_rel R m \<Longrightarrow> state_io_rel R (ignore m)"
  unfolding ignore_def by (intro eff_bind eff_return)

lemma eff_traverse [effects]:
  "(\<And>x. x \<in> set xs \<Longrightarrow> state_io_rel R (f x)) \<Longrightarrow> state_io_rel R (traverse_list f xs)"
  by (induction xs) (auto intro!: eff_return eff_bind)

end

definition mesh_table :: "agent \<Rightarrow> (Entry list \<times> (string \<times> nat) list) option" where
  "mesh_table a = map_option table (mesh a)"

text \<open>The agent's own fields, and the changes its code makes to them.\<close>

definition locals :: "agent \<Rightarrow> agent" where
  "locals a = a\<lparr>st := empty_store, sess := NewSession, names := None, mesh := None\<rparr>"

inductive local_step :: "agent \<Rightarrow> agent \<Rightarrow> bool" where
  clock_read: "local_step a (a\<lparr>a_tick := n\<rparr>)"
| surfaces: "surfaceSink a \<Longrightarrow> local_step a (a\<lparr>surfaced := surfaced a @ [ev]\<rparr>)"
| last_inbound: "local_step a (a\<lparr>lastInboundFrom := f, lastInboundGroup := g, lastInboundMessageID := i\<rparr>)"
| presence: "p \<in> {''online'', ''away''} \<Longrightarrow> local_step a (a\<lparr>presenceState := p\<rparr>)"
| presence_text: "local_step a (a\<lparr>presenceMessage := x\<rparr>)"
| download_starts: "length (downloads a) < maxInboundDownloads \<Longrightarrow> local_step a (a\<lparr>downloads := downloads a @ [d]\<rparr>)"
| download_ends: "local_step a (a\<lparr>downloads := remove1 d (downloads a)\<rparr>)"
| new_file: "p \<notin> fst ` set (files a) \<Longrightarrow> local_step a (a\<lparr>files := files a @ [(p, [])]\<rparr>)"
| content: "local_step a (set_content p d a)"

lemma locals_update [simp]:
  "locals (a\<lparr>a_tick := v_a_tick\<rparr>) = (locals a)\<lparr>a_tick := v_a_tick\<rparr>"
  "locals (a\<lparr>surfaced := v_surfaced\<rparr>) = (locals a)\<lparr>surfaced := v_surfaced\<rparr>"
  "locals (a\<lparr>lastInboundFrom := v_lastInboundFrom\<rparr>) = (locals a)\<lparr>lastInboundFrom := v_lastInboundFrom\<rparr>"
  "locals (a\<lparr>lastInboundGroup := v_lastInboundGroup\<rparr>) = (locals a)\<lparr>lastInboundGroup := v_lastInboundGroup\<rparr>"
  "locals (a\<lparr>lastInboundMessageID := v_lastInboundMessageID\<rparr>) = (locals a)\<lparr>lastInboundMessageID := v_lastInboundMessageID\<rparr>"
  "locals (a\<lparr>presenceState := v_presenceState\<rparr>) = (locals a)\<lparr>presenceState := v_presenceState\<rparr>"
  "locals (a\<lparr>presenceMessage := v_presenceMessage\<rparr>) = (locals a)\<lparr>presenceMessage := v_presenceMessage\<rparr>"
  "locals (a\<lparr>downloads := v_downloads\<rparr>) = (locals a)\<lparr>downloads := v_downloads\<rparr>"
  "locals (a\<lparr>files := v_files\<rparr>) = (locals a)\<lparr>files := v_files\<rparr>"
  by (cases a, simp add: locals_def)+

lemma locals_component [simp]:
  "locals (a\<lparr>st := s\<rparr>) = locals a"
  "locals (a\<lparr>sess := x\<rparr>) = locals a"
  "locals (a\<lparr>names := n\<rparr>) = locals a"
  "locals (a\<lparr>mesh := r\<rparr>) = locals a"
  by (cases a, simp add: locals_def)+

lemma locals_fields [simp]:
  "surfaceSink (locals a) = surfaceSink a"
  "selfName (locals a) = selfName a"
  "a_tick (locals a) = a_tick a"
  "surfaced (locals a) = surfaced a"
  "lastInboundFrom (locals a) = lastInboundFrom a"
  "lastInboundGroup (locals a) = lastInboundGroup a"
  "lastInboundMessageID (locals a) = lastInboundMessageID a"
  "presenceState (locals a) = presenceState a"
  "presenceMessage (locals a) = presenceMessage a"
  "downloads (locals a) = downloads a"
  "files (locals a) = files a"
  by (simp_all add: locals_def)

lemma locals_set_content [simp]: "locals (set_content p c a) = set_content p c (locals a)"
  by (simp add: set_content_def)

inductive_simps local_step_simps: "local_step a b"

text \<open>With \<open>strict\<close> the local mesh is not touched at all, its deliveries included.\<close>

definition mesh_kept :: "bool \<Rightarrow> agent \<Rightarrow> agent \<Rightarrow> bool" where
  "mesh_kept strict a b \<longleftrightarrow> mesh_table b = mesh_table a \<and> (strict \<longrightarrow> mesh b = mesh a)"

definition lift_rel ::
  "(store \<Rightarrow> store \<Rightarrow> bool) \<Rightarrow> 'e agent_env_scheme \<Rightarrow> bool \<Rightarrow> agent \<Rightarrow> agent \<Rightarrow> bool" where
  "lift_rel R e strict a b \<longleftrightarrow> R (st a) (st b) \<and> (sess_step e)\<^sup>*\<^sup>* (sess a) (sess b) \<and> mesh_kept strict a b \<and>
     local_step\<^sup>*\<^sup>* (locals a) (locals b)"

locale agent_rel = store_rel R W for R :: "store \<Rightarrow> store \<Rightarrow> bool" and W :: "table set" +
  fixes e :: "'e agent_env_scheme" and strict :: bool
  assumes in_W: "t \<noteq> T_blocked \<Longrightarrow> t \<in> W"

sublocale agent_rel \<subseteq> lift: effect "lift_rel R e strict"
proof
  show "lift_rel R e strict a a" for a
    by (simp add: lift_rel_def mesh_kept_def R_refl)
next
  show "lift_rel R e strict a b \<Longrightarrow> lift_rel R e strict b c \<Longrightarrow> lift_rel R e strict a c" for a b c
    unfolding lift_rel_def mesh_kept_def by (auto intro: R_trans rtranclp_trans)
qed

context agent_rel
begin

lemma tables_in_W [effects]:
  "T_messages \<in> W" "T_contacts \<in> W" "T_pending \<in> W" "T_outbox \<in> W" "T_key_cache \<in> W" "T_groups \<in> W"
  "T_group_members \<in> W" "T_group_invites \<in> W" "T_reactions \<in> W" "T_mutes \<in> W" "T_meta \<in> W"
  by (simp_all add: in_W)

lemma db_lift [effects]: "state_io_rel R m \<Longrightarrow> state_io_rel (lift_rel R e strict) (db m)"
  unfolding db_def by (rule lift.eff_zoom) (auto simp: lift_rel_def mesh_kept_def mesh_table_def)

lemma session_lift [effects]: "state_io_rel (sess_step e)\<^sup>*\<^sup>* m \<Longrightarrow> state_io_rel (lift_rel R e strict) (on_session m)"
  unfolding on_session_def by (rule lift.eff_zoom) (auto simp: lift_rel_def mesh_kept_def mesh_table_def R_refl)

lemma chain_lift [effects]: "state_io_rel (lift_rel R e strict) (on_chain m)"
  unfolding on_chain_def
  by (rule lift.eff_zoom [where Q = "\<lambda>s t. True"]) (auto simp: lift_rel_def mesh_kept_def mesh_table_def R_refl state_io_rel_def)

lemma mesh_lift [effects]: "\<not> strict \<Longrightarrow> state_io_rel (same table) m \<Longrightarrow> state_io_rel (lift_rel R e strict) (local_mesh m)"
  unfolding local_mesh_def
proof (rule lift.eff_zoom [where Q = "same table"])
  assume "\<not> strict"
  then show "lift_rel R e strict a (a\<lparr>mesh := map_option (\<lambda>_. r) (mesh a)\<rparr>)" if "same table (the (mesh a)) r" for a r
    using that by (cases "mesh a") (simp_all add: lift_rel_def mesh_kept_def mesh_table_def R_refl same_def)
qed

lemma lift_modify:
  "(\<And>a. st (f a) = st a \<and> sess (f a) = sess a \<and> mesh (f a) = mesh a \<and> local_step\<^sup>*\<^sup>* (locals a) (locals (f a))) \<Longrightarrow>
   state_io_rel (lift_rel R e strict) (modify f)"
  by (rule lift.eff_modify) (simp add: lift_rel_def mesh_kept_def mesh_table_def R_refl)

lemma agent_step_tick_lift [effects]: "state_io_rel (lift_rel R e strict) agent_step_tick"
  using local_step.clock_read [of "locals _"]
  by (auto simp: agent_step_tick_def state_io_rel_def lift_rel_def mesh_kept_def mesh_table_def R_refl)

lemma agent_now_lift [effects]: "state_io_rel (lift_rel R e strict) (agent_now e')"
  unfolding agent_now_def by (intro effects)

lemma tsISO_lift [effects]: "state_io_rel (lift_rel R e strict) (tsISO e' n)"
  unfolding tsISO_def by (intro effects)

lemma surface_lift [effects]: "state_io_rel (lift_rel R e strict) (surface ev)"
  unfolding surface_def
  using local_step.surfaces [of "locals _" ev] by (intro lift_modify) auto

lemma syncContactName_lift [effects]: "state_io_rel (lift_rel R e strict) (syncContactName e' a n)"
  unfolding syncContactName_def by (intro effects)

lemma muted_lift [effects]: "state_io_rel (lift_rel R e strict) (muted e' f g)"
  unfolding muted_def by (intro effects)

lemma setLastInbound_lift [effects]: "state_io_rel (lift_rel R e strict) (setLastInbound e' f g m)"
  unfolding setLastInbound_def
  using local_step.last_inbound [of "locals _"] by (intro effects lift_modify) auto

lemma getLastInbound_lift [effects]: "state_io_rel (lift_rel R e strict) (getLastInbound e')"
  unfolding getLastInbound_def by (intro effects)

lemma surfaceInboundDM_lift [effects]: "state_io_rel (lift_rel R e strict) (surfaceInboundDM e' ev)"
proof (cases "parseFileRef (ev_Plaintext ev)")
  case None
  then show ?thesis by (simp add: surfaceInboundDM_def surface_lift)
next
  case (Some fr)
  have "lift_rel R e strict a (a\<lparr>downloads := downloads a @ [(ev, fr)]\<rparr>)"
    if "length (downloads a) < maxInboundDownloads" for a
    using local_step.download_starts [of "locals a" "(ev, fr)"] that
    by (auto simp: lift_rel_def mesh_kept_def mesh_table_def R_refl)
  with surface_lift show ?thesis
    by (auto simp: surfaceInboundDM_def Some state_io_rel_def)
qed

lemma handleInboundDM_lift [effects]: "state_io_rel (lift_rel R e strict) (handleInboundDM e' ev)"
  unfolding handleInboundDM_def by (intro effects)

lemma handleInboundGroup_lift [effects]: "state_io_rel (lift_rel R e strict) (handleInboundGroup e' ev)"
  unfolding handleInboundGroup_def by (intro effects)

lemma save_reaction_lift [effects]: "state_io_rel (lift_rel R e strict) (save_reaction e' ev)"
  unfolding save_reaction_def by (intro effects)

lemma handleInboundReaction_lift [effects]: "state_io_rel (lift_rel R e strict) (Agent_handleInboundReaction e' ev)"
  unfolding Agent_handleInboundReaction_def by (intro effects)

lemma handleInbound_lift [effects]: "state_io_rel (lift_rel R e strict) (handleInbound e' ev)"
  unfolding handleInbound_def by (intro effects)

lemma onKeyLearned_lift [effects]: "state_io_rel (lift_rel R e strict) (onKeyLearned e' a k)"
  unfolding onKeyLearned_def by (intro effects)

lemma flush_item_lift [effects]: "state_io_rel (lift_rel R e strict) (flush_item e it)"
  unfolding flush_item_def by (intro effects)

lemma flushOutbox_lift [effects]: "state_io_rel (lift_rel R e strict) (flushOutbox e)"
  unfolding flushOutbox_def by (intro effects)

lemma onReady_lift [effects]: "state_io_rel (lift_rel R e strict) (onReady e)"
  unfolding onReady_def by (intro effects)

lemma sess_modify_lift:
  "(\<And>s. sess_step e s (g s)) \<Longrightarrow> state_io_rel (lift_rel R e strict) (modify (\<lambda>a. a\<lparr>sess := g (sess a)\<rparr>))"
  by (rule lift.eff_modify) (auto simp: lift_rel_def mesh_kept_def mesh_table_def R_refl)

lemma run_callback_lift [effects]: "state_io_rel (lift_rel R e strict) (run_callback e cb)"
  unfolding run_callback_def
  by (cases cb) (auto intro!: effects sess_modify_lift sess_step.ready_done)

lemma take_callbacks_lift [effects]: "state_io_rel (lift_rel R e strict) take_callbacks"
  by (auto simp: take_callbacks_def state_io_rel_def lift_rel_def mesh_kept_def mesh_table_def R_refl
      intro: sess_step.take_callbacks)

lemma relay_lift [effects]: "state_io_rel (sess_step e)\<^sup>*\<^sup>* m \<Longrightarrow> state_io_rel (lift_rel R e strict) (relay e m)"
  unfolding relay_def by (intro effects)

lemma cachedKey_lift [effects]: "state_io_rel (lift_rel R e strict) (cachedKey e' a)"
  unfolding cachedKey_def by (intro effects)

lemma RelayReady_lift [effects]: "state_io_rel (lift_rel R e strict) RelayReady"
  unfolding RelayReady_def by (intro effects)

lemma Start_lift [effects]: "state_io_rel (lift_rel R e strict) (Start e')"
  unfolding Start_def
  using local_step.presence [of _ "locals _"] local_step.presence_text [of "locals _"]
  by (intro effects lift_modify) auto


subsection \<open>Files\<close>

lemma lift_case_open [effects]:
  "(x = Opened \<Longrightarrow> state_io_rel (lift_rel R e strict) m) \<Longrightarrow> (x = Exists \<Longrightarrow> state_io_rel (lift_rel R e strict) n) \<Longrightarrow>
   (\<And>y. x = Open_failed y \<Longrightarrow> state_io_rel (lift_rel R e strict) (f y)) \<Longrightarrow>
   state_io_rel (lift_rel R e strict) (case x of Opened \<Rightarrow> m | Exists \<Rightarrow> n | Open_failed y \<Rightarrow> f y)"
  by (cases x) auto

lemma open_excl_lift [effects]: "state_io_rel (lift_rel R e strict) (open_excl e' p)"
proof -
  have "lift_rel R e strict a (a\<lparr>a_tick := n, files := files a @ [(p, [])]\<rparr>)" if "p \<notin> fst ` set (files a)" for a n
    using local_step.new_file [of p "locals a\<lparr>a_tick := n\<rparr>"] local_step.clock_read [of "locals a" n] that
    by (auto simp: lift_rel_def mesh_kept_def mesh_table_def R_refl intro: converse_rtranclp_into_rtranclp)
  then show ?thesis
    using local_step.clock_read [of "locals _"]
    by (auto simp: open_excl_def agent_step_tick_def state_io_rel_def R_refl lift_rel_def mesh_kept_def mesh_table_def
        split: option.split)
qed

lemma write_file_lift [effects]: "state_io_rel (lift_rel R e strict) (write_file e' p d)"
proof -
  have "locals (set_content p c a) = set_content p c (locals a)" for c a
    by (simp add: set_content_def)
  then show ?thesis
    unfolding write_file_def using local_step.content [of "locals _" p]
    by (intro effects lift_modify) (auto simp: set_content_def)
qed

lemma try_write_lift [effects]: "state_io_rel (lift_rel R e strict) (try_write e' dst d i n)"
proof (induction n arbitrary: i)
  case (Suc n)
  show ?case unfolding try_write.simps Let_def by (intro effects Suc)
qed (simp add: lift.eff_return)

lemma files_lift [effects]:
  "state_io_rel (lift_rel R e strict) (writeNoClobber e' dst d)"
  "state_io_rel (lift_rel R e strict) (validateAbsoluteFileURL e' u)"
  "state_io_rel (lift_rel R e strict) (read_blob e' r)"
  unfolding writeNoClobber_def validateAbsoluteFileURL_def read_blob_def by (intro effects)+

lemma fetchFileBlob_lift [effects]: "state_io_rel (lift_rel R e strict) (fetchFileBlob e' u)"
  unfolding fetchFileBlob_def Let_def by (intro effects)

lemma downloadInboundFile_lift [effects]: "state_io_rel (lift_rel R e strict) (downloadInboundFile e' fr)"
  unfolding downloadInboundFile_def by (intro effects)

lemma surfaceInboundFile_lift [effects]: "state_io_rel (lift_rel R e strict) (surfaceInboundFile e' ev fr)"
  unfolding surfaceInboundFile_def by (intro effects)

lemma run_download_lift [effects]: "state_io_rel (lift_rel R e strict) (run_download e' i)"
proof -
  have "local_step (locals a) (locals a\<lparr>downloads := remove1 d (downloads a)\<rparr>)" for a d
    using local_step.download_ends [of "locals a" d] by simp
  then show ?thesis
    unfolding run_download_def by (intro effects lift_modify) (simp_all add: r_into_rtranclp)
qed

subsection \<open>Operations\<close>

lemma signed_lift [effects]:
  "state_io_rel (lift_rel R e strict) (signedRaw e' m p b)"
  "state_io_rel (lift_rel R e strict) (signedJSON e' m p j)"
  unfolding signedJSON_def signedRaw_def by (intro effects)+

lemma addContactAndFlush_lift [effects]: "state_io_rel (lift_rel R e strict) (addContactAndFlush e' a n)"
  unfolding addContactAndFlush_def save_pending_def by (intro effects)

lemma resolvers_lift [effects]:
  "state_io_rel (lift_rel R e strict) (resolve_relay e l)"
  "state_io_rel (lift_rel R e strict) (resolve_http e l)"
  "state_io_rel (lift_rel R e strict) (resolve_chain e l)"
  "state_io_rel (lift_rel R e strict) (resolve_contacts e l)"
  unfolding resolve_relay_def resolve_http_def resolve_chain_def resolve_contacts_def by (intro effects)+

lemma or_else_lift [effects]: "state_io_rel (lift_rel R e strict) m \<Longrightarrow> state_io_rel (lift_rel R e strict) (or_else a m)"
  unfolding or_else_def by (intro effects)

lemma resolveName_lift [effects]: "state_io_rel (lift_rel R e strict) (resolveName e l)"
  unfolding resolveName_def Let_def by (intro effects)

lemma fetchPrimaryName_lift [effects]: "state_io_rel (lift_rel R e strict) (fetchPrimaryName e l)"
  unfolding fetchPrimaryName_def by (intro effects)

lemma local_frame_lift [effects]: "state_io_rel (lift_rel R e strict) (local_frame e' s m b)"
  unfolding local_frame_def by (intro effects)

lemma sendLocalTo_lift [effects]: "\<not> strict \<Longrightarrow> state_io_rel (lift_rel R e strict) (sendLocalTo e' p s m)"
  unfolding sendLocalTo_def by (intro effects)

lemma sendLocalBroadcast_lift [effects]:
  "\<not> strict \<Longrightarrow> state_io_rel (lift_rel R e strict) (sendLocalBroadcast e' s m)"
  unfolding sendLocalBroadcast_def by (intro effects)

lemma sent_to_lift [effects]: "state_io_rel (lift_rel R e strict) (sent_to e' i a m)"
  unfolding sent_to_def by (intro effects)

lemma send_online_lift [effects]: "state_io_rel (lift_rel R e strict) (send_online e a d m k)"
  unfolding send_online_def by (intro effects)

lemma send_offline_lift [effects]: "state_io_rel (lift_rel R e strict) (send_offline e a d m k)"
  unfolding send_offline_def by (intro effects)

lemma send_relay_lift [effects]: "state_io_rel (lift_rel R e strict) (send_relay e a m)"
  unfolding send_relay_def Let_def by (intro effects)

lemma Send_lift [effects]: "\<not> strict \<Longrightarrow> state_io_rel (lift_rel R e strict) (Agent_Send e a m)"
  unfolding Agent_Send_def meshAndSelf_def Resolve_def Lookup_def by (intro effects)

lemma member_key_lift [effects]: "state_io_rel (lift_rel R e strict) (member_key e a)"
  unfolding member_key_def by (intro effects)

lemma encrypt_members_lift [effects]: "state_io_rel (lift_rel R e strict) (encrypt_members e p ms bs)"
proof (induction ms arbitrary: bs)
  case (Cons m ms)
  show ?case unfolding encrypt_members.simps by (intro effects Cons)
qed (simp add: lift.eff_return)

lemma SendGroup_lift [effects]: "state_io_rel (lift_rel R e strict) (SendGroup e g m)"
  unfolding SendGroup_def encryptForMembers_def Let_def by (intro effects)

lemma Reply_lift [effects]: "\<not> strict \<Longrightarrow> state_io_rel (lift_rel R e strict) (Reply e m)"
  unfolding Reply_def Let_def by (intro effects)

lemma react_lift [effects]:
  "state_io_rel (lift_rel R e strict) (reactGroup e g i x)"
  "state_io_rel (lift_rel R e strict) (react_last e')"
  "state_io_rel (lift_rel R e strict) (react_stored e' i)"
  unfolding reactGroup_def encryptForMembers_def Let_def react_last_def react_stored_def by (intro effects)+

lemma React_lift [effects]: "state_io_rel (lift_rel R e strict) (React e x i)"
  unfolding React_def Let_def by (intro effects)

lemma SendFile_lift [effects]: "\<not> strict \<Longrightarrow> state_io_rel (lift_rel R e strict) (SendFile e to p)"
  unfolding SendFile_def send_file_to_def upload_and_send_def by (intro effects)

lemma contact_ops_lift [effects]:
  "state_io_rel (lift_rel R e strict) (Agent_AddContact e a n)"
  "state_io_rel (lift_rel R e strict) (Agent_RemoveContact e a)"
  "state_io_rel (lift_rel R e strict) (Contacts e)"
  "state_io_rel (lift_rel R e strict) (History e a i)"
  unfolding Agent_AddContact_def Agent_RemoveContact_def finish_def Contacts_def History_def Let_def
  by (intro effects)+

lemma Block_lift: "T_blocked \<in> W \<Longrightarrow> state_io_rel (lift_rel R e strict) (Block e a u)"
  unfolding Block_def finish_def by (intro effects)

lemma group_ops_lift [effects]:
  "state_io_rel (lift_rel R e strict) (Agent_CreateGroup e n ms)"
  "state_io_rel (lift_rel R e strict) (AddToGroup e g a n)"
  "state_io_rel (lift_rel R e strict) (LeaveGroup e g)"
  "state_io_rel (lift_rel R e strict) (AcceptGroup e g)"
  "state_io_rel (lift_rel R e strict) (DeclineGroup e g)"
  "state_io_rel (lift_rel R e strict) (KickFromGroup e g a)"
  "state_io_rel (lift_rel R e strict) (TransferGroupAdmin e g a)"
  "state_io_rel (lift_rel R e strict) (Groups e)"
  unfolding Agent_CreateGroup_def AddToGroup_def LeaveGroup_def AcceptGroup_def DeclineGroup_def
    KickFromGroup_def TransferGroupAdmin_def Groups_def group_text_def
  by (intro effects)+

lemma Peers_lift [effects]: "state_io_rel (lift_rel R e strict) (Peers e)"
proof -
  have "local_mesh ListViews = State (\<lambda>a. (fst (run_state ListViews (the (mesh a))), a))"
  proof -
    have "a\<lparr>mesh := map_option (\<lambda>_. the (mesh a)) (mesh a)\<rparr> = a" for a :: agent
      by (cases "mesh a") simp_all
    then show ?thesis by (simp add: local_mesh_def zoom_def ListViews_def)
  qed
  then have "state_io_rel (lift_rel R e strict) (local_mesh ListViews)"
    by (auto simp: state_io_rel_def lift.R_refl)
  then show ?thesis
    unfolding Peers_def meshAndSelf_def
    by (intro lift.eff_bind lift.eff_gets lift.eff_case_prod lift.eff_case_option lift.eff_return)
qed

lemma name_ops_lift [effects]:
  "state_io_rel (lift_rel R e strict) (Agent_Lookup e q)"
  "state_io_rel (lift_rel R e strict) (Agent_Names e a)"
  "state_io_rel (lift_rel R e strict) (RegisterName e l)"
  "state_io_rel (lift_rel R e strict) (TransferName e l a)"
  "state_io_rel (lift_rel R e strict) (SetPrimaryName e l)"
  unfolding Agent_Lookup_def lookup_address_def lookup_chain_def Agent_Names_def names_count_def
    RegisterName_def register_gated_def TransferName_def SetPrimaryName_def Let_def
  by (intro effects)+

lemma mute_ops_lift [effects]:
  "state_io_rel (lift_rel R e strict) (resolveMuteTarget e x)"
  "state_io_rel (lift_rel R e strict) (Agent_Mute e x d)"
  "state_io_rel (lift_rel R e strict) (Unmute e x)"
  "state_io_rel (lift_rel R e strict) (Mutes e)"
  unfolding Agent_Mute_def resolveMuteTarget_def mute_deadline_def dur_suffix_def Unmute_def unmute_all_def
    Mutes_def mute_line_def Let_def
  by (intro effects)+

lemma presence_lift:
  assumes "p \<in> {''online'', ''away''}"
  shows "state_io_rel (lift_rel R e strict) (modify (\<lambda>a. a\<lparr>presenceState := p, presenceMessage := m\<rparr>))"
proof (rule lift_modify)
  fix a
  let ?b = "(locals a)\<lparr>presenceState := p\<rparr>"
  have "local_step (locals a) ?b" "local_step ?b (?b\<lparr>presenceMessage := m\<rparr>)"
    using assms by (auto intro: local_step.intros)
  then have "local_step\<^sup>*\<^sup>* (locals a) (?b\<lparr>presenceMessage := m\<rparr>)"
    by auto
  then show "st (a\<lparr>presenceState := p, presenceMessage := m\<rparr>) = st a \<and>
      sess (a\<lparr>presenceState := p, presenceMessage := m\<rparr>) = sess a \<and>
      mesh (a\<lparr>presenceState := p, presenceMessage := m\<rparr>) = mesh a \<and>
      local_step\<^sup>*\<^sup>* (locals a) (locals (a\<lparr>presenceState := p, presenceMessage := m\<rparr>))"
    by simp
qed

lemma status_ops_lift [effects]:
  "state_io_rel (lift_rel R e strict) (Status e s m)"
  "state_io_rel (lift_rel R e strict) (StatusOf e x)"
proof -
  show "state_io_rel (lift_rel R e strict) (Status e s m)"
    unfolding Status_def Let_def by (intro effects presence_lift) simp
qed (unfold StatusOf_def presence_of_def, intro effects)

lemma Dispatch_lift: "\<not> strict \<Longrightarrow> oper \<noteq> ''block'' \<or> T_blocked \<in> W \<Longrightarrow> state_io_rel (lift_rel R e strict) (Dispatch e oper args)"
  unfolding Dispatch_def Let_def by (intro effects Block_lift) auto

end

end
