(* ===== verification/Agent_System.thy ===== *)
theory Agent_System
  imports Agent_Laws Session_Props
begin

text \<open>
  The life of the daemon's agent as a transition system: operations, relay events, downloads, the
  registrations of local sessions, in any order. The properties of this theory hold in every
  reachable state or for every step, whatever the clock, the database, the network and the peers
  do.
\<close>

inductive agent_step :: "'e agent_env_scheme \<Rightarrow> agent \<Rightarrow> agent \<Rightarrow> bool" for e where
  operation: "agent_step e a (snd (run_state (Dispatch e oper args) a))"
| event: "agent_step e a (snd (run_state (relay e (session_event e ev)) a))"
| download: "agent_step e a (snd (run_state (run_download e i) a))"
| drop_conn: "agent_step e a (snd (run_state (relay e DropConn) a))"
| start: "agent_step e a (snd (run_state (Start e) a))"
| sink: "agent_step e a (snd (run_state (OnSurface b) a))"
| set_mesh: "agent_step e a (snd (run_state (SetMesh NewRegistry self) a))"
| registration: "mesh a = Some r \<Longrightarrow> reg_step r r' \<Longrightarrow> agent_step e a (a\<lparr>mesh := Some r'\<rparr>)"

inductive_cases agent_stepE: "agent_step e a b"

section \<open>What a step does to each part\<close>

context agent_rel
begin

lemma lift_run: "state_io_rel (lift_rel R e strict) m \<Longrightarrow> lift_rel R e strict a (snd (run_state m a))"
  by (rule lift.eff_run)

lemma step_lift:
  assumes "agent_step e a b" "T_blocked \<in> W" "\<not> strict"
  shows "R (st a) (st b) \<and> (sess_step e)\<^sup>*\<^sup>* (sess a) (sess b)"
  using assms(1)
proof cases
  case operation
  with lift_run [OF Dispatch_lift] assms(2,3) show ?thesis by (auto simp: lift_rel_def)
next
  case event
  with lift_run [OF relay_lift [OF event_steps]] show ?thesis by (auto simp: lift_rel_def)
next
  case download
  with lift_run [OF run_download_lift] show ?thesis by (auto simp: lift_rel_def)
next
  case drop_conn
  with lift_run [OF relay_lift [OF DropConn_steps]] show ?thesis by (auto simp: lift_rel_def)
next
  case start
  with lift_run [OF Start_lift] show ?thesis by (auto simp: lift_rel_def)
qed (simp_all add: OnSurface_def SetMesh_def R_refl)

lemma steps_lift:
  assumes "(agent_step e)\<^sup>*\<^sup>* a b" "T_blocked \<in> W" "\<not> strict"
  shows "R (st a) (st b) \<and> (sess_step e)\<^sup>*\<^sup>* (sess a) (sess b)"
  using assms(1)
proof (induction rule: rtranclp_induct)
  case (step b c)
  with step_lift [OF step(2) assms(2,3)] show ?case
    by (auto intro: R_trans rtranclp_trans)
qed (simp add: R_refl)

lemma mesh_lift_run: "state_io_rel (lift_rel R e strict) m \<Longrightarrow> mesh_table (snd (run_state m a)) = mesh_table a"
  using lift_run [of m a] by (simp add: lift_rel_def mesh_kept_def)

end

interpretation agent_wf: agent_rel "keeps wf_store" UNIV e False for e
  by unfold_locales simp

interpretation agent_history: agent_rel "grows messages" UNIV e False for e
  by unfold_locales simp

interpretation agent_block: agent_rel "same blocked" "- {T_blocked}" e False for e
  by unfold_locales simp

interpretation agent_strict: agent_rel "\<lambda>s t. True" UNIV e True for e
  by unfold_locales simp_all

definition wf_mesh :: "agent \<Rightarrow> bool" where
  "wf_mesh a \<longleftrightarrow> (case mesh a of None \<Rightarrow> True | Some r \<Rightarrow> wf_registry r)"

lemma wf_mesh_table: "mesh_table b = mesh_table a \<Longrightarrow> wf_mesh a \<Longrightarrow> wf_mesh b"
  by (auto simp: wf_mesh_def mesh_table_def table_def wf_registry_def split: option.splits)

lemma wf_mesh_run: "state_io_rel (lift_rel (keeps wf_store) e False) m \<Longrightarrow> wf_mesh a \<Longrightarrow> wf_mesh (snd (run_state m a))"
  by (rule wf_mesh_table [OF agent_wf.mesh_lift_run])

lemma step_wf_mesh: "agent_step e a b \<Longrightarrow> wf_mesh a \<Longrightarrow> wf_mesh b"
proof (erule agent_step.cases, goal_cases)
  case (6 a b)
  then show ?case by (simp add: OnSurface_def wf_mesh_def)
next
  case (7 a self)
  then show ?case by (simp add: SetMesh_def wf_mesh_def)
next
  case (8 a r r')
  then show ?case using reg_step_wf by (simp add: wf_mesh_def)
qed (auto intro!: wf_mesh_run agent_wf.Dispatch_lift effects)

text \<open>A fresh agent on a fresh database, and what holds of it ever after.\<close>

definition reachable :: "'e agent_env_scheme \<Rightarrow> agent \<Rightarrow> bool" where
  "reachable e a \<longleftrightarrow> (agent_step e)\<^sup>*\<^sup>* (NewAgent empty_store) a"

lemma reachable_wf_mesh: "(agent_step e)\<^sup>*\<^sup>* (NewAgent s) a \<Longrightarrow> wf_mesh a"
proof (induction rule: rtranclp_induct)
  case base
  then show ?case by (simp add: NewAgent_def wf_mesh_def)
next
  case (step b c)
  then show ?case by (blast intro: step_wf_mesh)
qed

lemma reachable_session: "(agent_step e)\<^sup>*\<^sup>* (NewAgent s) a \<Longrightarrow> (sess_step e)\<^sup>*\<^sup>* NewSession (sess a)"
  using agent_wf.steps_lift [of e "NewAgent s" a] by (simp add: NewAgent_def)

section \<open>The agent's own fields\<close>

text \<open>A step changes the local fields by the listed changes, or is a change of wiring.\<close>

context agent_rel
begin

lemma locals_run: "state_io_rel (lift_rel R e strict) m \<Longrightarrow> local_step\<^sup>*\<^sup>* (locals a) (locals (snd (run_state m a)))"
  using lift_run [of m a] by (simp add: lift_rel_def mesh_kept_def)

end

lemmas steps_of_run = agent_wf.locals_run [OF agent_wf.Dispatch_lift]
  agent_wf.locals_run [OF agent_wf.relay_lift [OF event_steps]] agent_wf.locals_run [OF agent_wf.run_download_lift]
  agent_wf.locals_run [OF agent_wf.relay_lift [OF DropConn_steps]] agent_wf.locals_run [OF agent_wf.Start_lift]

lemma local_invariant:
  assumes step: "agent_step e a b"
    and inv: "I (locals a)" "\<And>a b. local_step a b \<Longrightarrow> I a \<Longrightarrow> I b"
    and wiring: "\<And>a s n. I a \<Longrightarrow> I (a\<lparr>surfaceSink := s\<rparr>) \<and> I (a\<lparr>selfName := n\<rparr>)"
  shows "I (locals b)"
proof -
  have runs: "local_step\<^sup>*\<^sup>* (locals a) c \<Longrightarrow> I c" for c
    by (induction rule: rtranclp_induct) (auto intro: inv)
  from step show ?thesis
  proof cases
    case (sink s)
    have "locals b = (locals a)\<lparr>surfaceSink := s\<rparr>"
      by (cases a) (simp add: sink OnSurface_def locals_def)
    with inv(1) wiring show ?thesis by simp
  next
    case (set_mesh self)
    have "locals b = (locals a)\<lparr>selfName := (if self = [] then ''main'' else self)\<rparr>"
      by (cases a) (simp add: set_mesh SetMesh_def locals_def)
    with inv(1) wiring show ?thesis by simp
  next
    case registration
    with inv(1) show ?thesis by simp
  qed (auto intro!: runs steps_of_run)
qed

lemma reachable_local:
  assumes "(agent_step e)\<^sup>*\<^sup>* (NewAgent s) a"
    and "I (locals (NewAgent s))" "\<And>a b. local_step a b \<Longrightarrow> I a \<Longrightarrow> I b"
    and "\<And>a s n. I a \<Longrightarrow> I (a\<lparr>surfaceSink := s\<rparr>) \<and> I (a\<lparr>selfName := n\<rparr>)"
  shows "I (locals a)"
  using assms(1)
proof (induction rule: rtranclp_induct)
  case (step b c)
  show ?case by (rule local_invariant [of e b c I, OF step(2) step(3)]) (fact assms(3), fact assms(4))
qed (fact assms(2))

text \<open>At most eight downloads run, the presence is one the relay knows, and a file name is used once.\<close>

definition wf_local :: "agent \<Rightarrow> bool" where
  "wf_local a \<longleftrightarrow> length (downloads a) \<le> maxInboundDownloads \<and> presenceState a \<in> {''online'', ''away''} \<and>
     distinct (map fst (files a))"

lemma map_fst_set_content: "map fst (files (set_content p d a)) = map fst (files a)"
  by (simp add: set_content_def o_def case_prod_beta if_distrib cong: if_cong)

lemma local_step_wf: "local_step a b \<Longrightarrow> wf_local a \<Longrightarrow> wf_local b"
proof (induction rule: local_step.induct)
  case (download_ends a d)
  then show ?case by (auto simp: wf_local_def length_remove1 split: if_splits)
next
  case (content p d a)
  then show ?case by (simp add: wf_local_def map_fst_set_content) (simp add: set_content_def)
qed (auto simp: wf_local_def)

lemma reachable_wf_local: "(agent_step e)\<^sup>*\<^sup>* (NewAgent s) a \<Longrightarrow> wf_local a"
  using reachable_local [of e s a wf_local]
  by (auto simp: local_step_wf) (auto simp: wf_local_def NewAgent_def locals_def)

end
