(* ===== verification/Store_Props.thy ===== *)
theory Store_Props
  imports Store_Facts
begin

text \<open>
  The properties of the store. \<open>store_call\<close> is one call of any method of the package in any
  world; the properties of reachable databases are proved by rule induction over sequences of
  such calls, the others from the results of \<open>Store_Facts\<close>.
\<close>

section \<open>Sequences of calls\<close>

inductive store_call :: "store \<Rightarrow> store \<Rightarrow> bool" where
  SaveMessage: "store_call s (snd (run_state (SaveMessage (e :: env) i p d c ts) s))"
| GetHistory: "store_call s (snd (run_state (GetHistory (e :: env) p n) s))"
| GetMessageByID: "store_call s (snd (run_state (GetMessageByID (e :: env) i) s))"
| IsContact: "store_call s (snd (run_state (IsContact (e :: env) a) s))"
| AddContact: "store_call s (snd (run_state (AddContact (e :: env) a x) s))"
| UpdateContactName: "store_call s (snd (run_state (UpdateContactName (e :: env) a x) s))"
| GetContactName: "store_call s (snd (run_state (GetContactName (e :: env) a) s))"
| GetContactByName: "store_call s (snd (run_state (GetContactByName (e :: env) x) s))"
| GetContacts: "store_call s (snd (run_state (GetContacts (e :: env)) s))"
| RemoveContact: "store_call s (snd (run_state (RemoveContact (e :: env) a) s))"
| BlockContact: "store_call s (snd (run_state (BlockContact (e :: env) a) s))"
| UnblockContact: "store_call s (snd (run_state (UnblockContact (e :: env) a) s))"
| IsBlocked: "store_call s (snd (run_state (IsBlocked (e :: env) a) s))"
| GetBlocked: "store_call s (snd (run_state (GetBlocked (e :: env)) s))"
| SavePending: "store_call s (snd (run_state (SavePending (e :: env) i a c n) s))"
| HasPendingNotified: "store_call s (snd (run_state (HasPendingNotified (e :: env) a) s))"
| MarkPendingNotified: "store_call s (snd (run_state (MarkPendingNotified (e :: env) a) s))"
| FlushPending: "store_call s (snd (run_state (FlushPending (e :: env) a) s))"
| GetPendingSenders: "store_call s (snd (run_state (GetPendingSenders (e :: env)) s))"
| SaveOutbox: "store_call s (snd (run_state (SaveOutbox (e :: env) i a x y n) s))"
| GetOutbox: "store_call s (snd (run_state (GetOutbox (e :: env)) s))"
| DeleteOutbox: "store_call s (snd (run_state (DeleteOutbox (e :: env) i) s))"
| IncrementOutboxAttempts: "store_call s (snd (run_state (IncrementOutboxAttempts (e :: env) i) s))"
| SaveKeyCache: "store_call s (snd (run_state (SaveKeyCache (e :: env) a x) s))"
| GetKeyCache: "store_call s (snd (run_state (GetKeyCache (e :: env) a) s))"
| CreateGroup: "store_call s (snd (run_state (CreateGroup (e :: env) i x ms) s))"
| GetGroups: "store_call s (snd (run_state (GetGroups (e :: env)) s))"
| GetGroupMembers: "store_call s (snd (run_state (GetGroupMembers (e :: env) i) s))"
| GetGroupName: "store_call s (snd (run_state (GetGroupName (e :: env) i) s))"
| AddGroupMember: "store_call s (snd (run_state (AddGroupMember (e :: env) i a x) s))"
| RemoveGroupMember: "store_call s (snd (run_state (RemoveGroupMember (e :: env) i a) s))"
| DeleteGroup: "store_call s (snd (run_state (DeleteGroup (e :: env) i) s))"
| SaveGroupInvite: "store_call s (snd (run_state (SaveGroupInvite (e :: env) iv) s))"
| GetGroupInvites: "store_call s (snd (run_state (GetGroupInvites (e :: env)) s))"
| DeleteGroupInvite: "store_call s (snd (run_state (DeleteGroupInvite (e :: env) i) s))"
| SaveReaction: "store_call s (snd (run_state (SaveReaction (e :: env) i a x ts) s))"
| GetReactionsForMessages: "store_call s (snd (run_state (GetReactionsForMessages (e :: env) is) s))"
| AddMute: "store_call s (snd (run_state (AddMute (e :: env) a k u) s))"
| RemoveMute: "store_call s (snd (run_state (RemoveMute (e :: env) a k) s))"
| IsMuted: "store_call s (snd (run_state (IsMuted (e :: env) a k) s))"
| IsAllMuted: "store_call s (snd (run_state (IsAllMuted (e :: env)) s))"
| GetMutes: "store_call s (snd (run_state (GetMutes (e :: env)) s))"
| GetMuteCreatedAt: "store_call s (snd (run_state (GetMuteCreatedAt (e :: env) a k) s))"
| CountInboundSince: "store_call s (snd (run_state (CountInboundSince (e :: env) a n) s))"
| CountAllInboundSince: "store_call s (snd (run_state (CountAllInboundSince (e :: env) n) s))"
| MetaGet: "store_call s (snd (run_state (MetaGet (e :: env) k) s))"
| MetaSet: "store_call s (snd (run_state (MetaSet (e :: env) k x) s))"

text \<open>A relation kept by every statement is kept by every sequence of calls.\<close>

context store_rel
begin

lemma store_call_rel: "W = UNIV \<Longrightarrow> store_call s t \<Longrightarrow> R s t"
  by (erule store_call.cases) (auto intro!: eff_run effects)

lemma store_calls_rel: "W = UNIV \<Longrightarrow> store_call\<^sup>*\<^sup>* s t \<Longrightarrow> R s t"
  by (erule rtranclp_induct) (auto intro: R_refl R_trans store_call_rel)

end

section \<open>Invariants\<close>

text \<open>From a fresh database, whatever methods are called with whatever arguments, clocks and
  database failures, the database stays well-formed: primary keys are unique, the CHECK
  constraints hold, and every stored address is in the normal form under which it is looked up.\<close>

theorem store_calls_wf:
  assumes "store_call\<^sup>*\<^sup>* empty_store s"
  shows "wf_store s"
  using wf.store_calls_rel [OF refl assms] by (simp add: keeps_def wf_empty_store)

lemma store_calls_wf_witness:
  "wf_store (snd (run_state (AddMute sample_env '' 0xAB '' ''agent'' 0) empty_store))"
  by (rule store_calls_wf) (rule r_into_rtranclp, rule store_call.AddMute)

text \<open>The message history is append-only: no sequence of calls deletes, reorders or changes a
  stored message.\<close>

theorem history_append_only:
  assumes "store_call\<^sup>*\<^sup>* s t"
  shows "\<exists>ms. messages t = messages s @ ms"
  using history.store_calls_rel [OF refl assms] by (simp add: grows_def)

lemma history_append_only_witness:
  "\<exists>ms. messages (snd (run_state (BlockContact sample_env ''0xab'') empty_store)) = messages empty_store @ ms"
  by (rule history_append_only) (rule r_into_rtranclp, rule store_call.BlockContact)

section \<open>Behaviour\<close>

lemma take_order_desc:
  fixes t :: "'r list" and k :: "'r \<Rightarrow> 'k::linorder" and n :: nat
  defines "h \<equiv> rev (take n (order_desc k t))"
  assumes "distinct t"
  shows "sorted (map k h) \<and> distinct h \<and> set h \<subseteq> set t \<and> length h = min (length t) n \<and>
    (\<forall>m \<in> set t - set h. \<forall>m' \<in> set h. k m \<le> k m')"
proof -
  have split: "order_desc k t = take n (order_desc k t) @ drop n (order_desc k t)"
    by simp
  have "set t = set (take n (order_desc k t)) \<union> set (drop n (order_desc k t))"
    by (metis append_take_drop_id set_append set_order_desc)
  then have "\<forall>m \<in> set t - set h. \<forall>m' \<in> set h. k m \<le> k m'"
    using order_desc_split [OF split] by (auto simp: h_def)
  moreover have "distinct h"
    using assms(2) by (simp add: h_def order_desc_def distinct_take)
  moreover have "set h \<subseteq> set t"
    using set_take_subset [of n "order_desc k t"] by (auto simp: h_def)
  ultimately show ?thesis
    by (simp add: h_def sorted_rev_take_desc)
qed

lemma unique_key_only:
  "unique_key key t \<Longrightarrow> select_one (\<lambda>x. key x = k) t = Some r \<Longrightarrow> x \<in> set t \<Longrightarrow> key x = k \<longleftrightarrow> x = r"
  using unique_key_select [of key t x k] select_one_SomeD [of "\<lambda>x. key x = k" t r] by auto

lemma distinct_unique_key: "unique_key key t \<Longrightarrow> distinct t"
  by (simp add: unique_key_def distinct_map)

text \<open>\<open>GetHistory\<close> returns the newest messages of the conversation, oldest first: as many as the
  limit allows (20 when it is not positive), each of them a message with that peer and none twice,
  in the order of their timestamps, and no message that is left out is newer than one returned.\<close>

theorem GetHistory_newest:
  assumes "db_ok e" "wf_store s" "run_state (GetHistory e p n) s = ((h, err), t)"
  shows "err = None \<and> sorted (map m_ts h) \<and> distinct h \<and>
    set h \<subseteq> {m \<in> set (messages s). m_peer m = lc p} \<and>
    length h = min (length (filter (\<lambda>m. m_peer m = lc p) (messages s))) (nat (if n \<le> 0 then 20 else n)) \<and>
    (\<forall>m \<in> {m \<in> set (messages s). m_peer m = lc p} - set h. \<forall>m' \<in> set h. m_ts m \<le> m_ts m')"
proof -
  have "distinct (filter (\<lambda>m. m_peer m = lc p) (messages s))"
    using assms(2) by (auto simp: wf_defs dest: distinct_unique_key)
  from take_order_desc [OF this, of m_ts "nat (if n \<le> 0 then 20 else n)"] show ?thesis
    using assms(3) by (auto simp: GetHistory_def runs assms(1))
qed

definition sample_store :: store where
  "sample_store = empty_store\<lparr>
     messages := [\<lparr>m_id = ''b'', m_peer = ''0xab'', m_direction = ''inbound'', m_content = ''two'',
         m_ts = ''2024-01-01T00:00:02.000Z''\<rparr>,
       \<lparr>m_id = ''a'', m_peer = ''0xab'', m_direction = ''outbound'', m_content = ''one'',
         m_ts = ''2024-01-01T00:00:01.000Z''\<rparr>],
     contacts := [\<lparr>c_address = ''0xab'', c_name = Some ''Ann'', c_added_at = ''2024-01-01T00:00:00.000Z''\<rparr>],
     pending := [\<lparr>p_id = ''p2'', p_from = ''0xcd'', p_plaintext = ''later'', p_ts = 20, p_notified = True\<rparr>,
       \<lparr>p_id = ''p1'', p_from = ''0xcd'', p_plaintext = ''sooner'', p_ts = 10, p_notified = True\<rparr>],
     mutes := [\<lparr>mu_target = ''0xab'', mu_kind = ''agent'', mu_until = Some 5, mu_created_at = 1\<rparr>]\<rparr>"

lemma wf_sample_store [simp]: "wf_store sample_store"
  by code_simp

lemma GetHistory_newest_witness:
  "length (fst (fst (run_state (GetHistory sample_env '' 0xAB'' 1) sample_store))) = 1"
proof -
  obtain h err t where r: "run_state (GetHistory sample_env '' 0xAB'' 1) sample_store = ((h, err), t)"
    by (metis prod.collapse)
  have "length (filter (\<lambda>m. m_peer m = lc '' 0xAB'') (messages sample_store)) = 2"
    by code_simp
  with GetHistory_newest [OF db_ok_sample wf_sample_store r] show ?thesis
    by (simp add: r)
qed

text \<open>\<open>CountInboundSince\<close> compares timestamps as text, and that is the order of the instants: if
  every message is stamped with the text form of an instant \<open>at m\<close> of a four-digit year, the count
  is the number of inbound messages of the peer at or after the given instant.\<close>

theorem CountInboundSince_exact:
  assumes "db_ok e" "four_digit_year since"
    and "\<forall>m \<in> set (messages s). m_ts m = iso_ms (at m) \<and> four_digit_year (at m)"
  shows "fst (run_state (CountInboundSince e p since) s) =
    (length (filter (\<lambda>m. m_peer m = lc p \<and> m_direction m = ''inbound'' \<and> since \<le> at m) (messages s)), None)"
proof -
  have "filter (\<lambda>m. m_peer m = lc p \<and> m_direction m = ''inbound'' \<and> iso_ms since \<le> m_ts m) (messages s) =
      filter (\<lambda>m. m_peer m = lc p \<and> m_direction m = ''inbound'' \<and> since \<le> at m) (messages s)"
    using assms(2,3) by (auto intro!: filter_cong simp: iso_ms_le_iff)
  then show ?thesis
    by (simp add: CountInboundSince_def runs assms(1))
qed

lemma CountInboundSince_exact_witness:
  "fst (run_state (CountInboundSince sample_env ''0xab'' 1704067202000) sample_store) = (1, None)"
proof -
  have "\<forall>m \<in> set (messages sample_store).
      m_ts m = iso_ms (if m_id m = ''b'' then 1704067202000 else 1704067201000) \<and>
      four_digit_year (if m_id m = ''b'' then 1704067202000 else 1704067201000)"
    by code_simp
  moreover have "four_digit_year 1704067202000"
    by code_simp
  moreover have "length (filter (\<lambda>m. m_peer m = lc ''0xab'' \<and> m_direction m = ''inbound'' \<and>
      1704067202000 \<le> (if m_id m = ''b'' then 1704067202000 else 1704067201000 :: int)) (messages sample_store)) = 1"
    by code_simp
  ultimately show ?thesis
    using CountInboundSince_exact [OF db_ok_sample, of 1704067202000 sample_store
        "\<lambda>m. if m_id m = ''b'' then 1704067202000 else 1704067201000" "''0xab''"]
    by simp
qed

text \<open>A mute is active exactly until its deadline, and a mute found expired is removed: \<open>IsMuted\<close>
  answers whether there is a mute of that target and kind with no deadline or one after the time it
  reads from the clock, and afterwards the table holds no expired mute of that target and kind while
  every other row is as it was.\<close>

theorem IsMuted_lazy_expiry:
  assumes "db_ok e" "wf_store s" "run_state (IsMuted e tgt k) s = ((b, err), t)"
  shows "err = None \<and>
    (b \<longleftrightarrow> (\<exists>m \<in> set (mutes s). mu_target m = lc tgt \<and> mu_kind m = k \<and>
      (case mu_until m of None \<Rightarrow> True | Some u \<Rightarrow> clock e (tick s + 1) < u))) \<and>
    mutes t = filter (\<lambda>m. \<not> (mu_target m = lc tgt \<and> mu_kind m = k \<and>
      (case mu_until m of None \<Rightarrow> False | Some u \<Rightarrow> u \<le> clock e (tick s + 1)))) (mutes s)"
proof (cases "select_one (\<lambda>m. (mu_target m, mu_kind m) = (lc tgt, k)) (mutes s)")
  case None
  then have "\<forall>m \<in> set (mutes s). \<not> (mu_target m = lc tgt \<and> mu_kind m = k)"
    by (simp add: select_one_None)
  moreover from this have "filter (\<lambda>m. \<not> (mu_target m = lc tgt \<and> mu_kind m = k \<and>
      (case mu_until m of None \<Rightarrow> False | Some u \<Rightarrow> u \<le> clock e (tick s + 1)))) (mutes s) = mutes s"
    by (auto simp: filter_id_conv)
  ultimately show ?thesis
    using assms(3) None by (auto simp: runs assms(1) mute_look_def)
next
  case (Some m)
  have only: "mu_target x = lc tgt \<and> mu_kind x = k \<longleftrightarrow> x = m" if "x \<in> set (mutes s)" for x
    using unique_key_only [OF _ Some that] assms(2) by (simp add: wf_defs)
  have m: "m \<in> set (mutes s)" "mu_target m = lc tgt \<and> mu_kind m = k"
    using select_one_SomeD [OF Some] by auto
  have f: "filter (\<lambda>x. \<not> (mu_target x = lc tgt \<and> mu_kind x = k \<and> P x)) (mutes s) =
      (if P m then delete_where (\<lambda>x. (mu_target x, mu_kind x) = (lc tgt, k)) (mutes s) else mutes s)" for P
    using only by (auto simp: delete_where_def filter_id_conv intro!: filter_cong)
  define expired where "expired = (case mu_until m of None \<Rightarrow> False | Some u \<Rightarrow> u \<le> clock e (tick s + 1))"
  have "mutes t = (if expired then delete_where (\<lambda>x. (mu_target x, mu_kind x) = (lc tgt, k)) (mutes s) else mutes s)"
    and "err = None" and "b = (\<not> expired)"
    using assms(3) Some
    by (auto simp: runs assms(1) mute_look_def mute_del_def expired_def split: option.splits if_splits)
  moreover have "(\<exists>x \<in> set (mutes s). mu_target x = lc tgt \<and> mu_kind x = k \<and> P x) \<longleftrightarrow> P m" for P
    using m only by blast
  moreover have "(case mu_until m of None \<Rightarrow> True | Some u \<Rightarrow> clock e (tick s + 1) < u) \<longleftrightarrow> \<not> expired"
    by (auto simp: expired_def split: option.split)
  ultimately show ?thesis
    unfolding f by (simp add: expired_def)
qed

lemma IsMuted_lazy_expiry_witness:
  "mutes (snd (run_state (IsMuted sample_env ''0xAB'' ''agent'') sample_store)) = []"
proof -
  obtain b err t where r: "run_state (IsMuted sample_env ''0xAB'' ''agent'') sample_store = ((b, err), t)"
    by (metis prod.collapse)
  have "filter (\<lambda>m. \<not> (mu_target m = lc ''0xAB'' \<and> mu_kind m = ''agent'' \<and>
      (case mu_until m of None \<Rightarrow> False | Some u \<Rightarrow> u \<le> clock sample_env (tick sample_store + 1)))) (mutes sample_store) = []"
    by code_simp
  with IsMuted_lazy_expiry [OF db_ok_sample wf_sample_store r] show ?thesis
    by (simp add: r)
qed

text \<open>Releasing a sender's queue: \<open>FlushPending\<close> returns every pending message of the sender,
  each once, oldest first, removes exactly these from the queue and touches nothing else.\<close>

theorem FlushPending_all:
  assumes "db_ok e" "run_state (FlushPending e a) s = ((out, err), t)"
  shows "err = None \<and> sorted (map pm_ts out) \<and>
    mset (map (\<lambda>m. (pm_id m, pm_plaintext m, pm_ts m)) out) =
      mset (map (\<lambda>p. (p_id p, p_plaintext p, p_ts p)) (filter (\<lambda>p. p_from p = lc a) (pending s))) \<and>
    pending t = filter (\<lambda>p. p_from p \<noteq> lc a) (pending s) \<and> messages t = messages s \<and> contacts t = contacts s"
proof -
  define rows where "rows = order_asc p_ts (filter (\<lambda>p. p_from p = lc a) (pending s))"
  have out: "out = map (\<lambda>p. \<lparr>pm_id = p_id p, pm_from = lc a, pm_plaintext = p_plaintext p, pm_ts = p_ts p\<rparr>) rows"
    and t: "err = None" "messages t = messages s" "contacts t = contacts s"
      "pending t = (if rows = [] then pending s else delete_where (\<lambda>p. p_from p = lc a) (pending s))"
    using assms(2) by (auto simp: FlushPending_def Let_def runs assms(1) rows_def split: if_splits)
  have "rows = [] \<Longrightarrow> filter (\<lambda>p. p_from p \<noteq> lc a) (pending s) = pending s"
    using set_order_asc [of p_ts "filter (\<lambda>p. p_from p = lc a) (pending s)"]
    by (auto simp: rows_def filter_id_conv filter_empty_conv)
  moreover have "sorted (map p_ts rows)"
    by (simp add: rows_def sorted_order_asc)
  moreover have "mset rows = mset (filter (\<lambda>p. p_from p = lc a) (pending s))"
    by (simp add: rows_def mset_order_asc)
  ultimately show ?thesis
    by (simp add: out t delete_where_def comp_def mset_map del: mset_filter)
qed

lemma FlushPending_all_witness:
  "pending (snd (run_state (FlushPending sample_env ''0xCD'') sample_store)) = []"
proof -
  obtain out err t where r: "run_state (FlushPending sample_env ''0xCD'') sample_store = ((out, err), t)"
    by (metis prod.collapse)
  have "filter (\<lambda>p. p_from p \<noteq> lc ''0xCD'') (pending sample_store) = []"
    by code_simp
  with FlushPending_all [OF db_ok_sample r] show ?thesis
    by (simp add: r)
qed

lemma ex_key_insert_or_ignore: "\<exists>x \<in> set (insert_or_ignore key r t). key x = key r"
  by (auto simp: set_insert_or_ignore image_iff)

text \<open>Blocking is complete: after \<open>BlockContact\<close> the address is blocked under every spelling,
  it is no contact, none of its messages is pending, every other contact and pending message is
  kept, and \<open>UnblockContact\<close> lifts the block.\<close>

theorem BlockContact_complete:
  assumes "db_ok e" "run_state (BlockContact e a) s = (err, t)"
  shows "err = None \<and> (lc a' = lc a \<longrightarrow> fst (run_state (IsBlocked e a') t) = (True, None)) \<and>
    contacts t = filter (\<lambda>c. c_address c \<noteq> lc a) (contacts s) \<and>
    pending t = filter (\<lambda>p. p_from p \<noteq> lc a) (pending s) \<and>
    fst (run_state (IsBlocked e a) (snd (run_state (UnblockContact e a) t))) = (False, None)"
proof -
  have t: "err = None" "contacts t = delete_where (\<lambda>c. c_address c = lc a) (contacts s)"
      "pending t = delete_where (\<lambda>p. p_from p = lc a) (pending s)"
      "blocked t = insert_or_ignore b_address \<lparr>b_address = lc a, b_at = iso_ms (clock e (tick s))\<rparr> (blocked s)"
    using assms(2) by (auto simp: BlockContact_def Let_def runs assms(1))
  moreover have "\<exists>b \<in> set (blocked t). b_address b = lc a"
    using ex_key_insert_or_ignore [of b_address "\<lparr>b_address = lc a, b_at = iso_ms (clock e (tick s))\<rparr>"]
    by (simp add: t)
  ultimately show ?thesis
    by (simp add: UnblockContact_def runs assms(1) delete_where_def)
qed

lemma BlockContact_complete_witness:
  "contacts (snd (run_state (BlockContact sample_env ''0xAB'') sample_store)) = []"
proof -
  obtain err t where r: "run_state (BlockContact sample_env ''0xAB'') sample_store = (err, t)"
    by (metis prod.collapse)
  have "filter (\<lambda>c. c_address c \<noteq> lc ''0xAB'') (contacts sample_store) = []"
    by code_simp
  with BlockContact_complete [OF db_ok_sample r] show ?thesis
    by (simp add: r)
qed

text \<open>Muting and asking: after \<open>AddMute\<close> with a deadline (none when it is not positive) the target
  is muted, under every spelling, as long as the clock is before the deadline, and the mutes of all
  other targets and kinds answer as before.\<close>

theorem AddMute_IsMuted:
  assumes "db_ok e" "k \<in> mute_kinds" "run_state (AddMute e tgt k u) s = (err, t)"
  shows "err = None \<and> fst (run_state (IsMuted e tgt' k') t) =
    (if lc tgt' = lc tgt \<and> k' = k then (u \<le> 0 \<or> clock e (tick t + 1) < u, None)
     else fst (run_state (IsMuted e tgt' k') (s\<lparr>tick := tick t\<rparr>)))"
proof -
  have t: "err = None" "t = mute_put (clock e (tick s)) (lc tgt, k) (if 0 < u then Some u else None)
      (s\<lparr>tick := tick t\<rparr>)"
    using assms(3) by (auto simp: runs assms(1,2) mute_put_def)
  have "mute_look t (lc tgt', k') =
      (if lc tgt' = lc tgt \<and> k' = k then Some (if 0 < u then Some u else None)
       else mute_look s (lc tgt', k'))"
    by (subst t(2)) (simp add: mute_kv.look_put)
  then show ?thesis
    using t(1) by (auto simp: runs assms(1) split: option.split)
qed

lemma AddMute_IsMuted_witness:
  "fst (run_state (IsMuted sample_env '' 0xEF'' ''agent'')
     (snd (run_state (AddMute sample_env ''0xef'' ''agent'' 0) sample_store))) = (True, None)"
proof -
  obtain err t where r: "run_state (AddMute sample_env ''0xef'' ''agent'' 0) sample_store = (err, t)"
    by (metis prod.collapse)
  have "''agent'' \<in> mute_kinds" "lc '' 0xEF'' = lc ''0xef''"
    by code_simp+
  with AddMute_IsMuted [OF db_ok_sample _ r, of "'' 0xEF''" "''agent''"] show ?thesis
    by (simp add: r)
qed

text \<open>Adding a contact again never loses its name: a non-empty name overwrites, an empty one keeps
  the name there was, and the names of all other contacts are unchanged.\<close>

theorem AddContact_keeps_name:
  assumes "db_ok e" "run_state (AddContact e a n) s = (err, t)"
  shows "err = None \<and> fst (run_state (GetContactName e a') t) =
    (if lc a' = lc a \<and> n \<noteq> [] then (n, None) else fst (run_state (GetContactName e a') s))"
proof -
  have t: "err = None" "contacts t = upsert c_address
       \<lparr>c_address = lc a, c_name = null_if_empty n, c_added_at = iso_ms (clock e (tick s))\<rparr>
       (\<lambda>c. if n = [] then c else c\<lparr>c_name := Some n\<rparr>) (contacts s)"
    using assms(2) by (auto simp: AddContact_def runs assms(1))
  then show ?thesis
    by (auto simp: GetContactName_def runs assms(1) select_one_upsert null_if_empty_def null_string_def
        split: option.split)
qed

lemma AddContact_keeps_name_witness:
  "fst (run_state (GetContactName sample_env ''0xAB'')
     (snd (run_state (AddContact sample_env ''0xab'' []) sample_store))) = (''Ann'', None)"
proof -
  obtain err t where r: "run_state (AddContact sample_env ''0xab'' []) sample_store = (err, t)"
    by (metis prod.collapse)
  have "fst (run_state (GetContactName sample_env ''0xAB'') sample_store) = (''Ann'', None)"
    by code_simp
  with AddContact_keeps_name [OF db_ok_sample r, of "''0xAB''"] show ?thesis
    by (simp add: r)
qed

end
