(* ===== verification/Agent_Props.thy ===== *)
theory Agent_Props
  imports Agent_System Store_Props
begin

text \<open>
  The properties of the agent: the invariant of its reachable states, the policy on inbound events,
  pending messages, the outbox, and what survives a restart.
\<close>

section \<open>A sample world\<close>

definition sample_names_env :: names_env where
  "sample_names_env = sess_env.extend sample_sess_env (names_env.fields (\<lambda>m as. Inr m) (\<lambda>m d. Inl ''no data'')
     (\<lambda>n m. Inl ''no node'') (Some ''no node'') (\<lambda>s. s))"

definition sample_agent_env :: agent_env where
  "sample_agent_env = names_env.extend sample_names_env (agent_env.fields (\<lambda>n. 1700000000000 + 1000 * int n)
     (\<lambda>s. Inr \<lparr>u_Scheme = ''https'', u_Host = ''relay.example'', u_Hostname = ''relay.example''\<rparr>)
     (\<lambda>n h. Inr [[10, 0, 0, 1]]) (\<lambda>n. None) ''/inbox'' (Inr ''/'') (\<lambda>n p. Inr 3) (\<lambda>n p. Inr ''abc'')
     (\<lambda>n. None) (\<lambda>n. None))"

lemma db_ok_sample_agent [simp]: "db_ok sample_agent_env"
  by (simp add: db_ok_def sample_agent_env_def sample_names_env_def sample_sess_env_def sample_crypto_env_def
      sample_mesh_env_def sample_env_def names_env.extend_def agent_env.fields_def sess_env.extend_def
      names_env.fields_def crypto_env.extend_def sess_env.fields_def mesh_env.extend_def crypto_env.fields_def
      env.extend_def mesh_env.fields_def)

section \<open>Results of the pieces\<close>

lemma run_db [runs]: "run_state (db m) a = (fst (run_state m (st a)), a\<lparr>st := snd (run_state m (st a))\<rparr>)"
  by (simp add: db_def run_zoom case_prod_beta)

lemma run_on_session [runs]:
  "run_state (on_session m) a = (fst (run_state m (sess a)), a\<lparr>sess := snd (run_state m (sess a))\<rparr>)"
  by (simp add: on_session_def run_zoom case_prod_beta)

lemma run_ignore [runs]: "run_state (ignore m) a = ((), snd (run_state m a))"
  by (simp add: ignore_def case_prod_beta)

lemma run_surface [runs]:
  "run_state (surface ev) a = ((), if surfaceSink a then a\<lparr>surfaced := surfaced a @ [ev]\<rparr> else a)"
  by (simp add: surface_def)

lemma run_agent_step_tick [runs]: "run_state agent_step_tick a = (a_tick a, a\<lparr>a_tick := a_tick a + 1\<rparr>)"
  by (simp add: agent_step_tick_def)

lemma run_UpdateContactName [runs]: "db_ok e \<Longrightarrow> run_state (UpdateContactName e ad n) s =
    (None, (ticked s)\<lparr>contacts := update_where (\<lambda>c. c_address c = lc ad) (\<lambda>c. c\<lparr>c_name := null_if_empty n\<rparr>) (contacts s)\<rparr>)"
  by (simp add: UpdateContactName_def runs)

lemma run_SavePending [runs]: "db_ok e \<Longrightarrow> run_state (SavePending e i f c n) s =
    (None, (ticked s)\<lparr>pending := insert_or_ignore p_id
       \<lparr>p_id = i, p_from = lc f, p_plaintext = c, p_ts = n, p_notified = False\<rparr> (pending s)\<rparr>)"
  by (simp add: SavePending_def runs)

lemma run_HasPendingNotified [runs]: "db_ok e \<Longrightarrow> run_state (HasPendingNotified e f) s =
    ((\<exists>p \<in> set (pending s). p_from p = lc f \<and> p_notified p, None), ticked s)"
  by (simp add: HasPendingNotified_def runs del: not_None_eq)
    (metis (mono_tags, lifting) select_one_None)

lemma run_MarkPendingNotified [runs]: "db_ok e \<Longrightarrow> run_state (MarkPendingNotified e f) s =
    (None, (ticked s)\<lparr>pending := update_where (\<lambda>p. p_from p = lc f) (\<lambda>p. p\<lparr>p_notified := True\<rparr>) (pending s)\<rparr>)"
  by (simp add: MarkPendingNotified_def runs)

lemma run_SaveMessage [runs]: "db_ok e \<Longrightarrow> ts \<noteq> [] \<Longrightarrow> d \<in> directions \<Longrightarrow> run_state (SaveMessage e i p d c ts) s =
    (None, (ticked s)\<lparr>messages := insert_or_ignore m_id
       \<lparr>m_id = i, m_peer = lc p, m_direction = d, m_content = c, m_ts = ts\<rparr> (messages s)\<rparr>)"
  by (simp add: SaveMessage_def runs directions_def)

lemma iso_ms_not_Nil [simp]: "iso_ms n \<noteq> []"
  by (simp add: iso_ms_def case_prod_beta)

lemma run_GetContactName [runs]:
  "db_ok e \<Longrightarrow> run_state (GetContactName e ad) s =
     ((null_string (Option.bind (select_one (\<lambda>c. c_address c = lc ad) (contacts s)) c_name), None), ticked s)"
  by (simp add: GetContactName_def runs null_string_def split: option.split)

text \<open>The name of a sender is synchronised in the contacts table only.\<close>

definition synced :: "string \<Rightarrow> string \<Rightarrow> contact_row list \<Rightarrow> contact_row list" where
  "synced ad n cs = (if n = [] then cs
     else if n \<noteq> null_string (Option.bind (select_one (\<lambda>c. c_address c = lc ad) cs) c_name)
     then update_where (\<lambda>c. c_address c = lc ad) (\<lambda>c. c\<lparr>c_name := null_if_empty n\<rparr>) cs
     else cs)"

lemma synced_addresses [simp]: "c_address ` set (synced ad n cs) = c_address ` set cs"
proof -
  have "map c_address (synced ad n cs) = map c_address cs"
    by (simp add: synced_def map_key_update_where)
  then show ?thesis by (metis set_map)
qed

lemma synced_contact [simp]: "(\<exists>c \<in> set (synced ad n cs). c_address c = x) \<longleftrightarrow> (\<exists>c \<in> set cs. c_address c = x)"
  using synced_addresses [of ad n cs] by (metis (no_types, lifting) imageE imageI)

lemma run_syncContactName:
  assumes "db_ok e"
  obtains k where "run_state (syncContactName e ad n) a =
    ((), a\<lparr>st := (st a)\<lparr>tick := k, contacts := synced ad n (contacts (st a))\<rparr>\<rparr>)"
proof (cases "n = []")
  case True
  show thesis
    by (rule that [of "tick (st a)"]) (simp add: True syncContactName_def synced_def)
next
  case False
  show thesis
  proof (cases "n = null_string (Option.bind (select_one (\<lambda>c. c_address c = lc ad) (contacts (st a))) c_name)")
    case True
    with False show thesis
      by (intro that [of "Suc (tick (st a))"]) (simp add: syncContactName_def runs assms synced_def)
  next
    case neq: False
    with False show thesis
      by (intro that [of "Suc (Suc (tick (st a)))"])
        (simp add: syncContactName_def runs assms synced_def)
  qed
qed


section \<open>Reachable agents\<close>

text \<open>C1: whatever operations, relay events, downloads and registrations happen in whatever order,
  with whatever failures, a reachable agent is sound: its database is well formed, its relay reader
  never blocks on a waiter, the local mesh maps each name to a live session of that name, at most eight
  downloads run, the presence is one the relay knows, and no two inbox files share a name.\<close>

theorem agent_sound:
  assumes "(agent_step e)\<^sup>*\<^sup>* (NewAgent empty_store) a"
  shows "wf_store (st a) \<and> \<not> stuck (sess a) \<and> wf_mesh a \<and> wf_local a"
proof -
  have "wf_store (st a)"
    using agent_wf.steps_lift [OF assms] wf_empty_store by (simp add: keeps_def NewAgent_def)
  moreover have "\<not> stuck (sess a)"
    using reachable_wf [OF reachable_session [OF assms]] by (simp add: wf_chan_def)
  ultimately show ?thesis
    using reachable_wf_mesh [OF assms] reachable_wf_local [OF assms] by simp
qed

definition sample_agent :: agent where
  "sample_agent = snd (run_state (Dispatch sample_agent_env ''mute'' [(''target'', AString ''all'')])
     (snd (run_state (OnSurface True) (NewAgent empty_store))))"

lemma sample_agent_reachable: "(agent_step sample_agent_env)\<^sup>*\<^sup>* (NewAgent empty_store) sample_agent"
  unfolding sample_agent_def
  by (rule rtranclp.rtrancl_into_rtrancl [OF r_into_rtranclp [of "agent_step sample_agent_env", OF agent_step.sink]
      agent_step.operation])

lemma agent_sound_witness: "wf_store (st sample_agent)"
  using agent_sound [OF sample_agent_reachable] by simp

text \<open>Nothing the agent does deletes, reorders or changes a stored message: every step of every
  operation, event and download only appends to the history.\<close>

theorem agent_history_append_only:
  assumes "(agent_step e)\<^sup>*\<^sup>* a b"
  shows "\<exists>ms. messages (st b) = messages (st a) @ ms"
  using agent_history.steps_lift [OF assms] by (simp add: grows_def)

lemma agent_history_append_only_witness:
  "\<exists>ms. messages (st sample_agent) = messages (st (NewAgent empty_store)) @ ms"
  by (rule agent_history_append_only [OF sample_agent_reachable])

text \<open>The block list is changed by the operation \<open>block\<close> alone: no other operation, no event of the
  relay and no download blocks or unblocks anybody.\<close>

theorem block_list_only_by_block:
  assumes "oper \<noteq> ''block''"
  shows "blocked (st (snd (run_state (Dispatch e oper args) a))) = blocked (st a) \<and>
    blocked (st (snd (run_state (relay e (session_event e ev)) a))) = blocked (st a) \<and>
    blocked (st (snd (run_state (run_download e i) a))) = blocked (st a)"
  using assms agent_block.lift_run [OF agent_block.Dispatch_lift [of oper e args], of a]
    agent_block.lift_run [OF agent_block.relay_lift [OF event_steps [of e ev]], of a]
    agent_block.lift_run [OF agent_block.run_download_lift [of e e i], of a]
  by (simp add: lift_rel_def same_def)

lemma block_list_only_by_block_witness:
  "blocked (st (snd (run_state (Dispatch sample_agent_env ''unmute'' []) sample_agent))) = blocked (st sample_agent)"
  using block_list_only_by_block [of "''unmute''" sample_agent_env "[]" sample_agent] by simp

section \<open>Inbound policy\<close>

text \<open>C13: a blocked sender is dropped silently: while the database answers, an event whose sender is on
  the block list, under any spelling, changes nothing at all but the position of the clock.\<close>

theorem blocked_sender_dropped:
  assumes "db_ok e" "\<exists>b \<in> set (blocked (st a)). b_address b = lc (ev_From ev)"
  shows "run_state (handleInbound e ev) a = ((), a\<lparr>st := ticked (st a)\<rparr>)"
  using assms by (simp add: handleInbound_def runs)

text \<open>An agent with a surface, a contact and a blocked sender.\<close>

definition policy_agent :: agent where
  "policy_agent = (NewAgent (empty_store\<lparr>
     contacts := [\<lparr>c_address = ''0xcd'', c_name = Some ''bob'', c_added_at = ''2024''\<rparr>],
     blocked := [\<lparr>b_address = ''0xab'', b_at = ''2024''\<rparr>]\<rparr>))\<lparr>surfaceSink := True\<rparr>"

definition dm :: "string \<Rightarrow> string \<Rightarrow> InboundEvent" where
  "dm from mid = no_event\<lparr>ev_Kind := ''dm'', ev_ID := mid, ev_From := from, ev_Plaintext := ''hello'',
     ev_Ts := 1700000000000, ev_Verified := True\<rparr>"

lemma blocked_sender_dropped_witness:
  "surfaced (snd (run_state (handleInbound sample_agent_env (dm ''0xAB'' ''m1'')) policy_agent)) = []"
proof -
  have "\<exists>b \<in> set (blocked (st policy_agent)). b_address b = lc (ev_From (dm ''0xAB'' ''m1''))"
    by code_simp
  from blocked_sender_dropped [OF db_ok_sample_agent this] show ?thesis
    by (simp add: policy_agent_def NewAgent_def)
qed


definition failing_env :: agent_env where
  "failing_env = sample_agent_env\<lparr>db_err := (\<lambda>t. if t = 0 then Some ''database is locked'' else None)\<rparr>"


text \<open>C20: an unsigned direct message or direct reaction has no effect, whatever the database does:
  no history, no pending request, no surfacing, no reply target.\<close>

theorem unverified_direct_dropped:
  assumes "\<not> ev_Verified ev" "ev_Kind ev = ''dm'' \<or> ev_Kind ev = ''reaction'' \<and> ev_GroupID ev = []"
  shows "snd (run_state (handleInbound e ev) a) = a\<lparr>st := ticked (st a)\<rparr>"
  using assms
  by (auto simp: handleInbound_def handleInboundDM_def Agent_handleInboundReaction_def IsBlocked_def
      query_row_def runs split: option.split sum.split)


lemma unverified_direct_dropped_witness:
  "surfaced (snd (run_state (handleInbound sample_agent_env ((dm ''0xcd'' ''m1'')\<lparr>ev_Verified := False\<rparr>)) policy_agent)) = []"
  using unverified_direct_dropped [of "(dm ''0xcd'' ''m1'')\<lparr>ev_Verified := False\<rparr>" sample_agent_env policy_agent]
  by (simp add: dm_def policy_agent_def NewAgent_def)




lemma mute_look_frame [simp]:
  "mute_look (s\<lparr>messages := x\<rparr>) k = mute_look s k" "mute_look (s\<lparr>contacts := y\<rparr>) k = mute_look s k"
  by (simp_all add: mute_look_def)

lemma lc_star [simp]: "lc AllMuteTarget = AllMuteTarget"
  by code_simp

text \<open>The verdict of \<open>muted\<close> for mutes without a deadline.\<close>

lemma run_muted:
  assumes "db_ok e"
  shows "mute_look (st a) (AllMuteTarget, MuteAll) = Some None \<or>
      mute_look (st a) (AllMuteTarget, MuteAll) = None \<and> mute_look (st a) (lc f, MuteAgent) = Some None \<Longrightarrow>
      \<exists>n. run_state (muted e f []) a = (True, a\<lparr>st := (st a)\<lparr>tick := n\<rparr>\<rparr>)"
    and "mute_look (st a) (AllMuteTarget, MuteAll) = None \<Longrightarrow> mute_look (st a) (lc f, MuteAgent) = None \<Longrightarrow>
      run_state (muted e f []) a = (False, a\<lparr>st := ticked (ticked (st a))\<rparr>)"
  using assms by (auto simp: muted_def IsAllMuted_def runs)

lemma run_tsISO: "\<exists>ts n. ts \<noteq> [] \<and> run_state (tsISO e ms) a = (ts, a\<lparr>a_tick := n\<rparr>) \<and> (0 < ms \<longrightarrow> ts = iso_ms ms)"
proof (cases "0 < ms")
  case True
  then show ?thesis by (intro exI [of _ "iso_ms ms"] exI [of _ "a_tick a"]) (simp add: tsISO_def)
next
  case False
  then show ?thesis
    by (intro exI [of _ "iso_ms (agent_clock e (a_tick a))"] exI [of _ "Suc (a_tick a)"])
      (simp add: tsISO_def agent_now_def runs)
qed

text \<open>What \<open>handleInbound\<close> does with a direct message of a contact, up to the question of mutes.\<close>

lemma contact_dm_saved:
  assumes "db_ok e" "\<not> (\<exists>b \<in> set (blocked (st a)). b_address b = lc (ev_From ev))"
    and "\<exists>c \<in> set (contacts (st a)). c_address c = lc (ev_From ev)"
    and "ev_Kind ev = ''dm''" "ev_Verified ev" "ev_ID ev \<notin> m_id ` set (messages (st a))"
  obtains k n ts where "run_state (handleInbound e ev) a = run_state (do {
      m \<leftarrow> muted e (ev_From ev) [];
      if m then State_Monad.return () else do {
        setLastInbound e (ev_From ev) [] (ev_ID ev); surfaceInboundDM e ev }})
      (a\<lparr>a_tick := n, st := (st a)\<lparr>contacts := synced (ev_From ev) (ev_FromName ev) (contacts (st a)), tick := k,
         messages := messages (st a) @ [\<lparr>m_id = ev_ID ev, m_peer = lc (ev_From ev),
           m_direction = ''inbound'', m_content = ev_Plaintext ev, m_ts = ts\<rparr>]\<rparr>\<rparr>)"
    and "0 < ev_Ts ev \<longrightarrow> ts = iso_ms (ev_Ts ev)"
proof -
  obtain k where sync: "run_state (syncContactName e (ev_From ev) (ev_FromName ev)) (a\<lparr>st := ticked (st a)\<rparr>) =
      ((), a\<lparr>st := (st a)\<lparr>tick := k, contacts := synced (ev_From ev) (ev_FromName ev) (contacts (st a))\<rparr>\<rparr>)"
    by (rule run_syncContactName [OF assms(1), of "ev_From ev" "ev_FromName ev" "a\<lparr>st := ticked (st a)\<rparr>"]) simp
  define c where "c = a\<lparr>st := (st a)\<lparr>contacts := synced (ev_From ev) (ev_FromName ev) (contacts (st a)), tick := Suc k\<rparr>\<rparr>"
  obtain ts n where ts: "ts \<noteq> []" "run_state (tsISO e (ev_Ts ev)) c = (ts, c\<lparr>a_tick := n\<rparr>)"
      "0 < ev_Ts ev \<longrightarrow> ts = iso_ms (ev_Ts ev)"
    using run_tsISO by blast
  have known: "\<not> (\<forall>c \<in> set (synced (ev_From ev) (ev_FromName ev) (contacts (st a))). c_address c \<noteq> lc (ev_From ev))"
    using assms(3) synced_contact [of "ev_From ev" "ev_FromName ev" "contacts (st a)" "lc (ev_From ev)"] by blast
  have "run_state (handleInbound e ev) a = run_state (do {
      m \<leftarrow> muted e (ev_From ev) [];
      if m then State_Monad.return () else do {
        setLastInbound e (ev_From ev) [] (ev_ID ev); surfaceInboundDM e ev }})
      (a\<lparr>a_tick := n, st := (st a)\<lparr>contacts := synced (ev_From ev) (ev_FromName ev) (contacts (st a)), tick := Suc (Suc k),
         messages := messages (st a) @ [\<lparr>m_id = ev_ID ev, m_peer = lc (ev_From ev),
           m_direction = ''inbound'', m_content = ev_Plaintext ev, m_ts = ts\<rparr>]\<rparr>\<rparr>)"
    using assms(1,2,4-6) sync ts(1,2)
    by (simp add: known handleInbound_def handleInboundDM_def runs directions_def insert_or_ignore_def c_def)
  then show thesis using that ts(3) by blast
qed

lemma policy_contact:
  "\<not> (\<exists>b \<in> set (blocked (st policy_agent)). b_address b = lc (ev_From (dm ''0xCD'' i)))"
  "\<exists>c \<in> set (contacts (st policy_agent)). c_address c = lc (ev_From (dm ''0xCD'' i))"
proof -
  have "lc ''0xCD'' = ''0xcd''" by code_simp
  then show "\<not> (\<exists>b \<in> set (blocked (st policy_agent)). b_address b = lc (ev_From (dm ''0xCD'' i)))"
      "\<exists>c \<in> set (contacts (st policy_agent)). c_address c = lc (ev_From (dm ''0xCD'' i))"
    by (simp_all add: policy_agent_def NewAgent_def dm_def)
qed

lemma policy_agent_fields [simp]:
  "messages (st policy_agent) = []" "surfaced policy_agent = []" "surfaceSink policy_agent" "mutes (st policy_agent) = []"
  by (simp_all add: policy_agent_def NewAgent_def empty_store_def)

lemma dm_fields [simp]:
  "ev_Kind (dm f i) = ''dm''" "ev_Verified (dm f i)" "ev_ID (dm f i) = i" "ev_From (dm f i) = f" "0 < ev_Ts (dm f i)"
  by (simp_all add: dm_def)

text \<open>A muted contact is heard but not shown: its message joins the history, and neither the surface,
  nor the downloads, nor the reply target change, when all or that contact are muted without a deadline.\<close>

theorem muted_contact_saved_silently:
  assumes "db_ok e" "\<not> (\<exists>b \<in> set (blocked (st a)). b_address b = lc (ev_From ev))"
    and "\<exists>c \<in> set (contacts (st a)). c_address c = lc (ev_From ev)"
    and "ev_Kind ev = ''dm''" "ev_Verified ev" "ev_ID ev \<notin> m_id ` set (messages (st a))"
    and "mute_look (st a) (AllMuteTarget, MuteAll) = Some None \<or>
      mute_look (st a) (AllMuteTarget, MuteAll) = None \<and> mute_look (st a) (lc (ev_From ev), MuteAgent) = Some None"
    and "b = snd (run_state (handleInbound e ev) a)"
  shows "(\<exists>ts. messages (st b) = messages (st a) @ [\<lparr>m_id = ev_ID ev, m_peer = lc (ev_From ev),
      m_direction = ''inbound'', m_content = ev_Plaintext ev, m_ts = ts\<rparr>]) \<and>
    surfaced b = surfaced a \<and> downloads b = downloads a \<and> lastInboundFrom b = lastInboundFrom a \<and>
    lastInboundMessageID b = lastInboundMessageID a \<and> meta (st b) = meta (st a)"
proof (rule contact_dm_saved [OF assms(1-6)])
  fix k n ts
  let ?d = "a\<lparr>a_tick := n, st := (st a)\<lparr>contacts := synced (ev_From ev) (ev_FromName ev) (contacts (st a)), tick := k,
         messages := messages (st a) @ [\<lparr>m_id = ev_ID ev, m_peer = lc (ev_From ev),
           m_direction = ''inbound'', m_content = ev_Plaintext ev, m_ts = ts\<rparr>]\<rparr>\<rparr>"
  assume r: "run_state (handleInbound e ev) a = run_state (do {
      m \<leftarrow> muted e (ev_From ev) [];
      if m then State_Monad.return () else do {
        setLastInbound e (ev_From ev) [] (ev_ID ev); surfaceInboundDM e ev }}) ?d"
  obtain n' where "run_state (muted e (ev_From ev) []) ?d = (True, ?d\<lparr>st := (st ?d)\<lparr>tick := n'\<rparr>\<rparr>)"
    using run_muted(1) [OF assms(1), of ?d "ev_From ev"] assms(7) by auto
  then show ?thesis by (simp add: assms(8) r)
qed

definition muted_agent :: agent where
  "muted_agent = policy_agent\<lparr>st := mute_put 1 (AllMuteTarget, MuteAll) None (st policy_agent)\<rparr>"

lemma muted_contact_saved_silently_witness:
  "surfaced (snd (run_state (handleInbound sample_agent_env (dm ''0xCD'' ''m1'')) muted_agent)) = []"
proof -
  have f: "blocked (st muted_agent) = blocked (st policy_agent)" "contacts (st muted_agent) = contacts (st policy_agent)"
      "messages (st muted_agent) = []" "surfaced muted_agent = []"
      "mute_look (st muted_agent) (AllMuteTarget, MuteAll) = Some None"
    by (simp_all add: muted_agent_def mute_put_def mute_look_def upsert_def select_one_def)
  show ?thesis
    using muted_contact_saved_silently [of sample_agent_env muted_agent "dm ''0xCD'' ''m1''", OF _ _ _ _ _ _ _ refl]
      policy_contact [of "''m1''"] f
    by simp
qed

lemma run_setLastInbound [runs]:
  "db_ok e \<Longrightarrow> run_state (setLastInbound e f g i) a =
     ((), a\<lparr>lastInboundFrom := f, lastInboundGroup := g, lastInboundMessageID := i,
        st := meta_put ''last_inbound_msgid'' i (ticked (meta_put ''last_inbound_group'' g (ticked
          (meta_put ''last_inbound_from'' f (ticked (st a))))))\<rparr>)"
  by (simp add: setLastInbound_def runs)

lemma meta_put_frame [simp]:
  "messages (meta_put k v s) = messages s" "contacts (meta_put k v s) = contacts s" "tick (meta_put k v s) = tick s"
  by (simp_all add: meta_put_def)

text \<open>C5: a text of an unmuted contact is delivered: it joins the history under the sender's address and
  with the sender's time, it is surfaced last, and a reply goes to its sender.\<close>

theorem contact_dm_delivered:
  assumes "db_ok e" "\<not> (\<exists>b \<in> set (blocked (st a)). b_address b = lc (ev_From ev))"
    and "\<exists>c \<in> set (contacts (st a)). c_address c = lc (ev_From ev)"
    and "ev_Kind ev = ''dm''" "ev_Verified ev" "ev_ID ev \<notin> m_id ` set (messages (st a))"
    and "mute_look (st a) (AllMuteTarget, MuteAll) = None" "mute_look (st a) (lc (ev_From ev), MuteAgent) = None"
    and "parseFileRef (ev_Plaintext ev) = None" "surfaceSink a" "0 < ev_Ts ev" "ev_From ev \<noteq> []"
    and b: "b = snd (run_state (handleInbound e ev) a)"
  shows "messages (st b) = messages (st a) @ [\<lparr>m_id = ev_ID ev, m_peer = lc (ev_From ev),
      m_direction = ''inbound'', m_content = ev_Plaintext ev, m_ts = iso_ms (ev_Ts ev)\<rparr>] \<and>
    surfaced b = surfaced a @ [message_surface ev deliverSteer] \<and>
    run_state (Reply e answer) b = run_state (Agent_Send e (ev_From ev) answer) b"
proof (rule contact_dm_saved [OF assms(1-6)])
  fix k n ts
  let ?d = "a\<lparr>a_tick := n, st := (st a)\<lparr>contacts := synced (ev_From ev) (ev_FromName ev) (contacts (st a)), tick := k,
         messages := messages (st a) @ [\<lparr>m_id = ev_ID ev, m_peer = lc (ev_From ev),
           m_direction = ''inbound'', m_content = ev_Plaintext ev, m_ts = ts\<rparr>]\<rparr>\<rparr>"
  assume r: "run_state (handleInbound e ev) a = run_state (do {
      m \<leftarrow> muted e (ev_From ev) [];
      if m then State_Monad.return () else do {
        setLastInbound e (ev_From ev) [] (ev_ID ev); surfaceInboundDM e ev }}) ?d"
    and ts: "0 < ev_Ts ev \<longrightarrow> ts = iso_ms (ev_Ts ev)"
  have "run_state (muted e (ev_From ev) []) ?d = (False, ?d\<lparr>st := ticked (ticked (st ?d))\<rparr>)"
    using run_muted(2) [OF assms(1), of ?d "ev_From ev"] assms(7,8) by simp
  then show ?thesis
    using ts assms(10-12)
    by (simp add: b r runs assms(1,9) surfaceInboundDM_def Reply_def getLastInbound_def)
qed

lemma contact_dm_delivered_witness:
  "surfaced (snd (run_state (handleInbound sample_agent_env (dm ''0xCD'' ''m1'')) policy_agent)) =
    [message_surface (dm ''0xCD'' ''m1'') deliverSteer]"
proof -
  have "mute_look (st policy_agent) k = None" for k
    by (simp add: mute_look_def select_one_def)
  moreover have "parseFileRef (ev_Plaintext (dm ''0xCD'' ''m1'')) = None"
    by code_simp
  ultimately show ?thesis
    using contact_dm_delivered [of sample_agent_env policy_agent "dm ''0xCD'' ''m1''", OF _ _ _ _ _ _ _ _ _ _ _ _ refl]
      policy_contact [of "''m1''"]
    by simp
qed

end
