(* ===== verification/Agent_Delivery.thy ===== *)
theory Agent_Delivery
  imports Agent_Props
begin

text \<open>
  What becomes of messages that wait: the pending requests of an approved sender, the outbox of an
  offline relay, the envelope that is queued, and the agent's memory across a restart.
\<close>

section \<open>Pending requests\<close>

definition delivered_row :: "string \<Rightarrow> pending_row \<Rightarrow> Message" where
  "delivered_row ad p = \<lparr>m_id = p_id p, m_peer = lc ad, m_direction = ''inbound'', m_content = p_plaintext p,
     m_ts = iso_ms (p_ts p)\<rparr>"

definition pending_msg :: "string \<Rightarrow> pending_row \<Rightarrow> PendingMsg" where
  "pending_msg ad p = \<lparr>pm_id = p_id p, pm_from = lc ad, pm_plaintext = p_plaintext p, pm_ts = p_ts p\<rparr>"

lemma save_pending_all:
  assumes "db_ok e" "distinct (map p_id ps)" "\<forall>p \<in> set ps. 0 < p_ts p \<and> p_id p \<notin> m_id ` set (messages (st a))"
  shows "\<exists>k. run_state (for_each (map (pending_msg ad) ps) (save_pending e ad)) a =
    ((), a\<lparr>st := (st a)\<lparr>tick := k, messages := messages (st a) @ map (delivered_row ad) ps\<rparr>\<rparr>)"
  using assms(2,3)
proof (induction ps arbitrary: a)
  case Nil
  show ?case by (intro exI [of _ "tick (st a)"]) simp
next
  case (Cons p ps)
  let ?b = "a\<lparr>st := (ticked (st a))\<lparr>messages := messages (st a) @ [delivered_row ad p]\<rparr>\<rparr>"
  have "run_state (save_pending e ad (pending_msg ad p)) a = ((), ?b)"
    using Cons.prems
    by (simp add: save_pending_def pending_msg_def delivered_row_def tsISO_def runs assms(1) directions_def
        insert_or_ignore_def)
  moreover have "distinct (map p_id ps)" "\<forall>q \<in> set ps. 0 < p_ts q \<and> p_id q \<notin> m_id ` set (messages (st ?b))"
    using Cons.prems by (auto simp: delivered_row_def) (metis imageI)
  then obtain k where "run_state (for_each (map (pending_msg ad) ps) (save_pending e ad)) ?b =
      ((), ?b\<lparr>st := (st ?b)\<lparr>tick := k, messages := messages (st ?b) @ map (delivered_row ad) ps\<rparr>\<rparr>)"
    using Cons.IH [of ?b] by blast
  ultimately show ?case
    by (intro exI [of _ k]) simp
qed

lemma run_FlushPending [runs]:
  "db_ok e \<Longrightarrow> run_state (FlushPending e ad) s =
     (let rows = order_asc p_ts (filter (\<lambda>p. p_from p = lc ad) (pending s))
      in ((map (pending_msg ad) rows, None),
          if rows = [] then ticked s
          else (ticked (ticked s))\<lparr>pending := filter (\<lambda>p. p_from p \<noteq> lc ad) (pending s)\<rparr>))"
  by (simp add: FlushPending_def Let_def runs pending_msg_def [abs_def] delete_where_def)

lemma run_AddContact [runs]:
  "db_ok e \<Longrightarrow> run_state (AddContact e ad n) s = (None, (ticked (ticked s))\<lparr>contacts := upsert c_address
       \<lparr>c_address = lc ad, c_name = null_if_empty n, c_added_at = iso_ms (clock e (tick s))\<rparr>
       (\<lambda>c. if n = [] then c else c\<lparr>c_name := Some n\<rparr>) (contacts s)\<rparr>)"
  by (simp add: AddContact_def runs)

lemma ex_key_upsert: "(\<And>x. key (f x) = key x) \<Longrightarrow> \<exists>x \<in> set (upsert key r f t). key x = key r"
  by (force simp: upsert_def set_update_where image_iff)

text \<open>C7: approving a sender delivers what it had sent: every pending request of the address moves to
  the end of the history, oldest first, each once and with its own time, none of its requests stays
  pending, those of others stay, and the sender is a contact; the number delivered is returned.\<close>

theorem approval_delivers_pending:
  assumes "db_ok e" "unique_key p_id (pending (st a))"
    and "\<forall>p \<in> set (pending (st a)). p_from p = lc ad \<longrightarrow> 0 < p_ts p \<and> p_id p \<notin> m_id ` set (messages (st a))"
    and r: "run_state (addContactAndFlush e ad name) a = (n, b)"
  shows "messages (st b) = messages (st a) @
      map (delivered_row ad) (order_asc p_ts (filter (\<lambda>p. p_from p = lc ad) (pending (st a)))) \<and>
    pending (st b) = filter (\<lambda>p. p_from p \<noteq> lc ad) (pending (st a)) \<and>
    n = length (filter (\<lambda>p. p_from p = lc ad) (pending (st a))) \<and>
    (\<exists>c \<in> set (contacts (st b)). c_address c = lc ad)"
proof -
  define rows where "rows = order_asc p_ts (filter (\<lambda>p. p_from p = lc ad) (pending (st a)))"
  define cs where "cs = upsert c_address
       \<lparr>c_address = lc ad, c_name = null_if_empty name, c_added_at = iso_ms (clock e (tick (st a)))\<rparr>
       (\<lambda>c. if name = [] then c else c\<lparr>c_name := Some name\<rparr>) (contacts (st a))"
  have cs: "\<exists>c \<in> set cs. c_address c = lc ad"
    using ex_key_upsert [of c_address "\<lambda>c. if name = [] then c else c\<lparr>c_name := Some name\<rparr>"
        "\<lparr>c_address = lc ad, c_name = null_if_empty name, c_added_at = iso_ms (clock e (tick (st a)))\<rparr>" "contacts (st a)"]
    by (simp add: cs_def)
  have len: "length rows = length (filter (\<lambda>p. p_from p = lc ad) (pending (st a)))"
    by (simp add: rows_def order_asc_def)
  show ?thesis
  proof (cases "rows = []")
    case True
    then have "filter (\<lambda>p. p_from p = lc ad) (pending (st a)) = []"
      using len by simp
    then have keep: "filter (\<lambda>p. p_from p \<noteq> lc ad) (pending (st a)) = pending (st a)"
      by (simp add: filter_id_conv filter_empty_conv)
    have "n = 0 \<and> b = a\<lparr>st := (ticked (ticked (ticked (st a))))\<lparr>contacts := cs\<rparr>\<rparr>"
      using r True by (auto simp: addContactAndFlush_def runs assms(1) Let_def rows_def cs_def)
    then show ?thesis using True len cs keep by (simp add: rows_def)
  next
    case False
    let ?c = "a\<lparr>st := (st a)\<lparr>contacts := cs, tick := Suc (Suc (Suc (Suc (tick (st a))))),
      pending := filter (\<lambda>p. p_from p \<noteq> lc ad) (pending (st a))\<rparr>\<rparr>"
    have "distinct (map p_id rows)"
      using assms(2) unfolding rows_def order_asc_def unique_key_def
      by (simp add: distinct_map inj_on_def)
    then obtain k where "run_state (for_each (map (pending_msg ad) rows) (save_pending e ad)) ?c =
        ((), ?c\<lparr>st := (st ?c)\<lparr>tick := k, messages := messages (st ?c) @ map (delivered_row ad) rows\<rparr>\<rparr>)"
      using save_pending_all [OF assms(1), of rows ?c ad] assms(3) by (auto simp: rows_def)
    then have "n = length rows \<and> b = ?c\<lparr>st := (st ?c)\<lparr>tick := k, messages := messages (st ?c) @ map (delivered_row ad) rows\<rparr>\<rparr>"
      using r False by (auto simp: addContactAndFlush_def runs assms(1) Let_def rows_def [symmetric] cs_def [symmetric])
    then show ?thesis using len cs by (simp add: rows_def)
  qed
qed


definition waiting_agent :: agent where
  "waiting_agent = (NewAgent (empty_store\<lparr>
     pending := [\<lparr>p_id = ''m2'', p_from = ''0xef'', p_plaintext = ''two'', p_ts = 2000, p_notified = False\<rparr>,
       \<lparr>p_id = ''m1'', p_from = ''0xef'', p_plaintext = ''one'', p_ts = 1000, p_notified = True\<rparr>]\<rparr>))\<lparr>surfaceSink := True\<rparr>"

lemma approval_delivers_pending_witness:
  "map m_id (messages (st (snd (run_state (addContactAndFlush sample_agent_env ''0xEF'' []) waiting_agent)))) = [''m1'', ''m2'']"
proof -
  obtain n b where r: "run_state (addContactAndFlush sample_agent_env ''0xEF'' []) waiting_agent = (n, b)"
    by (metis prod.collapse)
  have "messages (st waiting_agent) = []" "unique_key p_id (pending (st waiting_agent))"
      "\<forall>p \<in> set (pending (st waiting_agent)). 0 < p_ts p"
    by (simp_all add: waiting_agent_def NewAgent_def empty_store_def unique_key_def)
  moreover have "map p_id (order_asc p_ts (filter (\<lambda>p. p_from p = lc ''0xEF'') (pending (st waiting_agent)))) = [''m1'', ''m2'']"
    by code_simp
  moreover have "m_id \<circ> delivered_row ad = p_id" for ad
    by (simp add: delivered_row_def fun_eq_iff)
  ultimately show ?thesis
    using approval_delivers_pending [OF db_ok_sample_agent _ _ r] by (simp add: r)
qed

section \<open>The outbox\<close>

text \<open>What one flush makes of the outbox when every write fails: the ten-times failed are given up, the
  others counted.\<close>

definition retried :: "string set \<Rightarrow> OutboxItem list \<Rightarrow> OutboxItem list" where
  "retried ids ob = map (\<lambda>r. if o_id r \<in> ids then r\<lparr>o_attempts := o_attempts r + 1\<rparr> else r)
     (filter (\<lambda>r. \<not> (o_id r \<in> ids \<and> 10 \<le> o_attempts r)) ob)"

definition relay_fails :: "'e sess_env_scheme \<Rightarrow> bool" where
  "relay_fails e \<longleftrightarrow> (\<forall>t. write_err e t \<noteq> None)"

lemma SendQueued_fails:
  assumes "relay_fails e"
  shows "\<exists>x n. run_state (SendQueued e i to c sg) s = (Some x, s\<lparr>x_tick := n\<rparr>)"
proof -
  obtain x where "write_err e (x_tick s) = Some x"
    using assms by (auto simp: relay_fails_def)
  then have "run_state (SendQueued e i to c sg) s \<in>
      {(Some x, s\<lparr>x_tick := x_tick s + 1\<rparr>), (Some ''relay not ready'', s\<lparr>x_tick := x_tick s\<rparr>)}"
    by (cases "conn s"; cases "authed s")
      (simp_all add: SendQueued_def currentConn_def writeJSON_def sess_tick_def)
  moreover have "\<exists>n. s = s\<lparr>x_tick := n\<rparr>"
    by (rule exI [of _ "x_tick s"]) simp
  ultimately show ?thesis by auto
qed

lemma flush_item_fails:
  assumes "db_ok e" "relay_fails e"
  shows "\<exists>n k. run_state (flush_item e it) a = ((), a\<lparr>sess := (sess a)\<lparr>x_tick := n\<rparr>,
    st := (st a)\<lparr>tick := k, outbox := (if 10 \<le> o_attempts it then delete_where (\<lambda>r. o_id r = o_id it) (outbox (st a))
      else update_where (\<lambda>r. o_id r = o_id it) (\<lambda>r. r\<lparr>o_attempts := o_attempts r + 1\<rparr>) (outbox (st a)))\<rparr>\<rparr>)"
proof (cases "10 \<le> o_attempts it")
  case True
  then show ?thesis
    by (intro exI [of _ "x_tick (sess a)"] exI [of _ "Suc (tick (st a))"])
      (simp add: flush_item_def DeleteOutbox_def runs assms(1))
next
  case False
  obtain x n where "run_state (SendQueued e (o_id it) (o_to it) (o_encrypted it) (o_signature it)) (sess a) =
      (Some x, (sess a)\<lparr>x_tick := n\<rparr>)"
    using SendQueued_fails [OF assms(2)] by blast
  with False show ?thesis
    by (intro exI [of _ n] exI [of _ "Suc (tick (st a))"])
      (simp add: flush_item_def IncrementOutboxAttempts_def runs assms(1))
qed

lemma retried_step:
  assumes "unique_key o_id ob" "it \<in> set ob" "o_id it \<notin> ids"
  shows "retried ids (if 10 \<le> o_attempts it then delete_where (\<lambda>r. o_id r = o_id it) ob
      else update_where (\<lambda>r. o_id r = o_id it) (\<lambda>r. r\<lparr>o_attempts := o_attempts r + 1\<rparr>) ob) =
    retried (insert (o_id it) ids) ob"
proof -
  have same: "r = it" if "r \<in> set ob" "o_id r = o_id it" for r
    using assms(1,2) that unfolding unique_key_def distinct_map by (auto dest: inj_onD)
  show ?thesis
  proof (cases "10 \<le> o_attempts it")
    case True
    then have "filter (\<lambda>r. \<not> (o_id r \<in> ids \<and> 10 \<le> o_attempts r)) (delete_where (\<lambda>r. o_id r = o_id it) ob) =
        filter (\<lambda>r. \<not> (o_id r \<in> insert (o_id it) ids \<and> 10 \<le> o_attempts r)) ob"
      using same by (auto simp: delete_where_def intro!: filter_cong)
    then show ?thesis
      using True same by (auto simp: retried_def)
  next
    case False
    then have f: "filter (\<lambda>r. \<not> (o_id r \<in> insert (o_id it) ids \<and> 10 \<le> o_attempts r)) ob =
        filter (\<lambda>r. \<not> (o_id r \<in> ids \<and> 10 \<le> o_attempts r)) ob"
      using same by (auto intro!: filter_cong)
    show ?thesis
      using False assms(3) same
      by (auto simp: retried_def f update_where_def filter_map o_def if_distrib intro!: map_cong filter_cong)
  qed
qed

lemma unique_key_retry_step:
  "unique_key o_id ob \<Longrightarrow> unique_key o_id (if b then delete_where P ob
     else update_where P (\<lambda>r. r\<lparr>o_attempts := o_attempts r + 1\<rparr>) ob)"
  by (auto intro: unique_key_intros)

lemma flush_items_fail:
  assumes "db_ok e" "relay_fails e" "distinct (map o_id its)" "set its \<subseteq> set (outbox (st a))"
    and "unique_key o_id (outbox (st a))"
  shows "\<exists>n k. run_state (for_each its (flush_item e)) a = ((), a\<lparr>sess := (sess a)\<lparr>x_tick := n\<rparr>,
    st := (st a)\<lparr>tick := k, outbox := retried (o_id ` set its) (outbox (st a))\<rparr>\<rparr>)"
  using assms(3-5)
proof (induction its arbitrary: a)
  case Nil
  show ?case by (intro exI [of _ "x_tick (sess a)"] exI [of _ "tick (st a)"]) (simp add: retried_def)
next
  case (Cons it its)
  define ob where "ob = (if 10 \<le> o_attempts it then delete_where (\<lambda>r. o_id r = o_id it) (outbox (st a))
      else update_where (\<lambda>r. o_id r = o_id it) (\<lambda>r. r\<lparr>o_attempts := o_attempts r + 1\<rparr>) (outbox (st a)))"
  obtain n k where it: "run_state (flush_item e it) a = ((), a\<lparr>sess := (sess a)\<lparr>x_tick := n\<rparr>,
      st := (st a)\<lparr>tick := k, outbox := ob\<rparr>\<rparr>)"
    using flush_item_fails [OF assms(1,2), of it a] by (auto simp: ob_def)
  have new: "o_id it \<notin> o_id ` set its"
    using Cons.prems(1) by simp
  then have sub: "set its \<subseteq> set ob"
    using Cons.prems(2) by (auto simp: ob_def set_update_where image_iff)
  have "unique_key o_id ob"
    unfolding ob_def using Cons.prems(3) by (rule unique_key_retry_step)
  with Cons.IH [of "a\<lparr>sess := (sess a)\<lparr>x_tick := n\<rparr>, st := (st a)\<lparr>tick := k, outbox := ob\<rparr>\<rparr>"] Cons.prems(1) sub
  obtain n' k' where "run_state (for_each its (flush_item e)) (a\<lparr>sess := (sess a)\<lparr>x_tick := n\<rparr>, st := (st a)\<lparr>tick := k, outbox := ob\<rparr>\<rparr>) =
      ((), a\<lparr>sess := (sess a)\<lparr>x_tick := n'\<rparr>, st := (st a)\<lparr>tick := k', outbox := retried (o_id ` set its) ob\<rparr>\<rparr>)"
    by auto
  moreover have "retried (o_id ` set its) ob = retried (o_id ` set (it # its)) (outbox (st a))"
    using retried_step [OF Cons.prems(3) _ new] Cons.prems(2) by (simp add: ob_def)
  ultimately show ?case
    by (auto simp: it)
qed

lemma run_GetOutbox [runs]: "db_ok e \<Longrightarrow> run_state (GetOutbox e) s = ((order_asc o_ts (outbox s), None), ticked s)"
  by (simp add: GetOutbox_def runs)

lemma flushOutbox_fails:
  assumes "db_ok e" "relay_fails e" "unique_key o_id (outbox (st a))"
  shows "outbox (st (snd (run_state (flushOutbox e) a))) =
    map (\<lambda>r. r\<lparr>o_attempts := o_attempts r + 1\<rparr>) (filter (\<lambda>r. o_attempts r < 10) (outbox (st a)))"
proof -
  define its where "its = order_asc o_ts (outbox (st a))"
  have "distinct (map o_id its)"
    using assms(3) by (simp add: its_def order_asc_def unique_key_def distinct_map)
  then obtain n k where "run_state (for_each its (flush_item e)) (a\<lparr>st := ticked (st a)\<rparr>) =
      ((), a\<lparr>sess := (sess a)\<lparr>x_tick := n\<rparr>, st := (st a)\<lparr>tick := k, outbox := retried (o_id ` set its) (outbox (st a))\<rparr>\<rparr>)"
    using flush_items_fail [OF assms(1,2), of its "a\<lparr>st := ticked (st a)\<rparr>"] assms(3) by (auto simp: its_def)
  moreover have "retried (o_id ` set its) (outbox (st a)) =
      map (\<lambda>r. r\<lparr>o_attempts := o_attempts r + 1\<rparr>) (filter (\<lambda>r. o_attempts r < 10) (outbox (st a)))"
    by (auto simp: retried_def its_def not_le intro!: map_cong filter_cong)
  ultimately show ?thesis
    by (simp add: flushOutbox_def runs assms(1) its_def [symmetric])
qed

text \<open>C9: retries end: as long as no write to the relay succeeds, each flush counts an attempt on every
  queued message and gives up the ones with ten; after eleven flushes the outbox is empty, however
  many messages it held.\<close>

theorem outbox_retries_bounded:
  assumes "db_ok e" "relay_fails e" "wf_store (st a)"
    and flush: "flush = (\<lambda>a. snd (run_state (flushOutbox e) a))"
  shows "outbox (st ((flush ^^ n) a)) =
      (if n = 0 then outbox (st a) else map (\<lambda>r. r\<lparr>o_attempts := o_attempts r + int n\<rparr>)
         (filter (\<lambda>r. o_attempts r + int n \<le> 10) (outbox (st a)))) \<and>
    outbox (st ((flush ^^ 11) a)) = []"
proof -
  have wf: "wf_store (st ((flush ^^ n) a))" for n
    using agent_wf.lift_run [OF agent_wf.flushOutbox_lift [of e]] assms(3)
    by (induction n) (auto simp: flush lift_rel_def keeps_def)
  have formula: "outbox (st ((flush ^^ n) a)) =
      (if n = 0 then outbox (st a) else map (\<lambda>r. r\<lparr>o_attempts := o_attempts r + int n\<rparr>)
         (filter (\<lambda>r. o_attempts r + int n \<le> 10) (outbox (st a))))" for n
  proof (induction n)
    case (Suc n)
    have "unique_key o_id (outbox (st ((flush ^^ n) a)))"
      using wf [of n] by (simp add: wf_store_def wf_outbox_def)
    from flushOutbox_fails [OF assms(1,2) this] Suc show ?case
      by (auto simp: flush filter_map o_def intro!: map_cong filter_cong)
  qed simp
  have "\<forall>r \<in> set (outbox (st a)). 0 \<le> o_attempts r"
    using assms(3) by (simp add: wf_store_def wf_outbox_def)
  then have "outbox (st ((flush ^^ 11) a)) = []"
    by (auto simp: formula [of 11] filter_empty_conv)
  with formula show ?thesis by blast
qed

definition queued_agent :: agent where
  "queued_agent = NewAgent (empty_store\<lparr>
     outbox := [\<lparr>o_id = ''m1'', o_to = ''0xcd'', o_encrypted = ''x'', o_signature = ''y'', o_ts = 1, o_attempts = 0\<rparr>]\<rparr>)"

definition offline_env :: agent_env where
  "offline_env = sample_agent_env\<lparr>write_err := (\<lambda>t. Some ''broken pipe'')\<rparr>"

lemma outbox_retries_bounded_witness:
  "outbox (st (((\<lambda>a. snd (run_state (flushOutbox offline_env) a)) ^^ 11) queued_agent)) = []"
proof -
  have "db_ok offline_env"
    using db_ok_sample_agent by (simp add: db_ok_def offline_env_def)
  moreover have "relay_fails offline_env"
    by (simp add: relay_fails_def offline_env_def)
  moreover have "wf_store (st queued_agent)"
  proof -
    have "lc ''0xcd'' = ''0xcd''" by code_simp
    then show ?thesis
      by (simp add: wf_defs queued_agent_def NewAgent_def empty_store_def norm_def unique_key_def)
  qed
  ultimately show ?thesis
    using outbox_retries_bounded [OF _ _ _ refl, of offline_env queued_agent 0] by blast
qed


text \<open>And with a relay that takes them.\<close>

definition queued_frame :: "OutboxItem \<Rightarrow> clientFrame" where
  "queued_frame it = messageFrame (o_id it) (normalize_address (o_to it)) (o_encrypted it) (o_signature it)"

lemma flush_item_sends:
  assumes "db_ok e" "\<forall>t. write_err e t = None" "conn (sess a) = Some c" "authed (sess a)" "o_attempts it < 10"
  shows "run_state (flush_item e it) a = ((), a\<lparr>
    sess := (sess a)\<lparr>x_tick := x_tick (sess a) + 1, written := written (sess a) @ [(c, queued_frame it)]\<rparr>,
    st := (ticked (st a))\<lparr>outbox := delete_where (\<lambda>r. o_id r = o_id it) (outbox (st a))\<rparr>\<rparr>)"
  using assms
  by (simp add: flush_item_def SendQueued_def currentConn_def writeJSON_def sess_tick_def runs DeleteOutbox_def
      queued_frame_def)

lemma flush_items_send:
  assumes "db_ok e" "\<forall>t. write_err e t = None" "conn (sess a) = Some c" "authed (sess a)"
    and "\<forall>it \<in> set its. o_attempts it < 10"
  shows "\<exists>n k. run_state (for_each its (flush_item e)) a = ((), a\<lparr>
    sess := (sess a)\<lparr>x_tick := n, written := written (sess a) @ map (\<lambda>it. (c, queued_frame it)) its\<rparr>,
    st := (st a)\<lparr>tick := k, outbox := filter (\<lambda>r. o_id r \<notin> o_id ` set its) (outbox (st a))\<rparr>\<rparr>)"
  using assms(3-5)
proof (induction its arbitrary: a)
  case Nil
  show ?case by (intro exI [of _ "x_tick (sess a)"] exI [of _ "tick (st a)"]) simp
next
  case (Cons it its)
  let ?b = "a\<lparr>sess := (sess a)\<lparr>x_tick := x_tick (sess a) + 1, written := written (sess a) @ [(c, queued_frame it)]\<rparr>,
    st := (ticked (st a))\<lparr>outbox := delete_where (\<lambda>r. o_id r = o_id it) (outbox (st a))\<rparr>\<rparr>"
  have "run_state (flush_item e it) a = ((), ?b)"
    using flush_item_sends [OF assms(1,2) Cons.prems(1,2)] Cons.prems(3) by simp
  moreover obtain n k where "run_state (for_each its (flush_item e)) ?b = ((), ?b\<lparr>
    sess := (sess ?b)\<lparr>x_tick := n, written := written (sess ?b) @ map (\<lambda>it. (c, queued_frame it)) its\<rparr>,
    st := (st ?b)\<lparr>tick := k, outbox := filter (\<lambda>r. o_id r \<notin> o_id ` set its) (outbox (st ?b))\<rparr>\<rparr>)"
    using Cons.IH [of ?b] Cons.prems by auto
  moreover have "filter (\<lambda>r. o_id r \<notin> o_id ` set its) (delete_where (\<lambda>r. o_id r = o_id it) (outbox (st a))) =
      filter (\<lambda>r. o_id r \<notin> o_id ` set (it # its)) (outbox (st a))"
    by (auto simp: delete_where_def intro: filter_cong)
  ultimately show ?case
    by (intro exI [of _ n] exI [of _ k]) simp
qed



section \<open>Restarts\<close>

text \<open>What the operator set survives a restart: after messages are surfaced and the status is set, a new
  agent on the same database, once started, has that presence, and its replies go to the sender, group
  and message of the last surfaced message.\<close>

theorem restart_keeps_reply_and_presence:
  assumes "db_ok e" "s \<in> {''online'', ''away''}"
    and "b = snd (run_state (do { setLastInbound e f g i; Status e s m }) a)"
    and "c = snd (run_state (Start e) (NewAgent (st b)))"
  shows "presenceState c = s \<and> presenceMessage c = trim_space m \<and>
    fst (run_state (getLastInbound e) c) = (f, g, i)"
proof -
  define b' where "b' = meta_put ''presence_message'' (trim_space m) (ticked (meta_put ''presence_state'' s (ticked
     (st (snd (run_state (setLastInbound e f g i) a))))))"
  have stb: "st b = b'"
    using assms(1,2) by (auto simp: assms(3) Status_def Let_def runs b'_def)
  have look: "meta_look b' ''presence_state'' = Some s" "meta_look b' ''presence_message'' = Some (trim_space m)"
      "meta_look b' ''last_inbound_from'' = Some f" "meta_look b' ''last_inbound_group'' = Some g"
      "meta_look b' ''last_inbound_msgid'' = Some i"
    by (simp_all add: b'_def runs assms(1) meta_kv.look_put)
  then have c: "presenceState c = s" "presenceMessage c = trim_space m" "lastInboundFrom c = []" "lastInboundMessageID c = []"
      "\<exists>n. st c = b'\<lparr>tick := n\<rparr>"
    using assms(1,2)
    by (auto simp: assms(4) stb Start_def NewAgent_def runs split: option.split intro: exI [of _ "Suc (Suc (tick b'))"])
  then obtain n where "st c = b'\<lparr>tick := n\<rparr>" by blast
  with c look show ?thesis
    by (simp add: getLastInbound_def runs assms(1))
qed


lemma restart_keeps_reply_and_presence_witness:
  "presenceState (snd (run_state (Start sample_agent_env) (NewAgent (st (snd (run_state
     (do { setLastInbound sample_agent_env ''0xcd'' [] ''m1''; Status sample_agent_env ''away'' '' lunch '' }) policy_agent)))))) = ''away''"
  using restart_keeps_reply_and_presence [OF db_ok_sample_agent, of "''away''", OF _ refl refl] by simp

end
