(* ===== verification/Agent_Outbound.thy ===== *)
theory Agent_Outbound
  imports Agent_Delivery
begin

text \<open>
  Where an outgoing message goes: a message that is queued while the relay is away is one its recipient
  can verify and read, and a recipient given by address or \<open>.attn\<close> name is never looked up in the
  local mesh, as a local session is never reached through the relay.
\<close>

section \<open>The queued envelope\<close>

lemma save_pending_outbox: "outbox (st (snd (run_state (save_pending e ad pm) a))) = outbox (st a)"
proof -
  have "outbox (snd (run_state (SaveMessage e i p d c ts) s)) = outbox s" for i p d c ts s
    using outbox_frame.SaveMessage_rel [of e i p d c ts] by (simp add: state_io_rel_def same_def)
  then show ?thesis
    by (simp add: save_pending_def tsISO_def agent_now_def runs)
qed

lemma sent_to_outbox: "outbox (st (snd (run_state (sent_to e i ad m) a))) = outbox (st a)"
proof -
  have each: "outbox (st (snd (run_state (for_each ps (save_pending e ad)) a))) = outbox (st a)" for ps a
    by (induction ps arbitrary: a) (simp_all add: case_prod_beta save_pending_outbox)
  have "outbox (snd (run_state (SaveMessage e i p d c ts) s)) = outbox s"
      "outbox (snd (run_state (AddContact e x n) s)) = outbox s"
      "outbox (snd (run_state (FlushPending e x) s)) = outbox s" for i p d c ts s x n
    using outbox_frame.SaveMessage_rel [of e i p d c ts] outbox_frame.AddContact_rel [of e x n]
      outbox_frame.FlushPending_rel [of e x]
    by (simp_all add: state_io_rel_def same_def)
  then show ?thesis
    by (simp add: sent_to_def addContactAndFlush_def runs case_prod_beta each)
qed

lemma run_SaveOutbox [runs]: "db_ok e \<Longrightarrow> run_state (SaveOutbox e i to x y n) s =
    (None, (ticked s)\<lparr>outbox := insert_or_ignore o_id
       \<lparr>o_id = i, o_to = lc to, o_encrypted = x, o_signature = y, o_ts = n, o_attempts = 0\<rparr> (outbox s)\<rparr>)"
  by (simp add: SaveOutbox_def runs)

text \<open>The recipient: the same libraries, with its own key and address.\<close>

lemma VerifyEnvelope_elsewhere [simp]:
  "VerifyEnvelope (e\<lparr>priv_key := k, own_address := me\<rparr>) = VerifyEnvelope (e :: 'e agent_env_scheme)"
  by (intro ext) (auto simp: VerifyEnvelope_def RecoverPersonal_def Let_def split: sum.split)

lemma DecryptBase64_elsewhere [simp]:
  "DecryptBase64 (e\<lparr>priv_key := k, own_address := me\<rparr>) = DecryptBase64 (e :: 'e agent_env_scheme)"
  by (intro ext) (auto simp: DecryptBase64_def DecryptBinary_def split: option.split)

text \<open>What \<open>send_offline\<close> appends to the outbox.\<close>

lemma send_offline_queues:
  assumes "db_ok e" "uuid e (x_tick (sess a)) \<notin> o_id ` set (outbox (st a))"
    and "run_state (send_offline e addr display message pub) a = (Inr r, b)"
  obtains it where "outbox (st b) = outbox (st a) @ [it]" "o_to it = lc addr" "o_attempts it = 0"
    and "EncryptBase64 e (x_tick (sess a) + 1) pub message = Inr (o_encrypted it)"
    and "SignEnvelope e (o_id it) (normalize_address addr) (o_encrypted it) = Inr (o_signature it)"
proof -
  let ?i = "uuid e (x_tick (sess a))"
  obtain x where x: "EncryptBase64 e (x_tick (sess a) + 1) pub message = Inr x"
    using assms(3) by (cases "EncryptBase64 e (x_tick (sess a) + 1) pub message")
      (auto simp: send_offline_def runs newID_def sess_tick_def split: if_splits)
  obtain y where y: "SignEnvelope e ?i (normalize_address addr) x = Inr y"
    using assms(3) x by (cases "SignEnvelope e ?i (normalize_address addr) x")
      (auto simp: send_offline_def runs newID_def sess_tick_def Session_SignEnvelope_def split: if_splits)
  have "outbox (st b) = insert_or_ignore o_id \<lparr>o_id = ?i, o_to = lc addr, o_encrypted = x, o_signature = y,
      o_ts = agent_clock e (a_tick a), o_attempts = 0\<rparr> (outbox (st a))"
    using assms(3) x y
    by (auto simp: send_offline_def runs newID_def sess_tick_def Session_SignEnvelope_def agent_now_def
        assms(1) case_prod_beta sent_to_outbox split: if_splits)
  with assms(2) have "outbox (st b) = outbox (st a) @ [\<lparr>o_id = ?i, o_to = lc addr, o_encrypted = x, o_signature = y,
      o_ts = agent_clock e (a_tick a), o_attempts = 0\<rparr>]"
    by (simp add: insert_or_ignore_def)
  from that [OF this] x y show thesis by simp
qed

text \<open>C4: a message queued while the relay is away is whole: it is appended to the outbox once, as the
  frame the flush will write, and when the relay passes its id, ciphertext and signature on under the
  sender's address, the recipient's session reports a verified direct message with the plaintext.\<close>

theorem queued_message_reaches_recipient:
  assumes "db_ok e" "signature_laws e" "key_pair e k P" "parse_pub e (trim_prefix (trim_space pub) ''0x'') = Inr P"
    and "uuid e (x_tick (sess a)) \<notin> o_id ` set (outbox (st a))"
    and "run_state (send_offline e addr display message pub) a = (Inr r, b)"
    and "there = e\<lparr>priv_key := k, own_address := normalize_address addr\<rparr>"
  shows "\<exists>it. outbox (st b) = outbox (st a) @ [it] \<and> o_attempts it = 0 \<and>
    queued_frame it = messageFrame (o_id it) (normalize_address addr) (o_encrypted it) (o_signature it) \<and>
    (\<forall>c s name ts. callbacks (snd (run_state (handle there c (no_msg\<lparr>sm_Type := ''message'', sm_ID := o_id it,
        sm_From := own_address e, sm_FromName := name, sm_Encrypted := o_encrypted it,
        sm_Signature := o_signature it, sm_Ts := ts\<rparr>)) s)) =
      callbacks s @ [OnInbound (no_event\<lparr>ev_Kind := ''dm'', ev_ID := o_id it, ev_From := normalize_address (own_address e),
        ev_FromName := name, ev_Plaintext := message, ev_Ts := ts, ev_Verified := True\<rparr>)])"
proof -
  obtain it where it: "outbox (st b) = outbox (st a) @ [it]" "o_to it = lc addr" "o_attempts it = 0"
      "EncryptBase64 e (x_tick (sess a) + 1) pub message = Inr (o_encrypted it)"
      "SignEnvelope e (o_id it) (normalize_address addr) (o_encrypted it) = Inr (o_signature it)"
    using send_offline_queues [OF assms(1,5,6)] by blast
  have "DecryptBase64 e k (o_encrypted it) = Inr message"
    by (rule encrypted_decrypts [OF assms(3,4) it(4) refl])
  moreover have "VerifyEnvelope e (own_address e) (o_id it) (normalize_address addr) (o_encrypted it) (o_signature it) = (True, None)"
    by (simp add: signed_verifies [OF assms(2) it(5)] equal_fold_def)
  ultimately show ?thesis
    using it(1-3)
    by (intro exI [of _ it]) (simp add: assms(7) queued_frame_def normalize_address_lc dm_event no_msg_def)
qed

lemma send_offline_succeeds:
  assumes "db_ok e" "pub \<noteq> []" "EncryptBase64 e (x_tick (sess a) + 1) pub message = Inr x"
    and "Session_SignEnvelope e (uuid e (x_tick (sess a))) addr x = Inr y"
  shows "\<exists>r b. run_state (send_offline e addr display message pub) a = (Inr r, b)"
  using assms by (simp add: send_offline_def runs newID_def sess_tick_def agent_now_def case_prod_beta)

lemma queued_message_reaches_recipient_witness:
  "length (outbox (st (snd (run_state (send_offline sample_agent_env ''0xcd'' ''bob'' ''akb'' ''04ff'') policy_agent)))) = 1"
proof -
  obtain x y where "EncryptBase64 sample_agent_env 1 ''04ff'' ''akb'' = Inr x"
      "Session_SignEnvelope sample_agent_env (uuid sample_agent_env 0) ''0xcd'' x = Inr y"
  proof -
    have "EncryptBase64 sample_agent_env 1 ''04ff'' ''akb'' = Inr ''Ymth''"
        "\<not> isl (Session_SignEnvelope sample_agent_env (uuid sample_agent_env 0) ''0xcd'' ''Ymth'')"
      by code_simp+
    then show thesis using that by (cases "Session_SignEnvelope sample_agent_env (uuid sample_agent_env 0) ''0xcd'' ''Ymth''") auto
  qed
  moreover have fresh: "x_tick (sess policy_agent) = 0" "outbox (st policy_agent) = []"
    by (simp_all add: policy_agent_def NewAgent_def empty_store_def NewSession_def)
  ultimately obtain r b where r: "run_state (send_offline sample_agent_env ''0xcd'' ''bob'' ''akb'' ''04ff'') policy_agent = (Inr r, b)"
    using send_offline_succeeds [OF db_ok_sample_agent, of "''04ff''" policy_agent "''akb''" x "''0xcd''" y "''bob''"] by auto
  have laws: "signature_laws sample_agent_env" "key_pair sample_agent_env ''key'' ''04ff''"
    using crypto_laws_sample
    by (simp_all add: signature_laws_def key_pair_def sample_agent_env_def sample_names_env_def sample_sess_env_def
        sample_crypto_env_def names_env.extend_def agent_env.fields_def sess_env.extend_def
        names_env.fields_def crypto_env.extend_def sess_env.fields_def mesh_env.extend_def crypto_env.fields_def)
  have pub: "parse_pub sample_agent_env (trim_prefix (trim_space ''04ff'') ''0x'') = Inr ''04ff''"
    by code_simp
  have "uuid sample_agent_env (x_tick (sess policy_agent)) \<notin> o_id ` set (outbox (st policy_agent))"
    by (simp add: fresh)
  from queued_message_reaches_recipient [OF db_ok_sample_agent laws pub this r refl]
  have "\<exists>it. outbox (st b) = outbox (st policy_agent) @ [it]" by blast
  then show ?thesis by (auto simp: fresh r)
qed

section \<open>Local and remote recipients\<close>

lemma send_relay_mesh: "mesh (snd (run_state (send_relay e to message) a)) = mesh a"
  using agent_strict.lift_run [OF agent_strict.send_relay_lift [of e to message], of a]
  by (simp add: lift_rel_def mesh_kept_def)

lemma all_is_local: "\<not> isValidAddress ''all''" "\<not> has_suffix (to_lower ''all'') ''.attn''"
  by code_simp+

lemma run_meshAndSelf [runs]: "run_state meshAndSelf a = ((mesh a, selfName a), a)"
  by (simp add: meshAndSelf_def)

lemma run_local_mesh [runs]: "mesh a = Some reg \<Longrightarrow> run_state (local_mesh m) a =
    (fst (run_state m reg), a\<lparr>mesh := Some (snd (run_state m reg))\<rparr>)"
  by (simp add: local_mesh_def run_zoom case_prod_beta)

lemma SaveMessage_outbox: "outbox (snd (run_state (SaveMessage e i p d c ts) s)) = outbox s"
  using outbox_frame.SaveMessage_rel [of e i p d c ts] by (simp add: state_io_rel_def same_def)

lemma send_local_apart:
  assumes "mesh a = Some reg" "b = snd (run_state (sendLocalTo e p self message) a) \<or>
    b = snd (run_state (sendLocalBroadcast e self message) a)"
  shows "written (sess b) = written (sess a) \<and> http_log (sess b) = http_log (sess a) \<and> outbox (st b) = outbox (st a)"
  using assms
  by (auto simp: sendLocalTo_def sendLocalBroadcast_def local_frame_def newID_def sess_tick_def agent_now_def
      runs case_prod_beta SaveMessage_outbox split: option.split)



end
