(* ===== verification/Agent_Inbox.thy ===== *)
theory Agent_Inbox
  imports Agent_Delivery
begin

text \<open>
  Inbound files: the cleaned paths of \<open>filepath\<close>, where a file may land, that no existing file is
  replaced, and which requests a file reference of a peer can make the daemon send.
\<close>

section \<open>Cleaned paths\<close>

text \<open>An element that \<open>Clean\<close> keeps.\<close>

definition plain :: "string \<Rightarrow> bool" where
  "plain p \<longleftrightarrow> p \<notin> {[], ''.'', ''..''} \<and> CHR ''/'' \<notin> set p"

lemma plainD: "plain p \<Longrightarrow> CHR ''/'' \<notin> set p" "plain p \<Longrightarrow> p \<noteq> []"
  by (simp_all add: plain_def)

lemma plain_iff_safe: "plain p \<longleftrightarrow> \<not> unsafeFileName p"
  by (auto simp: plain_def unsafeFileName_def)

lemma split_slash_no_slash: "CHR ''/'' \<notin> set p \<Longrightarrow> split_slash p = [p]"
  by (induction p) auto

lemma split_slash_append: "CHR ''/'' \<notin> set p \<Longrightarrow> split_slash (p @ CHR ''/'' # s) = p # split_slash s"
  by (induction p) auto

lemma split_slash_parts: "q \<in> set (split_slash s) \<Longrightarrow> CHR ''/'' \<notin> set q"
  by (induction s arbitrary: q rule: split_slash.induct) (auto split: if_splits list.splits)

lemma split_slash_join: "es \<noteq> [] \<Longrightarrow> \<forall>p \<in> set es. CHR ''/'' \<notin> set p \<Longrightarrow> split_slash (join es ''/'') = es"
proof (induction es)
  case (Cons p es)
  then show ?case
    by (cases es) (simp_all add: split_slash_no_slash split_slash_append)
qed simp

lemma clean_elems_rooted_plain:
  "\<forall>p \<in> set acc. plain p \<Longrightarrow> \<forall>p \<in> set ps. CHR ''/'' \<notin> set p \<Longrightarrow> \<forall>p \<in> set (clean_elems True acc ps). plain p"
proof (induction ps arbitrary: acc)
  case (Cons p ps)
  have tl: "\<forall>q \<in> set (tl acc). plain q"
    using Cons.prems(1) by (cases acc) auto
  have p: "plain p" if "p \<noteq> []" "p \<noteq> ''.''" "p \<noteq> ''..''"
    using that Cons.prems(2) by (simp add: plain_def)
  have rest: "\<forall>q \<in> set ps. CHR ''/'' \<notin> set q"
    using Cons.prems(2) by simp
  consider "clean_elems True acc (p # ps) = clean_elems True acc ps"
    | "clean_elems True acc (p # ps) = clean_elems True (tl acc) ps"
    | "clean_elems True acc (p # ps) = clean_elems True (p # acc) ps" "plain p"
    using p by (cases "p = [] \<or> p = ''.''"; cases "p = ''..''"; cases "acc \<noteq> [] \<and> hd acc \<noteq> ''..''") simp_all
  then show ?case
  proof cases
    case 1
    then show ?thesis using Cons.IH [OF Cons.prems(1) rest] by simp
  next
    case 2
    then show ?thesis using Cons.IH [OF tl rest] by simp
  next
    case 3
    then have "\<forall>q \<in> set (p # acc). plain q"
      using Cons.prems(1) by simp
    from Cons.IH [OF this rest] 3 show ?thesis by simp
  qed
qed simp

lemma clean_elems_plain: "plain p \<Longrightarrow> clean_elems True acc (p # ps) = clean_elems True (p # acc) ps"
  by (simp add: plain_def)

lemma clean_elems_id: "\<forall>p \<in> set ps. plain p \<Longrightarrow> clean_elems True acc (ps @ qs) = clean_elems True (rev ps @ acc) qs"
proof (induction ps arbitrary: acc)
  case (Cons p ps)
  then have "plain p" "\<forall>q \<in> set ps. plain q" by simp_all
  then show ?case by (simp add: Cons.IH clean_elems_plain del: clean_elems.simps)
qed simp

text \<open>The cleaned form of a rooted path, and that it is one.\<close>

definition rooted :: "string list \<Rightarrow> string" where
  "rooted es = ''/'' @ join es ''/''"

lemma Clean_abs: "is_abs p \<Longrightarrow> \<exists>es. Clean p = rooted es \<and> (\<forall>q \<in> set es. plain q)"
  using clean_elems_rooted_plain [of "[]" "split_slash p"] split_slash_parts [of _ p]
  by (auto simp: Clean_def rooted_def Let_def)

lemma Clean_rooted: "\<forall>q \<in> set es. plain q \<Longrightarrow> Clean (rooted es) = rooted es"
proof (cases es)
  case (Cons q qs)
  assume p: "\<forall>q \<in> set es. plain q"
  then have "split_slash (join es ''/'') = es"
    using Cons by (intro split_slash_join) (auto simp: plain_def)
  then show ?thesis
    using p by (simp add: Clean_def rooted_def is_abs_def has_prefix_def clean_elems_id [of es "[]" "[]", simplified])
qed (simp add: Clean_def rooted_def is_abs_def has_prefix_def)

lemma join_Cons: "es \<noteq> [] \<Longrightarrow> join (x # es) sep = x @ sep @ join es sep"
  by (cases es) auto

lemma rooted_snoc: "rooted (es @ [q]) = (if es = [] then ''/'' else rooted es @ ''/'') @ q"
proof -
  have "join (es @ [q]) ''/'' = join es ''/'' @ ''/'' @ q" if "es \<noteq> []"
    using that
  proof (induction es rule: list_nonempty_induct)
    case (cons x xs)
    then show ?case by (simp add: join_Cons)
  qed simp
  then show ?thesis by (simp add: rooted_def)
qed

lemma rooted_eq_slash: "\<forall>q \<in> set es. plain q \<Longrightarrow> rooted es = ''/'' \<longleftrightarrow> es = []"
proof (cases es)
  case (Cons q qs)
  assume "\<forall>q \<in> set es. plain q"
  then have "q \<noteq> []" using Cons by (simp add: plain_def)
  then show ?thesis using Cons by (cases qs) (simp_all add: rooted_def)
qed (simp add: rooted_def)

lemma Clean_trailing:
  assumes "\<forall>q \<in> set es. plain q" "q = [] \<or> plain q"
  shows "Clean (rooted es @ ''/'' @ q) = rooted (if q = [] then es else es @ [q])"
proof -
  have parts: "\<forall>x \<in> set es. CHR ''/'' \<notin> set x" "CHR ''/'' \<notin> set q"
    using assms plainD(1) by auto
  have snoc: "split_slash (join es ''/'' @ CHR ''/'' # q) = (if es = [] then [[]] else es) @ [q]"
    using parts
  proof (induction es)
    case Nil
    then show ?case by (simp add: split_slash_no_slash)
  next
    case (Cons x xs)
    then show ?case
      by (cases "xs = []") (simp_all add: join_Cons split_slash_append split_slash_no_slash)
  qed
  have "clean_elems True [] ((if es = [] then [[]] else es) @ [q]) = (if q = [] then es else es @ [q])"
  proof (cases "q = []")
    case True
    then show ?thesis using clean_elems_id [OF assms(1), of "[]" "[[]]"] by simp
  next
    case False
    with assms have "\<forall>p \<in> set (es @ [q]). plain p" by auto
    from clean_elems_id [OF this, of "[]" "[]"] False assms(2) show ?thesis by (auto simp: plain_def)
  qed
  moreover have "Clean (rooted es @ ''/'' @ q) =
      ''/'' @ join (clean_elems True [] ([] # split_slash (join es ''/'' @ CHR ''/'' # q))) ''/''"
    by (simp add: Clean_def is_abs_def has_prefix_def rooted_def del: clean_elems.simps)
  ultimately show ?thesis
    by (simp add: snoc) (simp add: rooted_def)
qed

section \<open>The destination of a file\<close>

lemma Abs_rooted:
  assumes "\<forall>wd. getwd e = Inr wd \<longrightarrow> is_abs wd" "Abs e p = Inr x"
  shows "\<exists>es. x = rooted es \<and> (\<forall>q \<in> set es. plain q)"
proof (cases "is_abs p")
  case True
  then show ?thesis using assms(2) Clean_abs [of p] by (auto simp: Abs_def)
next
  case False
  then obtain wd where wd: "getwd e = Inr wd" "x = path_join wd p"
    using assms(2) by (auto simp: Abs_def split: sum.splits)
  then have "is_abs wd" using assms(1) by blast
  then have "is_abs (wd @ ''/'' @ p)" "wd \<noteq> []"
    by (cases wd; simp add: is_abs_def has_prefix_def)+
  then show ?thesis using Clean_abs [of "wd @ ''/'' @ p"] by (simp add: wd path_join_def)
qed

lemma Dir_rooted:
  assumes "\<forall>p \<in> set es. plain p" "plain q"
  shows "Dir (rooted (es @ [q])) = rooted es"
proof -
  have "takeWhile (\<lambda>c. c \<noteq> CHR ''/'') (rev q) = rev q" "CHR ''/'' \<notin> set (rev q)"
    using plainD(1) [OF assms(2)] by (auto simp: takeWhile_eq_all_conv)
  then have "upto_slash (x @ ''/'' @ q) = x @ ''/''" for x
    by (simp add: upto_slash_def dropWhile_append3)
  from this [of "[]"] this [of "rooted es"]
  have "upto_slash (rooted (es @ [q])) = (if es = [] then rooted es else rooted es @ ''/'' @ [])"
    by (simp add: rooted_snoc rooted_def [of "[]"])
  then show ?thesis
    using Clean_rooted [OF assms(1)] Clean_trailing [OF assms(1), of "[]"] by (auto simp: Dir_def)
qed

text \<open>C12: a file of a peer lands directly in the inbox: a reference is accepted exactly if the last
  element of its file name, or else of its key, is a plain name, and the inbox is not the file system's
  root; the file is then that name in the inbox directory, whatever else the reference says.\<close>

theorem inboxDest_in_inbox:
  assumes "\<forall>wd. getwd e = Inr wd \<longrightarrow> is_abs wd"
  shows "inboxDest e fr = Inr dst \<longleftrightarrow>
    (\<exists>inbox name. Abs e (InboxDir e) = Inr inbox \<and> inbox \<noteq> ''/'' \<and> \<not> unsafeFileName name \<and>
      name = (if unsafeFileName (Base (fr_Filename fr)) then Base (fr_Key fr) else Base (fr_Filename fr)) \<and>
      dst = inbox @ ''/'' @ name)"
proof (cases "Abs e (InboxDir e)")
  case (Inl x)
  then show ?thesis by (auto simp: inboxDest_def Let_def)
next
  case (Inr inbox)
  define name where "name = (if unsafeFileName (Base (fr_Filename fr)) then Base (fr_Key fr) else Base (fr_Filename fr))"
  obtain es where es: "inbox = rooted es" "\<forall>q \<in> set es. plain q"
    using Abs_rooted [OF assms Inr] by blast
  show ?thesis
  proof (cases "unsafeFileName name")
    case True
    then show ?thesis by (auto simp: inboxDest_def Let_def name_def)
  next
    case False
    then have name: "plain name" by (simp add: plain_iff_safe)
    have "path_join inbox name = rooted (es @ [name])"
      using Clean_trailing [OF es(2), of name] name plainD(2) [OF name] by (simp add: path_join_def es(1) rooted_def)
    moreover have "Abs e (rooted (es @ [name])) = Inr (rooted (es @ [name]))"
      using Clean_rooted [of "es @ [name]"] es(2) name by (simp add: Abs_def is_abs_def has_prefix_def rooted_def)
    moreover have "has_prefix (rooted (es @ [name])) (inbox @ ''/'') \<longleftrightarrow> inbox \<noteq> ''/''"
    proof (cases es)
      case Nil
      then show ?thesis
        using plainD [OF name] by (cases name) (auto simp: es(1) rooted_def has_prefix_def)
    next
      case (Cons y ys)
      then show ?thesis
        using rooted_eq_slash [OF es(2)] rooted_snoc [of es name] by (simp add: es(1) has_prefix_def)
    qed
    moreover have "rooted (es @ [name]) = inbox @ ''/'' @ name" if "inbox \<noteq> ''/''"
      using that rooted_eq_slash [OF es(2)] rooted_snoc [of es name] by (simp add: es(1))
    ultimately show ?thesis
      using False Inr Dir_rooted [OF es(2) name]
      by (auto simp: inboxDest_def Let_def name_def [symmetric] es(1))
  qed
qed

lemma inboxDest_in_inbox_witness:
  "inboxDest sample_agent_env \<lparr>fr_Type = ''file'', fr_URL = ''/b'', fr_Key = ''k'', fr_Filename = ''../../etc/passwd'',
     fr_Size = 3, fr_Mime = []\<rparr> = Inr ''/inbox/passwd''"
proof -
  have "\<forall>wd. getwd sample_agent_env = Inr wd \<longrightarrow> is_abs wd"
    by (simp add: sample_agent_env_def names_env.extend_def agent_env.fields_def is_abs_def has_prefix_def)
  moreover have "Abs sample_agent_env (InboxDir sample_agent_env) = Inr ''/inbox''" "Base ''../../etc/passwd'' = ''passwd''"
      "\<not> unsafeFileName ''passwd''"
    by code_simp+
  ultimately show ?thesis
    by (simp add: inboxDest_in_inbox)
qed

section \<open>No file is replaced\<close>

lemma set_content_new:
  "p \<notin> fst ` set fs \<Longrightarrow> set_content p d (a\<lparr>files := fs @ [(p, c)], a_tick := k\<rparr>) = a\<lparr>a_tick := k, files := fs @ [(p, d)]\<rparr>"
proof -
  assume "p \<notin> fst ` set fs"
  then have "map (\<lambda>(q, c). if q = p then (q, d) else (q, c)) fs = fs"
    by (induction fs) auto
  then show ?thesis by (simp add: set_content_def)
qed

text \<open>What becomes of the first free name.\<close>

definition written_as :: "'e agent_env_scheme \<Rightarrow> string \<Rightarrow> string \<Rightarrow> agent \<Rightarrow> (string + string) \<times> agent" where
  "written_as e p data a = (case open_err e (a_tick a) of
       Some err \<Rightarrow> (Inl (''save file: '' @ err), a\<lparr>a_tick := a_tick a + 1\<rparr>)
     | None \<Rightarrow> (case save_err e (a_tick a + 1) of
           Some (n, err) \<Rightarrow> (Inl (''save file: '' @ err),
             a\<lparr>a_tick := a_tick a + 2, files := files a @ [(p, take n data)]\<rparr>)
         | None \<Rightarrow> (Inr p, a\<lparr>a_tick := a_tick a + 2, files := files a @ [(p, data)]\<rparr>)))"

lemma try_write_first_free:
  "run_state (try_write e dst data i n) a = (case find (\<lambda>j. candidate dst j \<notin> fst ` set (files a)) [i..<i + n] of
     None \<Rightarrow> (Inl (''inbound file: too many name collisions for '' @ quote dst), a)
   | Some j \<Rightarrow> written_as e (candidate dst j) data a)"
proof (induction n arbitrary: i)
  case (Suc n)
  have range: "[i..<i + Suc n] = i # [Suc i..<Suc i + n]"
    by (simp add: upt_rec)
  show ?case
  proof (cases "candidate dst i \<in> fst ` set (files a)")
    case True
    then show ?thesis
      using Suc.IH [of "Suc i"] by (simp only: try_write.simps range) (simp add: open_excl_def Let_def)
  next
    case False
    then show ?thesis
      by (simp only: try_write.simps range)
        (simp add: open_excl_def Let_def written_as_def runs write_file_def set_content_new split: option.split)
  qed
qed simp

text \<open>\<open>writeNoClobber\<close> is its specification: of \<open>dst\<close>, \<open>dst-1\<close>, up to \<open>dst-999\<close> it takes the first name
  that does not exist, adds one file of that name with the data (with what was written of it, and an
  error, if a write fails), and leaves every other file as it was; if all thousand exist it fails.\<close>

theorem writeNoClobber_first_free:
  "run_state (writeNoClobber e dst data) a = (case find (\<lambda>i. candidate dst i \<notin> fst ` set (files a)) [0..<1000] of
     None \<Rightarrow> (Inl (''inbound file: too many name collisions for '' @ quote dst), a)
   | Some i \<Rightarrow> written_as e (candidate dst i) data a)"
  using try_write_first_free [of e dst data 0 1000 a] by (simp add: writeNoClobber_def)

section \<open>What a file reference can make the daemon fetch\<close>

text \<open>The requests a reference is allowed to cause.\<close>

definition blob_request :: "'e agent_env_scheme \<Rightarrow> string \<Rightarrow> http_request \<Rightarrow> bool" where
  "blob_request e ref q \<longleftrightarrow> rq_method q = ''GET'' \<and> rq_body q = NoBody \<and>
     (if has_prefix ref ''http://'' \<or> has_prefix ref ''https://''
      then rq_url q = ref \<and> rq_headers q = [] \<and>
        (\<exists>u rb t ips. url_parse e ref = Inr u \<and> url_parse e (httpBaseFromWS (relayURL e)) = Inr rb \<and>
           u_Host rb \<noteq> [] \<and> equal_fold (u_Host u) (u_Host rb) \<and> equal_fold (u_Scheme u) (u_Scheme rb) \<and>
           lookup_ip e t (u_Hostname u) = Inr ips \<and> \<not> list_ex blockedFetchIP ips)
      else has_prefix ref ''/'' \<and> \<not> has_prefix ref ''//'' \<and> rq_url q = httpBaseFromWS (relayURL e) @ ref)"

lemma relayURLAllowed_None:
  "relayURLAllowed e ref base = None \<longleftrightarrow> (\<exists>u rb. url_parse e ref = Inr u \<and> url_parse e base = Inr rb \<and>
     u_Host rb \<noteq> [] \<and> equal_fold (u_Scheme u) (u_Scheme rb) \<and> equal_fold (u_Host u) (u_Host rb))"
  by (auto simp: relayURLAllowed_def split: sum.splits)

lemma find_None_list_ex: "find P xs = None \<longleftrightarrow> \<not> list_ex P xs"
  by (auto simp: find_None_iff list_ex_iff)

lemma run_validateAbsoluteFileURL:
  "run_state (validateAbsoluteFileURL e ref) a = (r, b) \<Longrightarrow> http_log (sess b) = http_log (sess a) \<and> (r = None \<longrightarrow>
    (\<exists>u rb t ips. url_parse e ref = Inr u \<and> url_parse e (httpBaseFromWS (relayURL e)) = Inr rb \<and>
       u_Host rb \<noteq> [] \<and> equal_fold (u_Host u) (u_Host rb) \<and> equal_fold (u_Scheme u) (u_Scheme rb) \<and>
       lookup_ip e t (u_Hostname u) = Inr ips \<and> \<not> list_ex blockedFetchIP ips))"
  by (auto simp: validateAbsoluteFileURL_def relayURLAllowed_None runs find_None_list_ex
      split: option.splits sum.splits)

lemma run_read_blob:
  "run_state (read_blob e resp) a = (r, b) \<Longrightarrow>
     http_log (sess b) = http_log (sess a) \<and> (\<forall>data. r = Inr data \<longrightarrow> length data \<le> maxInboundFile)"
  by (auto simp: read_blob_def runs Let_def case_prod_beta split: option.splits if_splits)

lemma run_do_http: "run_state (do_http e rq) s =
    (http_do e (x_tick s) rq, s\<lparr>x_tick := x_tick s + 1, http_log := http_log s @ [rq]\<rparr>)"
  by (simp add: do_http_def sess_tick_def)

lemma run_SignedRequest:
  "run_state (SignedRequest e m p c hs) s = (r, t) \<Longrightarrow> http_log t = http_log s \<and> isl r \<or>
    (\<exists>hs. http_log t = http_log s @ [\<lparr>rq_method = m, rq_url = httpBaseFromWS (relayURL e) @ p, rq_headers = hs, rq_body = c\<rparr>])"
  by (auto simp: SignedRequest_def Let_def sess_now_def sess_tick_def run_do_http split: sum.splits)

lemma run_signed_blob:
  assumes "run_state (on_session (SignedRequest e ''GET'' ref NoBody []) \<bind>
      case_sum (\<lambda>err. State_Monad.return (Inl err)) (read_blob e)) a = (r, b)"
    and "\<not> (has_prefix ref ''http://'' \<or> has_prefix ref ''https://'')" "has_prefix ref ''/''" "\<not> has_prefix ref ''//''"
  shows "\<exists>qs. http_log (sess b) = http_log (sess a) @ qs \<and> length qs \<le> 1 \<and> (\<forall>q \<in> set qs. blob_request e ref q) \<and>
    (\<forall>data. r = Inr data \<longrightarrow> length data \<le> maxInboundFile)"
proof -
  obtain w t where w: "run_state (SignedRequest e ''GET'' ref NoBody []) (sess a) = (w, t)" by fastforce
  have log: "http_log (sess b) = http_log t \<and> (\<forall>data. r = Inr data \<longrightarrow> length data \<le> maxInboundFile)"
    using assms(1) w by (cases w) (auto simp: runs dest: run_read_blob)
  from run_SignedRequest [OF w] show ?thesis
  proof
    assume "http_log t = http_log (sess a) \<and> isl w"
    with log show ?thesis by (intro exI [of _ "[]"]) simp
  next
    assume "\<exists>hs. http_log t = http_log (sess a) @
      [\<lparr>rq_method = ''GET'', rq_url = httpBaseFromWS (relayURL e) @ ref, rq_headers = hs, rq_body = NoBody\<rparr>]"
    then obtain q where "http_log t = http_log (sess a) @ [q]" "blob_request e ref q"
      using assms(2-4) by (auto simp: blob_request_def)
    with log show ?thesis by (intro exI [of _ "[q]"]) simp
  qed
qed

lemma run_absolute_blob:
  assumes "run_state (fetchFileBlob e ref) a = (r, b)" "has_prefix ref ''http://'' \<or> has_prefix ref ''https://''"
  shows "\<exists>qs. http_log (sess b) = http_log (sess a) @ qs \<and> length qs \<le> 1 \<and> (\<forall>q \<in> set qs. blob_request e ref q) \<and>
    (\<forall>data. r = Inr data \<longrightarrow> qs \<noteq> [] \<and> length data \<le> maxInboundFile)"
proof -
  obtain v a1 where v: "run_state (validateAbsoluteFileURL e ref) a = (v, a1)" by fastforce
  note ok = run_validateAbsoluteFileURL [OF v]
  show ?thesis
  proof (cases v)
    case (Some x)
    then show ?thesis using assms v ok by (auto simp: fetchFileBlob_def)
  next
    case None
    let ?q = "\<lparr>rq_method = ''GET'', rq_url = ref, rq_headers = [], rq_body = NoBody\<rparr>"
    have "blob_request e ref ?q"
      using ok None assms(2) by (simp add: blob_request_def)
    moreover have "http_log (sess b) = http_log (sess a1) @ [?q] \<and> (\<forall>data. r = Inr data \<longrightarrow> length data \<le> maxInboundFile)"
      using assms v None
      by (auto simp: fetchFileBlob_def runs run_do_http dest: run_read_blob split: sum.splits)
    ultimately show ?thesis
      using ok by (intro exI [of _ "[?q]"]) simp
  qed
qed




end
