(* ===== verification/Agent_Policy.thy ===== *)
theory Agent_Policy
  imports Agent_Delivery
begin

text \<open>
  Arguments of operations: durations with their range, and the members of a new group.
\<close>

section \<open>Durations\<close>

lemma digit_plain: "is_digit c \<Longrightarrow> \<not> is_space c \<and> lower_char c = c \<and> c \<noteq> CHR ''-'' \<and> c \<noteq> CHR ''+''"
  by (auto simp: is_digit_code is_space_code lower_char_def less_eq_char_def)

lemma re_space_plain: "re_space c \<Longrightarrow> \<not> is_digit c \<and> lower_char c = c"
  by (auto simp: re_space_def is_digit_code lower_char_def less_eq_char_def)

lemma Atoi_nat_str: "Atoi (nat_str n) = (if int n < 2 ^ 63 then Some (int n) else None)"
proof -
  obtain c ds where ds: "nat_str n = c # ds" "is_digit c"
    using nat_str_digits [of n] by (cases "nat_str n") auto
  have "list_all is_digit (nat_str n)" using nat_str_digits by blast
  then show ?thesis
    using digit_plain [OF ds(2)] digits_val_nat_str [of n]
    by (simp add: Atoi_def ParseInt_def ds Let_def)
qed

lemma map_lower_fixed: "list_all (\<lambda>c. lower_char c = c) s \<Longrightarrow> map lower_char s = s"
  by (induction s) auto

text \<open>A unit is one lower-case letter.\<close>

lemma unit_nsD: "unit_ns u = Some ns \<Longrightarrow> u \<in> {''m'', ''h'', ''d'', ''w''} \<and> ns \<in> {Minute, Hour, 24 * Hour, 7 * 24 * Hour}"
  by (auto split: if_splits)

lemma durationRe_parts:
  assumes "unit_ns u = Some ns" "list_all re_space sp"
  shows "durationRe (nat_str n @ sp @ u) = Some (nat_str n, ns)"
    and "to_lower (trim_space (nat_str n @ sp @ u)) = nat_str n @ sp @ u"
proof -
  obtain c where u: "u = [c]" "\<not> is_digit c" "\<not> re_space c" "\<not> is_space c" "lower_char c = c"
  proof -
    have "\<forall>c \<in> set ''mhdw''. \<not> is_digit c \<and> \<not> re_space c \<and> \<not> is_space c \<and> lower_char c = c" by code_simp
    moreover obtain c where "u = [c]" "c \<in> set ''mhdw''"
      using unit_nsD [OF assms(1)] by auto
    ultimately show thesis using that by blast
  qed
  have sp: "list_all (\<lambda>c. \<not> is_digit c \<and> lower_char c = c) sp"
    using assms(2) re_space_plain by (auto simp: list_all_iff)
  have digits: "list_all is_digit (nat_str n)" "nat_str n \<noteq> []" using nat_str_digits by auto
  have "takeWhile is_digit (nat_str n @ sp @ u) = nat_str n" "dropWhile is_digit (nat_str n @ sp @ u) = sp @ u"
    using digits sp u by (cases sp; simp add: list_all_iff)+
  moreover have "dropWhile re_space (sp @ u) = u"
    using assms(2) u by (simp add: list_all_iff)
  ultimately show "durationRe (nat_str n @ sp @ u) = Some (nat_str n, ns)"
    using digits(2) assms(1) by (simp add: durationRe_def Let_def del: unit_ns.simps)
  obtain d ds where "nat_str n = d # ds" "is_digit d"
    using digits by (cases "nat_str n") auto
  then have "trim_space (nat_str n @ sp @ u) = nat_str n @ sp @ u"
    using digit_plain u by (simp add: trim_space_def trim_left_def trim_right_def)
  moreover have "to_lower (nat_str n @ sp @ u) = nat_str n @ sp @ u"
    using digits(1) digit_plain sp u(1,5) unfolding to_lower_def
    by (intro map_lower_fixed) (auto simp: list_all_iff)
  ultimately show "to_lower (trim_space (nat_str n @ sp @ u)) = nat_str n @ sp @ u" by simp
qed

lemma int64_range: "- (2 ^ 63) \<le> int64 x \<and> int64 x < 2 ^ 63"
  by (simp add: int64_def)

lemma int64_id: "- (2 ^ 63) \<le> x \<Longrightarrow> x < 2 ^ 63 \<Longrightarrow> int64 x = x"
  by (simp add: int64_def)

text \<open>C35: a duration is the number times its unit within 64 bits: written as a number, white space and a
  unit it is accepted exactly if the number fits in an int64, and is the exact count of nanoseconds if
  that fits too; otherwise it wraps around, and any accepted duration is within the int64 range.\<close>

theorem parseDuration_value:
  assumes "unit_ns u = Some ns" "list_all re_space sp"
  shows "parseDuration (nat_str n @ sp @ u) = (if int n < 2 ^ 63 then Some (int64 (int n * ns)) else None) \<and>
    (int n * ns < 2 ^ 63 \<longrightarrow> parseDuration (nat_str n @ sp @ u) = Some (int n * ns)) \<and>
    (\<forall>inp d. parseDuration inp = Some d \<longrightarrow> - (2 ^ 63) \<le> d \<and> d < 2 ^ 63)"
proof -
  have v: "parseDuration (nat_str n @ sp @ u) = (if int n < 2 ^ 63 then Some (int64 (int n * ns)) else None)"
    using durationRe_parts [OF assms, of n] by (simp add: parseDuration_def Atoi_nat_str)
  have pos: "1 \<le> ns"
    using unit_nsD [OF assms(1)] by (auto simp: Minute_def Hour_def)
  have "int n * ns < 2 ^ 63 \<Longrightarrow> int n < 2 ^ 63 \<and> int64 (int n * ns) = int n * ns"
  proof -
    assume lt: "int n * ns < 2 ^ 63"
    have "int n * 1 \<le> int n * ns" using pos by (intro mult_left_mono) auto
    with lt show ?thesis using int64_id [of "int n * ns"] pos by simp
  qed
  moreover have "- (2 ^ 63) \<le> d \<and> d < 2 ^ 63" if "parseDuration inp = Some d" for inp d
    using that int64_range by (auto simp: parseDuration_def split: option.splits)
  ultimately show ?thesis using v by auto
qed

lemma parseDuration_value_witness:
  "parseDuration ''90 m'' = Some (90 * 60 * 1000000000)"
proof -
  have "unit_ns ''m'' = Some Minute" "list_all re_space '' ''" "nat_str 90 = ''90''"
    by code_simp+
  then have "int 90 * Minute < 2 ^ 63 \<longrightarrow> parseDuration (''90'' @ '' '' @ ''m'') = Some (int 90 * Minute)"
    using parseDuration_value [of "''m''" Minute "'' ''" 90] by metis
  then show ?thesis by (simp add: Minute_def)
qed

text \<open>The wrap-around is reached by a mute of 200000 days: its duration is negative.\<close>

lemma long_mute_wraps: "parseDuration ''200000d'' = Some (- 1166744073709551616)"
  by code_simp

section \<open>Members of a new group\<close>

lemma is_hex_plain: "is_hex c \<Longrightarrow> \<not> is_space c \<and> is_hex (lower_char c)"
  by (auto simp: is_hex_def is_space_code of_char_lower_char less_eq_char_def)

lemma valid_address_normal:
  assumes "isValidAddress a"
  shows "normalize_addr a = to_lower a \<and> isValidAddress (to_lower a)"
proof -
  obtain s where a: "a = CHR ''0'' # CHR ''x'' # s" "length s = 40" "list_all is_hex s"
  proof -
    have "a = take 2 a @ drop 2 a" by simp
    with assms that show thesis by (auto simp: isValidAddress_def)
  qed
  have hex: "\<not> is_space c \<and> is_hex (lower_char c)" if "c \<in> set s" for c
    using a(3) that is_hex_plain by (auto simp: list_all_iff)
  obtain t c where r: "s = t @ [c]" "c \<in> set s"
    using a(2) by (cases s rule: rev_exhaust) auto
  have "\<not> is_space (CHR ''0'')" "lower_char (CHR ''0'') = CHR ''0''" "lower_char (CHR ''x'') = CHR ''x''" by code_simp+
  then have "trim_space a = a" "isValidAddress (to_lower a)"
    using hex r a(1,2)
    by (simp_all add: trim_space_def trim_left_def trim_right_def isValidAddress_def to_lower_def list_all_iff)
  then show ?thesis by (simp add: normalize_addr_def)
qed

lemma collect_members_Inr:
  "collect_members all ms = Inr res \<longleftrightarrow> list_all isValidAddress ms \<and>
     res = fold (\<lambda>m acc. if normalize_addr m \<in> set acc then acc else acc @ [normalize_addr m]) ms all"
  by (induction all ms rule: collect_members.induct) (auto simp: Let_def)

lemma collect_members_Inl:
  "collect_members all ms = Inl err \<longleftrightarrow> (\<exists>pre m post. ms = pre @ m # post \<and> list_all isValidAddress pre \<and>
     \<not> isValidAddress m \<and> err = ''invalid address: '' @ m)"
proof (induction all ms rule: collect_members.induct)
  case (2 all m ms)
  show ?case
  proof (cases "isValidAddress m")
    case True
    have "(\<exists>pre x post. m # ms = pre @ x # post \<and> list_all isValidAddress pre \<and> \<not> isValidAddress x \<and> err = ''invalid address: '' @ x) \<longleftrightarrow>
        (\<exists>pre x post. ms = pre @ x # post \<and> list_all isValidAddress pre \<and> \<not> isValidAddress x \<and> err = ''invalid address: '' @ x)"
      using True by (auto simp: Cons_eq_append_conv) (metis append_Cons list.pred_inject(2))+
    with True 2 show ?thesis by (simp add: Let_def)
  next
    case False
    then have "x = m" if "m # ms = pre @ x # post" "list_all isValidAddress pre" for pre x post
      using that by (cases pre) auto
    moreover have "\<exists>post. m # ms = [] @ m # post" "list_all isValidAddress []" by auto
    ultimately have "(\<exists>pre x post. m # ms = pre @ x # post \<and> list_all isValidAddress pre \<and> \<not> isValidAddress x \<and>
        err = ''invalid address: '' @ x) \<longleftrightarrow> err = ''invalid address: '' @ m"
      using False by blast
    with False show ?thesis by (simp only: collect_members.simps if_True sum.inject not_False_eq_True) blast
  qed
qed simp

lemma fold_members_facts:
  assumes "distinct acc" "acc \<noteq> []" "res = fold (\<lambda>m acc. if f m \<in> set acc then acc else acc @ [f m]) ms acc"
  shows "distinct res \<and> res \<noteq> [] \<and> hd res = hd acc \<and> set res = set acc \<union> f ` set ms"
  using assms
proof (induction ms arbitrary: acc)
  case (Cons m ms)
  show ?case
    using Cons.IH [of "if f m \<in> set acc then acc else acc @ [f m]"] Cons.prems by (auto split: if_splits)
qed simp

text \<open>C24: the members of a new group are well formed: if every given address is valid they are the agent
  first and then each address once, in lower case, whatever spellings and repetitions were given;
  otherwise the operation names the first invalid one.\<close>

theorem group_members_wellformed:
  "case collect_members [me] ms of
     Inr all \<Rightarrow> list_all isValidAddress ms \<and> distinct all \<and> hd all = me \<and> set all = insert me (to_lower ` set ms) \<and>
       (\<forall>a \<in> set all. a = me \<or> isValidAddress a \<and> to_lower a = a)
   | Inl err \<Rightarrow> \<exists>pre m post. ms = pre @ m # post \<and> list_all isValidAddress pre \<and> \<not> isValidAddress m \<and>
       err = ''invalid address: '' @ m"
proof (cases "collect_members [me] ms")
  case (Inl err)
  then show ?thesis unfolding Inl using collect_members_Inl [THEN iffD1, OF Inl] by (simp only: sum.case)
next
  case (Inr all)
  then have valid: "list_all isValidAddress ms"
    and all: "all = fold (\<lambda>m acc. if normalize_addr m \<in> set acc then acc else acc @ [normalize_addr m]) ms [me]"
    by (simp_all add: collect_members_Inr)
  have "normalize_addr ` set ms = to_lower ` set ms"
    using valid valid_address_normal by (intro image_cong) (auto simp: list_all_iff)
  moreover have low: "\<forall>a \<in> to_lower ` set ms. isValidAddress a \<and> to_lower a = a"
    using valid valid_address_normal by (auto simp: list_all_iff)
  have f: "distinct all \<and> all \<noteq> [] \<and> hd all = hd [me] \<and> set all = set [me] \<union> normalize_addr ` set ms"
    by (rule fold_members_facts [OF _ _ all]) simp_all
  ultimately have members: "set all = insert me (to_lower ` set ms)" by simp
  with low have "\<forall>a \<in> set all. a = me \<or> isValidAddress a \<and> to_lower a = a" by blast
  moreover have "distinct all" "hd all = me" using f by simp_all
  moreover note members
  ultimately show ?thesis using valid unfolding Inr by (simp only: sum.case)
qed

text \<open>The agent itself and two spellings of one member.\<close>

lemma group_members_wellformed_witness:
  "\<exists>all. collect_members [''me''] [''0x'' @ replicate 40 (CHR ''A''), ''0x'' @ replicate 40 (CHR ''a'')] = Inr all \<and>
     distinct all \<and> set all = {''me'', ''0x'' @ replicate 40 (CHR ''a'')}"
proof -
  let ?ms = "[''0x'' @ replicate 40 (CHR ''A''), ''0x'' @ replicate 40 (CHR ''a'')]"
  have "list_all isValidAddress ?ms" "to_lower ` set ?ms = {''0x'' @ replicate 40 (CHR ''a'')}"
    by code_simp+
  moreover then obtain all where "collect_members [''me''] ?ms = Inr all"
    by (simp only: collect_members_Inr)
  ultimately show ?thesis
    using group_members_wellformed [where me = "''me''" and ms = ?ms] by (simp only: sum.case) blast
qed

end
