(* ===== verification/Store_Refinement.thy ===== *)
theory Store_Refinement
  imports Agent_Delivery
begin

text \<open>
  The people, mutes, keys and settings of the database as finite maps and sets: the abstract
  directory, what each method does to it, and that the SQL statements of the methods implement it.
\<close>

section \<open>The directory\<close>

record directory =
  friends :: "string \<Rightarrow> string option option"
  enemies :: "string set"
  requests :: "string set"
  silenced :: "string \<times> string \<Rightarrow> int option option"
  keys :: "string \<Rightarrow> string option"
  settings :: "string \<Rightarrow> string option"

text \<open>The directory a database represents.\<close>

definition friend_look :: "store \<Rightarrow> string \<Rightarrow> string option option" where
  "friend_look s a = map_option c_name (select_one (\<lambda>c. c_address c = a) (contacts s))"

definition directory_of :: "store \<Rightarrow> directory" where
  "directory_of s = \<lparr>friends = friend_look s, enemies = b_address ` set (blocked s), requests = p_from ` set (pending s),
     silenced = mute_look s, keys = key_look s, settings = meta_look s\<rparr>"

datatype directory_call =
    D_add string string
  | D_rename string string
  | D_remove string
  | D_block string
  | D_unblock string
  | D_flush string
  | D_mute string string int
  | D_unmute string string
  | D_key string string
  | D_set string string

text \<open>What a call does to the directory; addresses are compared in lower case.\<close>

fun directory_step :: "directory_call \<Rightarrow> directory \<Rightarrow> directory" where
  "directory_step (D_add a n) d = d\<lparr>friends := (friends d)(lc a \<mapsto>
     (if n \<noteq> [] then Some n else Option.bind (friends d (lc a)) id))\<rparr>"
| "directory_step (D_rename a n) d = (if friends d (lc a) = None then d
     else d\<lparr>friends := (friends d)(lc a \<mapsto> null_if_empty n)\<rparr>)"
| "directory_step (D_remove a) d = d\<lparr>friends := (friends d)(lc a := None)\<rparr>"
| "directory_step (D_block a) d = d\<lparr>friends := (friends d)(lc a := None), enemies := insert (lc a) (enemies d),
     requests := requests d - {lc a}\<rparr>"
| "directory_step (D_unblock a) d = d\<lparr>enemies := enemies d - {lc a}\<rparr>"
| "directory_step (D_flush a) d = d\<lparr>requests := requests d - {lc a}\<rparr>"
| "directory_step (D_mute t k u) d = d\<lparr>silenced := (silenced d)((lc t, k) \<mapsto> (if 0 < u then Some u else None))\<rparr>"
| "directory_step (D_unmute t k) d = d\<lparr>silenced := (silenced d)((lc t, k) := None)\<rparr>"
| "directory_step (D_key a x) d = d\<lparr>keys := (keys d)(lc a \<mapsto> x)\<rparr>"
| "directory_step (D_set k v) d = d\<lparr>settings := (settings d)(k \<mapsto> v)\<rparr>"

text \<open>The method of the database behind it.\<close>

fun perform :: "'e env_scheme \<Rightarrow> directory_call \<Rightarrow> (store, unit) state" where
  "perform e (D_add a n) = ignore (AddContact e a n)"
| "perform e (D_rename a n) = ignore (UpdateContactName e a n)"
| "perform e (D_remove a) = ignore (RemoveContact e a)"
| "perform e (D_block a) = ignore (BlockContact e a)"
| "perform e (D_unblock a) = ignore (UnblockContact e a)"
| "perform e (D_flush a) = ignore (FlushPending e a)"
| "perform e (D_mute t k u) = ignore (AddMute e t k u)"
| "perform e (D_unmute t k) = ignore (RemoveMute e t k)"
| "perform e (D_key a x) = ignore (SaveKeyCache e a x)"
| "perform e (D_set k v) = ignore (MetaSet e k v)"

fun call_ok :: "directory_call \<Rightarrow> bool" where
  "call_ok (D_mute t k u) = (k \<in> mute_kinds)"
| "call_ok c = True"

section \<open>The simulation\<close>

lemma friend_look_put:
  assumes "\<And>c. c_address (f c) = c_address c"
  shows "map_option c_name (select_one (\<lambda>c. c_address c = x) (upsert c_address r f t)) =
    (if x = c_address r
     then Some (case select_one (\<lambda>c. c_address c = x) t of None \<Rightarrow> c_name r | Some c \<Rightarrow> c_name (f c))
     else map_option c_name (select_one (\<lambda>c. c_address c = x) t))"
  by (simp add: select_one_upsert [of c_address f, OF assms] split: option.split)

lemma keys_delete_where: "f ` set (delete_where (\<lambda>r. f r = k) t) = f ` set t - {k}"
  by (auto simp: delete_where_def)

lemma keys_insert_or_ignore: "f ` set (insert_or_ignore f r t) = insert (f r) (f ` set t)"
  by (auto simp: insert_or_ignore_def)

lemma order_asc_Nil [simp]: "order_asc k t = [] \<longleftrightarrow> t = []"
  by (metis length_0_conv length_sort order_asc_def)

lemma run_RemoveMute: "db_ok e \<Longrightarrow> snd (run_state (RemoveMute e t k) s) = mute_del (lc t, k) (ticked s)"
  by (simp add: RemoveMute_def runs delete_mute_eq)

lemma looks_of_others [simp]:
  "friend_look (mute_put now tk u s) = friend_look s" "friend_look (mute_del tk s) = friend_look s"
  "friend_look (key_put nw a x s) = friend_look s" "friend_look (meta_put k v s) = friend_look s"
  "mute_look (key_put nw a x s) = mute_look s" "mute_look (meta_put k v s) = mute_look s"
  "key_look (mute_put now tk u s) = key_look s" "key_look (mute_del tk s) = key_look s" "key_look (meta_put k v s) = key_look s"
  "meta_look (mute_put now tk u s) = meta_look s" "meta_look (mute_del tk s) = meta_look s" "meta_look (key_put nw a x s) = meta_look s"
  "blocked (mute_put now tk u s) = blocked s" "blocked (mute_del tk s) = blocked s" "blocked (key_put nw a x s) = blocked s"
  "blocked (meta_put k v s) = blocked s"
  "pending (mute_put now tk u s) = pending s" "pending (mute_del tk s) = pending s" "pending (key_put nw a x s) = pending s"
  "pending (meta_put k v s) = pending s"
  by (simp_all add: fun_eq_iff friend_look_def mute_look_def key_look_def meta_look_def mute_put_def mute_del_def
      key_put_def meta_put_def)

lemma looks_of_rows [simp]:
  "friend_look (s\<lparr>tick := n\<rparr>) = friend_look s" "friend_look (s\<lparr>blocked := b\<rparr>) = friend_look s"
  "friend_look (s\<lparr>pending := p\<rparr>) = friend_look s"
  "mute_look (s\<lparr>contacts := c\<rparr>) = mute_look s" "mute_look (s\<lparr>blocked := b\<rparr>) = mute_look s"
  "mute_look (s\<lparr>pending := p\<rparr>) = mute_look s" "key_look (s\<lparr>contacts := c\<rparr>) = key_look s"
  "key_look (s\<lparr>blocked := b\<rparr>) = key_look s" "key_look (s\<lparr>pending := p\<rparr>) = key_look s"
  "meta_look (s\<lparr>contacts := c\<rparr>) = meta_look s" "meta_look (s\<lparr>blocked := b\<rparr>) = meta_look s"
  "meta_look (s\<lparr>pending := p\<rparr>) = meta_look s"
  "mute_look (s\<lparr>tick := n\<rparr>) = mute_look s" "key_look (s\<lparr>tick := n\<rparr>) = key_look s" "meta_look (s\<lparr>tick := n\<rparr>) = meta_look s"
  by (simp_all add: fun_eq_iff friend_look_def mute_look_def key_look_def meta_look_def)

lemma perform_step:
  assumes "db_ok e" "call_ok c"
  shows "directory_of (snd (run_state (perform e c) s)) = directory_step c (directory_of s)"
proof (cases c)
  case (D_add a n)
  then show ?thesis
    by (auto simp: run_ignore runs assms(1) directory_of_def fun_eq_iff null_if_empty_def friend_look_def
        friend_look_put split: option.split)
next
  case (D_rename a n)
  have "friend_look (t\<lparr>contacts := update_where (\<lambda>c. c_address c = lc a) (\<lambda>c. c\<lparr>c_name := null_if_empty n\<rparr>) (contacts s)\<rparr>) x =
      (if x = lc a \<and> friend_look s x \<noteq> None then Some (null_if_empty n) else friend_look s x)" for x t
    by (cases "select_one (\<lambda>c. c_address c = x) (contacts s)")
      (auto simp: friend_look_def select_one_update [of c_address] dest: select_one_SomeD)
  then have "friend_look (snd (run_state (perform e c) s)) = friends (directory_step c (directory_of s))"
    using D_rename by (auto simp: run_ignore runs assms(1) directory_of_def fun_eq_iff)
  then show ?thesis
    using D_rename by (auto simp: run_ignore runs assms(1) directory_of_def)
next
  case (D_remove a)
  then show ?thesis
    by (simp add: run_ignore RemoveContact_def runs assms(1) directory_of_def fun_eq_iff friend_look_def select_one_delete)
next
  case (D_block a)
  then show ?thesis
    by (auto simp add: run_ignore BlockContact_def runs assms(1) directory_of_def fun_eq_iff friend_look_def select_one_delete
      keys_delete_where keys_insert_or_ignore Let_def)
next
  case (D_unblock a)
  then show ?thesis
    by (auto simp add: run_ignore UnblockContact_def runs assms(1) directory_of_def keys_delete_where)
next
  case (D_flush a)
  then show ?thesis
    by (auto simp: run_ignore runs assms(1) directory_of_def Let_def filter_empty_conv)
next
  case (D_mute t k u)
  then show ?thesis
    using assms by (simp add: run_ignore runs directory_of_def fun_eq_iff mute_kv.look_put)
next
  case (D_unmute t k)
  then show ?thesis
    using assms by (simp add: run_ignore run_RemoveMute directory_of_def fun_eq_iff mute_kv.look_del)
next
  case (D_key a x)
  then show ?thesis
    using assms by (simp add: run_ignore runs directory_of_def fun_eq_iff key_kv.look_put)
next
  case (D_set k v)
  then show ?thesis
    using assms by (simp add: run_ignore runs directory_of_def fun_eq_iff meta_kv.look_put)
qed

text \<open>C21: the methods for people, mutes, keys and settings implement the directory: after any sequence of
  them, in any order and spelling of the addresses, the database represents what the same steps make of
  the maps and sets it represented before, and the queries answer from these.\<close>

theorem directory_refinement:
  assumes "db_ok e" "list_all call_ok cs" "s' = snd (run_state (for_each cs (perform e)) s)"
    and "d = fold directory_step cs (directory_of s)"
  shows "directory_of s' = d \<and>
    fst (run_state (IsContact e a) s') = (friends d (lc a) \<noteq> None, None) \<and>
    fst (run_state (GetContactName e a) s') = (null_string (Option.bind (friends d (lc a)) id), None) \<and>
    fst (run_state (IsBlocked e a) s') = (lc a \<in> enemies d, None) \<and>
    fst (run_state (GetKeyCache e a) s') = (null_string (keys d (lc a)), None) \<and>
    fst (run_state (MetaGet e k) s') = (case settings d k of None \<Rightarrow> ([], False, None) | Some v \<Rightarrow> (v, True, None))"
proof -
  have d: "directory_of s' = d"
    using assms(2-4)
  proof (induction cs arbitrary: s)
    case (Cons c cs)
    then show ?case
      using perform_step [OF assms(1), of c s] by (simp add: case_prod_beta)
  qed simp
  have "friends d (lc a) = friend_look s' (lc a)" "lc a \<in> enemies d \<longleftrightarrow> (\<exists>b \<in> set (blocked s'). b_address b = lc a)"
      "keys d = key_look s'" "settings d = meta_look s'"
    by (simp_all add: d [symmetric] directory_of_def image_iff eq_commute [of "lc a"])
  moreover have "friend_look s' (lc a) \<noteq> None \<longleftrightarrow> (\<exists>c \<in> set (contacts s'). c_address c = lc a)"
    by (simp add: friend_look_def select_one_None)
  ultimately show ?thesis
    using d by (auto simp: runs assms(1) friend_look_def Option.bind_map_option)
qed

lemma directory_refinement_witness:
  "fst (run_state (IsBlocked sample_agent_env ''0xab'') (snd (run_state (for_each
     [D_add ''0xAB'' ''al'', D_block ''0xab'', D_add ''0xcd'' [], D_mute ''0xcd'' MuteAgent 5] (perform sample_agent_env)) empty_store))) =
   (True, None)"
proof -
  let ?cs = "[D_add ''0xAB'' ''al'', D_block ''0xab'', D_add ''0xcd'' [], D_mute ''0xcd'' MuteAgent 5]"
  have "list_all call_ok ?cs" by (simp add: mute_kinds_def)
  then show ?thesis
    using directory_refinement [OF db_ok_sample_agent _ refl refl, of ?cs empty_store "''0xab''"] by simp
qed

end
