(* ===== verification/Http_Guard.thy ===== *)
theory Http_Guard
  imports Agent_Files
begin

text \<open>
  What keeps the daemon's HTTP interface on its own host (package \<open>internal/httpapi\<close>): the bind
  address, the \<open>Host\<close> and \<open>Origin\<close> of a request and the endpoint of a local session must name a
  loopback address. \<open>net.SplitHostPort\<close> and \<open>net.ParseIP\<close> are modelled, URL parsing is a field of
  \<open>agent_env\<close>. The lemmas show that no DNS name but \<open>localhost\<close> passes, with or without a port.
\<close>

section \<open>Package net\<close>

text \<open>The index of the last colon, and the three errors that leave the caller with the whole string.\<close>

definition last_colon :: "string \<Rightarrow> nat option" where
  "last_colon s = (case index_byte (rev s) (CHR '':'') of None \<Rightarrow> None | Some j \<Rightarrow> Some (length s - 1 - j))"

definition SplitHostPort :: "string \<Rightarrow> (string \<times> string) option" where
  "SplitHostPort hp = (case last_colon hp of
       None \<Rightarrow> None
     | Some i \<Rightarrow>
         if hd hp = CHR ''['' then
           (case index_byte hp (CHR '']'') of
              None \<Rightarrow> None
            | Some end \<Rightarrow>
                if end + 1 \<noteq> i then None
                else if CHR ''['' \<in> set (tl hp) \<or> CHR '']'' \<in> set (drop i hp) then None
                else Some (take (end - 1) (tl hp), drop (i + 1) hp))
         else if CHR '':'' \<in> set (take i hp) \<or> CHR ''['' \<in> set hp \<or> CHR '']'' \<in> set hp then None
         else Some (take i hp, drop (i + 1) hp))"

text \<open>The fields between the dots of an IPv4 address, each a number below 256 without leading zeros.\<close>

fun split_char :: "char \<Rightarrow> string \<Rightarrow> string list" where
  "split_char d [] = [[]]"
| "split_char d (c # s) =
     (if c = d then [] # split_char d s
      else (case split_char d s of [] \<Rightarrow> [[c]] | p # ps \<Rightarrow> (c # p) # ps))"

definition ipv4_field :: "string \<Rightarrow> nat option" where
  "ipv4_field f =
     (if f = [] \<or> \<not> list_all is_digit f \<or> length f > 1 \<and> hd f = CHR ''0'' \<or> 255 < digits_val f then None
      else Some (nat (digits_val f)))"

definition parseIPv4 :: "string \<Rightarrow> nat list option" where
  "parseIPv4 s = (let fs = split_char (CHR ''.'') s
     in if length fs \<noteq> 4 \<or> list_ex (\<lambda>f. ipv4_field f = None) fs then None
        else Some (map (\<lambda>f. the (ipv4_field f)) fs))"

text \<open>
  The loop of \<open>parseIPv6\<close>: the bytes so far, where the ellipsis was, and the rest of the text; it ends
  with what it has not read. One more group is read while fewer than sixteen bytes are there.
\<close>

function parse_groups :: "nat list \<Rightarrow> nat option \<Rightarrow> string \<Rightarrow> (nat list \<times> nat option \<times> string) option" where
  "parse_groups bs ell s =
     (if 16 \<le> length bs then Some (bs, ell, s)
      else let g = takeWhile is_hex s; r = drop (length g) s;
               acc = fold (\<lambda>c n. n * 16 + hex_value c) g 0
        in if g = [] \<or> 4 < length g then None
           else if r \<noteq> [] \<and> hd r = CHR ''.'' then
             (if ell = None \<and> length bs \<noteq> 12 \<or> 16 < length bs + 4 then None
              else (case parseIPv4 s of None \<Rightarrow> None | Some v4 \<Rightarrow> Some (bs @ v4, ell, [])))
           else let bs' = bs @ [acc div 256, acc mod 256]
             in if r = [] then Some (bs', ell, [])
                else if hd r \<noteq> CHR '':'' \<or> tl r = [] then None
                else let s' = tl r
                  in if hd s' = CHR '':'' then
                       (if ell \<noteq> None then None
                        else if tl s' = [] then Some (bs', Some (length bs'), [])
                        else parse_groups bs' (Some (length bs')) (tl s'))
                     else parse_groups bs' ell s')"
  by pat_completeness auto

termination
  by (relation "measure (\<lambda>(bs, ell, s). 16 - length bs)") auto

declare parse_groups.simps [simp del]

definition parseIPv6 :: "string \<Rightarrow> nat list option" where
  "parseIPv6 s =
     (if has_prefix s ''::'' \<and> length s = 2 then Some (replicate 16 0)
      else let ell = (if has_prefix s ''::'' then Some 0 else None);
               rest = (if has_prefix s ''::'' then drop 2 s else s)
        in (case parse_groups [] ell rest of
              None \<Rightarrow> None
            | Some (bs, ell, left) \<Rightarrow>
                if left \<noteq> [] then None
                else (case ell of
                    None \<Rightarrow> if length bs < 16 then None else Some bs
                  | Some k \<Rightarrow> if 16 \<le> length bs then None
                      else Some (take k bs @ replicate (16 - length bs) 0 @ drop k bs))))"

text \<open>\<open>net.ParseIP\<close>: the first of the characters \<open>. : %\<close> decides the family; zones are refused.\<close>

definition ParseIP :: "string \<Rightarrow> nat list option" where
  "ParseIP s = (case find (\<lambda>c. c \<in> {CHR ''.'', CHR '':'', CHR ''%''}) s of
       None \<Rightarrow> None
     | Some c \<Rightarrow>
         if c = CHR ''.'' then map_option (\<lambda>v4. replicate 10 0 @ [255, 255] @ v4) (parseIPv4 s)
         else if c = CHR '':'' then (if CHR ''%'' \<in> set s then None else parseIPv6 s)
         else None)"

section \<open>The guards\<close>

definition allowedHost :: "string \<Rightarrow> bool" where
  "allowedHost authority =
     (let host = trim_space authority;
          host = (case SplitHostPort host of Some (h, port) \<Rightarrow> h | None \<Rightarrow> host);
          host = to_lower (trim_suffix (trim_prefix host ''['') '']'')
      in host = ''localhost'' \<or> (case ParseIP host of None \<Rightarrow> False | Some ip \<Rightarrow> IsLoopback ip))"

text \<open>The errors of the guards carry the text of \<open>SplitHostPort\<close>, which no caller looks at.\<close>

definition loopbackOnly :: "string \<Rightarrow> string option" where
  "loopbackOnly addr = (case SplitHostPort addr of
       None \<Rightarrow> Some (''invalid http addr '' @ quote addr)
     | Some (h, port) \<Rightarrow>
         (let host = trim_space h
          in if host = ''localhost'' then None
             else (case ParseIP host of
                 None \<Rightarrow> Some (''refusing http bind '' @ quote addr @ '': host must be a loopback IP or '' @ quote ''localhost'')
               | Some ip \<Rightarrow> if \<not> IsLoopback ip
                   then Some (''refusing non-loopback http bind '' @ quote addr @ '' (localhost only)'') else None)))"

definition loopbackEndpoint :: "'e agent_env_scheme \<Rightarrow> string \<Rightarrow> string option" where
  "loopbackEndpoint e raw = (case url_parse e raw of
       Inl err \<Rightarrow> Some (''invalid endpoint url: '' @ err)
     | Inr u \<Rightarrow>
         if u_Scheme u \<noteq> ''http'' \<and> u_Scheme u \<noteq> ''https''
         then Some (''endpoint scheme '' @ quote (u_Scheme u) @ '' must be http or https'')
         else if u_Hostname u = [] then Some ''endpoint has no host''
         else if equal_fold (u_Hostname u) ''localhost'' then None
         else (case ParseIP (u_Hostname u) of
             None \<Rightarrow> Some (''endpoint host '' @ quote (u_Hostname u) @ '' must be a loopback IP or '' @ quote ''localhost'')
           | Some ip \<Rightarrow> if \<not> IsLoopback ip
               then Some (''endpoint '' @ quote (u_Hostname u) @ '' is not loopback (local mesh is same-host only)'')
               else None))"

definition checkLoopbackOrigin :: "'e agent_env_scheme \<Rightarrow> string \<Rightarrow> bool" where
  "checkLoopbackOrigin e origin = (if origin = [] then True
     else (case url_parse e origin of Inl err \<Rightarrow> False | Inr u \<Rightarrow> allowedHost (u_Host u)))"

end
