(* ===== verification/Ws_Hub.thy ===== *)
theory Ws_Hub
  imports Agent_Ops Http_Guard
begin

text \<open>
  The WebSocket side of the HTTP interface (\<open>ws.go\<close>): the subscribers of the daemon, each with its
  bounded queue of frames, the fan-out of surfaced events, the registration of a subscriber as a local
  session for as long as it is connected, and the frames by which a subscriber sends to other local
  sessions. A frame is its JSON object. The queue of a closed subscriber is never read again, so
  nothing is added to it. Whether a delivery to another session is accepted is decided by the
  registry's world, as in \<open>Mesh_Registry\<close>; \<open>wsDeliverer_Deliver\<close> is what the hub does for its part.
\<close>

section \<open>State\<close>

definition wsSendBuffer :: nat where
  "wsSendBuffer = 64"

record ws_client =
  wc_session :: string
  wc_harness :: string
  wc_send :: "json list"
  wc_done :: bool
  wc_release :: "nat option"

record server =
  ag :: agent
  clients :: "(nat \<times> ws_client) list"
  next_client :: nat
  temps :: "(string \<times> string) list"

text \<open>
  The world of the interface: the text of a decoding error, the names of temporary files and whether
  they can be written.
\<close>

record server_env = agent_env +
  json_err :: "string \<Rightarrow> string"
  temp_create :: "nat \<Rightarrow> string \<Rightarrow> string + string"
  temp_write_err :: "nat \<Rightarrow> string option"

text \<open>The registry of the server is the agent's: the daemon wires the same one into both.\<close>

definition NewServer :: "agent \<Rightarrow> server" where
  "NewServer a = \<lparr>ag = a, clients = [], next_client = 0, temps = []\<rparr>"

definition on_agent :: "(agent, 'a) state \<Rightarrow> (server, 'a) state" where
  "on_agent m = zoom ag (\<lambda>a s. s\<lparr>ag := a\<rparr>) m"

section \<open>Frames\<close>

definition surfaceToFrame :: "SurfaceEvent \<Rightarrow> json" where
  "surfaceToFrame ev = JObj (
     [(''type'', JStr (sf_Type ev)), (''from'', JStr (sf_From ev)), (''id'', JStr (sf_MessageID ev)),
      (''ts'', JInt (sf_Ts ev)), (''deliveryMode'', JStr (sf_DeliveryMode ev))] @
     when_set ''agentName'' (sf_FromName ev) @ when_set ''trust'' (sf_Trust ev) @
     when_set ''groupId'' (sf_GroupID ev) @ when_set ''groupName'' (sf_GroupName ev) @
     (if sf_Local ev then [(''local'', JBool True)] else []) @
     when_set ''reactionMessageId'' (sf_ReactionFor ev) @
     (if sf_Type ev = ''file''
      then [(''filename'', JStr (sf_Filename ev)), (''path'', JStr (sf_Path ev)), (''size'', JInt (int (sf_Size ev)))]
      else [(''message'', JStr (sf_Message ev))]))"

definition localAck :: "string \<Rightarrow> bool \<Rightarrow> string \<Rightarrow> json" where
  "localAck to accepted detail = JObj [(''type'', JStr ''local-ack''), (''to'', JStr to),
     (''delivered'', JBool accepted), (''detail'', JStr detail)]"

section \<open>Subscribers\<close>

text \<open>The queue takes the frame if it has room; a subscriber that is gone swallows it.\<close>

definition try_send :: "json \<Rightarrow> ws_client \<Rightarrow> bool \<times> ws_client" where
  "try_send data c =
     (if wc_done c then (True, c)
      else if length (wc_send c) < wsSendBuffer then (True, c\<lparr>wc_send := wc_send c @ [data]\<rparr>)
      else (False, c))"

definition trySend :: "nat \<Rightarrow> json \<Rightarrow> (server, bool) state" where
  "trySend i data = State (\<lambda>s. case map_of (clients s) i of
       None \<Rightarrow> (True, s)
     | Some c \<Rightarrow> (case try_send data c of (took, c') \<Rightarrow> (took, s\<lparr>clients := AList.update i c' (clients s)\<rparr>)))"

definition hub_Broadcast :: "SurfaceEvent \<Rightarrow> (server, unit) state" where
  "hub_Broadcast ev = modify (\<lambda>s. s\<lparr>clients := map (\<lambda>(i, c). (i, snd (try_send (surfaceToFrame ev) c))) (clients s)\<rparr>)"

definition wsDeliverer_Deliver :: "nat \<Rightarrow> Frame \<Rightarrow> (server, string option) state" where
  "wsDeliverer_Deliver i f = do {
     let ev = no_surface\<lparr>sf_Type := ''message'', sf_From := f_From f, sf_Message := f_Text f, sf_MessageID := f_ID f,
       sf_Ts := f_Ts f, sf_Local := True, sf_Trust := ''local'', sf_DeliveryMode := ''steer'',
       sf_ReactionFor := f_ReactionFor f\<rparr>;
     name \<leftarrow> gets (\<lambda>s. case map_of (clients s) i of None \<Rightarrow> [] | Some c \<Rightarrow> wc_session c);
     took \<leftarrow> trySend i (surfaceToFrame ev);
     State_Monad.return (if took then None else Some (''subscriber '' @ quote name @ '' send buffer full''))
   }"

text \<open>The other transport: the frame is posted to the endpoint; \<open>post\<close> is the HTTP client, with the status
  of the answer.\<close>

definition inject_payload :: "string \<Rightarrow> Frame \<Rightarrow> json" where
  "inject_payload sid f = JObj (
     [(''type'', JStr ''message''), (''from'', JStr (f_From f)), (''message'', JStr (f_Text f)),
      (''id'', JStr (f_ID f)), (''ts'', JInt (f_Ts f)), (''local'', JBool True), (''trust'', JStr ''local''),
      (''deliveryMode'', JStr ''steer'')] @
     when_set ''sessionId'' sid @ when_set ''reactionMessageId'' (f_ReactionFor f))"

definition httpDeliverer_Deliver :: "(string \<Rightarrow> json \<Rightarrow> string + nat) \<Rightarrow> string \<Rightarrow> string \<Rightarrow> Frame \<Rightarrow> string option" where
  "httpDeliverer_Deliver post endpoint sid f = (case post endpoint (inject_payload sid f) of
       Inl err \<Rightarrow> Some err
     | Inr status \<Rightarrow> if status div 100 \<noteq> 2 then Some (''http-target inject status '' @ nat_str status) else None)"

definition delivered_count :: "server \<Rightarrow> nat" where
  "delivered_count s = (case mesh (ag s) of None \<Rightarrow> 0 | Some r \<Rightarrow> length (delivered r))"

text \<open>What the registry accepted for subscribers since \<open>n\<close> deliveries is put in their queues.\<close>

definition push_delivered :: "nat \<Rightarrow> (server, unit) state" where
  "push_delivered n = do {
     new \<leftarrow> gets (\<lambda>s. case mesh (ag s) of None \<Rightarrow> [] | Some r \<Rightarrow>
       map (\<lambda>(p, f). (e_deliver (heap r ! p), f)) (drop n (delivered r)));
     for_each new (\<lambda>(d, f). case d of
         Some (WS_Client i) \<Rightarrow> do { wsDeliverer_Deliver i f; State_Monad.return () }
       | _ \<Rightarrow> State_Monad.return ())
   }"

text \<open>The first part of \<open>serve\<close>: the upgrade, the new subscriber, and its registration.\<close>

definition serve_open :: "'e server_env_scheme \<Rightarrow> string \<Rightarrow> string \<Rightarrow> (server, nat) state" where
  "serve_open e sess_name harness = do {
     i \<leftarrow> gets next_client;
     modify (\<lambda>s. s\<lparr>next_client := i + 1, clients := clients s @ [(i, \<lparr>wc_session = sess_name, wc_harness = harness,
       wc_send = [], wc_done = False, wc_release = None\<rparr>)]\<rparr>);
     (if sess_name \<noteq> [] then do {
        r \<leftarrow> on_agent (local_mesh (register_new e \<lparr>e_Name = sess_name, e_Harness = harness,
          e_Transport = TransportWS, e_PID = 0, e_RegisteredAt = None, e_deliver = None\<rparr> (Some (WS_Client i))));
        modify (\<lambda>s. s\<lparr>clients := AList.map_entry i (wc_release_update (\<lambda>_. r)) (clients s)\<rparr>)
      } else State_Monad.return ());
     State_Monad.return i
   }"

text \<open>The end of \<open>serve\<close>, when the read pump has returned.\<close>

definition serve_close :: "nat \<Rightarrow> (server, unit) state" where
  "serve_close i = do {
     c \<leftarrow> gets (\<lambda>s. map_of (clients s) i);
     case c of
       None \<Rightarrow> State_Monad.return ()
     | Some c \<Rightarrow> do {
         on_agent (local_mesh (release (wc_release c)));
         modify (\<lambda>s. s\<lparr>clients := AList.delete i (clients s)\<rparr>)
       }
   }"

text \<open>A write of the write pump: the oldest frame leaves the queue, or the write fails and the
  subscriber is closed.\<close>

definition writePump_step :: "nat \<Rightarrow> bool \<Rightarrow> (server, json option) state" where
  "writePump_step i fails = State (\<lambda>s. case map_of (clients s) i of
       None \<Rightarrow> (None, s)
     | Some c \<Rightarrow> (case wc_send c of
           [] \<Rightarrow> (None, s)
         | x # xs \<Rightarrow> if wc_done c then (None, s)
             else if fails then (None, s\<lparr>clients := AList.update i (c\<lparr>wc_send := xs, wc_done := True\<rparr>) (clients s)\<rparr>)
             else (Some x, s\<lparr>clients := AList.update i (c\<lparr>wc_send := xs\<rparr>) (clients s)\<rparr>)))"

definition CloseAll :: "(server, unit) state" where
  "CloseAll = modify (\<lambda>s. s\<lparr>clients := map (\<lambda>(i, c). (i, c\<lparr>wc_done := True\<rparr>)) (clients s)\<rparr>)"

section \<open>Frames of a subscriber\<close>

definition clientFrame_fields :: "string list" where
  "clientFrame_fields = [''type'', ''to'', ''message'', ''text'', ''reaction_for'']"

definition route_local :: "'e server_env_scheme \<Rightarrow> nat \<Rightarrow> string \<Rightarrow> string \<Rightarrow> string \<Rightarrow> string \<Rightarrow> (server, unit) state" where
  "route_local e i sess_name to content reaction_for = do {
     mid \<leftarrow> on_agent (on_session (newID e));
     now \<leftarrow> on_agent (agent_now e);
     n \<leftarrow> gets delivered_count;
     let frame = \<lparr>f_ID = mid, f_From = sess_name, f_FromAddress = [], f_Text = content, f_Ts = now,
       f_Broadcast = (to = ''all''), f_ReactionFor = reaction_for\<rparr>;
     if to = ''all'' then do {
       sent \<leftarrow> on_agent (local_mesh (Broadcast e frame sess_name));
       push_delivered n;
       trySend i (localAck ''all'' (0 < length sent) (''delivered to '' @ nat_str (length sent) @ '' local session(s)''));
       State_Monad.return ()
     } else do {
       r \<leftarrow> on_agent (local_mesh (Route e to frame));
       push_delivered n;
       (case r of
          (name, Some err) \<Rightarrow> trySend i (localAck to False (''no local session '' @ quote to))
        | (name, None) \<Rightarrow> trySend i (localAck name True ''delivered''));
       State_Monad.return ()
     }
   }"

definition handleClientFrame :: "'e server_env_scheme \<Rightarrow> nat \<Rightarrow> string \<Rightarrow> (server, unit) state" where
  "handleClientFrame e i data = do {
     c \<leftarrow> gets (\<lambda>s. map_of (clients s) i);
     case (c, map_option str_field (unmarshal_struct (strings_only clientFrame_fields) data)) of
       (Some c, Some fld) \<Rightarrow>
         if fld ''type'' \<noteq> ''local'' then State_Monad.return ()
         else if wc_session c = [] then do {
           trySend i (localAck [] False ''anonymous subscriber cannot send local messages (connect with ?session=<name>)'');
           State_Monad.return ()
         }
         else route_local e i (wc_session c) (fld ''to'')
           (if fld ''message'' = [] then fld ''text'' else fld ''message'') (fld ''reaction_for'')
     | _ \<Rightarrow> State_Monad.return ()
   }"

text \<open>The agent running under the server: what it delivers to local subscribers while \<open>m\<close> runs is put
  in their queues, and what it surfaces is broadcast.\<close>

definition with_sink :: "(agent, 'a) state \<Rightarrow> (server, 'a) state" where
  "with_sink m = do {
     d \<leftarrow> gets delivered_count;
     n \<leftarrow> gets (\<lambda>s. length (surfaced (ag s)));
     x \<leftarrow> on_agent m;
     push_delivered d;
     new \<leftarrow> gets (\<lambda>s. drop n (surfaced (ag s)));
     for_each new hub_Broadcast;
     State_Monad.return x
   }"

end
