(* ===== verification/Http_Rest.thy ===== *)
theory Http_Rest
  imports Ws_Hub
begin

text \<open>
  The REST side of the HTTP interface (\<open>server.go\<close>, \<open>rest.go\<close>): the guard on the \<open>Host\<close>, the routes of
  the mux, and every handler with its status codes. A request is its method, cleaned path, headers the
  program reads, query and body (\<open>h_upgrade\<close> is a complete WebSocket handshake); a reply its code and
  JSON or text. Every operation goes through
  \<open>Dispatch\<close> of the agent, the others read views of the store or change the local registry.
\<close>

record http_req =
  h_method :: string
  h_path :: string
  h_host :: string
  h_origin :: string
  h_upgrade :: bool
  h_query :: "string \<Rightarrow> string"
  h_body :: string

datatype http_reply = JsonReply nat json | TextReply nat string | Upgraded nat

definition maxHistoryLimit :: int where
  "maxHistoryLimit = 1000"

definition maxBody :: nat where
  "maxBody = 1048576"

text \<open>The result of \<open>decodeBody\<close>: the empty body leaves the fields empty.\<close>

definition decodeBody :: "'e server_env_scheme \<Rightarrow> string list \<Rightarrow> http_req \<Rightarrow> string + (string \<Rightarrow> string)" where
  "decodeBody e flds r = (case decode_struct (strings_only flds) (take maxBody (h_body r)) of
       At_eof \<Rightarrow> Inr (\<lambda>f. [])
     | Bad_json \<Rightarrow> Inl (json_err e (h_body r))
     | Decoded kvs \<Rightarrow> Inr (str_field kvs))"

definition decodeArgs :: "'e server_env_scheme \<Rightarrow> http_req \<Rightarrow> string + args" where
  "decodeArgs e r = (case decode_first (take maxBody (h_body r)) of
       At_eof \<Rightarrow> Inr []
     | Bad_json \<Rightarrow> Inl (json_err e (h_body r))
     | Decoded j \<Rightarrow> (case json_args j of None \<Rightarrow> Inl (json_err e (h_body r)) | Some as \<Rightarrow> Inr as))"

definition writeJSON_reply :: "nat \<Rightarrow> (string \<times> json) list \<Rightarrow> (server, http_reply) state" where
  "writeJSON_reply code kvs = State_Monad.return (JsonReply code (JObj kvs))"

definition data_string :: "Result \<Rightarrow> string \<Rightarrow> string" where
  "data_string res k = (case map_of (res_Data res) k of Some (JStr s) \<Rightarrow> s | _ \<Rightarrow> [])"

section \<open>Handlers\<close>

definition handleOp :: "'e server_env_scheme \<Rightarrow> string \<Rightarrow> http_req \<Rightarrow> (server, http_reply) state" where
  "handleOp e oper r = (case decodeArgs e r of
       Inl err \<Rightarrow> writeJSON_reply 400 [(''ok'', JBool False), (''error'', JStr (''bad json body: '' @ err))]
     | Inr as \<Rightarrow> do {
         res \<leftarrow> with_sink (Dispatch e oper as);
         case res of
           Inl err \<Rightarrow> writeJSON_reply 200 [(''ok'', JBool False), (''error'', JStr err)]
         | Inr x \<Rightarrow> writeJSON_reply 200 [(''ok'', JBool True), (''text'', JStr (res_Text x)),
             (''data'', if res_Data x = [] then JNull else JObj (res_Data x))]
       })"

text \<open>The reply of \<open>/send\<close> and \<open>/send-file\<close> to the outcome of their operation.\<close>

definition sent_reply :: "string + Result \<Rightarrow> (server, http_reply) state" where
  "sent_reply res = (case res of
       Inl err \<Rightarrow> writeJSON_reply 502 [(''error'', JStr err)]
     | Inr x \<Rightarrow> writeJSON_reply 200 [(''id'', JStr (data_string x ''id'')), (''status'', JStr (data_string x ''status'')),
         (''text'', JStr (res_Text x))])"

definition handleSend :: "'e server_env_scheme \<Rightarrow> http_req \<Rightarrow> (server, http_reply) state" where
  "handleSend e r = (case decodeBody e [''to'', ''message''] r of
       Inl err \<Rightarrow> writeJSON_reply 400 [(''error'', JStr err)]
     | Inr fld \<Rightarrow> do {
         res \<leftarrow> with_sink (Dispatch e ''send'' [(''to'', AString (fld ''to'')), (''message'', AString (fld ''message''))]);
         sent_reply res
       })"

text \<open>From the temporary file on: it is removed on every path.\<close>

definition send_temp :: "'e server_env_scheme \<Rightarrow> string \<Rightarrow> string \<Rightarrow> string \<Rightarrow> (server, http_reply) state" where
  "send_temp e to filename raw = do {
     t \<leftarrow> on_agent agent_step_tick;
     case temp_create e t (''attn-send-*'' @ Ext filename) of
       Inl err \<Rightarrow> writeJSON_reply 500 [(''error'', JStr (''temp file: '' @ err))]
     | Inr path \<Rightarrow> do {
         modify (\<lambda>s. s\<lparr>temps := (path, []) # temps s\<rparr>);
         t \<leftarrow> on_agent agent_step_tick;
         reply \<leftarrow> (case temp_write_err e t of
             Some err \<Rightarrow> writeJSON_reply 500 [(''error'', JStr (''write temp file: '' @ err))]
           | None \<Rightarrow> do {
               modify (\<lambda>s. s\<lparr>temps := AList.update path raw (temps s)\<rparr>);
               res \<leftarrow> with_sink (Dispatch e ''send_file'' [(''to'', AString to), (''path'', AString path)]);
               sent_reply res
             });
         modify (\<lambda>s. s\<lparr>temps := AList.delete path (temps s)\<rparr>);
         State_Monad.return reply
       }
   }"

definition handleSendFile :: "'e server_env_scheme \<Rightarrow> http_req \<Rightarrow> (server, http_reply) state" where
  "handleSendFile e r = (case decodeBody e [''to'', ''filename'', ''data''] r of
       Inl err \<Rightarrow> writeJSON_reply 400 [(''error'', JStr err)]
     | Inr fld \<Rightarrow>
         if fld ''to'' = [] then writeJSON_reply 400 [(''error'', JStr ''to is required'')]
         else if fld ''data'' = [] then writeJSON_reply 400 [(''error'', JStr ''data is required'')]
         else (case DecodeString (fld ''data'') of
             None \<Rightarrow> writeJSON_reply 400 [(''error'', JStr (''invalid base64 data: '' @ b64_err e (fld ''data'')))]
           | Some raw \<Rightarrow> send_temp e (fld ''to'') (fld ''filename'') raw))"

definition handleStatus :: "'e server_env_scheme \<Rightarrow> (server, http_reply) state" where
  "handleStatus e = do {
     r \<leftarrow> on_agent (ContactsView e);
     ready \<leftarrow> on_agent RelayReady;
     writeJSON_reply 200 [(''address'', JStr (own_address e)), (''relayConnected'', JBool ready),
       (''peers'', JInt (int (length (fst r))))]
   }"

definition handleLocalPeers :: "(server, http_reply) state" where
  "handleLocalPeers = do {
     ns \<leftarrow> on_agent (local_mesh Names);
     writeJSON_reply 200 [(''sessions'', JList (map JStr ns)), (''count'', JInt (int (length ns)))]
   }"

definition handleLocalRegister :: "'e server_env_scheme \<Rightarrow> http_req \<Rightarrow> (server, http_reply) state" where
  "handleLocalRegister e r = (case decodeBody e [''name'', ''harness'', ''endpoint'', ''sessionId''] r of
       Inl err \<Rightarrow> writeJSON_reply 400 [(''ok'', JBool False), (''error'', JStr err)]
     | Inr fld \<Rightarrow>
         if fld ''name'' = [] \<or> fld ''endpoint'' = []
         then writeJSON_reply 400 [(''ok'', JBool False), (''error'', JStr ''name and endpoint are required'')]
         else (case loopbackEndpoint e (fld ''endpoint'') of
             Some err \<Rightarrow> writeJSON_reply 400 [(''ok'', JBool False), (''error'', JStr err)]
           | None \<Rightarrow> do {
               on_agent (local_mesh (register_new e \<lparr>e_Name = fld ''name'', e_Harness = fld ''harness'',
                 e_Transport = TransportHTTP, e_PID = 0, e_RegisteredAt = None, e_deliver = None\<rparr>
                 (Some (HTTP_Target (fld ''endpoint'') (fld ''sessionId'')))));
               writeJSON_reply 200 [(''ok'', JBool True), (''name'', JStr (fld ''name'')),
                 (''transport'', JStr (transport_str TransportHTTP))]
             }))"

definition handleLocalDeregister :: "'e server_env_scheme \<Rightarrow> http_req \<Rightarrow> (server, http_reply) state" where
  "handleLocalDeregister e r = (case decodeBody e [''name''] r of
       Inl err \<Rightarrow> writeJSON_reply 400 [(''ok'', JBool False), (''error'', JStr err)]
     | Inr fld \<Rightarrow>
         if fld ''name'' = [] then writeJSON_reply 400 [(''ok'', JBool False), (''error'', JStr ''name is required'')]
         else do {
           removed \<leftarrow> on_agent (local_mesh (DeregisterByName (fld ''name'')));
           writeJSON_reply 200 [(''ok'', JBool True), (''name'', JStr (fld ''name'')), (''removed'', JBool removed)]
         })"

definition peer_contact :: "Contact \<Rightarrow> json" where
  "peer_contact c = (case c of (addr, name, added) \<Rightarrow> JObj [(''address'', JStr addr),
     (''name'', if name = [] then JNull else JStr name), (''added_at'', JStr added)])"

definition handlePeers :: "'e server_env_scheme \<Rightarrow> (server, http_reply) state" where
  "handlePeers e = do {
     r \<leftarrow> on_agent (ContactsView e);
     case r of
       (cs, Some err) \<Rightarrow> writeJSON_reply 500 [(''error'', JStr ''failed to read contacts'')]
     | (cs, None) \<Rightarrow> writeJSON_reply 200 [(''peers'', JList (map peer_contact cs))]
   }"

definition message_json :: "Message \<Rightarrow> json" where
  "message_json m = JObj [(''id'', JStr (m_id m)), (''peer'', JStr (m_peer m)), (''direction'', JStr (m_direction m)),
     (''content'', JStr (m_content m)), (''ts'', JStr (m_ts m))]"

definition history_limit :: "string \<Rightarrow> int" where
  "history_limit l =
     (let limit = (if l = [] then 20 else (case Atoi l of Some n \<Rightarrow> if 0 < n then n else 20 | None \<Rightarrow> 20))
      in if maxHistoryLimit < limit then maxHistoryLimit else limit)"

definition handleHistory :: "'e server_env_scheme \<Rightarrow> http_req \<Rightarrow> (server, http_reply) state" where
  "handleHistory e r =
     (if h_query r ''with'' = [] then writeJSON_reply 400 [(''error'', JStr ''with is required'')]
      else do {
        q \<leftarrow> on_agent (HistoryView e (h_query r ''with'') (history_limit (h_query r ''limit'')));
        case q of
          (msgs, Some err) \<Rightarrow> writeJSON_reply 500 [(''error'', JStr ''failed to read history'')]
        | (msgs, None) \<Rightarrow> writeJSON_reply 200 [(''messages'', JList (map message_json msgs))]
      })"

section \<open>Routes\<close>

definition handleWS :: "'e server_env_scheme \<Rightarrow> http_req \<Rightarrow> (server, http_reply) state" where
  "handleWS e r =
     (if \<not> h_upgrade r then State_Monad.return (TextReply 400 ''Bad Request'')
      else if \<not> checkLoopbackOrigin e (h_origin r) then State_Monad.return (TextReply 403 ''Forbidden'')
      else do {
        i \<leftarrow> serve_open e (h_query r ''session'') (h_query r ''harness'');
        State_Monad.return (Upgraded i)
      })"

definition handleRoot :: "'e server_env_scheme \<Rightarrow> http_req \<Rightarrow> (server, http_reply) state" where
  "handleRoot e r =
     (if h_upgrade r then handleWS e r
      else if h_path r \<noteq> ''/'' then State_Monad.return (TextReply 404 ''404 page not found'')
      else writeJSON_reply 200 [(''service'', JStr ''attnd''), (''address'', JStr (own_address e)),
        (''interfaces'', JObj [
          (''rest'', JStr ''POST /op/{name} (29 ops), POST /send, GET /status|/peers|/history|/local-peers''),
          (''ws'', JStr (''ws on / (and /ws) '' @ em_dash @ '' inbound event stream''))])])"

definition handleHealthz :: "(server, http_reply) state" where
  "handleHealthz = writeJSON_reply 200 [(''ok'', JBool True)]"

text \<open>The pattern \<open>/op/{op}\<close>: one element after the prefix.\<close>

definition op_name :: "string \<Rightarrow> string option" where
  "op_name path = (if has_prefix path ''/op/'' \<and> drop 4 path \<noteq> [] \<and> CHR ''/'' \<notin> set (drop 4 path)
     then Some (drop 4 path) else None)"

text \<open>The mux: a pattern with \<open>GET\<close> also takes \<open>HEAD\<close>; what no pattern takes goes to the root.\<close>

definition routes :: "'e server_env_scheme \<Rightarrow> http_req \<Rightarrow> (server, http_reply) state" where
  "routes e r =
     (let get = h_method r \<in> {''GET'', ''HEAD''}; post = h_method r = ''POST''; p = h_path r
      in if p = ''/ws'' then handleWS e r
         else if get \<and> p = ''/healthz'' then handleHealthz
         else if get \<and> p = ''/status'' then handleStatus e
         else if get \<and> p = ''/local-peers'' then handleLocalPeers
         else if get \<and> p = ''/peers'' then handlePeers e
         else if get \<and> p = ''/history'' then handleHistory e r
         else if post \<and> p = ''/send'' then handleSend e r
         else if post \<and> p = ''/send-file'' then handleSendFile e r
         else if post \<and> p = ''/local/register'' then handleLocalRegister e r
         else if post \<and> p = ''/local/deregister'' then handleLocalDeregister e r
         else (case (post, op_name p) of
             (True, Some oper) \<Rightarrow> handleOp e oper r
           | _ \<Rightarrow> handleRoot e r))"

definition hostGuard :: "'e server_env_scheme \<Rightarrow> http_req \<Rightarrow> (server, http_reply) state" where
  "hostGuard e r =
     (if \<not> allowedHost (h_host r) then State_Monad.return (TextReply 403 ''forbidden: host not allowed'')
      else routes e r)"

end
