(* ===== verification/Http_System.thy ===== *)
theory Http_System
  imports Http_Rest Agent_Props
begin

text \<open>
  The life of the server: requests, frames of subscribers, their writes and ends, relay events and
  downloads, in any order, and the invariant they keep. Its registry part says that the local mesh
  never routes to a subscriber that is gone and never to another host.
\<close>

section \<open>The invariant\<close>

text \<open>Of a subscriber, what does not change while it is connected.\<close>

definition subs :: "server \<Rightarrow> (nat \<times> string \<times> nat option) list" where
  "subs s = map (\<lambda>(i, c). (i, wc_session c, wc_release c)) (clients s)"

definition queues_ok :: "server \<Rightarrow> bool" where
  "queues_ok s \<longleftrightarrow> (\<forall>(i, c) \<in> set (clients s). length (wc_send c) \<le> wsSendBuffer)"

definition subs_ok :: "server \<Rightarrow> bool" where
  "subs_ok s \<longleftrightarrow> distinct (map fst (subs s)) \<and> (\<forall>i \<in> fst ` set (subs s). i < next_client s)"

text \<open>A session that is registered is a connected subscriber of that name, or a loopback endpoint.\<close>

definition target_ok ::
  "'e agent_env_scheme \<Rightarrow> (nat \<times> string \<times> nat option) list \<Rightarrow> string \<Rightarrow> nat \<Rightarrow> deliverer option \<Rightarrow> bool" where
  "target_ok e S n p d = (case d of
       Some (WS_Client i) \<Rightarrow> map_of S i = Some (n, Some p)
     | Some (HTTP_Target ep sid) \<Rightarrow> loopbackEndpoint e ep = None
     | None \<Rightarrow> False)"

definition registry_ok :: "'e agent_env_scheme \<Rightarrow> (nat \<times> string \<times> nat option) list \<Rightarrow> Registry \<Rightarrow> bool" where
  "registry_ok e S r \<longleftrightarrow> wf_registry r \<and>
     (\<forall>n p. map_of (entries r) n = Some p \<longrightarrow> target_ok e S n p (e_deliver (heap r ! p)))"

definition mesh_ok :: "'e agent_env_scheme \<Rightarrow> server \<Rightarrow> bool" where
  "mesh_ok e s \<longleftrightarrow> (case mesh (ag s) of None \<Rightarrow> False | Some r \<Rightarrow> registry_ok e (subs s) r)"

definition agent_ok :: "'e agent_env_scheme \<Rightarrow> agent \<Rightarrow> bool" where
  "agent_ok e a \<longleftrightarrow> wf_store (st a) \<and> (sess_step e)\<^sup>*\<^sup>* NewSession (sess a) \<and> wf_local a"

definition wf_server :: "'e agent_env_scheme \<Rightarrow> server \<Rightarrow> bool" where
  "wf_server e s \<longleftrightarrow> agent_ok e (ag s) \<and> mesh_ok e s \<and> subs_ok s \<and> queues_ok s"

section \<open>The agent under the server\<close>

lemma wf_local_steps: "local_step\<^sup>*\<^sup>* (locals a) (locals b) \<Longrightarrow> wf_local a \<Longrightarrow> wf_local b"
proof -
  have "wf_local (locals c) = wf_local c" for c by (simp add: wf_local_def)
  moreover have "local_step\<^sup>*\<^sup>* x y \<Longrightarrow> wf_local x \<Longrightarrow> wf_local y" for x y
    by (induction rule: rtranclp_induct) (auto intro: local_step_wf)
  ultimately show "local_step\<^sup>*\<^sup>* (locals a) (locals b) \<Longrightarrow> wf_local a \<Longrightarrow> wf_local b" by metis
qed

lemma lift_agent_ok: "lift_rel (keeps wf_store) e False a b \<Longrightarrow> agent_ok e a \<Longrightarrow> agent_ok e b"
  unfolding lift_rel_def agent_ok_def keeps_def by (auto intro: wf_local_steps)

text \<open>The registry counts with its table only.\<close>

lemma registry_ok_cong: "table r' = table r \<Longrightarrow> registry_ok e S r' = registry_ok e S r"
  by (simp add: registry_ok_def wf_registry_def table_def)

lemma mesh_ok_cong:
  assumes "mesh_table (ag t) = mesh_table (ag s)" "subs t = subs s"
  shows "mesh_ok e t = mesh_ok e s"
  using assms by (auto simp: mesh_ok_def mesh_table_def split: option.splits dest: registry_ok_cong)

lemma keeps_on_agent:
  assumes "state_io_rel (lift_rel (keeps wf_store) e False) m"
  shows "state_io_rel (keeps (wf_server e)) (on_agent m)"
  unfolding on_agent_def
proof (rule kept.eff_zoom [OF _ assms])
  fix s :: server and a
  assume rel: "lift_rel (keeps wf_store) e False (ag s) a"
  then have "mesh_table a = mesh_table (ag s)" by (simp add: lift_rel_def mesh_kept_def)
  then have "mesh_ok e (s\<lparr>ag := a\<rparr>) = mesh_ok e s"
    by (intro mesh_ok_cong) (simp_all add: subs_def)
  with lift_agent_ok [OF rel] show "keeps (wf_server e) s (s\<lparr>ag := a\<rparr>)"
    by (auto simp: keeps_def wf_server_def subs_ok_def queues_ok_def subs_def)
qed

text \<open>A change of the subscribers' queues.\<close>

lemma keeps_clients:
  assumes "queues_ok s \<Longrightarrow> subs t = subs s \<and> queues_ok t" "ag t = ag s" "next_client t = next_client s"
  shows "keeps (wf_server e) s t"
proof -
  have "wf_server e t" if wf: "wf_server e s"
  proof -
    have t: "subs t = subs s" "queues_ok t" using wf assms(1) by (auto simp: wf_server_def)
    then have "mesh_ok e t = mesh_ok e s" by (intro mesh_ok_cong) (simp_all add: assms(2))
    with t wf assms(2,3) show ?thesis by (simp add: wf_server_def subs_ok_def)
  qed
  then show ?thesis by (simp add: keeps_def)
qed

lemma subs_map: "(\<And>c. wc_session (f c) = wc_session c \<and> wc_release (f c) = wc_release c) \<Longrightarrow>
    subs (s\<lparr>clients := map (\<lambda>(i, c). (i, f c)) (clients s)\<rparr>) = subs s"
  by (simp add: subs_def o_def case_prod_beta)

lemma subs_update:
  assumes "map_of cs i = Some c" "wc_session d = wc_session c" "wc_release d = wc_release c"
  shows "map (\<lambda>(i, c). (i, wc_session c, wc_release c)) (AList.update i d cs) =
    map (\<lambda>(i, c). (i, wc_session c, wc_release c)) cs"
  using assms by (induction cs) (auto split: if_splits)

lemma set_update: "x \<in> set (AList.update i d cs) \<Longrightarrow> x = (i, d) \<or> x \<in> set cs"
  by (induction cs) (auto split: if_splits)

lemma try_send_same [simp]:
  "wc_session (snd (try_send f c)) = wc_session c" "wc_release (snd (try_send f c)) = wc_release c"
  by (simp_all add: try_send_def)

lemma try_send_bound: "length (wc_send c) \<le> wsSendBuffer \<Longrightarrow> length (wc_send (snd (try_send f c))) \<le> wsSendBuffer"
  by (simp add: try_send_def)

lemma keeps_client:
  assumes "map_of (clients s) i = Some c" "wc_session d = wc_session c" "wc_release d = wc_release c"
    and "length (wc_send c) \<le> wsSendBuffer \<Longrightarrow> length (wc_send d) \<le> wsSendBuffer"
  shows "keeps (wf_server e) s (s\<lparr>clients := AList.update i d (clients s)\<rparr>)"
proof (rule keeps_clients)
  have same: "subs (s\<lparr>clients := AList.update i d (clients s)\<rparr>) = subs s"
    using subs_update [OF assms(1-3)] by (simp add: subs_def)
  assume "queues_ok s"
  moreover have "(i, c) \<in> set (clients s)" using assms(1) by (rule map_of_SomeD)
  ultimately have "queues_ok (s\<lparr>clients := AList.update i d (clients s)\<rparr>)"
    using assms(4) by (fastforce simp: queues_ok_def dest: set_update)
  with same show "subs (s\<lparr>clients := AList.update i d (clients s)\<rparr>) = subs s \<and>
      queues_ok (s\<lparr>clients := AList.update i d (clients s)\<rparr>)" by simp
qed simp_all

lemma keeps_all_clients:
  assumes "\<And>c. wc_session (f c) = wc_session c \<and> wc_release (f c) = wc_release c"
    and "\<And>c. length (wc_send c) \<le> wsSendBuffer \<Longrightarrow> length (wc_send (f c)) \<le> wsSendBuffer"
  shows "keeps (wf_server e) s (s\<lparr>clients := map (\<lambda>(i, c). (i, f c)) (clients s)\<rparr>)"
  by (rule keeps_clients) (use assms subs_map [of f s, OF assms(1)] in \<open>auto simp: queues_ok_def\<close>)

lemma trySend_keeps [effects]: "state_io_rel (keeps (wf_server e)) (trySend i data)"
  using keeps_client [OF _ try_send_same try_send_bound] kept.R_refl
  by (auto simp: trySend_def state_io_rel_def case_prod_beta split: option.split)

lemma hub_Broadcast_keeps [effects]: "state_io_rel (keeps (wf_server e)) (hub_Broadcast ev)"
  unfolding hub_Broadcast_def
  by (rule kept.eff_modify, rule keeps_all_clients) (auto intro: try_send_bound)

lemma wsDeliverer_keeps [effects]: "state_io_rel (keeps (wf_server e)) (wsDeliverer_Deliver i f)"
  unfolding wsDeliverer_Deliver_def Let_def by (intro effects)

lemma push_delivered_keeps [effects]: "state_io_rel (keeps (wf_server e)) (push_delivered n)"
  unfolding push_delivered_def by (intro effects) (auto split: option.split deliverer.split intro!: effects)

lemma writePump_keeps [effects]: "state_io_rel (keeps (wf_server e)) (writePump_step i fails)"
  by (auto simp: writePump_step_def state_io_rel_def kept.R_refl split: option.split list.split
      intro!: keeps_client)

lemma CloseAll_keeps [effects]: "state_io_rel (keeps (wf_server e)) CloseAll"
  unfolding CloseAll_def by (rule kept.eff_modify, rule keeps_all_clients) auto

lemma with_sink_keeps:
  "state_io_rel (lift_rel (keeps wf_store) e False) m \<Longrightarrow> state_io_rel (keeps (wf_server e)) (with_sink m)"
  unfolding with_sink_def by (intro effects keeps_on_agent)

section \<open>Frames, connections and requests\<close>

lemma route_local_keeps [effects]: "state_io_rel (keeps (wf_server e)) (route_local e i n to c f)"
  unfolding route_local_def Let_def
  by (intro effects keeps_on_agent agent_wf.session_lift agent_wf.agent_now_lift agent_wf.mesh_lift) simp_all

lemma handleClientFrame_keeps [effects]: "state_io_rel (keeps (wf_server e)) (handleClientFrame e i data)"
  unfolding handleClientFrame_def by (intro effects)

lemma target_ok_cong:
  "target_ok e S n p d \<Longrightarrow> (\<And>j. d = Some (WS_Client j) \<Longrightarrow> map_of T j = map_of S j) \<Longrightarrow> target_ok e T n p d"
  by (auto simp: target_ok_def split: option.split_asm deliverer.split_asm option.split deliverer.split)

lemma target_ok_mono:
  "target_ok e S n p d \<Longrightarrow> (\<And>j v. map_of S j = Some v \<Longrightarrow> map_of T j = Some v) \<Longrightarrow> target_ok e T n p d"
  by (auto simp: target_ok_def split: option.split_asm deliverer.split_asm option.split deliverer.split)

lemma registry_ok_mono:
  "registry_ok e S r \<Longrightarrow> (\<And>j v. map_of S j = Some v \<Longrightarrow> map_of T j = Some v) \<Longrightarrow> registry_ok e T r"
  unfolding registry_ok_def by (blast intro: target_ok_mono)

text \<open>A registration, when its target fits the new table of subscribers.\<close>

lemma registry_ok_register:
  assumes "registry_ok e S r" "e_Name x \<noteq> []" "target_ok e T (e_Name x) (length (heap r)) d"
    and "\<And>n p dl. n \<noteq> e_Name x \<Longrightarrow> target_ok e S n p dl \<Longrightarrow> target_ok e T n p dl"
  shows "registry_ok e T (snd (run_state (register_new e x d) r))"
proof -
  have "d \<noteq> None" using assms(3) by (cases d) (simp_all add: target_ok_def)
  moreover have "p < length (heap r)" if "map_of (entries r) n = Some p" for n p
    using that assms(1) by (simp add: registry_ok_def wf_registry_iff)
  ultimately show ?thesis
    using assms wf_register_new [of r e x d]
    by (auto simp: registry_ok_def run_register_new update_conv' nth_append)
qed

lemma registry_ok_delete:
  "registry_ok e S r \<Longrightarrow> registry_ok e S (r\<lparr>entries := AList.delete n (entries r)\<rparr>)"
  by (auto simp: registry_ok_def wf_registry_delete delete_conv')

lemma registry_ok_Deregister: "registry_ok e S r \<Longrightarrow> registry_ok e S (snd (run_state (DeregisterByName n) r))"
  by (simp add: DeregisterByName_def registry_ok_delete)

text \<open>The release of a subscriber takes its route with it.\<close>

lemma registry_ok_release:
  assumes ok: "registry_ok e S r" and S: "map_of S i = Some (n, rel)"
    and T: "\<And>j. j \<noteq> i \<Longrightarrow> map_of T j = map_of S j"
  shows "registry_ok e T (snd (run_state (release rel) r))"
proof -
  have wf: "wf_registry r" using ok by (simp add: registry_ok_def)
  let ?r = "snd (run_state (release rel) r)"
  have heap: "heap ?r = heap r" by (simp add: run_release [OF wf] reg_del_def split: option.split)
  have r: "map_of (entries r) m = Some p \<and> rel \<noteq> Some p" if "map_of (entries ?r) m = Some p" for m p
  proof (cases rel)
    case None
    with that show ?thesis by (simp add: run_release [OF wf])
  next
    case (Some q)
    have name: "e_Name (heap r ! q) = k" if "map_of (entries r) k = Some q" for k
      using wf that unfolding wf_registry_iff by blast
    show ?thesis
    proof (cases "map_of (entries r) (e_Name (heap r ! q)) = Some q")
      case True
      then have "entries ?r = AList.delete (e_Name (heap r ! q)) (entries r)"
        by (simp add: run_release [OF wf] reg_del_def Some)
      with that have "map_of (entries r) m = Some p" "m \<noteq> e_Name (heap r ! q)"
        by (auto simp: delete_conv' split: if_splits)
      with name [of m] Some show ?thesis by auto
    next
      case False
      then have "entries ?r = entries r" by (simp add: run_release [OF wf] Some)
      with that have "map_of (entries r) m = Some p" by simp
      with name [of m] False Some show ?thesis by auto
    qed
  qed
  have "target_ok e T m p (e_deliver (heap r ! p))" if "map_of (entries ?r) m = Some p" for m p
  proof -
    have old: "target_ok e S m p (e_deliver (heap r ! p))" using r [OF that] ok by (simp add: registry_ok_def)
    have "e_deliver (heap r ! p) \<noteq> Some (WS_Client i)"
      using old r [OF that] S by (auto simp: target_ok_def)
    with T show ?thesis by (intro target_ok_cong [OF old]) auto
  qed
  with wf_release [OF wf, of rel] heap show ?thesis by (simp add: registry_ok_def)
qed

lemma run_on_registry:
  "mesh (ag s) = Some r \<Longrightarrow> run_state (on_agent (local_mesh m)) s =
     (fst (run_state m r), s\<lparr>ag := (ag s)\<lparr>mesh := Some (snd (run_state m r))\<rparr>\<rparr>)"
  by (simp add: on_agent_def local_mesh_def run_zoom case_prod_beta)

lemma wf_server_registry:
  assumes "wf_server e s" "ag t = (ag s)\<lparr>mesh := Some r\<rparr>" "registry_ok e (subs t) r" "subs_ok t" "queues_ok t"
  shows "wf_server e t"
  using assms by (simp add: wf_server_def mesh_ok_def agent_ok_def wf_local_def)

lemma wf_server_mesh: "wf_server e s \<Longrightarrow> \<exists>r. mesh (ag s) = Some r \<and> registry_ok e (subs s) r"
  by (auto simp: wf_server_def mesh_ok_def split: option.splits)

lemma keeps_registry:
  assumes "\<And>r S. registry_ok e S r \<Longrightarrow> registry_ok e S (snd (run_state m r))"
  shows "state_io_rel (keeps (wf_server e)) (on_agent (local_mesh m))"
proof -
  have "wf_server e (snd (run_state (on_agent (local_mesh m)) s))" if wf: "wf_server e s" for s
  proof -
    obtain r where r: "mesh (ag s) = Some r" "registry_ok e (subs s) r" using wf_server_mesh [OF wf] by blast
    have "subs (s\<lparr>ag := a\<rparr>) = subs s" for a by (simp add: subs_def)
    with wf assms [OF r(2)] show ?thesis
      unfolding run_on_registry [OF r(1)]
      by (intro wf_server_registry [OF wf]) (simp_all add: wf_server_def subs_ok_def queues_ok_def)
  qed
  then show ?thesis by (simp add: state_io_rel_def keeps_def)
qed

lemma registers_keeps [effects]:
  assumes "loopbackEndpoint e ep = None" "n \<noteq> []"
  shows "state_io_rel (keeps (wf_server e)) (on_agent (local_mesh (register_new e
    \<lparr>e_Name = n, e_Harness = h, e_Transport = tr, e_PID = 0, e_RegisteredAt = None, e_deliver = None\<rparr>
    (Some (HTTP_Target ep sid)))))"
  by (rule keeps_registry, erule registry_ok_register) (use assms in \<open>simp_all add: target_ok_def\<close>)

lemma deregisters_keeps [effects]: "state_io_rel (keeps (wf_server e)) (on_agent (local_mesh (DeregisterByName n)))"
  by (rule keeps_registry) (rule registry_ok_Deregister)

lemma Names_keeps [effects]: "state_io_rel (keeps (wf_server e)) (on_agent (local_mesh Names))"
  by (rule keeps_registry) (simp add: Names_def)

lemma serve_close_keeps [effects]: "state_io_rel (keeps (wf_server e)) (serve_close i)"
proof -
  have "wf_server e (snd (run_state (serve_close i) s))" if wf: "wf_server e s" for s
  proof (cases "map_of (clients s) i")
    case None
    with wf show ?thesis by (simp add: serve_close_def)
  next
    case (Some c)
    obtain r where r: "mesh (ag s) = Some r" "registry_ok e (subs s) r" using wf_server_mesh [OF wf] by blast
    let ?r = "snd (run_state (release (wc_release c)) r)"
    let ?t = "s\<lparr>ag := (ag s)\<lparr>mesh := Some ?r\<rparr>, clients := AList.delete i (clients s)\<rparr>"
    have S: "map_of (subs s) j = map_option (\<lambda>c. (wc_session c, wc_release c)) (map_of (clients s) j)" for j
      by (simp add: subs_def map_of_map)
    have T: "subs ?t = AList.delete i (subs s)"
      by (simp add: subs_def AList.delete_eq filter_map o_def split_def)
    have "registry_ok e (subs ?t) ?r"
      by (rule registry_ok_release [OF r(2), of i "wc_session c"]) (simp_all add: S Some T delete_conv')
    moreover have "set (AList.delete i xs) \<subseteq> set xs" for xs :: "(nat \<times> 'b) list"
      by (auto simp: AList.delete_eq)
    then have "subs_ok ?t" "queues_ok ?t"
      using wf unfolding wf_server_def subs_ok_def queues_ok_def T by (fastforce simp: distinct_delete)+
    ultimately show ?thesis
      using wf_server_registry [OF wf, of ?t ?r] by (simp add: serve_close_def Some run_on_registry [OF r(1)])
  qed
  then show ?thesis by (simp add: state_io_rel_def keeps_def)
qed

lemma run_serve_open:
  assumes "mesh (ag s) = Some r" "next_client s \<notin> fst ` set (clients s)"
  shows "run_state (serve_open e n h) s = (next_client s,
    let i = next_client s;
        x = \<lparr>e_Name = n, e_Harness = h, e_Transport = TransportWS, e_PID = 0, e_RegisteredAt = None, e_deliver = None\<rparr>;
        c = \<lparr>wc_session = n, wc_harness = h, wc_send = [], wc_done = False,
          wc_release = if n = [] then None else Some (length (heap r))\<rparr>
    in s\<lparr>next_client := i + 1, clients := clients s @ [(i, c)],
      ag := if n = [] then ag s else (ag s)\<lparr>mesh := Some (snd (run_state (register_new e x (Some (WS_Client i))) r))\<rparr>\<rparr>)"
proof -
  have "AList.map_entry k f (cs @ [(k, c)]) = cs @ [(k, f c)]" if "k \<notin> fst ` set cs"
    for k :: nat and f :: "ws_client \<Rightarrow> ws_client" and cs c
    using that by (induction cs) auto
  with assms show ?thesis
    by (simp add: serve_open_def Let_def run_on_registry run_register_new)
qed

lemma serve_open_keeps [effects]: "state_io_rel (keeps (wf_server e)) (serve_open e n h)"
proof -
  have "wf_server e (snd (run_state (serve_open e n h) s))" if wf: "wf_server e s" for s
  proof -
    obtain r where r: "mesh (ag s) = Some r" "registry_ok e (subs s) r" using wf_server_mesh [OF wf] by blast
    let ?i = "next_client s"
    have fresh: "?i \<notin> fst ` set (clients s)"
      using wf by (force simp: wf_server_def subs_ok_def subs_def)
    let ?t = "snd (run_state (serve_open e n h) s)"
    have T: "subs ?t = subs s @ [(?i, n, if n = [] then None else Some (length (heap r)))]"
      by (simp add: run_serve_open [OF r(1) fresh] subs_def Let_def)
    have "map_of (subs s) ?i = None"
      using fresh by (force simp: subs_def map_of_eq_None_iff)
    then have old: "map_of (subs s) j = Some v \<Longrightarrow> map_of (subs ?t) j = Some v" for j v
      by (auto simp: T map_add_def)
    have this_one: "map_of (subs ?t) ?i = Some (n, if n = [] then None else Some (length (heap r)))"
      using \<open>map_of (subs s) ?i = None\<close> by (simp add: T map_add_def)
    have ok: "subs_ok ?t" "queues_ok ?t"
      using wf unfolding wf_server_def subs_ok_def queues_ok_def T
      by (fastforce simp: run_serve_open [OF r(1) fresh] Let_def)+
    show ?thesis
    proof (cases "n = []")
      case True
      have "ag ?t = (ag s)\<lparr>mesh := Some r\<rparr>"
        using r(1) by (cases "ag s") (simp add: run_serve_open [OF r(1) fresh] True Let_def)
      then show ?thesis
        by (rule wf_server_registry [OF wf]) (use ok registry_ok_mono [OF r(2) old] in auto)
    next
      case False
      show ?thesis
      proof (rule wf_server_registry [OF wf _ registry_ok_register [OF r(2)] ok])
        show "target_ok e (subs ?t) (e_Name \<lparr>e_Name = n, e_Harness = h, e_Transport = TransportWS, e_PID = 0,
            e_RegisteredAt = None, e_deliver = None\<rparr>) (length (heap r)) (Some (WS_Client ?i))"
          using this_one False by (simp add: target_ok_def)
      qed (use False target_ok_mono [OF _ old] in \<open>simp_all add: run_serve_open [OF r(1) fresh] Let_def\<close>)
    qed
  qed
  then show ?thesis by (simp add: state_io_rel_def keeps_def)
qed

section \<open>Handlers\<close>

lemma Dispatch_sink [effects]: "state_io_rel (keeps (wf_server e)) (with_sink (Dispatch e oper args))"
  by (rule with_sink_keeps) (simp add: agent_wf.Dispatch_lift)

lemma temps_keeps [effects]: "state_io_rel (keeps (wf_server e)) (modify (\<lambda>s. s\<lparr>temps := f s\<rparr>))"
proof (rule kept.eff_modify)
  fix s
  have "subs (s\<lparr>temps := f s\<rparr>) = subs s" by (simp add: subs_def)
  then show "keeps (wf_server e) s (s\<lparr>temps := f s\<rparr>)"
    by (intro keeps_clients) (simp_all add: queues_ok_def)
qed

lemma tick_keeps [effects]: "state_io_rel (keeps (wf_server e)) (on_agent agent_step_tick)"
  by (rule keeps_on_agent) (rule agent_wf.agent_step_tick_lift)

lemma views_keeps [effects]:
  "state_io_rel (keeps (wf_server e)) (on_agent (ContactsView e'))"
  "state_io_rel (keeps (wf_server e)) (on_agent (HistoryView e' p l))"
  "state_io_rel (keeps (wf_server e)) (on_agent RelayReady)"
  by (rule keeps_on_agent, simp add: ContactsView_def HistoryView_def effects agent_wf.db_lift agent_wf.RelayReady_lift)+

lemma writeJSON_keeps [effects]: "state_io_rel (keeps (wf_server e)) (writeJSON_reply c kvs)"
  unfolding writeJSON_reply_def by (intro effects)

lemma sent_reply_keeps [effects]: "state_io_rel (keeps (wf_server e)) (sent_reply res)"
  unfolding sent_reply_def by (intro effects)

lemma handleSend_keeps [effects]: "state_io_rel (keeps (wf_server e)) (handleSend e r)"
  unfolding handleSend_def by (intro effects)

lemma handleOp_keeps [effects]: "state_io_rel (keeps (wf_server e)) (handleOp e oper r)"
  unfolding handleOp_def by (intro effects)

lemma send_temp_keeps [effects]: "state_io_rel (keeps (wf_server e)) (send_temp e to f raw)"
  unfolding send_temp_def by (intro effects)

lemma handleSendFile_keeps [effects]: "state_io_rel (keeps (wf_server e)) (handleSendFile e r)"
  unfolding handleSendFile_def by (intro effects)

lemma reads_keeps [effects]:
  "state_io_rel (keeps (wf_server e)) (handleStatus e)"
  "state_io_rel (keeps (wf_server e)) handleLocalPeers"
  "state_io_rel (keeps (wf_server e)) (handlePeers e)"
  "state_io_rel (keeps (wf_server e)) (handleHistory e r)"
  "state_io_rel (keeps (wf_server e)) handleHealthz"
  unfolding handleStatus_def handleLocalPeers_def handlePeers_def handleHistory_def handleHealthz_def
  by (intro effects)+

lemma handleLocalRegister_keeps [effects]: "state_io_rel (keeps (wf_server e)) (handleLocalRegister e r)"
  unfolding handleLocalRegister_def by (intro effects) simp_all

lemma handleLocalDeregister_keeps [effects]: "state_io_rel (keeps (wf_server e)) (handleLocalDeregister e r)"
  unfolding handleLocalDeregister_def by (intro effects)

lemma handleWS_keeps [effects]: "state_io_rel (keeps (wf_server e)) (handleWS e r)"
  unfolding handleWS_def by (intro effects)

lemma handleRoot_keeps [effects]: "state_io_rel (keeps (wf_server e)) (handleRoot e r)"
  unfolding handleRoot_def by (intro effects)

lemma hostGuard_keeps [effects]: "state_io_rel (keeps (wf_server e)) (hostGuard e r)"
  unfolding hostGuard_def routes_def Let_def by (intro effects)

section \<open>Reachable servers\<close>

text \<open>The daemon wires a new registry and the hub as the sink of the agent before it serves.\<close>

definition boot :: "string \<Rightarrow> server" where
  "boot self = NewServer (snd (run_state (do { SetMesh NewRegistry self; OnSurface True }) (NewAgent empty_store)))"

inductive server_step :: "'e server_env_scheme \<Rightarrow> server \<Rightarrow> server \<Rightarrow> bool" for e where
  start: "server_step e s (snd (run_state (on_agent (Start e)) s))"
| request: "server_step e s (snd (run_state (hostGuard e r) s))"
| frame: "server_step e s (snd (run_state (handleClientFrame e i data) s))"
| disconnect: "server_step e s (snd (run_state (serve_close i) s))"
| flush: "server_step e s (snd (run_state (writePump_step i fails) s))"
| close_all: "server_step e s (snd (run_state CloseAll s))"
| relay_event: "server_step e s (snd (run_state (with_sink (relay e (session_event e ev))) s))"
| drop_conn: "server_step e s (snd (run_state (with_sink (relay e DropConn)) s))"
| download: "server_step e s (snd (run_state (with_sink (run_download e i)) s))"
| operation: "server_step e s (snd (run_state (with_sink (Dispatch e oper as)) s))"

lemma wf_boot: "wf_server e (boot self)"
  using wf_empty_store
  by (simp add: boot_def NewServer_def SetMesh_def OnSurface_def NewAgent_def wf_server_def agent_ok_def mesh_ok_def
      registry_ok_def subs_ok_def queues_ok_def subs_def wf_local_def) (simp add: NewRegistry_def)

lemma run_keeps: "state_io_rel (keeps I) m \<Longrightarrow> I s \<Longrightarrow> I (snd (run_state m s))"
  by (auto simp: state_io_rel_def keeps_def)

lemma server_step_wf: "server_step e s t \<Longrightarrow> wf_server e s \<Longrightarrow> wf_server e t"
  by (erule server_step.cases)
    (simp_all add: run_keeps effects with_sink_keeps keeps_on_agent agent_wf.Start_lift agent_wf.run_download_lift
      agent_wf.relay_lift event_steps DropConn_steps)

lemma server_steps_wf: "(server_step e)\<^sup>*\<^sup>* (boot self) s \<Longrightarrow> wf_server e s"
  by (induction rule: rtranclp_induct) (blast intro: wf_boot server_step_wf)+

end
