(* ===== verification/Http_Props.thy ===== *)
theory Http_Props
  imports Http_System Agent_Policy Agent_Outbound
begin

text \<open>
  Properties of the HTTP interface: the invariant of reachable servers, the guard on the host, the REST
  routes as the agent's operations, the fan-out of surfaced events, and where a local message comes
  from and goes to.
\<close>

section \<open>The host guard\<close>

lemma index_byte_absent [simp]: "c \<notin> set s \<Longrightarrow> index_byte s c = None"
  by (simp add: index_byte_None)

lemma last_colon_port: "CHR '':'' \<notin> set port \<Longrightarrow> last_colon (h @ CHR '':'' # port) = Some (length h)"
  using index_byte_append [of "CHR '':''" "rev port" "rev h"] by (simp add: last_colon_def)

lemma SplitHostPort_plain:
  assumes "CHR '':'' \<notin> set h" "CHR ''['' \<notin> set h" "CHR '']'' \<notin> set h" "h \<noteq> []"
  shows "SplitHostPort h = None"
    and "set port \<inter> {CHR '':'', CHR ''['', CHR '']''} = {} \<Longrightarrow> SplitHostPort (h @ CHR '':'' # port) = Some (h, port)"
proof -
  show "SplitHostPort h = None"
    using assms by (simp add: SplitHostPort_def last_colon_def)
  assume port: "set port \<inter> {CHR '':'', CHR ''['', CHR '']''} = {}"
  then have "last_colon (h @ CHR '':'' # port) = Some (length h)"
    by (intro last_colon_port) auto
  moreover have "hd (h @ CHR '':'' # port) \<noteq> CHR ''[''"
    using assms(2,4) by (cases h) auto
  ultimately show "SplitHostPort (h @ CHR '':'' # port) = Some (h, port)"
    using assms port by (auto simp: SplitHostPort_def)
qed

lemma split_char_covers: "c \<in> set s \<Longrightarrow> c \<noteq> d \<Longrightarrow> \<exists>q \<in> set (split_char d s). c \<in> set q"
  by (induction s) (auto split: list.split)

text \<open>An address without colon is an IPv4 address, so it has digits and dots only.\<close>

lemma ParseIP_letters:
  assumes "CHR '':'' \<notin> set h" "c \<in> set h" "\<not> is_digit c" "c \<noteq> CHR ''.''"
  shows "ParseIP h = None"
proof -
  obtain q where q: "q \<in> set (split_char (CHR ''.'') h)" "c \<in> set q"
    using split_char_covers [OF assms(2,4)] by blast
  then have "ipv4_field q = None"
    using assms(3) by (auto simp: ipv4_field_def list_all_iff)
  with q have "parseIPv4 h = None"
    by (auto simp: parseIPv4_def Let_def list_ex_iff)
  moreover have "x \<noteq> CHR '':''" if "find (\<lambda>c. c \<in> {CHR ''.'', CHR '':'', CHR ''%''}) h = Some x" for x
    using that assms(1) by (metis find_Some_iff nth_mem)
  ultimately show ?thesis
    by (auto simp: ParseIP_def split: option.split)
qed

lemma trim_space_none: "\<forall>c \<in> set s. \<not> is_space c \<Longrightarrow> trim_space s = s"
  unfolding trim_space_def trim_left_def trim_right_def
  by (metis dropWhile_eq_self_iff hd_in_set rev_rev_ident set_rev)

lemma lower_char_cases: "lower_char c = c \<or> 97 \<le> (of_char (lower_char c) :: nat)"
  by (cases "CHR ''A'' \<le> c \<and> c \<le> CHR ''Z''") (simp_all add: lower_char_def less_eq_char_def)

lemma lower_char_mark:
  assumes "lower_char c = x" "(of_char x :: nat) < 97"
  shows "c = x"
  using lower_char_cases [of c] assms by auto

lemma to_lower_mem: "CHR '':'' \<notin> set s \<Longrightarrow> CHR '':'' \<notin> set (to_lower s)"
proof
  assume s: "CHR '':'' \<notin> set s" and "CHR '':'' \<in> set (to_lower s)"
  then obtain c where c: "c \<in> set s" "lower_char c = CHR '':''"
    unfolding to_lower_def set_map by (metis imageE)
  have "(of_char (CHR '':'') :: nat) < 97" by simp
  from lower_char_mark [OF c(2) this] c(1) s show False by blast
qed

lemma is_digit_lower [simp]: "is_digit (lower_char c) = is_digit c"
  by (auto simp: is_digit_code of_char_lower_char)

lemma allowedHost_name:
  assumes "h \<noteq> []" "\<forall>c \<in> set h. \<not> is_space c \<and> c \<notin> {CHR '':'', CHR ''['', CHR '']''}"
    and "to_lower h \<noteq> ''localhost''" "\<exists>c \<in> set h. \<not> is_digit c \<and> c \<noteq> CHR ''.''"
    and "\<forall>c \<in> set port. \<not> is_space c \<and> c \<notin> {CHR '':'', CHR ''['', CHR '']''}"
  shows "\<not> allowedHost h \<and> \<not> allowedHost (h @ '':'' @ port)"
proof -
  have plain: "CHR '':'' \<notin> set h" "CHR ''['' \<notin> set h" "CHR '']'' \<notin> set h" "\<forall>c \<in> set h. \<not> is_space c"
    using assms(2) by blast+
  have port: "set port \<inter> {CHR '':'', CHR ''['', CHR '']''} = {}" "\<forall>c \<in> set port. \<not> is_space c"
    using assms(5) by blast+
  obtain c where c: "c \<in> set h" "\<not> is_digit c" "c \<noteq> CHR ''.''" using assms(4) by blast
  have "ParseIP (to_lower h) = None"
  proof (rule ParseIP_letters)
    show "CHR '':'' \<notin> set (to_lower h)"
      by (rule to_lower_mem [OF plain(1)])
    show "lower_char c \<in> set (to_lower h)" "\<not> is_digit (lower_char c)"
      using c by (simp_all add: to_lower_def)
    show "lower_char c \<noteq> CHR ''.''"
      using c(3) lower_char_mark [of c "CHR ''.''"] by auto
  qed
  moreover have "trim_prefix h ''['' = h" "trim_suffix h '']'' = h"
    using plain(2,3) by (auto simp: trim_prefix_def has_prefix_iff trim_suffix_def has_suffix_iff)
  moreover have "trim_space h = h"
    by (rule trim_space_none [OF plain(4)])
  moreover have "\<not> is_space (CHR '':'')" by code_simp
  then have "trim_space (h @ CHR '':'' # port) = h @ CHR '':'' # port"
    using plain(4) port(2) by (intro trim_space_none) (metis Un_iff set_ConsD set_append)
  moreover have "SplitHostPort h = None" "SplitHostPort (h @ CHR '':'' # port) = Some (h, port)"
    by (rule SplitHostPort_plain [OF plain(1-3) assms(1)], rule SplitHostPort_plain(2) [OF plain(1-3) assms(1) port(1)])
  ultimately show ?thesis
    using assms(3) by (simp add: allowedHost_def)
qed

text \<open>C14: a page of another host cannot reach the daemon: a request whose \<open>Host\<close> is a DNS name other than
  \<open>localhost\<close>, in any case and with any port, is answered with 403 and changes nothing, whatever its
  method, path and body.\<close>

theorem foreign_host_refused:
  assumes "h \<noteq> []" "\<forall>c \<in> set h. \<not> is_space c \<and> c \<notin> {CHR '':'', CHR ''['', CHR '']''}"
    and "to_lower h \<noteq> ''localhost''" "\<exists>c \<in> set h. \<not> is_digit c \<and> c \<noteq> CHR ''.''"
    and "\<forall>c \<in> set port. \<not> is_space c \<and> c \<notin> {CHR '':'', CHR ''['', CHR '']''}"
    and "h_host r = h \<or> h_host r = h @ '':'' @ port"
  shows "run_state (hostGuard e r) s = (TextReply 403 ''forbidden: host not allowed'', s)"
  using allowedHost_name [OF assms(1-5)] assms(6) by (auto simp: hostGuard_def)

definition evil_request :: http_req where
  "evil_request = \<lparr>h_method = ''POST'', h_path = ''/send'', h_host = ''127.0.0.1.evil.example:9742'', h_origin = [],
     h_upgrade = False, h_query = (\<lambda>k. []), h_body = ''{}''\<rparr>"

definition sample_server_env :: server_env where
  "sample_server_env = agent_env.extend sample_agent_env (server_env.fields (\<lambda>s. ''invalid'')
     (\<lambda>n p. Inr ''/tmp/attn-send-1'') (\<lambda>n. None))"

lemma foreign_host_refused_witness:
  "run_state (hostGuard sample_server_env evil_request) (NewServer sample_agent) =
     (TextReply 403 ''forbidden: host not allowed'', NewServer sample_agent)"
proof (rule foreign_host_refused [where h = "''127.0.0.1.evil.example''" and port = "''9742''"])
  show "h_host evil_request = ''127.0.0.1.evil.example'' \<or> h_host evil_request = ''127.0.0.1.evil.example'' @ '':'' @ ''9742''"
    by (simp add: evil_request_def)
qed code_simp+


section \<open>The server as a whole\<close>

lemma map_of_subs: "map_of (subs s) i = map_option (\<lambda>c. (wc_session c, wc_release c)) (map_of (clients s) i)"
  by (simp add: subs_def map_of_map)

lemma target_ok_subscriber:
  "target_ok e (subs s) n p (Some (WS_Client i)) \<longleftrightarrow>
     (\<exists>c. map_of (clients s) i = Some c \<and> wc_session c = n \<and> wc_release c = Some p)"
  by (auto simp: target_ok_def map_of_subs)

lemma deliverer_cases:
  obtains "d = None" | i where "d = Some (WS_Client i)" | ep sid where "d = Some (HTTP_Target ep sid)"
proof (cases d)
  case (Some x)
  then show thesis using that(2,3) by (cases x) simp_all
qed (rule that(1))

text \<open>C2: whatever requests, frames, connections, disconnections, relay events and downloads come, in any
  order and with any failures, a reachable server is sound: the local mesh routes a name only to a
  subscriber that is connected under that name and will take the name with it when it leaves, or to
  an endpoint of this host; no queue holds more than 64 frames; and the agent's invariants hold.\<close>

theorem server_sound:
  assumes "(server_step e)\<^sup>*\<^sup>* (boot self) s"
  shows "wf_store (st (ag s)) \<and> \<not> stuck (sess (ag s)) \<and> wf_local (ag s) \<and>
    (\<forall>(i, c) \<in> set (clients s). length (wc_send c) \<le> wsSendBuffer) \<and>
    (\<exists>r. mesh (ag s) = Some r \<and> wf_registry r \<and> (\<forall>n p. map_of (entries r) n = Some p \<longrightarrow>
      (case e_deliver (heap r ! p) of
         Some (WS_Client i) \<Rightarrow> \<exists>c. map_of (clients s) i = Some c \<and> wc_session c = n \<and> wc_release c = Some p
       | Some (HTTP_Target ep sid) \<Rightarrow> loopbackEndpoint e ep = None
       | None \<Rightarrow> False)))"
proof -
  have wf: "wf_server e s" using server_steps_wf [OF assms] .
  then have "\<not> stuck (sess (ag s))"
    using reachable_wf by (auto simp: wf_server_def agent_ok_def wf_chan_def)
  moreover obtain r where r: "mesh (ag s) = Some r" "registry_ok e (subs s) r"
    using wf_server_mesh [OF wf] by blast
  have "case d of Some (WS_Client i) \<Rightarrow> \<exists>c. map_of (clients s) i = Some c \<and> wc_session c = n \<and> wc_release c = Some p
       | Some (HTTP_Target ep sid) \<Rightarrow> loopbackEndpoint e ep = None | None \<Rightarrow> False"
    if "target_ok e (subs s) n p d" for n p d
    by (rule deliverer_cases [of d]) (use that target_ok_subscriber [of e s n p] in \<open>simp_all add: target_ok_def\<close>)
  ultimately show ?thesis
    using wf r by (simp add: wf_server_def agent_ok_def queues_ok_def registry_ok_def)
qed

definition ws_request :: http_req where
  "ws_request = \<lparr>h_method = ''GET'', h_path = ''/ws'', h_host = ''localhost:9742'', h_origin = [], h_upgrade = True,
     h_query = (\<lambda>k. if k = ''session'' then ''bob'' else []), h_body = []\<rparr>"

definition sample_server :: server where
  "sample_server = snd (run_state (hostGuard sample_server_env ws_request) (boot ''main''))"

lemma sample_server_reachable: "(server_step sample_server_env)\<^sup>*\<^sup>* (boot ''main'') sample_server"
  unfolding sample_server_def
  by (rule r_into_rtranclp [of "server_step sample_server_env", OF server_step.request])

lemma sample_server_client:
  "clients sample_server = [(0, \<lparr>wc_session = ''bob'', wc_harness = [], wc_send = [], wc_done = False, wc_release = Some 0\<rparr>)]"
  by code_simp

lemma server_sound_witness:
  "\<not> stuck (sess (ag sample_server)) \<and> wf_local (ag sample_server) \<and> map (wc_session \<circ> snd) (clients sample_server) = [''bob'']"
  using server_sound [OF sample_server_reachable] by (simp add: sample_server_client)

section \<open>REST and the operations of the agent\<close>

lemma ag_for_each: "(\<And>x t. ag (snd (run_state (f x) t)) = ag t) \<Longrightarrow> ag (snd (run_state (for_each xs f) t)) = ag t"
  by (induction xs arbitrary: t) (simp_all add: case_prod_beta)

lemma ag_trySend [simp]: "ag (snd (run_state (trySend i d) t)) = ag t"
  by (simp add: trySend_def case_prod_beta split: option.split)

lemma ag_wsDeliverer [simp]: "ag (snd (run_state (wsDeliverer_Deliver i f) t)) = ag t"
  by (simp add: wsDeliverer_Deliver_def Let_def case_prod_beta)

lemma ag_push [simp]: "ag (snd (run_state (push_delivered d) t)) = ag t"
  by (auto simp: push_delivered_def case_prod_beta intro!: ag_for_each split: option.split deliverer.split)

lemma ag_Broadcast [simp]: "ag (snd (run_state (hub_Broadcast ev) t)) = ag t"
  by (simp add: hub_Broadcast_def)

lemma run_on_agent: "run_state (on_agent m) s = (fst (run_state m (ag s)), s\<lparr>ag := snd (run_state m (ag s))\<rparr>)"
  by (simp add: on_agent_def run_zoom case_prod_beta)

lemma with_sink_agent:
  "fst (run_state (with_sink m) s) = fst (run_state m (ag s))"
  "ag (snd (run_state (with_sink m) s)) = snd (run_state m (ag s))"
  by (simp_all add: with_sink_def run_on_agent ag_for_each case_prod_beta)

text \<open>What the server does with a request for an operation.\<close>

definition op_reply :: "string + Result \<Rightarrow> http_reply" where
  "op_reply res = JsonReply 200 (JObj (case res of
       Inl err \<Rightarrow> [(''ok'', JBool False), (''error'', JStr err)]
     | Inr x \<Rightarrow> [(''ok'', JBool True), (''text'', JStr (res_Text x)),
         (''data'', if res_Data x = [] then JNull else JObj (res_Data x))]))"

lemma hostGuard_op:
  assumes "allowedHost (h_host r)" "h_method r = ''POST''" "h_path r = ''/op/'' @ oper" "oper \<noteq> []" "CHR ''/'' \<notin> set oper"
    and "decodeArgs e r = Inr as"
  shows "ag (snd (run_state (hostGuard e r) s)) = snd (run_state (Dispatch e oper as) (ag s))"
    "fst (run_state (hostGuard e r) s) = op_reply (fst (run_state (Dispatch e oper as) (ag s)))"
proof -
  have "op_name (h_path r) = Some oper"
    using assms(3-5) by (simp add: op_name_def has_prefix_iff)
  then have "hostGuard e r = handleOp e oper r"
    using assms(1-3) by (simp add: hostGuard_def routes_def Let_def)
  then show "ag (snd (run_state (hostGuard e r) s)) = snd (run_state (Dispatch e oper as) (ag s))"
    "fst (run_state (hostGuard e r) s) = op_reply (fst (run_state (Dispatch e oper as) (ag s)))"
    by (simp_all add: assms(6) handleOp_def with_sink_agent writeJSON_reply_def op_reply_def case_prod_beta split: sum.split)
qed

text \<open>C16: the REST route of an operation is the operation: \<open>POST /op/{name}\<close> does to the agent exactly what
  \<open>Dispatch\<close> does with the decoded arguments, and answers 200 with its result or its error.\<close>

theorem rest_is_dispatch:
  assumes "allowedHost (h_host r)" "h_method r = ''POST''" "h_path r = ''/op/'' @ oper" "oper \<noteq> []" "CHR ''/'' \<notin> set oper"
    and "decodeArgs e r = Inr as"
  shows "ag (snd (run_state (hostGuard e r) s)) = snd (run_state (Dispatch e oper as) (ag s)) \<and>
    fst (run_state (hostGuard e r) s) = JsonReply 200 (JObj (case fst (run_state (Dispatch e oper as) (ag s)) of
        Inl err \<Rightarrow> [(''ok'', JBool False), (''error'', JStr err)]
      | Inr x \<Rightarrow> [(''ok'', JBool True), (''text'', JStr (res_Text x)),
          (''data'', if res_Data x = [] then JNull else JObj (res_Data x))]))"
  using hostGuard_op [OF assms] by (simp add: op_reply_def)

definition mute_request :: http_req where
  "mute_request = \<lparr>h_method = ''POST'', h_path = ''/op/mute'', h_host = ''127.0.0.1:9742'', h_origin = [],
     h_upgrade = False, h_query = (\<lambda>k. []), h_body = marshal (JObj [(''to'', JStr ''all'')])\<rparr>"

lemma rest_is_dispatch_witness:
  "ag (snd (run_state (hostGuard sample_server_env mute_request) sample_server)) =
     snd (run_state (Dispatch sample_server_env ''mute'' [(''to'', AString ''all'')]) (ag sample_server))"
proof -
  have "allowedHost (h_host mute_request)" by code_simp
  moreover have "length (marshal (JObj [(''to'', JStr ''all'')])) = 12" by code_simp
  then have "decodeArgs sample_server_env mute_request = Inr [(''to'', AString ''all'')]"
    by (simp add: decodeArgs_def mute_request_def decode_first_marshal maxNestingDepth_def maxBody_def json_args_def del: marshal.simps)
  ultimately show ?thesis
    using rest_is_dispatch [of mute_request "''mute''" sample_server_env] by (simp add: mute_request_def)
qed


section \<open>Subscribers\<close>

lemma try_send_room:
  "\<not> wc_done c \<Longrightarrow> length (wc_send c) < wsSendBuffer \<Longrightarrow> try_send f c = (True, c\<lparr>wc_send := wc_send c @ [f]\<rparr>)"
  by (simp add: try_send_def)

lemma client_Broadcast: "map_of (clients (snd (run_state (hub_Broadcast ev) s))) i =
    map_option (\<lambda>c. snd (try_send (surfaceToFrame ev) c)) (map_of (clients s) i)"
  by (simp add: hub_Broadcast_def map_of_map)

lemma client_broadcasts:
  assumes "map_of (clients s) i = Some c" "\<not> wc_done c" "length (wc_send c) + length evs \<le> wsSendBuffer"
  shows "map_of (clients (snd (run_state (for_each evs hub_Broadcast) s))) i =
    Some (c\<lparr>wc_send := wc_send c @ map surfaceToFrame evs\<rparr>)"
  using assms
proof (induction evs arbitrary: s c)
  case (Cons ev evs)
  let ?c = "c\<lparr>wc_send := wc_send c @ [surfaceToFrame ev]\<rparr>"
  have "map_of (clients (snd (run_state (hub_Broadcast ev) s))) i = Some ?c"
    using Cons.prems by (simp add: client_Broadcast try_send_room)
  from Cons.IH [OF this] Cons.prems show ?case
    by (simp add: case_prod_beta)
qed simp

text \<open>What the agent surfaces reaches every subscriber: whatever the agent does, the events it surfaces
  are put last in the queue of each connected subscriber that has room for them, in order and each
  once, whether other subscribers are full or gone; a subscriber with a full queue gets none.\<close>

theorem surfaced_reach_subscribers:
  assumes "map_of (clients s) i = Some c" "\<not> wc_done c"
    and m: "surfaced (snd (run_state m (ag s))) = surfaced (ag s) @ evs"
      "map_option delivered (mesh (snd (run_state m (ag s)))) = map_option delivered (mesh (ag s))"
    and t: "t = snd (run_state (with_sink m) s)"
  shows "(length (wc_send c) + length evs \<le> wsSendBuffer \<longrightarrow>
      map_of (clients t) i = Some (c\<lparr>wc_send := wc_send c @ map surfaceToFrame evs\<rparr>)) \<and>
    (length (wc_send c) = wsSendBuffer \<longrightarrow> map_of (clients t) i = Some c)"
proof -
  let ?s = "s\<lparr>ag := snd (run_state m (ag s))\<rparr>"
  have "run_state (push_delivered (delivered_count s)) ?s = ((), ?s)"
    using m(2) by (auto simp: push_delivered_def delivered_count_def split: option.split)
  then have t': "t = snd (run_state (for_each evs hub_Broadcast) ?s)"
    by (simp add: t with_sink_def run_on_agent m(1) case_prod_beta)
  have "map_of (clients (snd (run_state (for_each evs hub_Broadcast) u))) i = Some c"
    if "length (wc_send c) = wsSendBuffer" "map_of (clients u) i = Some c" for u
    using that
    by (induction evs arbitrary: u) (simp_all add: case_prod_beta client_Broadcast try_send_def assms(2))
  then show ?thesis
    using assms(1,2) client_broadcasts [of ?s i c evs] by (simp add: t')
qed

lemma surfaced_reach_subscribers_witness:
  "map_of (clients (snd (run_state (with_sink (surface no_surface)) sample_server))) 0 =
    Some \<lparr>wc_session = ''bob'', wc_harness = [], wc_send = [surfaceToFrame no_surface], wc_done = False, wc_release = Some 0\<rparr>"
proof -
  have sink: "surfaceSink (ag sample_server)" by code_simp
  show ?thesis
    using surfaced_reach_subscribers [of sample_server 0 _ "surface no_surface" "[no_surface]", OF _ _ _ _ refl]
    by (simp add: sample_server_client sink runs wsSendBuffer_def)
qed

section \<open>Local messages\<close>

definition stays_local :: "(Frame \<Rightarrow> bool) \<Rightarrow> server \<Rightarrow> server \<Rightarrow> bool" where
  "stays_local P s t \<longleftrightarrow> st (ag t) = st (ag s) \<and> written (sess (ag t)) = written (sess (ag s)) \<and>
     http_log (sess (ag t)) = http_log (sess (ag s)) \<and>
     rel_option (\<lambda>r r'. \<exists>ds. delivered r' = delivered r @ ds \<and> (\<forall>(p, f) \<in> set ds. P f)) (mesh (ag s)) (mesh (ag t))"

interpretation stays: effect "stays_local P" for P
proof
  show "stays_local P s s" for P s
    by (cases "mesh (ag s)") (simp_all add: stays_local_def)
next
  fix P and s t u :: server
  assume "stays_local P s t" "stays_local P t u"
  then show "stays_local P s u"
    by (cases "mesh (ag s)"; cases "mesh (ag t)"; cases "mesh (ag u)") (auto simp: stays_local_def)
qed

definition posts :: "Frame \<Rightarrow> Registry \<Rightarrow> Registry \<Rightarrow> bool" where
  "posts f r r' \<longleftrightarrow> (\<exists>ps. delivered r' = delivered r @ map (\<lambda>p. (p, f)) ps)"

interpretation posts: effect "posts f" for f
proof
  show "posts f r r" for f r by (simp add: posts_def)
  show "posts f r r' \<Longrightarrow> posts f r' r'' \<Longrightarrow> posts f r r''" for f r r' r''
    unfolding posts_def by (auto simp flip: map_append)
qed

lemma Deliver_posts: "state_io_rel (posts f) (Deliver e p f)"
proof -
  have "posts f r (r\<lparr>m_tick := n, delivered := delivered r @ [(p, f)]\<rparr>)" for r :: Registry and n
    unfolding posts_def by (rule exI [of _ "[p]"]) simp
  moreover have "posts f r (r\<lparr>m_tick := n\<rparr>)" for r n
    by (simp add: posts_def)
  ultimately show ?thesis
    by (auto simp: Deliver_def mesh_tick_def state_io_rel_def split: option.split)
qed

lemma posts_sends [effects]:
  "state_io_rel (posts f) (Route e to f)"
  "state_io_rel (posts f) (Broadcast e f n)"
proof -
  have "state_io_rel (posts f) (deliver_all e f ps)" for ps
    by (induction ps) (auto intro!: effects Deliver_posts)
  then show "state_io_rel (posts f) (Broadcast e f n)"
    unfolding Broadcast_def by (intro effects)
  show "state_io_rel (posts f) (Route e to f)"
    unfolding Route_def Resolve_def Lookup_def by (intro effects Deliver_posts)
qed

lemma mesh_stays:
  assumes "P f" "state_io_rel (posts f) m"
  shows "state_io_rel (stays_local P) (on_agent (local_mesh m))"
proof -
  have "stays_local P s (snd (run_state (on_agent (local_mesh m)) s))" for s
  proof (cases "mesh (ag s)")
    case None
    then show ?thesis by (simp add: stays_local_def run_on_agent local_mesh_def run_zoom case_prod_beta)
  next
    case (Some r)
    have "posts f r (snd (run_state m r))" using assms(2) by (simp add: state_io_rel_def)
    with assms(1) Some show ?thesis
      by (auto simp: run_on_registry stays_local_def posts_def)
  qed
  then show ?thesis by (simp add: state_io_rel_def)
qed

lemma hub_stays [effects]: "state_io_rel (stays_local P) (trySend i d)" "state_io_rel (stays_local P) (push_delivered n)"
  using stays.R_refl by (simp_all add: state_io_rel_def stays_local_def)

lemma ids_stay [effects]:
  "state_io_rel (stays_local P) (on_agent (on_session (newID e)))" "state_io_rel (stays_local P) (on_agent (agent_now e))"
  using stays.R_refl [of P]
  by (simp_all add: state_io_rel_def run_on_agent runs newID_def sess_tick_def agent_now_def stays_local_def)

lemma route_local_stays:
  "n \<noteq> [] \<Longrightarrow> state_io_rel (stays_local (\<lambda>f. f_From f = n \<and> f_FromAddress f = [] \<and> n \<noteq> [])) (route_local e i n to c x)"
  unfolding route_local_def Let_def
  by (intro effects) (auto intro!: effects mesh_stays)


text \<open>C15: a local message is what its subscriber may say and goes no further than this host: a frame of a
  subscriber delivers only messages that carry the name it connected with and no relay address, an
  anonymous subscriber delivers nothing, and neither the relay nor the database hears of it.\<close>

theorem local_frame_stays_local:
  assumes "map_of (clients s) i = Some c" "t = snd (run_state (handleClientFrame e i data) s)"
  shows "st (ag t) = st (ag s) \<and> written (sess (ag t)) = written (sess (ag s)) \<and>
    http_log (sess (ag t)) = http_log (sess (ag s)) \<and>
    (\<forall>r. mesh (ag s) = Some r \<longrightarrow> (\<exists>r' ds. mesh (ag t) = Some r' \<and> delivered r' = delivered r @ ds \<and>
      (\<forall>(p, f) \<in> set ds. f_From f = wc_session c \<and> f_FromAddress f = [] \<and> wc_session c \<noteq> [])))"
proof -
  define P :: "Frame \<Rightarrow> bool" where "P = (\<lambda>f. f_From f = wc_session c \<and> f_FromAddress f = [] \<and> wc_session c \<noteq> [])"
  have route: "stays_local P s (snd (run_state (route_local e i (wc_session c) to x y) s))" if "wc_session c \<noteq> []" for to x y
    unfolding P_def using stays.eff_run [OF route_local_stays [OF that]] .
  have refused: "stays_local P s (snd (run_state (trySend i d) s))" for d
    by (rule stays.eff_run [OF hub_stays(1)])
  have "stays_local P s t"
  proof (cases "unmarshal_struct (strings_only clientFrame_fields) data")
    case None
    then show ?thesis using stays.R_refl by (simp add: assms handleClientFrame_def)
  next
    case (Some x)
    then show ?thesis
      using assms(1) stays.R_refl [of P s] route refused
      by (simp add: assms(2) handleClientFrame_def case_prod_beta)
  qed
  then show ?thesis
    by (auto simp: stays_local_def option_rel_Some1 P_def)
qed

definition chat_frame :: string where
  "chat_frame = marshal (JObj [(''type'', JStr ''local''), (''to'', JStr ''bob''), (''message'', JStr ''hi'')])"

lemma local_frame_stays_local_witness:
  "st (ag (snd (run_state (handleClientFrame sample_server_env 0 chat_frame) sample_server))) = st (ag sample_server) \<and>
   (\<exists>r. mesh (ag (snd (run_state (handleClientFrame sample_server_env 0 chat_frame) sample_server))) = Some r \<and>
     map (f_From \<circ> snd) (delivered r) = [''bob''])"
proof -
  have "map_option (map (f_From \<circ> snd) \<circ> delivered)
      (mesh (ag (snd (run_state (handleClientFrame sample_server_env 0 chat_frame) sample_server)))) = Some [''bob'']"
    by code_simp
  then show ?thesis
    using local_frame_stays_local [of sample_server 0 _ _ sample_server_env chat_frame, OF _ refl]
    by (auto simp: sample_server_client)
qed

end
