(* ===== verification/Go_Url.thy ===== *)
theory Go_Url
  imports Go_Json
begin

text \<open>
  Package \<open>net/url\<close>, as the adapters build URLs with it: \<open>QueryEscape\<close>, \<open>PathEscape\<close> and the text of a
  query. Parsing a URL is the world's: its text without the query, and the values of the query.
\<close>

definition is_alnum :: "char \<Rightarrow> bool" where
  "is_alnum c \<longleftrightarrow> is_digit c \<or> of_char (lower_char c) \<in> {97..122 :: nat}"

definition upper_hex :: "nat \<Rightarrow> char" where
  "upper_hex n = (if n < 10 then char_of (48 + n) else char_of (55 + n))"

definition percent :: "char \<Rightarrow> string" where
  "percent c = [CHR ''%'', upper_hex (of_char c div 16), upper_hex (of_char c mod 16)]"

definition unreserved :: "char \<Rightarrow> bool" where
  "unreserved c \<longleftrightarrow> is_alnum c \<or> c \<in> {CHR ''-'', CHR ''_'', CHR ''.'', CHR ''~''}"

definition QueryEscape :: "string \<Rightarrow> string" where
  "QueryEscape s = concat (map (\<lambda>c. if unreserved c then [c] else if c = CHR '' '' then ''+'' else percent c) s)"

text \<open>In a path segment \<open>$ & + = : @\<close> stand for themselves too.\<close>

definition PathEscape :: "string \<Rightarrow> string" where
  "PathEscape s = concat (map (\<lambda>c. if unreserved c \<or> c \<in> {CHR ''$'', CHR ''&'', CHR ''+'', CHR ''='', CHR '':'', CHR ''@''}
     then [c] else percent c) s)"

type_synonym query = "(string \<times> string) list"

definition values_set :: "string \<Rightarrow> string \<Rightarrow> query \<Rightarrow> query" where
  "values_set k v q = filter (\<lambda>(a, b). a \<noteq> k) q @ [(k, v)]"

definition values_encode :: "query \<Rightarrow> string" where
  "values_encode q = join (map (\<lambda>(k, v). QueryEscape k @ ''='' @ QueryEscape v) (sort_key fst q)) ''&''"

section \<open>Escaping is reversible\<close>

text \<open>\<open>QueryUnescape\<close> on a well-formed text.\<close>

fun query_unescape :: "string \<Rightarrow> string" where
  "query_unescape (c # s) =
     (if c = CHR ''%'' then (case s of
          a # b # r \<Rightarrow> char_of (hex_value a * 16 + hex_value b) # query_unescape r
        | _ \<Rightarrow> [])
      else (if c = CHR ''+'' then CHR '' '' else c) # query_unescape s)"
| "query_unescape [] = []"

lemma upper_hex_value: "n < 16 \<Longrightarrow> hex_value (upper_hex n) = n"
  by (auto simp: hex_value_def upper_hex_def is_digit_def less_eq_char_def)

lemma unreserved_plain: "unreserved c \<Longrightarrow> c \<noteq> CHR ''%'' \<and> c \<noteq> CHR ''+'' \<and> c \<notin> {CHR ''&'', CHR ''='', CHR ''?'', CHR ''/'', CHR ''#''}"
  by (auto simp: unreserved_def is_alnum_def is_digit_def lower_char_def less_eq_char_def)

lemma query_unescape_char:
  "query_unescape ((if unreserved c then [c] else if c = CHR '' '' then ''+'' else percent c) @ r) = c # query_unescape r"
proof -
  have "(of_char c :: nat) < 256" by simp
  then have "char_of (hex_value (upper_hex (of_char c div 16)) * 16 + hex_value (upper_hex (of_char c mod 16))) = c"
    by (simp add: upper_hex_value less_mult_imp_div_less)
  then show ?thesis
    using unreserved_plain [of c] by (simp add: percent_def)
qed

lemma query_unescape_QueryEscape: "query_unescape (QueryEscape s) = s"
proof (induction s)
  case (Cons c s)
  then show ?case
    using query_unescape_char [of c "QueryEscape s"] by (simp add: QueryEscape_def)
qed (simp add: QueryEscape_def)

text \<open>An escaped text separates nothing: no \<open>&\<close>, \<open>=\<close>, \<open>?\<close>, \<open>#\<close> or \<open>/\<close> is in it.\<close>

lemma upper_hex_plain: "n < 16 \<Longrightarrow> upper_hex n \<notin> {CHR ''&'', CHR ''='', CHR ''?'', CHR ''/'', CHR ''#''}"
  by (auto simp: upper_hex_def char_of_eq_iff take_bit_eq_mod)

definition plain_char :: "char \<Rightarrow> bool" where
  "plain_char c \<longleftrightarrow> c \<notin> {CHR ''&'', CHR ''='', CHR ''?'', CHR ''/'', CHR ''#''}"

lemma QueryEscape_plain: "list_all plain_char (QueryEscape s)"
proof (induction s)
  case (Cons c s)
  have "of_char c div 16 < (16 :: nat)"
    using nat_of_char_less_256 [of c] by (simp add: less_mult_imp_div_less)
  then have "list_all plain_char (percent c)"
    using upper_hex_plain [of "of_char c div 16"] upper_hex_plain [of "of_char c mod 16"]
    by (simp add: percent_def plain_char_def)
  moreover have "plain_char c" if "unreserved c"
    using unreserved_plain [OF that] by (simp add: plain_char_def)
  moreover have "plain_char (CHR ''+'')" by (simp add: plain_char_def)
  ultimately show ?case
    using Cons by (simp add: QueryEscape_def)
qed (simp add: QueryEscape_def)

end
