(* ===== verification/Reconnect.thy ===== *)
theory Reconnect
  imports Go_Prelude
begin

text \<open>
  The reconnect loops of the program, in milliseconds: the relay session (\<open>Session.Run\<close>), the bridge to
  Hermes and the bridge to OpenCode (\<open>Bridge.Run\<close>). Each doubles its delay up to a cap; the locale
  \<open>backoff\<close> is what the three have in common. The session alone returns to its first delay when a
  connection has been good.
\<close>

locale backoff =
  fixes base cap :: nat and advance :: "nat \<Rightarrow> nat"
  assumes base_pos: "0 < base" and base_cap: "base \<le> cap"
    and advance: "d \<le> cap \<Longrightarrow> advance d = min (2 * d) cap"
begin

lemma iterate: "(advance ^^ n) base = min (2 ^ n * base) cap"
proof (induction n)
  case 0
  show ?case using base_cap by simp
next
  case (Suc n)
  have "(advance ^^ Suc n) base = min (2 * min (2 ^ n * base) cap) cap"
    by (simp add: Suc advance)
  then show ?case by (simp add: min_def)
qed

lemma within: "base \<le> (advance ^^ n) base \<and> (advance ^^ n) base \<le> cap"
  using base_cap by (simp add: iterate)

lemma never_shrinks: "(advance ^^ n) base \<le> (advance ^^ Suc n) base"
  by (simp only: iterate) (simp add: min_def)

text \<open>Once the cap is reached it stays.\<close>

lemma at_cap: "cap \<le> 2 ^ n * base \<Longrightarrow> (advance ^^ (n + k)) base = cap"
proof -
  assume "cap \<le> 2 ^ n * base"
  also have "\<dots> \<le> 2 ^ (n + k) * base" by simp
  finally show ?thesis by (simp only: iterate min_absorb2)
qed

end

section \<open>The relay session\<close>

text \<open>One round of the loop: what is waited after a connection that did or did not authenticate, and the
  delay of the next round.\<close>

definition session_backoff :: "bool \<Rightarrow> nat \<Rightarrow> nat \<times> nat" where
  "session_backoff reached delay =
     (let delay = (if reached then 1000 else delay)
      in (delay, if 30000 < delay * 2 then 30000 else delay * 2))"

section \<open>The bridges\<close>

definition reconnectBaseDelay :: nat where "reconnectBaseDelay = 1000"
definition reconnectMaxDelay :: nat where "reconnectMaxDelay = 30000"

definition hermes_backoff :: "nat \<Rightarrow> nat" where
  "hermes_backoff delay = (if reconnectMaxDelay < delay * 2 then reconnectMaxDelay else delay * 2)"

definition backoffInitial :: nat where "backoffInitial = 500"
definition backoffMax :: nat where "backoffMax = 15000"

definition opencode_backoff :: "nat \<Rightarrow> nat" where
  "opencode_backoff d = (if d < backoffMax then (if backoffMax < d * 2 then backoffMax else d * 2) else d)"

interpretation session_delay: backoff 1000 30000 "\<lambda>d. snd (session_backoff False d)"
  by unfold_locales (auto simp: session_backoff_def)

interpretation hermes_delay: backoff reconnectBaseDelay reconnectMaxDelay hermes_backoff
  by unfold_locales (auto simp: reconnectBaseDelay_def reconnectMaxDelay_def hermes_backoff_def)

interpretation opencode_delay: backoff backoffInitial backoffMax opencode_backoff
  by unfold_locales (auto simp: backoffInitial_def backoffMax_def opencode_backoff_def)

text \<open>The delays waited after a run of connections, by whether each was good. The bridges do not ask.\<close>

fun session_waits :: "bool list \<Rightarrow> nat \<Rightarrow> nat list" where
  "session_waits [] delay = []"
| "session_waits (b # bs) delay = (case session_backoff b delay of (w, d) \<Rightarrow> w # session_waits bs d)"

fun bridge_waits :: "(nat \<Rightarrow> nat) \<Rightarrow> bool list \<Rightarrow> nat \<Rightarrow> nat list" where
  "bridge_waits adv [] delay = []"
| "bridge_waits adv (b # bs) delay = delay # bridge_waits adv bs (adv delay)"

section \<open>Properties\<close>

lemma bridge_waits_nth: "i < length bs \<Longrightarrow> bridge_waits adv bs d ! i = (adv ^^ i) d"
  by (induction bs arbitrary: i d) (auto simp: nth_Cons funpow_swap1 split: nat.split)

lemma length_waits [simp]: "length (bridge_waits adv bs d) = length bs" "length (session_waits bs d) = length bs"
  by (induction bs arbitrary: d) (auto simp: case_prod_beta)

lemma session_waits_range: "d \<in> {1000..30000} \<Longrightarrow> set (session_waits bs d) \<subseteq> {1000..30000}"
proof (induction bs arbitrary: d)
  case (Cons b bs)
  from Cons.IH [of "snd (session_backoff b d)"] Cons.prems show ?case
    by (auto simp: session_backoff_def case_prod_beta)
qed simp

lemma session_waits_good: "i < length bs \<Longrightarrow> bs ! i \<Longrightarrow> session_waits bs d ! i = 1000"
  by (induction bs arbitrary: i d) (auto simp: nth_Cons session_backoff_def split: nat.splits)

text \<open>C37: the relay session waits between 1 and 30 seconds and always 1 second after a connection that
  authenticated; the bridges wait twice as long each time, up to 30 and 15 seconds, whether the
  connections were good or not, so that after five of them every reconnect takes the longest delay.\<close>

theorem reconnect_delays:
  assumes "i < length bs"
  shows "session_waits bs 1000 ! i \<in> {1000..30000} \<and> (bs ! i \<longrightarrow> session_waits bs 1000 ! i = 1000) \<and>
    bridge_waits hermes_backoff bs reconnectBaseDelay ! i = min (2 ^ i * 1000) 30000 \<and>
    bridge_waits opencode_backoff bs backoffInitial ! i = min (2 ^ i * 500) 15000"
proof (intro conjI impI)
  have "session_waits bs 1000 ! i \<in> set (session_waits bs 1000)" using assms by simp
  then show "session_waits bs 1000 ! i \<in> {1000..30000}" using session_waits_range [of 1000 bs] by auto
  show "session_waits bs 1000 ! i = 1000" if "bs ! i" by (rule session_waits_good [OF assms that])
  show "bridge_waits hermes_backoff bs reconnectBaseDelay ! i = min (2 ^ i * 1000) 30000"
    using hermes_delay.iterate [of i] by (simp add: bridge_waits_nth assms reconnectBaseDelay_def reconnectMaxDelay_def)
  show "bridge_waits opencode_backoff bs backoffInitial ! i = min (2 ^ i * 500) 15000"
    using opencode_delay.iterate [of i] by (simp add: bridge_waits_nth assms backoffInitial_def backoffMax_def)
qed

lemma reconnect_delays_witness:
  "bridge_waits hermes_backoff [True, True, True, True, True, True] reconnectBaseDelay ! 5 = 30000"
  using reconnect_delays [of 5 "[True, True, True, True, True, True]"] by simp

end
