(* ===== verification/Hermes_Bridge.thy ===== *)
theory Hermes_Bridge
  imports Relay_Session Go_Url Reconnect
begin

text \<open>
  The bridge to Hermes (\<open>adapters/hermes/bridge/bridge.go\<close>): it holds a WebSocket to the daemon as a local
  session and posts each inbound message, signed, to a receiver. The state is the set of ids it has
  seen, whether it is connected, and the requests it made, each with the frame it was made for and
  whether the receiver accepted it. HMAC-SHA256 and the HTTP client are the world's; the read
  deadlines and the pings of a connection are not modelled.
\<close>

section \<open>Configuration\<close>

record hermes_config =
  hc_DaemonWS :: string
  hc_Session :: string
  hc_Harness :: string
  hc_TargetURL :: string
  hc_HMACSecret :: string
  hc_SignatureHeader :: string
  hc_SessionKeyOverride :: string

definition hc_withDefaults :: "hermes_config \<Rightarrow> hermes_config" where
  "hc_withDefaults c = c\<lparr>hc_Harness := (if hc_Harness c = [] then ''hermes'' else hc_Harness c),
     hc_SignatureHeader := (if hc_SignatureHeader c = [] then ''X-Webhook-Signature'' else hc_SignatureHeader c)\<rparr>"

definition hc_validate :: "hermes_config \<Rightarrow> string option" where
  "hc_validate c =
     (if trim_space (hc_DaemonWS c) = [] then Some ''DaemonWS is required''
      else if trim_space (hc_Session c) = [] then Some ''Session is required''
      else if trim_space (hc_TargetURL c) = [] then Some ''TargetURL is required''
      else if trim_space (hc_HMACSecret c) = [] then Some ''HMACSecret is required (set it via env, never a flag)''
      else None)"

section \<open>State\<close>

record inboundFrame =
  if_Type :: string
  if_From :: string
  if_Message :: string
  if_ID :: string
  if_Ts :: int
  if_Local :: bool
  if_Trust :: string
  if_DeliveryMode :: string
  if_AgentName :: string
  if_GroupID :: string
  if_GroupName :: string
  if_Filename :: string
  if_Path :: string
  if_Size :: int

record hermes =
  hb_cfg :: hermes_config
  hb_tick :: nat
  hb_seen :: "string list"
  hb_conn :: bool
  hb_posts :: "(inboundFrame \<times> http_request \<times> bool) list"
  hb_sent :: "string list"

text \<open>The parse of the daemon's URL gives its text before the query, and the query.\<close>

record hermes_env =
  ws_parse :: "string \<Rightarrow> string + string \<times> query"
  hmac_sha256 :: "string \<Rightarrow> string \<Rightarrow> string"
  request_err :: "string \<Rightarrow> string option"
  receiver :: "nat \<Rightarrow> http_request \<Rightarrow> string + nat \<times> string"
  ws_write_err :: "nat \<Rightarrow> string option"

definition seenCap :: nat where
  "seenCap = 4096"

definition hermes_New :: "hermes_config \<Rightarrow> string + hermes" where
  "hermes_New cfg = (let cfg = hc_withDefaults cfg in case hc_validate cfg of
       Some err \<Rightarrow> Inl err
     | None \<Rightarrow> Inr \<lparr>hb_cfg = cfg, hb_tick = 0, hb_seen = [], hb_conn = False, hb_posts = [], hb_sent = []\<rparr>)"

definition hermes_wsURL :: "'e hermes_env_scheme \<Rightarrow> hermes_config \<Rightarrow> string + string" where
  "hermes_wsURL e cfg = (case ws_parse e (hc_DaemonWS cfg) of
       Inl err \<Rightarrow> Inl (''parse DaemonWS: '' @ err)
     | Inr (front, q) \<Rightarrow> Inr (front @ ''?'' @ values_encode
         (values_set ''harness'' (hc_Harness cfg) (values_set ''session'' (hc_Session cfg) q))))"

section \<open>Frames\<close>

definition frame_fields :: struct_fields where
  "frame_fields = \<lparr>fs_str = [''type'', ''from'', ''message'', ''id'', ''trust'', ''deliveryMode'', ''agentName'', ''groupId'',
     ''groupName'', ''filename'', ''path''], fs_int = [''ts'', ''size''], fs_bool = [''local''], fs_strs = []\<rparr>"

definition decode_frame :: "string \<Rightarrow> inboundFrame option" where
  "decode_frame data = map_option (\<lambda>kvs. let f = str_field kvs in
     \<lparr>if_Type = f ''type'', if_From = f ''from'', if_Message = f ''message'', if_ID = f ''id'', if_Ts = int_field kvs ''ts'',
       if_Local = bool_field kvs ''local'', if_Trust = f ''trust'', if_DeliveryMode = f ''deliveryMode'',
       if_AgentName = f ''agentName'', if_GroupID = f ''groupId'', if_GroupName = f ''groupName'',
       if_Filename = f ''filename'', if_Path = f ''path'', if_Size = int_field kvs ''size''\<rparr>)
     (unmarshal_struct frame_fields data)"

definition shouldForward :: "hermes_config \<Rightarrow> inboundFrame \<Rightarrow> bool" where
  "shouldForward cfg f =
     (if if_From f = hc_Session cfg then False
      else if if_Type f = ''message'' then trim_space (if_Message f) \<noteq> []
      else if if_Type f = ''file'' then if_Filename f \<noteq> [] \<or> if_Path f \<noteq> []
      else False)"

definition file_notice :: "string \<Rightarrow> int \<Rightarrow> string \<Rightarrow> string" where
  "file_notice name bytes path =
     ''[received file: '' @ name @ '' ('' @ itoa bytes @ '' bytes) at '' @ path @ '']''"

definition buildPost :: "hermes_config \<Rightarrow> inboundFrame \<Rightarrow> (string \<times> json) list" where
  "buildPost cfg f =
     (let sess = (if hc_SessionKeyOverride cfg = [] then hc_Session cfg else hc_SessionKeyOverride cfg);
          msg = (if if_Type f = ''file''
            then file_notice (if if_Filename f = [] then if_Path f else if_Filename f) (if_Size f) (if_Path f)
            else if_Message f)
      in [(''session'', JStr sess), (''from'', JStr (if_From f)), (''message'', JStr msg), (''id'', JStr (if_ID f)),
          (''ts'', JInt (if_Ts f)), (''local'', JBool (if_Local f)), (''trust'', JStr (if_Trust f))] @
         when_set ''groupId'' (if_GroupID f))"

definition hex_EncodeToString :: "string \<Rightarrow> string" where
  "hex_EncodeToString s = concat (map (\<lambda>c. [hex_digit (of_char c div 16), hex_digit (of_char c mod 16)]) s)"

definition hermes_sign :: "'e hermes_env_scheme \<Rightarrow> hermes_config \<Rightarrow> string \<Rightarrow> string" where
  "hermes_sign e cfg content = hex_EncodeToString (hmac_sha256 e (hc_HMACSecret cfg) content)"

definition forward_request :: "'e hermes_env_scheme \<Rightarrow> hermes_config \<Rightarrow> inboundFrame \<Rightarrow> http_request" where
  "forward_request e cfg f =
     (let content = marshal_struct (buildPost cfg f);
          reqID = (if if_ID f = [] then take 32 (hermes_sign e cfg content) else if_ID f)
      in \<lparr>rq_method = ''POST'', rq_url = hc_TargetURL cfg,
          rq_headers = [(''Content-Type'', ''application/json''), (hc_SignatureHeader cfg, hermes_sign e cfg content),
            (''X-Request-ID'', reqID)], rq_body = RawBody content\<rparr>)"

definition forward :: "'e hermes_env_scheme \<Rightarrow> inboundFrame \<Rightarrow> (hermes, string option) state" where
  "forward e f = State (\<lambda>b. case request_err e (hc_TargetURL (hb_cfg b)) of
       Some err \<Rightarrow> (Some (''new request: '' @ err), b)
     | None \<Rightarrow>
         (let req = forward_request e (hb_cfg b) f;
              err = (case receiver e (hb_tick b) req of
                  Inl x \<Rightarrow> Some (''post: '' @ x)
                | Inr (status, content) \<Rightarrow> if status < 200 \<or> 300 \<le> status
                    then Some (''receiver status '' @ nat_str status @ '': '' @ trim_space (take 512 content)) else None)
          in (err, b\<lparr>hb_tick := hb_tick b + 1, hb_posts := hb_posts b @ [(f, req, err = None)]\<rparr>)))"

section \<open>Ids\<close>

definition alreadySeen :: "string \<Rightarrow> (hermes, bool) state" where
  "alreadySeen mid = State (\<lambda>b.
     if mid = [] then (False, b)
     else if mid \<in> set (hb_seen b) then (True, b)
     else (False, b\<lparr>hb_seen := mid # (if seenCap \<le> length (hb_seen b) then [] else hb_seen b)\<rparr>))"

definition forget :: "string \<Rightarrow> (hermes, unit) state" where
  "forget mid = modify (\<lambda>b. if mid = [] then b else b\<lparr>hb_seen := removeAll mid (hb_seen b)\<rparr>)"

definition hermes_handleFrame :: "'e hermes_env_scheme \<Rightarrow> string \<Rightarrow> (hermes, unit) state" where
  "hermes_handleFrame e data = (case decode_frame data of
       None \<Rightarrow> State_Monad.return ()
     | Some f \<Rightarrow> do {
         cfg \<leftarrow> gets hb_cfg;
         if \<not> shouldForward cfg f then State_Monad.return ()
         else do {
           dup \<leftarrow> alreadySeen (if_ID f);
           if dup then State_Monad.return ()
           else do {
             err \<leftarrow> forward e f;
             (if err \<noteq> None then forget (if_ID f) else State_Monad.return ())
           }
         }
       })"

section \<open>Connections\<close>

text \<open>The connection is there between the dial and the end of \<open>runOnce\<close>.\<close>

definition hermes_connected :: "bool \<Rightarrow> (hermes, unit) state" where
  "hermes_connected up = modify (\<lambda>b. b\<lparr>hb_conn := up\<rparr>)"

definition hermes_SendLocal :: "'e hermes_env_scheme \<Rightarrow> string \<Rightarrow> string \<Rightarrow> (hermes, string option) state" where
  "hermes_SendLocal e to msg = State (\<lambda>b.
     if \<not> hb_conn b then (Some ''not connected'', b)
     else (case ws_write_err e (hb_tick b) of
         Some err \<Rightarrow> (Some err, b\<lparr>hb_tick := hb_tick b + 1\<rparr>)
       | None \<Rightarrow> (None, b\<lparr>hb_tick := hb_tick b + 1, hb_sent := hb_sent b @
           [marshal (JObj [(''type'', JStr ''local''), (''to'', JStr to), (''message'', JStr msg)])]\<rparr>)))"

text \<open>The life of a bridge.\<close>

inductive hermes_step :: "'e hermes_env_scheme \<Rightarrow> hermes \<Rightarrow> hermes \<Rightarrow> bool" for e where
  dialled: "hermes_step e b (snd (run_state (hermes_connected True) b))"
| frame: "hb_conn b \<Longrightarrow> hermes_step e b (snd (run_state (hermes_handleFrame e data) b))"
| send_local: "hermes_step e b (snd (run_state (hermes_SendLocal e to msg) b))"
| closed: "hermes_step e b (snd (run_state (hermes_connected False) b))"

end
