(* ===== verification/Surface_Frames.thy ===== *)
theory Surface_Frames
  imports Hermes_Bridge Ws_Hub
begin

text \<open>
  What a subscriber reads of the frames of the daemon: the members of a surfaced event, as the hub
  writes them in the order of their keys, and the frame a bridge decodes from that text.
\<close>

section \<open>The frames of the daemon, read back\<close>

definition surface_members :: "SurfaceEvent \<Rightarrow> (string \<times> json) list" where
  "surface_members ev = (case surfaceToFrame ev of JObj kvs \<Rightarrow> kvs | _ \<Rightarrow> [])"

lemma surfaceToFrame_members: "surfaceToFrame ev = JObj (surface_members ev)"
  by (simp add: surface_members_def surfaceToFrame_def)

lemma surface_scalars:
  "list_all (\<lambda>(k, v). canon v = v) (surface_members ev)"
  "list_all (\<lambda>(k, v). integral v) (surface_members ev)"
  "list_all (\<lambda>(k, v). depth v = 0) (surface_members ev)"
  by (simp_all add: surface_members_def surfaceToFrame_def when_set_def)

definition matching :: "string \<Rightarrow> (string \<times> json) list \<Rightarrow> (string \<times> json) list" where
  "matching f kvs = filter (\<lambda>(k, v). equal_fold k f) kvs"

lemma field_values_matching: "field_values f kvs = rev (filter (\<lambda>v. v \<noteq> JNull) (map snd (matching f kvs)))"
  by (simp add: field_values_def matching_def)

lemma matching_simps:
  "matching f [] = []" "matching f (a @ b) = matching f a @ matching f b"
  "matching f ((k, v) # kvs) = (if equal_fold k f then (k, v) # matching f kvs else matching f kvs)"
  "matching f (when_set k w) = (if equal_fold k f then when_set k w else [])"
  by (simp_all add: matching_def when_set_def)

lemmas fold_names = equal_fold_def to_lower_def lower_char_def less_eq_char_def

lemma surface_matching:
  "matching ''type'' (surface_members ev) = [(''type'', JStr (sf_Type ev))]"
  "matching ''from'' (surface_members ev) = [(''from'', JStr (sf_From ev))]"
  "matching ''id'' (surface_members ev) = [(''id'', JStr (sf_MessageID ev))]"
  "matching ''ts'' (surface_members ev) = [(''ts'', JInt (sf_Ts ev))]"
  "matching ''deliveryMode'' (surface_members ev) = [(''deliveryMode'', JStr (sf_DeliveryMode ev))]"
  "matching ''agentName'' (surface_members ev) = when_set ''agentName'' (sf_FromName ev)"
  "matching ''trust'' (surface_members ev) = when_set ''trust'' (sf_Trust ev)"
  "matching ''groupId'' (surface_members ev) = when_set ''groupId'' (sf_GroupID ev)"
  "matching ''groupName'' (surface_members ev) = when_set ''groupName'' (sf_GroupName ev)"
  "matching ''local'' (surface_members ev) = (if sf_Local ev then [(''local'', JBool True)] else [])"
  by (simp_all add: surface_members_def surfaceToFrame_def matching_simps fold_names)

lemma surface_matching_content:
  "matching ''message'' (surface_members ev) = (if sf_Type ev = ''file'' then [] else [(''message'', JStr (sf_Message ev))])"
  "matching ''filename'' (surface_members ev) = (if sf_Type ev = ''file'' then [(''filename'', JStr (sf_Filename ev))] else [])"
  "matching ''path'' (surface_members ev) = (if sf_Type ev = ''file'' then [(''path'', JStr (sf_Path ev))] else [])"
  "matching ''size'' (surface_members ev) = (if sf_Type ev = ''file'' then [(''size'', JInt (int (sf_Size ev)))] else [])"
  "matching ''reactionMessageId'' (surface_members ev) = when_set ''reactionMessageId'' (sf_ReactionFor ev)"
  "matching ''to'' (surface_members ev) = []" "matching ''delivered'' (surface_members ev) = []"
  "matching ''detail'' (surface_members ev) = []"
  by (simp_all add: surface_members_def surfaceToFrame_def matching_simps fold_names)

text \<open>The members as they are written, in the order of their keys.\<close>

definition surface_text :: "SurfaceEvent \<Rightarrow> (string \<times> json) list" where
  "surface_text ev = sort_key fst (surface_members ev)"

lemma surface_parsed: "json_parse (marshal (surfaceToFrame ev)) = Some (JObj (surface_text ev))"
proof -
  have "map (\<lambda>(k, v). (k, canon v)) (surface_members ev) = surface_members ev"
    using surface_scalars(1) [of ev] by (intro map_idI) (auto simp: list_all_iff)
  moreover have "foldr max (map (\<lambda>(k, v). depth v) (surface_members ev)) 0 = 0"
  proof -
    have "list_all (\<lambda>(k, v). depth v = 0) m \<Longrightarrow> foldr max (map (\<lambda>(k, v). depth v) m) 0 = 0"
      for m :: "(string \<times> json) list" by (induction m) auto
    with surface_scalars(3) show ?thesis by blast
  qed
  ultimately show ?thesis
    using surface_scalars(2) [of ev]
    by (simp add: surfaceToFrame_members json_parse_marshal maxNestingDepth_def surface_text_def del: marshal.simps)
qed

lemma surface_values:
  assumes "length (matching f (surface_members ev)) \<le> 1"
  shows "field_values f (surface_text ev) = rev (filter (\<lambda>v. v \<noteq> JNull) (map snd (matching f (surface_members ev))))"
  using field_values_sort [of f "surface_members ev"] assms
  by (simp add: surface_text_def field_values_matching matching_def)

lemma when_set_length [simp]: "length (when_set k v) \<le> Suc 0"
  by (simp add: when_set_def)

lemma when_set_value: "rev (filter (\<lambda>v. v \<noteq> JNull) (map snd (when_set k v))) = (if v = [] then [] else [JStr v])"
  by (simp add: when_set_def)

lemma surface_field_values:
  "field_values ''type'' (surface_text ev) = [JStr (sf_Type ev)]"
  "field_values ''from'' (surface_text ev) = [JStr (sf_From ev)]"
  "field_values ''id'' (surface_text ev) = [JStr (sf_MessageID ev)]"
  "field_values ''ts'' (surface_text ev) = [JInt (sf_Ts ev)]"
  "field_values ''deliveryMode'' (surface_text ev) = [JStr (sf_DeliveryMode ev)]"
  "field_values ''agentName'' (surface_text ev) = (if sf_FromName ev = [] then [] else [JStr (sf_FromName ev)])"
  "field_values ''trust'' (surface_text ev) = (if sf_Trust ev = [] then [] else [JStr (sf_Trust ev)])"
  "field_values ''groupId'' (surface_text ev) = (if sf_GroupID ev = [] then [] else [JStr (sf_GroupID ev)])"
  "field_values ''groupName'' (surface_text ev) = (if sf_GroupName ev = [] then [] else [JStr (sf_GroupName ev)])"
  "field_values ''local'' (surface_text ev) = (if sf_Local ev then [JBool True] else [])"
  "field_values ''message'' (surface_text ev) = (if sf_Type ev = ''file'' then [] else [JStr (sf_Message ev)])"
  "field_values ''filename'' (surface_text ev) = (if sf_Type ev = ''file'' then [JStr (sf_Filename ev)] else [])"
  "field_values ''path'' (surface_text ev) = (if sf_Type ev = ''file'' then [JStr (sf_Path ev)] else [])"
  "field_values ''size'' (surface_text ev) = (if sf_Type ev = ''file'' then [JInt (int (sf_Size ev))] else [])"
  "field_values ''reactionMessageId'' (surface_text ev) = (if sf_ReactionFor ev = [] then [] else [JStr (sf_ReactionFor ev)])"
  "field_values ''to'' (surface_text ev) = []" "field_values ''delivered'' (surface_text ev) = []"
  "field_values ''detail'' (surface_text ev) = []"
  by (simp_all add: surface_values surface_matching surface_matching_content when_set_value)

text \<open>The frame of a surfaced event, as a bridge decodes it.\<close>

definition frame_of :: "SurfaceEvent \<Rightarrow> inboundFrame" where
  "frame_of ev = \<lparr>if_Type = sf_Type ev, if_From = sf_From ev,
     if_Message = (if sf_Type ev = ''file'' then [] else sf_Message ev),
     if_ID = sf_MessageID ev, if_Ts = sf_Ts ev, if_Local = sf_Local ev, if_Trust = sf_Trust ev,
     if_DeliveryMode = sf_DeliveryMode ev, if_AgentName = sf_FromName ev, if_GroupID = sf_GroupID ev,
     if_GroupName = sf_GroupName ev, if_Filename = (if sf_Type ev = ''file'' then sf_Filename ev else []),
     if_Path = (if sf_Type ev = ''file'' then sf_Path ev else []),
     if_Size = (if sf_Type ev = ''file'' then int (sf_Size ev) else 0)\<rparr>"

lemma frame_of_fields [simp]:
  "if_Type (frame_of ev) = sf_Type ev" "if_From (frame_of ev) = sf_From ev" "if_ID (frame_of ev) = sf_MessageID ev"
  "if_Message (frame_of ev) = (if sf_Type ev = ''file'' then [] else sf_Message ev)"
  "if_Ts (frame_of ev) = sf_Ts ev" "if_Local (frame_of ev) = sf_Local ev" "if_Trust (frame_of ev) = sf_Trust ev"
  "if_AgentName (frame_of ev) = sf_FromName ev" "if_GroupID (frame_of ev) = sf_GroupID ev"
  "if_GroupName (frame_of ev) = sf_GroupName ev"
  "if_Filename (frame_of ev) = (if sf_Type ev = ''file'' then sf_Filename ev else [])"
  "if_Path (frame_of ev) = (if sf_Type ev = ''file'' then sf_Path ev else [])"
  "if_Size (frame_of ev) = (if sf_Type ev = ''file'' then int (sf_Size ev) else 0)"
  by (simp_all add: frame_of_def)

lemma surface_decoded:
  assumes "int64_range (sf_Ts ev)" "int64_range (int (sf_Size ev))"
  shows "decode_frame (marshal (surfaceToFrame ev)) = Some (frame_of ev)"
proof -
  have "fields_fit frame_fields (surface_text ev)"
    using assms by (simp add: fields_fit_def frame_fields_def surface_field_values is_str_def is_int64_def is_bool_def)
  then have "unmarshal_struct frame_fields (marshal (surfaceToFrame ev)) = Some (surface_text ev)"
    by (simp add: unmarshal_struct_def surface_parsed into_struct_def)
  then show ?thesis
    by (simp add: frame_of_def decode_frame_def Let_def str_field_def int_field_def bool_field_def surface_field_values the_str_def)
qed

end
