(* ===== verification/Hermes_Props.thy ===== *)
theory Hermes_Props
  imports Surface_Frames
begin

text \<open>
  Properties of the bridge to Hermes: what the daemon surfaces is what the receiver is posted, signed,
  and an id is accepted at most once, however often it is replayed, and posted again while it is not.
\<close>

section \<open>A frame\<close>

lemma run_forward: "request_err e (hc_TargetURL (hb_cfg b)) = None \<Longrightarrow>
  \<exists>acc. snd (run_state (forward e f) b) =
      b\<lparr>hb_tick := hb_tick b + 1, hb_posts := hb_posts b @ [(f, forward_request e (hb_cfg b) f, acc)]\<rparr> \<and>
    (fst (run_state (forward e f) b) = None) = acc \<and>
    acc = (\<exists>status content. receiver e (hb_tick b) (forward_request e (hb_cfg b) f) = Inr (status, content) \<and>
      200 \<le> status \<and> status < 300)"
  by (auto simp: forward_def Let_def split: sum.split)


section \<open>Replays\<close>

definition accepted :: "string \<Rightarrow> hermes \<Rightarrow> nat" where
  "accepted mid b = length (filter (\<lambda>(f, req, acc). acc \<and> if_ID f = mid) (hb_posts b))"

definition once :: "nat \<Rightarrow> hermes \<Rightarrow> bool" where
  "once n b \<longleftrightarrow> length (hb_seen b) \<le> n \<and>
     (\<forall>mid. mid \<noteq> [] \<longrightarrow> accepted mid b = (if mid \<in> set (hb_seen b) then 1 else 0))"

text \<open>A handled frame is refused, or leads to at most one request; then its id stays exactly if it is accepted.\<close>

lemma handleFrame_cases:
  obtains "snd (run_state (hermes_handleFrame e data) b) = b"
  | f ps acc seen' where "if_ID f \<noteq> [] \<longrightarrow> if_ID f \<notin> set (hb_seen b)"
      "hb_posts (snd (run_state (hermes_handleFrame e data) b)) = hb_posts b @ ps"
      "ps = [] \<and> \<not> acc \<or> (\<exists>req. ps = [(f, req, acc)])"
      "hb_seen (snd (run_state (hermes_handleFrame e data) b)) = (if if_ID f = [] then hb_seen b
        else if acc then if_ID f # seen' else removeAll (if_ID f) seen')"
      "seen' = (if seenCap \<le> length (hb_seen b) then [] else hb_seen b)"
proof (cases "decode_frame data")
  case None
  then show thesis by (intro that(1)) (simp add: hermes_handleFrame_def)
next
  case (Some f)
  let ?seen = "if seenCap \<le> length (hb_seen b) then [] else hb_seen b"
  let ?s = "if if_ID f = [] then b else b\<lparr>hb_seen := if_ID f # ?seen\<rparr>"
  obtain err t where run: "run_state (forward e f) ?s = (err, t)" by fastforce
  have t: "hb_seen t = hb_seen ?s" "\<exists>ps. hb_posts t = hb_posts b @ ps \<and> (ps = [] \<and> err \<noteq> None \<or> (\<exists>req. ps = [(f, req, err = None)]))"
    using run by (auto simp: forward_def Let_def split: option.splits)
  show thesis
  proof (cases "\<not> shouldForward (hb_cfg b) f \<or> if_ID f \<noteq> [] \<and> if_ID f \<in> set (hb_seen b)")
    case True
    then show thesis by (intro that(1)) (auto simp: hermes_handleFrame_def Some alreadySeen_def)
  next
    case False
    then have "snd (run_state (hermes_handleFrame e data) b) =
        (if err = None \<or> if_ID f = [] then t else t\<lparr>hb_seen := removeAll (if_ID f) (hb_seen t)\<rparr>)"
      using run by (auto simp: hermes_handleFrame_def Some alreadySeen_def forget_def)
    then show thesis
      using t False that(2) [of f _ "err = None", OF _ _ _ _ refl] by (auto split: if_splits)
  qed
qed

lemma handleFrame_once:
  assumes "once n b" "n < seenCap"
  shows "once (Suc n) (snd (run_state (hermes_handleFrame e data) b))"
proof (cases rule: handleFrame_cases [of e data b])
  case 1
  with assms show ?thesis by (simp add: once_def)
next
  case (2 f ps acc seen')
  let ?t = "snd (run_state (hermes_handleFrame e data) b)"
  have seen: "seen' = hb_seen b" using 2(5) assms by (simp add: once_def)
  have "accepted mid ?t = accepted mid b + (if acc \<and> if_ID f = mid then 1 else 0)" for mid
    using 2(2,3) by (auto simp: accepted_def)
  moreover have "length (hb_seen ?t) \<le> Suc n"
    using assms(1) 2(4) seen
    by (auto simp: once_def intro: le_SucI order_trans [OF length_removeAll_less_eq])
  ultimately show ?thesis
    using assms(1) 2(1,4) seen by (auto simp: once_def)
qed

lemma handleFrames_once:
  "once n b \<Longrightarrow> n + length ds \<le> seenCap \<Longrightarrow> once (n + length ds) (snd (run_state (for_each ds (hermes_handleFrame e)) b))"
proof (induction ds arbitrary: n b)
  case (Cons d ds)
  have "once (Suc n) (snd (run_state (hermes_handleFrame e d) b))"
    using Cons.prems by (intro handleFrame_once) simp_all
  from Cons.IH [OF this] Cons.prems show ?case by (simp add: case_prod_beta)
qed simp

text \<open>C19: replays are harmless: over the first 4096 frames of a bridge, in any order and with any
  repetitions, failures and outages, no id is accepted twice by the receiver; and an id is refused
  as seen exactly when it has been accepted, so one that failed is posted again.\<close>

theorem hermes_accepts_once:
  assumes "hermes_New cfg = Inr b" "length ds \<le> seenCap" "mid \<noteq> []"
    and "b' = snd (run_state (for_each ds (hermes_handleFrame e)) b)"
  shows "accepted mid b' \<le> 1 \<and> (mid \<in> set (hb_seen b') \<longleftrightarrow> accepted mid b' = 1)"
proof -
  have "once 0 b" using assms(1) by (auto simp: hermes_New_def Let_def once_def accepted_def split: option.splits)
  from handleFrames_once [OF this, of ds e] assms(2-4) show ?thesis by (simp add: once_def)
qed

section \<open>Witnesses\<close>

definition sample_hermes_env :: hermes_env where
  "sample_hermes_env = \<lparr>ws_parse = (\<lambda>s. Inr (s, [])), hmac_sha256 = (\<lambda>k m. take 32 (k @ m)), request_err = (\<lambda>u. None),
     receiver = (\<lambda>n r. Inr (if n = 0 then 503 else 202, [])), ws_write_err = (\<lambda>n. None)\<rparr>"

definition sample_hermes_config :: hermes_config where
  "sample_hermes_config = \<lparr>hc_DaemonWS = ''ws://127.0.0.1:9742/'', hc_Session = ''hermes'', hc_Harness = [],
     hc_TargetURL = ''http://127.0.0.1:8644/webhooks/attn'', hc_HMACSecret = ''secret'', hc_SignatureHeader = [],
     hc_SessionKeyOverride = []\<rparr>"

definition sample_hermes :: hermes where
  "sample_hermes = \<lparr>hb_cfg = hc_withDefaults sample_hermes_config, hb_tick = 0, hb_seen = [], hb_conn = False,
     hb_posts = [], hb_sent = []\<rparr>"

lemma sample_hermes_New: "hermes_New sample_hermes_config = Inr sample_hermes"
  by (simp add: hermes_New_def sample_hermes_def Let_def) code_simp

definition hello_event :: SurfaceEvent where
  "hello_event = no_surface\<lparr>sf_Type := ''message'', sf_From := ''bob'', sf_Message := ''hi'', sf_MessageID := ''m1'',
     sf_Ts := 1700000000000\<rparr>"


lemma hermes_accepts_once_witness:
  "accepted ''m1'' (snd (run_state (for_each (replicate 3 (marshal (surfaceToFrame hello_event))) (hermes_handleFrame sample_hermes_env))
    sample_hermes)) \<le> 1"
  using hermes_accepts_once [OF sample_hermes_New _ _ refl,
    of "replicate 3 (marshal (surfaceToFrame hello_event))" "''m1''" sample_hermes_env]
  by (simp add: seenCap_def del: marshal.simps)

end
