(* ===== verification/Opencode_Client.thy ===== *)
theory Opencode_Client
  imports Agent_Util Go_Url
begin

text \<open>
  The client of an OpenCode server (\<open>adapters/opencode/client.go\<close>): its requests and the answers it
  understands. The state is its configuration and the requests it made; the HTTP transport, the check
  of a URL and the texts of decoding errors are the world's. An answer is decoded from the part of it
  that is read.
\<close>

record opencode_client =
  oc_baseURL :: string
  oc_password :: string
  oc_tick :: nat
  oc_log :: "http_request list"

record opencode_env =
  oc_do :: "nat \<Rightarrow> http_request \<Rightarrow> string + nat \<times> string"
  oc_url_err :: "string \<Rightarrow> string option"
  oc_json_err :: "string \<Rightarrow> string"

record opencode_session =
  os_ID :: string
  os_Title :: string
  os_Directory :: string
  os_ProjectID :: string
  os_Created :: int
  os_Updated :: int

record opencode_message =
  om_ID :: string
  om_Role :: string
  om_Parts :: "(string \<times> string) list"

definition NewClient :: "string \<Rightarrow> string \<Rightarrow> opencode_client" where
  "NewClient baseURL password = \<lparr>oc_baseURL = trim_right_char (CHR ''/'') (trim_space baseURL),
     oc_password = trim_space password, oc_tick = 0, oc_log = []\<rparr>"

section \<open>Requests\<close>

definition newReq :: "'e opencode_env_scheme \<Rightarrow> opencode_client \<Rightarrow> string \<Rightarrow> string \<Rightarrow> body \<Rightarrow> string + http_request" where
  "newReq e c meth path content = (case oc_url_err e (oc_baseURL c @ path) of
       Some err \<Rightarrow> Inl err
     | None \<Rightarrow> Inr \<lparr>rq_method = meth, rq_url = oc_baseURL c @ path,
         rq_headers = (if content \<noteq> NoBody then [(''Content-Type'', ''application/json'')] else []) @
           (if oc_password c \<noteq> [] then [(''Authorization'', ''Bearer '' @ oc_password c)] else []),
         rq_body = content\<rparr>)"

text \<open>A request and its answer; the second error is the transport's.\<close>

definition oc_request ::
  "'e opencode_env_scheme \<Rightarrow> string \<Rightarrow> string \<Rightarrow> body \<Rightarrow> (opencode_client, string + (string + nat \<times> string)) state" where
  "oc_request e meth path content = State (\<lambda>c. case newReq e c meth path content of
       Inl err \<Rightarrow> (Inl err, c)
     | Inr req \<Rightarrow> (Inr (oc_do e (oc_tick c) req), c\<lparr>oc_tick := oc_tick c + 1, oc_log := oc_log c @ [req]\<rparr>))"

section \<open>Answers\<close>

text \<open>The members of the objects for a nested struct: they are assigned one after the other.\<close>

definition nested :: "string \<Rightarrow> (string \<times> json) list \<Rightarrow> (string \<times> json) list" where
  "nested f kvs = concat (map (\<lambda>v. case v of JObj m \<Rightarrow> m | _ \<Rightarrow> []) (rev (field_values f kvs)))"

text \<open>An array of structs: \<open>null\<close> is the zero struct, and the \<open>nil\<close> slice for the whole.\<close>

definition into_list :: "((string \<times> json) list \<Rightarrow> bool) \<Rightarrow> json \<Rightarrow> (string \<times> json) list list option" where
  "into_list fits j = (case j of
       JNull \<Rightarrow> Some []
     | JList vs \<Rightarrow> if list_all (\<lambda>v. v = JNull \<or> is_obj v \<and> fits (members_of v)) vs then Some (map members_of vs) else None
     | _ \<Rightarrow> None)"

definition session_fits :: "(string \<times> json) list \<Rightarrow> bool" where
  "session_fits kvs \<longleftrightarrow> fields_fit (strings_only [''id'', ''title'', ''directory'', ''projectID'']) kvs \<and>
     list_all is_obj (field_values ''time'' kvs) \<and>
     fields_fit \<lparr>fs_str = [], fs_int = [''created'', ''updated''], fs_bool = [], fs_strs = []\<rparr> (nested ''time'' kvs)"

definition session_of :: "(string \<times> json) list \<Rightarrow> opencode_session" where
  "session_of kvs = \<lparr>os_ID = str_field kvs ''id'', os_Title = str_field kvs ''title'', os_Directory = str_field kvs ''directory'',
     os_ProjectID = str_field kvs ''projectID'', os_Created = int_field (nested ''time'' kvs) ''created'',
     os_Updated = int_field (nested ''time'' kvs) ''updated''\<rparr>"

definition part_fits :: "(string \<times> json) list \<Rightarrow> bool" where
  "part_fits kvs \<longleftrightarrow> fields_fit (strings_only [''type'', ''text'']) kvs"

definition message_fits :: "(string \<times> json) list \<Rightarrow> bool" where
  "message_fits kvs \<longleftrightarrow> list_all is_obj (field_values ''info'' kvs) \<and>
     fields_fit (strings_only [''id'', ''role'']) (nested ''info'' kvs) \<and>
     list_all (\<lambda>v. into_list part_fits v \<noteq> None) (field_values ''parts'' kvs)"

definition message_of :: "(string \<times> json) list \<Rightarrow> opencode_message" where
  "message_of kvs = \<lparr>om_ID = str_field (nested ''info'' kvs) ''id'', om_Role = str_field (nested ''info'' kvs) ''role'',
     om_Parts = (case field_values ''parts'' kvs of
         v # vs \<Rightarrow> map (\<lambda>p. (str_field p ''type'', str_field p ''text'')) (the (into_list part_fits v))
       | _ \<Rightarrow> [])\<rparr>"

text \<open>The text parts of a message, with spaces between them.\<close>

definition message_text :: "opencode_message \<Rightarrow> string" where
  "message_text m = trim_space (join (map snd (filter (\<lambda>(t, x). t = ''text'' \<and> x \<noteq> []) (om_Parts m))) '' '')"

text \<open>What a decoder gives of the first \<open>limit\<close> bytes.\<close>

definition read_answer :: "'e opencode_env_scheme \<Rightarrow> nat \<Rightarrow> (json \<Rightarrow> 'a option) \<Rightarrow> string \<Rightarrow> string + 'a" where
  "read_answer e limit f content = (case decode_first (take limit content) of
       At_eof \<Rightarrow> Inl ''EOF''
     | Bad_json \<Rightarrow> Inl (oc_json_err e content)
     | Decoded j \<Rightarrow> (case f j of None \<Rightarrow> Inl (oc_json_err e content) | Some x \<Rightarrow> Inr x))"

section \<open>Methods\<close>

definition http_status :: "nat \<Rightarrow> string" where
  "http_status n = ''HTTP '' @ nat_str n"

definition Health :: "'e opencode_env_scheme \<Rightarrow> (opencode_client, string + string) state" where
  "Health e = do {
     r \<leftarrow> oc_request e ''GET'' ''/global/health'' NoBody;
     State_Monad.return (case r of
         Inl err \<Rightarrow> Inl err
       | Inr (Inl err) \<Rightarrow> Inl (''opencode health: '' @ err)
       | Inr (Inr (status, content)) \<Rightarrow>
           if status \<noteq> 200 then Inl (''opencode health: '' @ http_status status)
           else (case read_answer e 65536 (into_struct \<lparr>fs_str = [''version''], fs_int = [], fs_bool = [''healthy''], fs_strs = []\<rparr>) content of
               Inl err \<Rightarrow> Inl (''opencode health decode: '' @ err)
             | Inr kvs \<Rightarrow> Inr (str_field kvs ''version'')))
   }"

definition VerifyRoutes :: "'e opencode_env_scheme \<Rightarrow> string \<Rightarrow> (opencode_client, string \<times> string option) state" where
  "VerifyRoutes e wantVersionPrefix = do {
     h \<leftarrow> Health e;
     case h of
       Inl err \<Rightarrow> State_Monad.return ([], Some err)
     | Inr ver \<Rightarrow>
         if wantVersionPrefix \<noteq> [] \<and> \<not> has_prefix ver wantVersionPrefix
         then State_Monad.return (ver, Some (''opencode version '' @ quote ver @ '' does not match expected prefix '' @
           quote wantVersionPrefix @ '' (pin mismatch '' @ em_dash @ '' verify the API contract)''))
         else do {
           r \<leftarrow> oc_request e ''GET'' ''/session'' NoBody;
           State_Monad.return (ver, (case r of
               Inl err \<Rightarrow> Some err
             | Inr (Inl err) \<Rightarrow> Some (''opencode /session probe: '' @ err)
             | Inr (Inr (status, content)) \<Rightarrow> if status \<noteq> 200
                 then Some (''opencode /session route not live ('' @ http_status status @ '') '' @ em_dash @
                   '' API drift; verify routes for this opencode version'') else None))
         }
   }"

definition session_path :: "string \<Rightarrow> string" where
  "session_path directory = ''/session'' @ (if directory \<noteq> [] then ''?directory='' @ QueryEscape directory else [])"

definition ListSessions :: "'e opencode_env_scheme \<Rightarrow> string \<Rightarrow> (opencode_client, string + opencode_session list) state" where
  "ListSessions e directory = do {
     r \<leftarrow> oc_request e ''GET'' (session_path directory) NoBody;
     State_Monad.return (case r of
         Inl err \<Rightarrow> Inl err
       | Inr (Inl err) \<Rightarrow> Inl (''opencode list sessions: '' @ err)
       | Inr (Inr (status, content)) \<Rightarrow>
           if status \<noteq> 200 then Inl (''opencode list sessions: '' @ http_status status)
           else (case read_answer e 4194304 (into_list session_fits) content of
               Inl err \<Rightarrow> Inl (''opencode list sessions decode: '' @ err)
             | Inr ms \<Rightarrow> Inr (map session_of ms)))
   }"

definition CreateSession :: "'e opencode_env_scheme \<Rightarrow> string \<Rightarrow> string \<Rightarrow> (opencode_client, string + opencode_session) state" where
  "CreateSession e directory title = do {
     r \<leftarrow> oc_request e ''POST'' (session_path directory) (RawBody (marshal (JObj [(''title'', JStr title)])));
     State_Monad.return (case r of
         Inl err \<Rightarrow> Inl err
       | Inr (Inl err) \<Rightarrow> Inl (''opencode create session: '' @ err)
       | Inr (Inr (status, content)) \<Rightarrow>
           if status < 200 \<or> 300 \<le> status then Inl (''opencode create session: '' @ http_status status)
           else (case read_answer e 1048576 (\<lambda>j. case j of JNull \<Rightarrow> Some []
                 | JObj kvs \<Rightarrow> if session_fits kvs then Some kvs else None | _ \<Rightarrow> None) content of
               Inl err \<Rightarrow> Inl (''opencode create session decode: '' @ err)
             | Inr kvs \<Rightarrow> if os_ID (session_of kvs) = [] then Inl ''opencode create session: empty id in response''
                 else Inr (session_of kvs)))
   }"

text \<open>The request that injects a text into a session.\<close>

definition prompt_path :: "string \<Rightarrow> string" where
  "prompt_path sessionID = ''/session/'' @ PathEscape sessionID @ ''/prompt_async''"

definition prompt_body :: "string \<Rightarrow> string" where
  "prompt_body text = marshal (JObj [(''parts'', JList [JObj [(''type'', JStr ''text''), (''text'', JStr text)]])])"

definition PromptAsync :: "'e opencode_env_scheme \<Rightarrow> string \<Rightarrow> string \<Rightarrow> (opencode_client, string option) state" where
  "PromptAsync e sessionID text =
     (if sessionID = [] then State_Monad.return (Some ''opencode prompt_async: empty sessionID'')
      else do {
        r \<leftarrow> oc_request e ''POST'' (prompt_path sessionID) (RawBody (prompt_body text));
        State_Monad.return (case r of
            Inl err \<Rightarrow> Some err
          | Inr (Inl err) \<Rightarrow> Some (''opencode prompt_async: '' @ err)
          | Inr (Inr (status, content)) \<Rightarrow> if status < 200 \<or> 300 \<le> status
              then Some (''opencode prompt_async: '' @ http_status status) else None)
      })"

definition opencode_Messages :: "'e opencode_env_scheme \<Rightarrow> string \<Rightarrow> (opencode_client, string + opencode_message list) state" where
  "opencode_Messages e sessionID = do {
     r \<leftarrow> oc_request e ''GET'' (''/session/'' @ PathEscape sessionID @ ''/message'') NoBody;
     State_Monad.return (case r of
         Inl err \<Rightarrow> Inl err
       | Inr (Inl err) \<Rightarrow> Inl (''opencode messages: '' @ err)
       | Inr (Inr (status, content)) \<Rightarrow>
           if status \<noteq> 200 then Inl (''opencode messages: '' @ http_status status)
           else (case read_answer e 16777216 (into_list message_fits) content of
               Inl err \<Rightarrow> Inl (''opencode messages decode: '' @ err)
             | Inr ms \<Rightarrow> Inr (map message_of ms)))
   }"

end
