(* ===== verification/Opencode_Bridge.thy ===== *)
theory Opencode_Bridge
  imports Opencode_Client Hermes_Bridge
begin

text \<open>
  The bridge to OpenCode (\<open>adapters/opencode/bridge.go\<close>, \<open>frames.go\<close>, \<open>render.go\<close>): it subscribes to the daemon as a
  local session, injects what arrives as prompts into one session of an OpenCode server, and relays
  local messages the other way through a buffered channel. The state is the bridge with its client, its
  channel, the connection and the frames written on it. Log lines, deadlines and the waiting of \<open>Run\<close> are
  not modelled; a ping that fails ends the writer as an error of a frame does.
\<close>

section \<open>Frames\<close>

record InboundFrame = inboundFrame +
  if_ReactionFor :: string
  if_To :: string
  if_Delivered :: bool
  if_Detail :: string

definition inbound_fields :: struct_fields where
  "inbound_fields = \<lparr>fs_str = [''type'', ''from'', ''message'', ''id'', ''trust'', ''deliveryMode'', ''agentName'', ''groupId'',
     ''groupName'', ''filename'', ''path'', ''reactionMessageId'', ''to'', ''detail''], fs_int = [''ts'', ''size''],
     fs_bool = [''local'', ''delivered''], fs_strs = []\<rparr>"

definition decode_inbound :: "string \<Rightarrow> InboundFrame option" where
  "decode_inbound data = map_option (\<lambda>kvs. let f = str_field kvs in
     \<lparr>if_Type = f ''type'', if_From = f ''from'', if_Message = f ''message'', if_ID = f ''id'', if_Ts = int_field kvs ''ts'',
       if_Local = bool_field kvs ''local'', if_Trust = f ''trust'', if_DeliveryMode = f ''deliveryMode'',
       if_AgentName = f ''agentName'', if_GroupID = f ''groupId'', if_GroupName = f ''groupName'',
       if_Filename = f ''filename'', if_Path = f ''path'', if_Size = int_field kvs ''size'',
       if_ReactionFor = f ''reactionMessageId'', if_To = f ''to'', if_Delivered = bool_field kvs ''delivered'',
       if_Detail = f ''detail''\<rparr>)
     (unmarshal_struct inbound_fields data)"

text \<open>\<open>reaction_for\<close> is empty and so left out.\<close>

definition newLocalSend :: "string \<Rightarrow> string \<Rightarrow> string" where
  "newLocalSend to msg = marshal_struct
     ([(''type'', JStr ''local''), (''to'', JStr to), (''message'', JStr msg)] @ when_set ''reaction_for'' [])"

definition injectable :: "'a inboundFrame_scheme \<Rightarrow> bool" where
  "injectable f =
     (if if_Type f = ''message'' then if_Message f \<noteq> []
      else if if_Type f = ''file'' then if_Filename f \<noteq> [] \<or> if_Path f \<noteq> []
      else False)"

section \<open>Texts for the session\<close>

definition maxRenderBody :: nat where
  "maxRenderBody = 16384"

definition render_from :: "'a inboundFrame_scheme \<Rightarrow> string" where
  "render_from f =
     (let from = (if if_AgentName f \<noteq> [] \<and> if_AgentName f \<noteq> if_From f
                  then if_AgentName f @ '' ('' @ if_From f @ '')'' else if_From f)
      in if from = [] then ''unknown'' else from)"

definition render_kind :: "'a inboundFrame_scheme \<Rightarrow> string" where
  "render_kind f = (if if_Type f = ''file'' then ''file'' else if if_Local f then ''local message'' else ''message'')"

definition render_scope :: "'a inboundFrame_scheme \<Rightarrow> string" where
  "render_scope f = (if if_GroupID f = [] then []
     else '' '' @ middle_dot @ '' group '' @ (if if_GroupName f = [] then if_GroupID f else if_GroupName f))"

definition render_body :: "'a inboundFrame_scheme \<Rightarrow> string" where
  "render_body f =
     (let content = (if if_Type f = ''file''
            then file_notice (if if_Filename f = [] then if_Path f else if_Filename f) (if_Size f) (if_Path f)
            else if_Message f)
      in if maxRenderBody < length content
         then take maxRenderBody content @ nl @ ellipsis @ ''[truncated]'' else content)"

definition render_header :: "'a inboundFrame_scheme \<Rightarrow> string" where
  "render_header f = envelope @ '' attn inbound '' @ middle_dot @ '' '' @ render_kind f @ '' '' @ middle_dot @
     '' from '' @ render_from f @ render_scope f"

definition Render :: "'a inboundFrame_scheme \<Rightarrow> string" where
  "Render f = render_header f @ nl @ render_body f"

text \<open>The notice of a reaction, in one line.\<close>

definition reaction_notice :: "InboundFrame \<Rightarrow> string" where
  "reaction_notice f =
     (let from = (if if_AgentName f \<noteq> [] then if_AgentName f else if_From f);
          from = (if from = [] then ''unknown'' else from)
      in envelope @ '' attn reaction '' @ middle_dot @ '' '' @ from @ '' reacted '' @ if_Message f @
         (if if_ReactionFor f \<noteq> [] then '' to message '' @ if_ReactionFor f else []))"

section \<open>State\<close>

definition bridgeSendBuffer :: nat where
  "bridgeSendBuffer = 64"

text \<open>\<open>ob_acks\<close> is what \<open>OnAck\<close> was called with, \<open>ob_wire\<close> the frames written, each with its connection. The channel
  is there once the bridge has started; the writer of a connection runs while \<open>ob_pumping\<close>.\<close>

record opencode_bridge =
  ob_Name :: string
  ob_Harness :: string
  ob_SessionID :: string
  ob_DaemonHTTP :: string
  ob_Renderer :: "(InboundFrame \<Rightarrow> string) option"
  ob_client :: opencode_client
  ob_acks :: "InboundFrame list"
  ob_conn :: "nat option"
  ob_sendCh :: "string list option"
  ob_pumping :: bool
  ob_tick :: nat
  ob_wire :: "(nat \<times> string) list"

text \<open>A parsed daemon URL: its scheme, host, path and query, and what else its text has, the user in front of
  the host and the fragment.\<close>

record daemon_url =
  du_Scheme :: string
  du_User :: string
  du_Host :: string
  du_Path :: string
  du_Query :: query
  du_Fragment :: string

record bridge_env = opencode_env +
  daemon_parse :: "string \<Rightarrow> string + daemon_url"
  frame_write_err :: "nat \<Rightarrow> string option"

definition ob_renderer :: "opencode_bridge \<Rightarrow> InboundFrame \<Rightarrow> string" where
  "ob_renderer b = (case ob_Renderer b of Some r \<Rightarrow> r | None \<Rightarrow> Render)"

definition ob_wsURL :: "'e bridge_env_scheme \<Rightarrow> opencode_bridge \<Rightarrow> string + string" where
  "ob_wsURL e b = (case daemon_parse e (ob_DaemonHTTP b) of
       Inl err \<Rightarrow> Inl (''parse daemon url '' @ quote (ob_DaemonHTTP b) @ '': '' @ err)
     | Inr u \<Rightarrow>
         if du_Scheme u \<notin> {[], ''http'', ''https'', ''ws'', ''wss''}
         then Inl (''unsupported daemon scheme '' @ quote (du_Scheme u))
         else if du_Host u = [] then Inl (''daemon url '' @ quote (ob_DaemonHTTP b) @ '' has no host'')
         else (let scheme = (if du_Scheme u \<in> {[], ''http''} then ''ws''
                     else if du_Scheme u = ''https'' then ''wss'' else du_Scheme u);
                   q = values_set ''session'' (ob_Name b) (du_Query u);
                   q = (if ob_Harness b = [] then q else values_set ''harness'' (ob_Harness b) q)
               in Inr (scheme @ ''://'' @ du_User u @ du_Host u @ (if du_Path u = [] then ''/'' else du_Path u) @
                    ''?'' @ values_encode q @ du_Fragment u)))"

text \<open>The start of \<open>Run\<close>: the bridge with its channel and the URL it dials, or the error it returns.\<close>

definition initOnce :: "(opencode_bridge, unit) state" where
  "initOnce = modify (\<lambda>b. if ob_sendCh b = None then b\<lparr>ob_sendCh := Some []\<rparr> else b)"

definition run_start :: "'e bridge_env_scheme \<Rightarrow> (opencode_bridge, string + string) state" where
  "run_start e = do {
     b \<leftarrow> gets id;
     if ob_Name b = [] then State_Monad.return (Inl ''bridge: Name is required (it is the local-mesh session name)'')
     else if ob_SessionID b = [] then State_Monad.return (Inl ''bridge: SessionID is required (the opencode session to inject into)'')
     else do {
       initOnce;
       State_Monad.return (ob_wsURL e b)
     }
   }"

section \<open>Outbound\<close>

definition ob_SendLocal :: "string \<Rightarrow> string \<Rightarrow> (opencode_bridge, string option) state" where
  "ob_SendLocal to msg = do {
     initOnce;
     q \<leftarrow> gets (\<lambda>b. the (ob_sendCh b));
     if length q < bridgeSendBuffer then do {
       modify (\<lambda>b. b\<lparr>ob_sendCh := Some (q @ [newLocalSend to msg])\<rparr>);
       State_Monad.return None
     } else State_Monad.return (Some (''bridge send buffer full (not connected, or backpressure) '' @ em_dash @
         '' dropped send to '' @ quote to))
   }"

text \<open>One round of the writer: it takes a frame from the channel and writes it, or ends.\<close>

definition ob_writePump :: "'e bridge_env_scheme \<Rightarrow> (opencode_bridge, unit) state" where
  "ob_writePump e = modify (\<lambda>b. case (ob_conn b, ob_sendCh b) of
       (Some c, Some (m # q)) \<Rightarrow>
         if \<not> ob_pumping b then b
         else if frame_write_err e (ob_tick b) \<noteq> None
         then b\<lparr>ob_tick := ob_tick b + 1, ob_sendCh := Some q, ob_pumping := False\<rparr>
         else b\<lparr>ob_tick := ob_tick b + 1, ob_sendCh := Some q, ob_wire := ob_wire b @ [(c, m)]\<rparr>
     | _ \<Rightarrow> b)"

section \<open>Inbound\<close>

definition on_client :: "(opencode_client, 'a) state \<Rightarrow> (opencode_bridge, 'a) state" where
  "on_client m = zoom ob_client (\<lambda>c b. b\<lparr>ob_client := c\<rparr>) m"

definition injectReaction :: "'e bridge_env_scheme \<Rightarrow> InboundFrame \<Rightarrow> (opencode_bridge, unit) state" where
  "injectReaction e f = do {
     sid \<leftarrow> gets ob_SessionID;
     on_client (PromptAsync e sid (reaction_notice f));
     State_Monad.return ()
   }"

definition HandleRaw :: "'e bridge_env_scheme \<Rightarrow> string \<Rightarrow> (opencode_bridge, unit) state" where
  "HandleRaw e data = (case decode_inbound data of
       None \<Rightarrow> State_Monad.return ()
     | Some f \<Rightarrow>
         if if_Type f = ''local-ack'' then modify (\<lambda>b. b\<lparr>ob_acks := ob_acks b @ [f]\<rparr>)
         else do {
           b \<leftarrow> gets id;
           if if_From f \<noteq> [] \<and> if_From f = ob_Name b then State_Monad.return ()
           else if if_Trust f = ''reaction'' then injectReaction e f
           else if \<not> injectable f then State_Monad.return ()
           else do {
             on_client (PromptAsync e (ob_SessionID b) (ob_renderer b f));
             State_Monad.return ()
           }
         })"

section \<open>Connections\<close>

definition setConn :: "nat \<Rightarrow> (opencode_bridge, unit) state" where
  "setConn c = modify (\<lambda>b. b\<lparr>ob_conn := Some c\<rparr>)"

definition clearConn :: "nat \<Rightarrow> (opencode_bridge, unit) state" where
  "clearConn c = modify (\<lambda>b. if ob_conn b = Some c then b\<lparr>ob_conn := None\<rparr> else b)"

text \<open>The two ends of \<open>runConn\<close>: after the dial, and after the reader has returned and the writer is joined.\<close>

definition conn_open :: "nat \<Rightarrow> (opencode_bridge, unit) state" where
  "conn_open c = do {
     setConn c;
     modify (\<lambda>b. b\<lparr>ob_pumping := True\<rparr>)
   }"

definition conn_close :: "nat \<Rightarrow> (opencode_bridge, unit) state" where
  "conn_close c = do {
     modify (\<lambda>b. b\<lparr>ob_pumping := False\<rparr>);
     clearConn c
   }"

text \<open>What can happen to a running bridge, and what a run of it does; a frame is read while connected.\<close>

datatype bridge_event = Dialled nat | Received string | Local_send string string | Writer | Ping_failed | Conn_ended nat

fun run_event :: "'e bridge_env_scheme \<Rightarrow> bridge_event \<Rightarrow> (opencode_bridge, unit) state" where
  "run_event e (Dialled c) = conn_open c"
| "run_event e (Received data) = do {
     c \<leftarrow> gets ob_conn;
     if c = None then State_Monad.return () else HandleRaw e data
   }"
| "run_event e (Local_send to msg) = do {
     ob_SendLocal to msg;
     State_Monad.return ()
   }"
| "run_event e Writer = ob_writePump e"
| "run_event e Ping_failed = modify (\<lambda>b. b\<lparr>ob_pumping := False\<rparr>)"
| "run_event e (Conn_ended c) = conn_close c"

end
