(* ===== verification/Opencode_Props.thy ===== *)
theory Opencode_Props
  imports Surface_Frames Opencode_Bridge "HOL-Library.Sublist"
begin

text \<open>
  Properties of the bridge to OpenCode: what the daemon surfaces becomes one prompt, nothing else does,
  the text says where it came from, and local messages of the session leave in their order and are
  what the daemon routes.
\<close>

section \<open>Inbound\<close>

definition inbound_of :: "SurfaceEvent \<Rightarrow> InboundFrame" where
  "inbound_of ev = inboundFrame.extend (frame_of ev)
     \<lparr>if_ReactionFor = sf_ReactionFor ev, if_To = [], if_Delivered = False, if_Detail = []\<rparr>"

lemma inbound_decoded:
  assumes "int64_range (sf_Ts ev)" "int64_range (int (sf_Size ev))"
  shows "decode_inbound (marshal (surfaceToFrame ev)) = Some (inbound_of ev)"
proof -
  have "fields_fit inbound_fields (surface_text ev)"
    using assms by (simp add: fields_fit_def inbound_fields_def surface_field_values is_str_def is_int64_def is_bool_def)
  then have "unmarshal_struct inbound_fields (marshal (surfaceToFrame ev)) = Some (surface_text ev)"
    by (simp add: unmarshal_struct_def surface_parsed into_struct_def)
  then show ?thesis
    by (simp add: frame_of_def inbound_of_def inboundFrame.defs decode_inbound_def Let_def str_field_def int_field_def bool_field_def surface_field_values the_str_def)
qed

lemma inbound_of_fields [simp]:
  "if_Type (inbound_of ev) = sf_Type ev" "if_From (inbound_of ev) = sf_From ev" "if_ID (inbound_of ev) = sf_MessageID ev"
  "if_Message (inbound_of ev) = (if sf_Type ev = ''file'' then [] else sf_Message ev)"
  "if_Local (inbound_of ev) = sf_Local ev" "if_Trust (inbound_of ev) = sf_Trust ev"
  "if_AgentName (inbound_of ev) = sf_FromName ev" "if_GroupID (inbound_of ev) = sf_GroupID ev"
  "if_GroupName (inbound_of ev) = sf_GroupName ev"
  "if_Filename (inbound_of ev) = (if sf_Type ev = ''file'' then sf_Filename ev else [])"
  "if_Path (inbound_of ev) = (if sf_Type ev = ''file'' then sf_Path ev else [])"
  "if_Size (inbound_of ev) = (if sf_Type ev = ''file'' then int (sf_Size ev) else 0)"
  "if_ReactionFor (inbound_of ev) = sf_ReactionFor ev"
  by (simp_all add: inbound_of_def frame_of_def inboundFrame.defs)

text \<open>One prompt.\<close>

definition prompt_request :: "opencode_client \<Rightarrow> string \<Rightarrow> string \<Rightarrow> http_request" where
  "prompt_request c sid text = \<lparr>rq_method = ''POST'', rq_url = oc_baseURL c @ prompt_path sid,
     rq_headers = (''Content-Type'', ''application/json'') #
       (if oc_password c \<noteq> [] then [(''Authorization'', ''Bearer '' @ oc_password c)] else []),
     rq_body = RawBody (prompt_body text)\<rparr>"

lemma run_PromptAsync:
  "snd (run_state (PromptAsync e sid text) c) =
     (if sid = [] \<or> oc_url_err e (oc_baseURL c @ prompt_path sid) \<noteq> None then c
      else c\<lparr>oc_tick := oc_tick c + 1, oc_log := oc_log c @ [prompt_request c sid text]\<rparr>)"
  by (auto simp: PromptAsync_def oc_request_def newReq_def prompt_request_def split: option.split)

lemma prompt_read_back:
  "json_parse (prompt_body text) = Some (JObj [(''parts'', JList [JObj [(''text'', JStr text), (''type'', JStr ''text'')]])])"
proof -
  have "canon (JObj [(''parts'', JList [JObj [(''type'', JStr ''text''), (''text'', JStr text)]])]) =
      JObj [(''parts'', JList [JObj [(''text'', JStr text), (''type'', JStr ''text'')]])]"
    by (simp add: sort_key_def insort_key.simps) 
  then show ?thesis
    unfolding prompt_body_def by (subst json_parse_marshal) (simp_all add: maxNestingDepth_def)
qed

lemma surfaced_prompt:
  assumes "int64_range (sf_Ts ev)" "int64_range (int (sf_Size ev))"
    and "sf_Type ev = ''message'' \<and> sf_Message ev \<noteq> [] \<or> sf_Type ev = ''file'' \<and> sf_Filename ev \<noteq> []"
    and "sf_From ev = [] \<or> sf_From ev \<noteq> ob_Name b" "ob_SessionID b \<noteq> []" "ob_Renderer b = None"
    and "oc_url_err e (oc_baseURL (ob_client b) @ prompt_path (ob_SessionID b)) = None"
    and "text = (if sf_Trust ev = ''reaction'' then reaction_notice (inbound_of ev) else Render (inbound_of ev))"
  shows "snd (run_state (HandleRaw e (marshal (surfaceToFrame ev))) b) =
    b\<lparr>ob_client := (ob_client b)\<lparr>oc_tick := oc_tick (ob_client b) + 1,
      oc_log := oc_log (ob_client b) @ [prompt_request (ob_client b) (ob_SessionID b) text]\<rparr>\<rparr>"
proof -
  have "injectable (inbound_of ev)" "sf_Type ev \<noteq> ''local-ack''" using assms(3) by (auto simp: injectable_def)
  then show ?thesis
    using assms(4-7) unfolding assms(8)
    by (simp add: HandleRaw_def inbound_decoded [OF assms(1,2)] injectReaction_def on_client_def run_zoom ob_renderer_def
        run_PromptAsync case_prod_beta del: marshal.simps)
qed


text \<open>Nothing else reaches the session: whatever text arrives, the bridge makes at most one request, and it
  makes one only for a frame that is no acknowledgement, does not come from this session and is a
  message with a body, a file, or a reaction; every other frame leaves the client as it was.\<close>

theorem opencode_injects_only:
  assumes "oc_log (ob_client (snd (run_state (HandleRaw e data) b))) \<noteq> oc_log (ob_client b)"
  shows "\<exists>f. decode_inbound data = Some f \<and> if_Type f \<noteq> ''local-ack'' \<and> (if_From f = [] \<or> if_From f \<noteq> ob_Name b) \<and>
    (if_Trust f = ''reaction'' \<or> if_Type f = ''message'' \<and> if_Message f \<noteq> [] \<or>
      if_Type f = ''file'' \<and> (if_Filename f \<noteq> [] \<or> if_Path f \<noteq> [])) \<and>
    oc_log (ob_client (snd (run_state (HandleRaw e data) b))) = oc_log (ob_client b) @
      [prompt_request (ob_client b) (ob_SessionID b)
        (if if_Trust f = ''reaction'' then reaction_notice f else ob_renderer b f)]"
proof (cases "decode_inbound data")
  case None
  with assms show ?thesis by (simp add: HandleRaw_def)
next
  case (Some f)
  show ?thesis
    using assms
    by (auto simp: Some HandleRaw_def injectReaction_def on_client_def run_zoom injectable_def run_PromptAsync
        case_prod_beta split: if_splits)
qed

section \<open>Outbound\<close>

definition queued :: "opencode_bridge \<Rightarrow> string list" where
  "queued b = (case ob_sendCh b of None \<Rightarrow> [] | Some q \<Rightarrow> q)"

definition outgoing :: "opencode_bridge \<Rightarrow> string list" where
  "outgoing b = map snd (ob_wire b) @ queued b"

text \<open>The frames a run of events accepted for sending.\<close>

definition accepts :: "bridge_event \<Rightarrow> opencode_bridge \<Rightarrow> string list" where
  "accepts ev b = (case ev of
       Local_send to msg \<Rightarrow> (if fst (run_state (ob_SendLocal to msg) b) = None then [newLocalSend to msg] else [])
     | _ \<Rightarrow> [])"

fun all_accepted :: "'e bridge_env_scheme \<Rightarrow> bridge_event list \<Rightarrow> opencode_bridge \<Rightarrow> string list" where
  "all_accepted e [] b = []"
| "all_accepted e (ev # evs) b = accepts ev b @ all_accepted e evs (snd (run_state (run_event e ev) b))"

definition dials :: "bridge_event list \<Rightarrow> nat" where
  "dials evs = length (filter (\<lambda>ev. case ev of Dialled c \<Rightarrow> True | _ \<Rightarrow> False) evs)"

text \<open>What one event does to the frames on their way: at most the head of the queue is lost, with the writer.\<close>

definition step_ok :: "'e bridge_env_scheme \<Rightarrow> bridge_event \<Rightarrow> opencode_bridge \<Rightarrow> opencode_bridge \<Rightarrow> bool" where
  "step_ok e ev b b' \<longleftrightarrow> subseq (outgoing b') (outgoing b @ accepts ev b) \<and>
     length (outgoing b @ accepts ev b) + of_bool (ob_pumping b') \<le> length (outgoing b') + dials [ev] + of_bool (ob_pumping b) \<and>
     ((\<forall>n. frame_write_err e n = None) \<longrightarrow> outgoing b' = outgoing b @ accepts ev b) \<and>
     (length (queued b) \<le> bridgeSendBuffer \<longrightarrow> length (queued b') \<le> bridgeSendBuffer)"

lemma step_ok_still:
  assumes "ob_wire b' = ob_wire b" "ob_sendCh b' = ob_sendCh b" "ob_pumping b' \<longrightarrow> ob_pumping b \<or> dials [ev] = 1"
    "accepts ev b = []"
  shows "step_ok e ev b b'"
  using assms by (auto simp: step_ok_def outgoing_def queued_def)

lemma HandleRaw_still:
  "ob_wire (snd (run_state (HandleRaw e data) b)) = ob_wire b" "ob_sendCh (snd (run_state (HandleRaw e data) b)) = ob_sendCh b"
  "ob_pumping (snd (run_state (HandleRaw e data) b)) = ob_pumping b"
  by (auto simp: HandleRaw_def injectReaction_def on_client_def run_zoom case_prod_beta split: option.split)

lemma writePump_ok: "step_ok e Writer b (snd (run_state (ob_writePump e) b))"
  by (cases "ob_sendCh b"; cases "ob_conn b")
    (auto simp: step_ok_def ob_writePump_def outgoing_def queued_def accepts_def dials_def
      intro!: list_emb_append_mono split: list.split)

lemma SendLocal_ok: "step_ok e (Local_send to msg) b (snd (run_state (ob_SendLocal to msg) b))"
  by (cases "ob_sendCh b")
    (auto simp: step_ok_def ob_SendLocal_def initOnce_def outgoing_def queued_def accepts_def dials_def bridgeSendBuffer_def)

lemma event_ok: "step_ok e ev b (snd (run_state (run_event e ev) b))"
proof (cases ev)
  case (Local_send to msg)
  then show ?thesis using SendLocal_ok [of e to msg b] by (simp add: case_prod_beta)
next
  case Writer
  then show ?thesis using writePump_ok by simp
next
  case (Received data)
  then show ?thesis by (intro step_ok_still) (simp_all add: HandleRaw_still accepts_def)
next
  case (Dialled c)
  then show ?thesis by (intro step_ok_still) (simp_all add: conn_open_def setConn_def accepts_def dials_def)
next
  case Ping_failed
  then show ?thesis by (intro step_ok_still) (simp_all add: accepts_def)
next
  case (Conn_ended c)
  then show ?thesis by (intro step_ok_still) (simp_all add: conn_close_def clearConn_def accepts_def)
qed

lemma events_ok:
  fixes e :: "'e bridge_env_scheme"
  defines "after evs b \<equiv> snd (run_state (for_each evs (run_event e)) b)"
  shows "subseq (outgoing (after evs b)) (outgoing b @ all_accepted e evs b) \<and>
    length (outgoing b @ all_accepted e evs b) + of_bool (ob_pumping (after evs b))
      \<le> length (outgoing (after evs b)) + dials evs + of_bool (ob_pumping b) \<and>
    ((\<forall>n. frame_write_err e n = None) \<longrightarrow> outgoing (after evs b) = outgoing b @ all_accepted e evs b) \<and>
    (length (queued b) \<le> bridgeSendBuffer \<longrightarrow> length (queued (after evs b)) \<le> bridgeSendBuffer)"
proof (induction evs arbitrary: b)
  case (Cons ev evs)
  let ?b = "snd (run_state (run_event e ev) b)"
  have after: "after (ev # evs) b = after evs ?b" by (simp add: after_def case_prod_beta)
  have step: "step_ok e ev b ?b" by (rule event_ok)
  have dials: "dials (ev # evs) = dials [ev] + dials evs" by (simp add: dials_def)
  have "subseq (outgoing ?b @ all_accepted e evs ?b) ((outgoing b @ accepts ev b) @ all_accepted e evs ?b)"
    using step by (simp add: step_ok_def list_emb_append_mono del: append_assoc)
  with Cons.IH [of ?b] have "subseq (outgoing (after (ev # evs) b)) (outgoing b @ all_accepted e (ev # evs) b)"
    by (auto simp: after intro: subseq_order.order_trans)
  then show ?case using Cons.IH [of ?b] step unfolding after by (auto simp: step_ok_def dials)
qed (simp add: after_def dials_def)

text \<open>Local messages of the session leave in their order: whatever happens to a bridge, the frames on the wire
  and then those in the channel are a subsequence of what \<open>SendLocal\<close> accepted, in the same order; at
  most one accepted frame is lost for each connection that was dialled, none when no write fails, and
  the channel never holds more than its 64 frames.\<close>

theorem local_sends_in_order:
  assumes "ob_sendCh b = None" "ob_wire b = []" "\<not> ob_pumping b"
    and b': "b' = snd (run_state (for_each evs (run_event e)) b)"
  shows "subseq (map snd (ob_wire b') @ queued b') (all_accepted e evs b) \<and>
    length (all_accepted e evs b) \<le> length (ob_wire b') + length (queued b') + dials evs \<and>
    ((\<forall>n. frame_write_err e n = None) \<longrightarrow> map snd (ob_wire b') @ queued b' = all_accepted e evs b) \<and>
    length (queued b') \<le> bridgeSendBuffer"
proof -
  have "outgoing b = []" "length (queued b) \<le> bridgeSendBuffer"
    using assms(1,2) by (simp_all add: outgoing_def queued_def)
  with events_ok [where evs = evs and b = b and e = e] assms(3) show ?thesis
    unfolding b' [symmetric] by (auto simp: outgoing_def)
qed

section \<open>The text of a frame\<close>

definition one_line :: "string \<Rightarrow> bool" where
  "one_line s \<longleftrightarrow> CHR 0x0A \<notin> set s"

lemma one_line_simps [simp]:
  "one_line []" "one_line (a @ b) \<longleftrightarrow> one_line a \<and> one_line b" "one_line (c # s) \<longleftrightarrow> c \<noteq> CHR 0x0A \<and> one_line s"
  by (auto simp: one_line_def)

lemma one_line_header:
  assumes "one_line (if_From f)" "one_line (if_AgentName f)" "one_line (if_GroupID f)" "one_line (if_GroupName f)"
  shows "one_line (render_header f)"
  using assms by (auto simp: render_header_def render_kind_def render_from_def render_scope_def envelope_def middle_dot_def Let_def)

lemma takeWhile_line: "one_line a \<Longrightarrow> takeWhile (\<lambda>c. c \<noteq> CHR 0x0A) (a @ nl @ b) = a"
  by (induction a) (auto simp: nl_def)


section \<open>Witnesses\<close>

definition sample_bridge_env :: bridge_env where
  "sample_bridge_env = \<lparr>oc_do = (\<lambda>n r. Inr (204, [])), oc_url_err = (\<lambda>u. None), oc_json_err = (\<lambda>s. s),
     daemon_parse = (\<lambda>s. Inl s), frame_write_err = (\<lambda>n. if n = 0 then Some ''broken pipe'' else None)\<rparr>"

definition sample_bridge :: opencode_bridge where
  "sample_bridge = \<lparr>ob_Name = ''oc'', ob_Harness = ''opencode'', ob_SessionID = ''ses_1'', ob_DaemonHTTP = ''http://127.0.0.1:9742'',
     ob_Renderer = None, ob_client = NewClient ''http://127.0.0.1:4096/'' [], ob_acks = [], ob_conn = None, ob_sendCh = None,
     ob_pumping = False, ob_tick = 0, ob_wire = []\<rparr>"

definition greeting :: SurfaceEvent where
  "greeting = no_surface\<lparr>sf_Type := ''message'', sf_From := ''bob'', sf_Message := ''hi'', sf_MessageID := ''m1''\<rparr>"


lemma opencode_injects_only_witness:
  "\<exists>f. decode_inbound (marshal (surfaceToFrame greeting)) = Some f \<and> if_Type f \<noteq> ''local-ack''"
proof -
  have "decode_inbound (marshal (surfaceToFrame greeting)) = Some (inbound_of greeting)"
    by (rule inbound_decoded) (simp_all add: greeting_def no_surface_def int64_range_def)
  then have "oc_log (ob_client (snd (run_state (HandleRaw sample_bridge_env (marshal (surfaceToFrame greeting))) sample_bridge))) \<noteq>
      oc_log (ob_client sample_bridge)"
    by (simp add: HandleRaw_def on_client_def run_zoom injectable_def run_PromptAsync case_prod_beta greeting_def no_surface_def
        sample_bridge_def sample_bridge_env_def del: marshal.simps)
  from opencode_injects_only [OF this] show ?thesis by blast
qed

lemma local_sends_in_order_witness:
  "map snd (ob_wire (snd (run_state (for_each [Dialled 1, Local_send ''a'' ''1'', Local_send ''a'' ''2'', Writer, Conn_ended 1, Dialled 2, Writer]
      (run_event sample_bridge_env)) sample_bridge))) = [newLocalSend ''a'' ''2''] \<and>
   length (all_accepted sample_bridge_env [Dialled 1, Local_send ''a'' ''1'', Local_send ''a'' ''2'', Writer, Conn_ended 1, Dialled 2, Writer]
     sample_bridge) \<le> 3"
  using local_sends_in_order [of sample_bridge _ "[Dialled 1, Local_send ''a'' ''1'', Local_send ''a'' ''2'', Writer, Conn_ended 1, Dialled 2, Writer]"
      sample_bridge_env, OF _ _ _ refl]
  by (simp add: sample_bridge_def sample_bridge_env_def conn_open_def setConn_def conn_close_def clearConn_def ob_SendLocal_def initOnce_def
      ob_writePump_def bridgeSendBuffer_def queued_def dials_def)


end
