(* ===== verification/Mesh_Journey.thy ===== *)
theory Mesh_Journey
  imports Http_Props Hermes_Props Opencode_Props
begin

text \<open>
  The way of a local message between two sessions, through all the parts on it: a bridge, the hub of the
  daemon, its registry, the queue of the other subscriber and the bridge there.
\<close>

section \<open>From a bridge to another session\<close>

lemma local_send_read:
  assumes "data = newLocalSend to msg \<or> data = marshal (JObj [(''type'', JStr ''local''), (''to'', JStr to), (''message'', JStr msg)])"
  shows "\<exists>kvs. unmarshal_struct (strings_only clientFrame_fields) data = Some kvs \<and> str_field kvs ''type'' = ''local'' \<and>
    str_field kvs ''to'' = to \<and> str_field kvs ''message'' = msg \<and> str_field kvs ''text'' = [] \<and> str_field kvs ''reaction_for'' = []"
proof -
  define kvs where "kvs = [(''type'', JStr ''local''), (''to'', JStr to), (''message'', JStr msg)]"
  define kvs' where "kvs' = [(''message'', JStr msg), (''to'', JStr to), (''type'', JStr ''local'')]"
  have parsed: "json_parse data = Some (JObj kvs) \<or> json_parse data = Some (JObj kvs')"
    using assms
  proof
    assume "data = newLocalSend to msg"
    then show ?thesis
      by (simp add: newLocalSend_def when_set_def json_parse_struct maxNestingDepth_def kvs_def)
  next
    assume "data = marshal (JObj [(''type'', JStr ''local''), (''to'', JStr to), (''message'', JStr msg)])"
    then show ?thesis
      by (simp add: json_parse_marshal maxNestingDepth_def kvs'_def sort_key_def insort_key.simps del: marshal.simps)
  qed
  have "into_struct (strings_only clientFrame_fields) (JObj m) = Some m \<and> str_field m ''type'' = ''local'' \<and>
    str_field m ''to'' = to \<and> str_field m ''message'' = msg \<and> str_field m ''text'' = [] \<and> str_field m ''reaction_for'' = []"
    if "m = kvs \<or> m = kvs'" for m
    using that by (elim disjE) (simp_all add: kvs_def kvs'_def into_struct_def strings_only_def clientFrame_fields_def
        fields_fit_def str_field_def field_values_matching matching_simps fold_names is_str_def the_str_def)
  with parsed show ?thesis by (auto simp: unmarshal_struct_def)
qed

text \<open>What a bridge sends for its session is what the daemon routes: a frame that \<open>SendLocal\<close> of either bridge
  accepts is read by the hub, from a subscriber with a session name, as the local message with this
  recipient and this text under that name, whatever their characters.\<close>

theorem bridges_send_local:
  assumes "map_of (clients s) i = Some c" "wc_session c \<noteq> []"
    and "run_state (ob_SendLocal to msg) b = (None, b')"
    and "run_state (hermes_SendLocal he to msg) h = (None, h')"
  shows "run_state (handleClientFrame e i (last (queued b'))) s = run_state (route_local e i (wc_session c) to msg []) s \<and>
    run_state (handleClientFrame e i (last (hb_sent h'))) s = run_state (route_local e i (wc_session c) to msg []) s"
proof -
  have read: "run_state (handleClientFrame e i data) s = run_state (route_local e i (wc_session c) to msg []) s"
    if data: "data = newLocalSend to msg \<or> data = marshal (JObj [(''type'', JStr ''local''), (''to'', JStr to), (''message'', JStr msg)])" for data
    using local_send_read [OF data] assms(1,2) by (auto simp: handleClientFrame_def)
  have "last (queued b') = newLocalSend to msg"
    using assms(3) by (auto simp: ob_SendLocal_def initOnce_def queued_def split: if_splits)
  moreover have "last (hb_sent h') = marshal (JObj [(''type'', JStr ''local''), (''to'', JStr to), (''message'', JStr msg)])"
    using assms(4) by (auto simp: hermes_SendLocal_def simp del: marshal.simps split: if_splits option.splits)
  ultimately show ?thesis using read by simp
qed

section \<open>From session to session\<close>

text \<open>What the hub puts in the queue of a subscriber for a local frame.\<close>

definition local_event :: "Frame \<Rightarrow> SurfaceEvent" where
  "local_event f = no_surface\<lparr>sf_Type := ''message'', sf_From := f_From f, sf_Message := f_Text f, sf_MessageID := f_ID f,
     sf_Ts := f_Ts f, sf_Local := True, sf_Trust := ''local'', sf_DeliveryMode := ''steer'', sf_ReactionFor := f_ReactionFor f\<rparr>"

lemma trySend_queue:
  assumes "map_of (clients s) j = Some c"
  shows "map_of (clients (snd (run_state (trySend i d) s))) j = Some (if i = j then snd (try_send d c) else c)"
  using assms by (auto simp: trySend_def case_prod_beta update_conv' split: option.split)

lemma route_local_delivers:
  assumes "mesh (ag s) = Some r" "map_of (entries r) (trim_space to) = Some p" "e_deliver (heap r ! p) = Some (WS_Client j)"
    and "map_of (clients s) j = Some c" "i \<noteq> j" "deliver_err e (m_tick r) = None" "to \<noteq> ''all''"
  shows "\<exists>mid. map_of (clients (snd (run_state (route_local e i a to msg x) s))) j = Some (snd (try_send
    (surfaceToFrame (local_event \<lparr>f_ID = mid, f_From = a, f_FromAddress = [], f_Text = msg,
       f_Ts = agent_clock e (a_tick (ag s)), f_Broadcast = False, f_ReactionFor = x\<rparr>)) c))"
  using assms
  by (intro exI [of _ "uuid e (x_tick (sess (ag s)))"])
    (auto simp: route_local_def Let_def run_on_agent on_session_def run_zoom newID_def sess_tick_def agent_now_def
      agent_step_tick_def delivered_count_def local_mesh_def Route_def Resolve_def Lookup_def Deliver_def mesh_tick_def
      push_delivered_def wsDeliverer_Deliver_def local_event_def trySend_queue case_prod_beta)


section \<open>Witnesses\<close>

definition alice_request :: http_req where
  "alice_request = ws_request\<lparr>h_query := (\<lambda>k. if k = ''session'' then ''alice'' else [])\<rparr>"

definition two_sessions :: server where
  "two_sessions = snd (run_state (hostGuard sample_server_env alice_request) sample_server)"

lemma two_sessions_reachable: "(server_step sample_server_env)\<^sup>*\<^sup>* (boot ''main'') two_sessions"
  unfolding two_sessions_def
  by (rule rtranclp.rtrancl_into_rtrancl [OF sample_server_reachable server_step.request])

lemma two_sessions_clients:
  "clients two_sessions = [(0, \<lparr>wc_session = ''bob'', wc_harness = [], wc_send = [], wc_done = False, wc_release = Some 0\<rparr>),
    (1, \<lparr>wc_session = ''alice'', wc_harness = [], wc_send = [], wc_done = False, wc_release = Some 1\<rparr>)]"
  by code_simp

lemma two_sessions_registry:
  "map_option (\<lambda>r. (map_of (entries r) ''bob'', map (\<lambda>x. e_deliver x) (heap r), m_tick r)) (mesh (ag two_sessions)) =
    Some (Some 0, [Some (WS_Client 0), Some (WS_Client 1)], 2)"
  by code_simp

definition bob_bridge :: opencode_bridge where
  "bob_bridge = sample_bridge\<lparr>ob_Name := ''bob''\<rparr>"


lemma bridges_send_local_witness:
  "run_state (handleClientFrame sample_server_env 1 (newLocalSend ''bob'' ''hi'')) two_sessions =
   run_state (route_local sample_server_env 1 ''alice'' ''bob'' ''hi'' []) two_sessions"
proof -
  obtain ca where c: "map_of (clients two_sessions) 1 = Some ca" "wc_session ca = ''alice''"
    by (simp add: two_sessions_clients)
  obtain b' where b': "run_state (ob_SendLocal ''bob'' ''hi'') sample_bridge = (None, b')" "last (queued b') = newLocalSend ''bob'' ''hi''"
    by (simp add: ob_SendLocal_def initOnce_def queued_def sample_bridge_def bridgeSendBuffer_def)
  obtain h' where h': "run_state (hermes_SendLocal sample_hermes_env ''bob'' ''hi'') (sample_hermes\<lparr>hb_conn := True\<rparr>) = (None, h')"
    by (simp add: hermes_SendLocal_def sample_hermes_env_def)
  show ?thesis
    using bridges_send_local [OF c(1) _ b'(1) h', of sample_server_env] c(2) b'(2) by simp
qed

end
