(* ===== verification/Config.thy ===== *)
theory Config
  imports Agent_Files
begin

text \<open>
  The configuration (\<open>internal/config/config.go\<close>), the loading of an identity (\<open>internal/identity\<close>) and the
  start of the daemon up to its database (\<open>cmd/attnd/main.go\<close>): where the files are, which key is used, and
  when a new one is written. The environment, the Ethereum library and the failures of the file system
  are the fields of \<open>config_env\<close>; the files with their permissions are the state.
\<close>

section \<open>The world\<close>

record config_env =
  conf_env :: "string \<Rightarrow> string"
  UserConfigDir :: "string + string"
  mkdir_err :: "string \<Rightarrow> string option"
  unreadable :: "string \<Rightarrow> bool"
  key_write_err :: "string \<Rightarrow> string option"
  parse_key :: "string \<Rightarrow> string + string"
  key_hex :: "string \<Rightarrow> string"
  key_address :: "string \<Rightarrow> string"
  public_hex :: "string \<Rightarrow> string"
  fresh_key :: "string + string"

record disk =
  made_dirs :: "string list"
  dk_files :: "string \<Rightarrow> (nat \<times> string) option"

definition MkdirAll :: "'e config_env_scheme \<Rightarrow> string \<Rightarrow> (disk, string option) state" where
  "MkdirAll e p = (case mkdir_err e p of
       Some err \<Rightarrow> State_Monad.return (Some err)
     | None \<Rightarrow> do { modify (\<lambda>d. d\<lparr>made_dirs := List.insert p (made_dirs d)\<rparr>); State_Monad.return None })"

definition ReadFile :: "'e config_env_scheme \<Rightarrow> string \<Rightarrow> disk \<Rightarrow> string option" where
  "ReadFile e p d = (if unreadable e p then None else map_option snd (dk_files d p))"

text \<open>\<open>WriteFile\<close> gives its permissions to a new file only.\<close>

definition WriteFile :: "'e config_env_scheme \<Rightarrow> string \<Rightarrow> string \<Rightarrow> nat \<Rightarrow> (disk, string option) state" where
  "WriteFile e p content perm = (case key_write_err e p of
       Some err \<Rightarrow> State_Monad.return (Some err)
     | None \<Rightarrow> do {
         modify (\<lambda>d. d\<lparr>dk_files := (dk_files d)(p \<mapsto> (case dk_files d p of Some (m, x) \<Rightarrow> m | None \<Rightarrow> perm, content))\<rparr>);
         State_Monad.return None
       })"

section \<open>Identities\<close>

record Identity =
  id_priv :: string
  id_addr :: string

definition fromKey :: "'e config_env_scheme \<Rightarrow> string \<Rightarrow> Identity" where
  "fromKey e k = \<lparr>id_priv = k, id_addr = to_lower (key_address e k)\<rparr>"

definition Generate :: "'e config_env_scheme \<Rightarrow> string + Identity" where
  "Generate e = (case fresh_key e of Inl err \<Rightarrow> Inl (''generate key: '' @ err) | Inr k \<Rightarrow> Inr (fromKey e k))"

definition FromHex :: "'e config_env_scheme \<Rightarrow> string \<Rightarrow> string + Identity" where
  "FromHex e privHex = (case parse_key e (trim_prefix (trim_space privHex) ''0x'') of
       Inl err \<Rightarrow> Inl (''parse private key: '' @ err)
     | Inr k \<Rightarrow> Inr (fromKey e k))"

definition PrivateKeyHex :: "'e config_env_scheme \<Rightarrow> Identity \<Rightarrow> string" where
  "PrivateKeyHex e i = ''0x'' @ drop 2 (key_hex e (id_priv i))"

definition PublicKeyHex :: "'e config_env_scheme \<Rightarrow> Identity \<Rightarrow> string" where
  "PublicKeyHex e i = public_hex e (id_priv i)"

section \<open>Configuration\<close>

record Config =
  c_Home :: string
  c_KeyPath :: string
  c_DBPath :: string
  c_InboxDir :: string
  c_SockPath :: string
  c_HTTPAddr :: string
  c_SelfName :: string
  c_RelayURL :: string
  c_BaseRPC :: string
  c_ID :: Identity

definition DefaultRelayURL :: string where "DefaultRelayURL = ''wss://attn.s0nderlabs.xyz/ws''"
definition DefaultBaseRPC :: string where "DefaultBaseRPC = ''https://mainnet.base.org''"
definition DefaultHTTPAddr :: string where "DefaultHTTPAddr = ''127.0.0.1:9742''"

definition envOr :: "(string \<Rightarrow> string) \<Rightarrow> string \<Rightarrow> string \<Rightarrow> string" where
  "envOr env key dflt = (let v = trim_space (env key) in if v \<noteq> [] then v else dflt)"

definition Home :: "'e config_env_scheme \<Rightarrow> string + string" where
  "Home e =
     (let h = trim_space (conf_env e ''ATTN_HOME'') in
      if h \<noteq> [] then Inr h
      else (case UserConfigDir e of
          Inl err \<Rightarrow> Inl (''resolve user config dir: '' @ err)
        | Inr base \<Rightarrow> Inr (path_join base ''attn'')))"

definition no_identity :: "string \<Rightarrow> string" where
  "no_identity path = ''no identity: set ATTN_PRIVATE_KEY, pass --key, or place a hex key at '' @ path"

definition generate_identity :: "'e config_env_scheme \<Rightarrow> string \<Rightarrow> (disk, string + Identity) state" where
  "generate_identity e keyPath = (case Generate e of
       Inl err \<Rightarrow> State_Monad.return (Inl err)
     | Inr i \<Rightarrow> do {
         err \<leftarrow> WriteFile e keyPath (PrivateKeyHex e i @ nl) 384;
         State_Monad.return (case err of Some x \<Rightarrow> Inl (''persist generated key: '' @ x) | None \<Rightarrow> Inr i)
       })"

definition loadIdentity :: "'e config_env_scheme \<Rightarrow> string \<Rightarrow> string \<Rightarrow> bool \<Rightarrow> (disk, string + Identity) state" where
  "loadIdentity e keyPath keyHex allowGenerate =
     (if trim_space keyHex \<noteq> [] then State_Monad.return (FromHex e (trim_space keyHex))
      else if trim_space (conf_env e ''ATTN_PRIVATE_KEY'') \<noteq> []
      then State_Monad.return (FromHex e (trim_space (conf_env e ''ATTN_PRIVATE_KEY'')))
      else do {
        b \<leftarrow> gets (ReadFile e keyPath);
        let s = (case b of Some x \<Rightarrow> trim_space x | None \<Rightarrow> []);
        if s \<noteq> [] then State_Monad.return (FromHex e s)
        else if \<not> allowGenerate then State_Monad.return (Inl (no_identity keyPath))
        else generate_identity e keyPath
      })"

definition config_at :: "'e config_env_scheme \<Rightarrow> string \<Rightarrow> Identity \<Rightarrow> Config" where
  "config_at e home i = \<lparr>c_Home = home, c_KeyPath = path_join home ''key.hex'', c_DBPath = path_join home ''attnd.db'',
     c_InboxDir = envOr (conf_env e) ''ATTN_INBOX_DIR'' (path_join home ''inbox''), c_SockPath = path_join home ''attnd.sock'',
     c_HTTPAddr = envOr (conf_env e) ''ATTN_HTTP_ADDR'' DefaultHTTPAddr, c_SelfName = envOr (conf_env e) ''ATTN_SESSION'' ''main'',
     c_RelayURL = envOr (conf_env e) ''ATTN_RELAY_URL'' DefaultRelayURL, c_BaseRPC = envOr (conf_env e) ''ATTN_BASE_RPC'' DefaultBaseRPC,
     c_ID = i\<rparr>"

definition Load :: "'e config_env_scheme \<Rightarrow> string \<Rightarrow> bool \<Rightarrow> (disk, string + Config) state" where
  "Load e keyHex allowGenerate = (case Home e of
       Inl err \<Rightarrow> State_Monad.return (Inl err)
     | Inr home \<Rightarrow> do {
         err \<leftarrow> MkdirAll e home;
         case err of
           Some x \<Rightarrow> State_Monad.return (Inl (''mkdir home '' @ home @ '': '' @ x))
         | None \<Rightarrow> do {
             i \<leftarrow> loadIdentity e (path_join home ''key.hex'') keyHex allowGenerate;
             State_Monad.return (case i of Inl x \<Rightarrow> Inl x | Inr i \<Rightarrow> Inr (config_at e home i))
           }
       })"

section \<open>The start of the daemon\<close>

record flags =
  fl_key :: string
  fl_genKey :: bool
  fl_sock :: string
  fl_http :: string
  fl_init :: bool

datatype startup = Fatal string | Initialised string | Configured Config

definition init_text :: "Config \<Rightarrow> string" where
  "init_text cfg = ''attn identity ready'' @ nl @ ''  address: '' @ id_addr (c_ID cfg) @ nl @ ''  home:    '' @ c_Home cfg @ nl @
     ''  key:     '' @ c_KeyPath cfg @ '' (0600, keep private)'' @ nl"

definition with_flags :: "flags \<Rightarrow> Config \<Rightarrow> Config" where
  "with_flags fl cfg =
     (let cfg = (if fl_sock fl \<noteq> [] then cfg\<lparr>c_SockPath := fl_sock fl\<rparr> else cfg)
      in if fl_http fl \<noteq> [] then cfg\<lparr>c_HTTPAddr := fl_http fl\<rparr> else cfg)"

definition attnd_start :: "'e config_env_scheme \<Rightarrow> flags \<Rightarrow> (disk, startup) state" where
  "attnd_start e fl =
     (if fl_init fl then do {
        r \<leftarrow> Load e (fl_key fl) True;
        State_Monad.return (case r of Inl err \<Rightarrow> Fatal (''init: '' @ err) | Inr cfg \<Rightarrow> Initialised (init_text cfg))
      } else do {
        r \<leftarrow> Load e (fl_key fl) (fl_genKey fl);
        case r of
          Inl err \<Rightarrow> State_Monad.return (Fatal (''config: '' @ err))
        | Inr cfg \<Rightarrow> do {
            err \<leftarrow> MkdirAll e (c_InboxDir (with_flags fl cfg));
            State_Monad.return (case err of Some x \<Rightarrow> Fatal (''mkdir inbox: '' @ x) | None \<Rightarrow> Configured (with_flags fl cfg))
          }
      })"

end
