(* ===== verification/Adapter_Programs.thy ===== *)
theory Adapter_Programs
  imports Opencode_Bridge Http_Rest Config
begin

text \<open>
  The programs of the two adapters. \<open>cmd/attn-opencode/main.go\<close>: which session of OpenCode the bridge is bound to,
  the listener through which that session sends local messages and asks for peers, and the request to the
  daemon behind it. \<open>adapters/hermes/cmd/attn-hermes-bridge/main.go\<close>: the configuration of the bridge. The flags
  are values (\<open>oc_flags\<close>, \<open>hermes_flags\<close>) with the defaults from the environment applied; parsing the command
  line, listening and signals are not modelled.
\<close>

section \<open>The session of OpenCode\<close>

text \<open>The most recently updated session, by the time of its creation when it was never updated.\<close>

definition session_time :: "opencode_session \<Rightarrow> int" where
  "session_time s = (if os_Updated s = 0 then os_Created s else os_Updated s)"

definition later_session :: "string \<times> int \<Rightarrow> opencode_session \<Rightarrow> string \<times> int" where
  "later_session acc s = (if fst acc = [] \<or> snd acc < session_time s then (os_ID s, session_time s) else acc)"

definition mostRecent :: "opencode_session list \<Rightarrow> string" where
  "mostRecent ss = fst (foldl later_session ([], 0) ss)"

definition resolveSession ::
  "'e opencode_env_scheme \<Rightarrow> string \<Rightarrow> bool \<Rightarrow> string \<Rightarrow> string \<Rightarrow> (opencode_client, string + string) state" where
  "resolveSession e explicit create directory title =
     (if explicit \<noteq> [] then State_Monad.return (Inr explicit)
      else if create then do {
        r \<leftarrow> CreateSession e directory title;
        State_Monad.return (map_sum id os_ID r)
      }
      else do {
        ss \<leftarrow> ListSessions e directory;
        case ss of
          Inl err \<Rightarrow> State_Monad.return (Inl err)
        | Inr ss \<Rightarrow>
            if mostRecent ss \<noteq> [] then State_Monad.return (Inr (mostRecent ss))
            else do {
              r \<leftarrow> CreateSession e directory title;
              State_Monad.return (map_sum id os_ID r)
            }
      })"

record oc_flags =
  of_name :: string
  of_harness :: string
  of_opencode :: string
  of_daemon :: string
  of_session_id :: string
  of_new :: bool
  of_directory :: string
  of_password :: string
  of_pin :: string
  of_title :: string

text \<open>The start, up to the run of the bridge: the bridge, or the message of the fatal error.\<close>

definition oc_flags_dir :: "string + string \<Rightarrow> oc_flags \<Rightarrow> string" where
  "oc_flags_dir cwd fl = (if of_directory fl \<noteq> [] then of_directory fl else (case cwd of Inl err \<Rightarrow> [] | Inr d \<Rightarrow> d))"

definition opencode_start :: "'e opencode_env_scheme \<Rightarrow> string + string \<Rightarrow> oc_flags \<Rightarrow> (opencode_client, string + opencode_bridge) state" where
  "opencode_start e cwd fl =
     (if trim_space (of_name fl) = []
      then State_Monad.return (Inl ''--name is required (the local-mesh session name; also settable via ATTN_SESSION)'')
      else do {
        v \<leftarrow> VerifyRoutes e (of_pin fl);
        case snd v of
          Some err \<Rightarrow> State_Monad.return (Inl (''opencode route/pin verification failed: '' @ err))
        | None \<Rightarrow> do {
            sid \<leftarrow> resolveSession e (of_session_id fl) (of_new fl) (oc_flags_dir cwd fl) (of_title fl);
            c \<leftarrow> gets id;
            State_Monad.return (case sid of
                Inl err \<Rightarrow> Inl (''resolve opencode session: '' @ err)
              | Inr sid \<Rightarrow> Inr \<lparr>ob_Name = of_name fl, ob_Harness = of_harness fl, ob_SessionID = sid, ob_DaemonHTTP = of_daemon fl,
                  ob_Renderer = None, ob_client = c, ob_acks = [], ob_conn = None, ob_sendCh = None, ob_pumping = False,
                  ob_tick = 0, ob_wire = []\<rparr>)
          }
      })"

definition opencode_program :: "'e opencode_env_scheme \<Rightarrow> string + string \<Rightarrow> oc_flags \<Rightarrow> string + opencode_bridge" where
  "opencode_program e cwd fl = fst (run_state (opencode_start e cwd fl) (NewClient (of_opencode fl) (of_password fl)))"

section \<open>The control listener\<close>

definition loopbackHost :: "string \<Rightarrow> bool" where
  "loopbackHost authority =
     (let host = trim_space authority;
          host = (case SplitHostPort host of Some (h, port) \<Rightarrow> h | None \<Rightarrow> host);
          host = to_lower (trim_suffix (trim_prefix host ''['') '']'')
      in host = ''localhost'' \<or> (case ParseIP host of None \<Rightarrow> False | Some ip \<Rightarrow> IsLoopback ip))"

definition control_loopbackOnly :: "string \<Rightarrow> string option" where
  "control_loopbackOnly addr = (case SplitHostPort addr of
       None \<Rightarrow> Some (''invalid control addr '' @ quote addr)
     | Some (h, port) \<Rightarrow>
         if trim_space h = ''localhost'' then None
         else (case ParseIP (trim_space h) of
             None \<Rightarrow> Some (''refusing control bind '' @ quote addr @ '': host must be a loopback IP or '' @ quote ''localhost'')
           | Some ip \<Rightarrow> if IsLoopback ip then None
               else Some (''refusing non-loopback control bind '' @ quote addr @ '' (localhost only)'')))"

text \<open>The world of the listener: the daemon's answer to its question, what the URL of the daemon has besides the
  parts of \<open>daemon_url\<close>, and the error of a body that is no JSON.\<close>

record listener_env = bridge_env +
  url_opaque :: "string \<Rightarrow> string"
  url_force_query :: "string \<Rightarrow> bool"
  peers_do :: "http_request \<Rightarrow> string + nat \<times> string"
  peers_url_err :: "string \<Rightarrow> string option"
  listener_json_err :: "string \<Rightarrow> string"

definition httpBase :: "'e listener_env_scheme \<Rightarrow> string \<Rightarrow> string + string" where
  "httpBase e raw = (case daemon_parse e raw of
       Inl err \<Rightarrow> Inl err
     | Inr u \<Rightarrow>
         (let scheme = (if du_Scheme u \<in> {''ws'', []} then ''http'' else if du_Scheme u = ''wss'' then ''https'' else du_Scheme u)
          in Inr (trim_right_char (CHR ''/'') (scheme @ '':'' @
               (if url_opaque e raw \<noteq> [] then url_opaque e raw
                else if du_User u \<noteq> [] \<or> du_Host u \<noteq> [] then ''//'' @ du_User u @ du_Host u else []) @
               (if url_force_query e raw then ''?'' else [])))))"

definition peers_request :: "string \<Rightarrow> http_request" where
  "peers_request base = \<lparr>rq_method = ''GET'', rq_url = base @ ''/local-peers'', rq_headers = [], rq_body = NoBody\<rparr>"

definition read_peers :: "'e listener_env_scheme \<Rightarrow> string \<Rightarrow> nat \<times> string \<Rightarrow> string + string list" where
  "read_peers e self answer = (case answer of (status, content) \<Rightarrow>
     if status \<noteq> 200 then Inl (''daemon /local-peers: HTTP '' @ nat_str status)
     else (case decode_struct \<lparr>fs_str = [], fs_int = [], fs_bool = [], fs_strs = [''sessions'']\<rparr> (take 1048576 content) of
         At_eof \<Rightarrow> Inl ''EOF''
       | Bad_json \<Rightarrow> Inl (listener_json_err e content)
       | Decoded kvs \<Rightarrow> Inr (filter (\<lambda>s. s \<noteq> self) (strs_field kvs ''sessions''))))"

definition fetchPeers :: "'e listener_env_scheme \<Rightarrow> string \<Rightarrow> string \<Rightarrow> string + string list" where
  "fetchPeers e daemonURL self = (case httpBase e daemonURL of
       Inl err \<Rightarrow> Inl err
     | Inr base \<Rightarrow> (case peers_url_err e (base @ ''/local-peers'') of
         Some err \<Rightarrow> Inl err
       | None \<Rightarrow> (case peers_do e (peers_request base) of
           Inl err \<Rightarrow> Inl err
         | Inr answer \<Rightarrow> read_peers e self answer)))"

text \<open>The handlers. An empty body is the zero struct.\<close>

definition refuse :: "nat \<Rightarrow> string \<Rightarrow> http_reply" where
  "refuse code err = JsonReply code (JObj [(''ok'', JBool False), (''error'', JStr err)])"

definition mesh_send :: "'e listener_env_scheme \<Rightarrow> http_req \<Rightarrow> (opencode_bridge, http_reply) state" where
  "mesh_send e r = (case decode_struct (strings_only [''to'', ''message'']) (take 1048576 (h_body r)) of
       Bad_json \<Rightarrow> State_Monad.return (refuse 400 (listener_json_err e (h_body r)))
     | At_eof \<Rightarrow> State_Monad.return (refuse 400 ''to is required'')
     | Decoded kvs \<Rightarrow>
         if str_field kvs ''to'' = [] then State_Monad.return (refuse 400 ''to is required'')
         else do {
           err \<leftarrow> ob_SendLocal (str_field kvs ''to'') (str_field kvs ''message'');
           State_Monad.return (case err of
               Some x \<Rightarrow> refuse 503 x
             | None \<Rightarrow> JsonReply 200 (JObj [(''ok'', JBool True), (''to'', JStr (str_field kvs ''to''))]))
         })"

definition mesh_peers :: "'e listener_env_scheme \<Rightarrow> string \<Rightarrow> string \<Rightarrow> http_reply" where
  "mesh_peers e daemonURL self = (case fetchPeers e daemonURL self of
       Inl err \<Rightarrow> refuse 502 err
     | Inr ps \<Rightarrow> JsonReply 200 (JObj [(''ok'', JBool True), (''peers'', JList (map JStr ps)), (''count'', JInt (int (length ps)))]))"

text \<open>The mux behind the guard on the host: the path of a handler with another method is refused.\<close>

definition control_listener :: "'e listener_env_scheme \<Rightarrow> string \<Rightarrow> string \<Rightarrow> http_req \<Rightarrow> (opencode_bridge, http_reply) state" where
  "control_listener e daemonURL self r =
     (if \<not> loopbackHost (h_host r) then State_Monad.return (TextReply 403 ''forbidden: host not allowed'')
      else if h_path r = ''/mesh/send''
      then (if h_method r = ''POST'' then mesh_send e r else State_Monad.return (TextReply 405 ''Method Not Allowed''))
      else if h_path r = ''/mesh/peers''
      then (if h_method r \<in> {''GET'', ''HEAD''} then State_Monad.return (mesh_peers e daemonURL self)
            else State_Monad.return (TextReply 405 ''Method Not Allowed''))
      else State_Monad.return (TextReply 404 ''404 page not found''))"

section \<open>The bridge to Hermes\<close>

record hermes_flags =
  hf_daemon :: string
  hf_session :: string
  hf_harness :: string
  hf_target :: string
  hf_sig_header :: string
  hf_session_key :: string

text \<open>The flags that are not given, from the environment.\<close>

definition hermes_defaults :: "(string \<Rightarrow> string) \<Rightarrow> hermes_flags" where
  "hermes_defaults env = \<lparr>hf_daemon = envOr env ''ATTN_HERMES_DAEMON_WS'' ''ws://127.0.0.1:9742/'',
     hf_session = envOr env ''ATTN_SESSION'' ''hermes'', hf_harness = ''hermes'',
     hf_target = envOr env ''ATTN_HERMES_TARGET'' ''http://127.0.0.1:8644/webhooks/attn'',
     hf_sig_header = ''X-Webhook-Signature'', hf_session_key = envOr env ''ATTN_HERMES_SESSION_KEY'' []\<rparr>"

definition oc_defaults :: "(string \<Rightarrow> string) \<Rightarrow> oc_flags" where
  "oc_defaults env = \<lparr>of_name = envOr env ''ATTN_SESSION'' [], of_harness = ''opencode'',
     of_opencode = envOr env ''OPENCODE_URL'' ''http://127.0.0.1:4096'', of_daemon = envOr env ''ATTN_HTTP_URL'' ''http://127.0.0.1:9742'',
     of_session_id = [], of_new = False, of_directory = [], of_password = env ''OPENCODE_SERVER_PASSWORD'', of_pin = ''1.3'',
     of_title = ''attn-opencode''\<rparr>"

text \<open>The secret comes from the environment only.\<close>

definition hermes_program :: "(string \<Rightarrow> string) \<Rightarrow> hermes_flags \<Rightarrow> string + hermes" where
  "hermes_program env fl =
     (let secret = trim_space (env ''ATTN_HERMES_HMAC_SECRET'') in
      if secret = [] then Inl ''ATTN_HERMES_HMAC_SECRET is required (export it; do not pass secrets as flags)''
      else (case hermes_New \<lparr>hc_DaemonWS = hf_daemon fl, hc_Session = hf_session fl, hc_Harness = hf_harness fl,
          hc_TargetURL = hf_target fl, hc_HMACSecret = secret, hc_SignatureHeader = hf_sig_header fl,
          hc_SessionKeyOverride = hf_session_key fl\<rparr> of
          Inl err \<Rightarrow> Inl (''config error: '' @ err)
        | Inr b \<Rightarrow> Inr b))"

end
