(* ===== verification/Cli.thy ===== *)
theory Cli
  imports Http_Rest
begin

text \<open>
  The command line client (\<open>cmd/attn/main.go\<close>): it reads a command with its words and flags into an
  operation and its arguments, posts them to the daemon and prints the answer. Parsing is pure. A Go
  map is its list of entries; where the program ranges over one, the first entry is taken first. The
  environment, the HTTP client, the error texts of the decoder and how a number is written after it was
  read into a \<open>float64\<close> are the world's; the texts of usage and version are not modelled.
\<close>

section \<open>Commands\<close>

record spec =
  sp_op :: string
  sp_pos :: "string list"
  sp_optPos :: bool
  sp_rest :: string
  sp_flags :: "(string \<times> string) list"
  sp_bools :: "(string \<times> string) list"
  sp_help :: string

definition command_of :: "string \<Rightarrow> string list \<Rightarrow> string \<Rightarrow> string \<Rightarrow> spec" where
  "command_of oper ps rest usage = \<lparr>sp_op = oper, sp_pos = ps, sp_optPos = False, sp_rest = rest,
     sp_flags = [], sp_bools = [], sp_help = usage\<rparr>"

definition specs :: "(string \<times> spec) list" where
  "specs = [
     (''send'', command_of ''send'' [''to''] ''message'' (''<to> <message'' @ ellipsis @ ''>'')),
     (''reply'', command_of ''reply'' [] ''message'' (''<message'' @ ellipsis @ ''>'')),
     (''send-file'', command_of ''send_file'' [''to'', ''path''] [] ''<to> <path>''),
     (''history'', (command_of ''history'' [''with''] [] ''<with> [--limit N]'')\<lparr>sp_flags := [(''limit'', ''limit'')]\<rparr>),
     (''add-contact'', (command_of ''add_contact'' [''address''] [] ''<address> [--name N]'')\<lparr>sp_flags := [(''name'', ''name'')]\<rparr>),
     (''remove-contact'', command_of ''remove_contact'' [''address''] [] ''<address>''),
     (''block'', (command_of ''block'' [''address''] [] ''<address> [--unblock]'')\<lparr>sp_bools := [(''unblock'', ''unblock'')]\<rparr>),
     (''contacts'', command_of ''contacts'' [] [] []),
     (''create-group'', command_of ''create_group'' [''name''] ''members'' (''<name> <member-addr'' @ ellipsis @ ''>'')),
     (''send-group'', command_of ''send_group'' [''group_id''] ''message'' (''<group_id> <message'' @ ellipsis @ ''>'')),
     (''add-to-group'', (command_of ''add_to_group'' [''group_id'', ''address''] [] ''<group_id> <address> [--name N]'')
        \<lparr>sp_flags := [(''name'', ''name'')]\<rparr>),
     (''leave-group'', command_of ''leave_group'' [''group_id''] [] ''<group_id>''),
     (''accept-group'', command_of ''accept_group'' [''group_id''] [] ''<group_id>''),
     (''decline-group'', command_of ''decline_group'' [''group_id''] [] ''<group_id>''),
     (''kick-from-group'', command_of ''kick_from_group'' [''group_id'', ''address''] [] ''<group_id> <address>''),
     (''transfer-group-admin'', command_of ''transfer_group_admin'' [''group_id'', ''address''] [] ''<group_id> <address>''),
     (''groups'', command_of ''groups'' [] [] []),
     (''peers'', command_of ''peers'' [] [] []),
     (''react'', (command_of ''react'' [''emoji''] [] ''<emoji> [--message-id ID]'')\<lparr>sp_flags := [(''message-id'', ''message_id'')]\<rparr>),
     (''register-name'', command_of ''register_name'' [''label''] [] (''<label>  (GATED '' @ em_dash @ '' never broadcasts)'')),
     (''lookup'', command_of ''lookup'' [''query''] [] ''<name|address>''),
     (''names'', (command_of ''names'' [''address''] [] ''[address]'')\<lparr>sp_optPos := True\<rparr>),
     (''transfer-name'', command_of ''transfer_name'' [''label'', ''to''] [] ''<label> <to>  (GATED)''),
     (''set-primary-name'', command_of ''set_primary_name'' [''label''] [] ''<label>  (GATED)''),
     (''mute'', (command_of ''mute'' [''target''] [] ''<target> [--duration 30m|1h|7d]'')\<lparr>sp_flags := [(''duration'', ''duration'')]\<rparr>),
     (''unmute'', command_of ''unmute'' [''target''] [] ''<target>''),
     (''mutes'', command_of ''mutes'' [] [] []),
     (''status-of'', command_of ''status_of'' [''target''] [] ''<target>'')]"

section \<open>Parsing\<close>

record cli_env =
  getenv :: "string \<Rightarrow> string"
  cli_http :: "http_request \<Rightarrow> string + nat \<times> string"
  cli_json_err :: "string \<Rightarrow> string"
  float_text :: "json \<Rightarrow> json"

text \<open>The arguments of an invocation, a \<open>map[string]any\<close>; \<open>None\<close> is the \<open>nil\<close> map.\<close>

record invocation =
  inv_addr :: string
  inv_jsonOut :: bool
  inv_statusShow :: bool
  inv_op :: string
  inv_args :: "(string \<times> json) list option"

datatype 'a cli_result = Parsed 'a | Refused string | Panics

definition daemonAddr :: "'e cli_env_scheme \<Rightarrow> string" where
  "daemonAddr e = (let a = trim_space (getenv e ''ATTN_HTTP_ADDR'') in if a \<noteq> [] then a else ''127.0.0.1:9742'')"

record words =
  w_addr :: string
  w_json :: bool
  w_rest :: "string list"
  w_flags :: "(string \<times> string) list"
  w_bools :: "string list"

text \<open>The loop over the words.\<close>

function scan_words :: "string list \<Rightarrow> words \<Rightarrow> words" where
  "scan_words [] w = w"
| "scan_words (a # argv) w =
     (if a = ''--'' then w\<lparr>w_rest := w_rest w @ argv\<rparr>
      else if a = ''--json'' then scan_words argv (w\<lparr>w_json := True\<rparr>)
      else if a = ''--addr'' \<and> argv \<noteq> [] then scan_words (tl argv) (w\<lparr>w_addr := hd argv\<rparr>)
      else if has_prefix a ''--addr='' then scan_words argv (w\<lparr>w_addr := drop 7 a\<rparr>)
      else if has_prefix a ''--'' then
        (let name = drop 2 a in case index_byte name (CHR ''='') of
             Some eq \<Rightarrow> scan_words argv (w\<lparr>w_flags := AList.update (take eq name) (drop (eq + 1) name) (w_flags w)\<rparr>)
           | None \<Rightarrow>
               if argv \<noteq> [] \<and> \<not> has_prefix (hd argv) ''--''
               then scan_words (tl argv) (w\<lparr>w_flags := AList.update name (hd argv) (w_flags w)\<rparr>)
               else scan_words argv (w\<lparr>w_bools := List.insert name (w_bools w)\<rparr>))
      else scan_words argv (w\<lparr>w_rest := w_rest w @ [a]\<rparr>))"
  by pat_completeness auto
termination
  by (relation "measure (length \<circ> fst)") auto

definition unknown_flag :: "string \<Rightarrow> string \<Rightarrow> string" where
  "unknown_flag fn command = ''unknown flag --'' @ fn @ '' for '' @ quote command @
     '' (put `--` before a message that contains dashes)''"

definition rejectUnknownFlags :: "string \<Rightarrow> (string \<times> string) list \<Rightarrow> string list \<Rightarrow> string list \<Rightarrow> string option" where
  "rejectUnknownFlags command flags bools allowed =
     (case filter (\<lambda>fn. fn \<notin> set allowed) (map fst flags @ bools) of
        fn # fns \<Rightarrow> Some (unknown_flag fn command)
      | [] \<Rightarrow> None)"

text \<open>An assignment to a map, which panics if it is \<open>nil\<close>, and a run of them.\<close>

definition map_set :: "(string \<times> 'a) list \<Rightarrow> (string \<times> 'a) list option \<Rightarrow> (string \<times> 'a) list option" where
  "map_set kvs m = map_option (\<lambda>m. foldl (\<lambda>m (k, v). AList.update k v m) m kvs) m"

text \<open>A decoded \<open>any\<close>, as it is written again: numbers have become a \<open>float64\<close>, and of the values of a key
  the last counts.\<close>

definition last_values :: "(string \<times> json) list \<Rightarrow> (string \<times> json) list" where
  "last_values kvs = the (map_set kvs (Some []))"

fun as_any :: "'e cli_env_scheme \<Rightarrow> json \<Rightarrow> json" where
  "as_any e (JInt i) = float_text e (JInt i)"
| "as_any e (JNum n) = float_text e (JNum n)"
| "as_any e (JList xs) = JList (map (as_any e) xs)"
| "as_any e (JObj kvs) = JObj (last_values (map (\<lambda>(k, v). (k, as_any e v)) kvs))"
| "as_any e j = j"

definition parse_status :: "words \<Rightarrow> invocation \<Rightarrow> invocation cli_result" where
  "parse_status w cmd =
     (if w_rest w = [] then Parsed (cmd\<lparr>inv_statusShow := True\<rparr>)
      else (case rejectUnknownFlags ''status'' (w_flags w) (w_bools w) [''message''] of
          Some err \<Rightarrow> Refused err
        | None \<Rightarrow> Parsed (cmd\<lparr>inv_op := ''status'', inv_args := map_set ((''state'', JStr (hd (w_rest w))) #
            (case map_of (w_flags w) ''message'' of Some m \<Rightarrow> [(''message'', JStr m)] | None \<Rightarrow> [])) (inv_args cmd)\<rparr>)))"

text \<open>\<open>Unmarshal\<close> into an empty map: an object is merged into it, and \<open>null\<close> makes it \<open>nil\<close>.\<close>

definition unmarshal_map :: "'e cli_env_scheme \<Rightarrow> string \<Rightarrow> string + (string \<times> json) list option" where
  "unmarshal_map e raw = (case json_parse raw of
       Some JNull \<Rightarrow> Inr None
     | Some (JObj kvs) \<Rightarrow> if floats_fit (JObj kvs) then Inr (Some (last_values (map (\<lambda>(k, v). (k, as_any e v)) kvs)))
         else Inl (cli_json_err e raw)
     | _ \<Rightarrow> Inl (cli_json_err e raw))"

definition json_args_flag :: "'e cli_env_scheme \<Rightarrow> string option \<Rightarrow> string + (string \<times> json) list option" where
  "json_args_flag e raw = (case raw of
       None \<Rightarrow> Inr (Some [])
     | Some raw \<Rightarrow> (case unmarshal_map e raw of Inl err \<Rightarrow> Inl (''--json-args: '' @ err) | Inr m \<Rightarrow> Inr m))"

definition pairs_of :: "string list \<Rightarrow> (string \<times> json) list" where
  "pairs_of ws = concat (map (\<lambda>kv. case index_byte kv (CHR ''='') of
       Some eq \<Rightarrow> [(take eq kv, JStr (drop (eq + 1) kv))] | None \<Rightarrow> []) ws)"

definition parse_op :: "'e cli_env_scheme \<Rightarrow> words \<Rightarrow> invocation \<Rightarrow> invocation cli_result" where
  "parse_op e w cmd =
     (if w_rest w = [] then Refused ''op: name required (e.g. `attn op contacts`)''
      else (case json_args_flag e (map_of (w_flags w) ''json-args'') of
          Inl err \<Rightarrow> Refused err
        | Inr m \<Rightarrow>
            (let sets = pairs_of (tl (w_rest w)) @ map (\<lambda>(k, v). (k, JStr v)) (filter (\<lambda>(k, v). k \<noteq> ''json-args'') (w_flags w))
             in if m = None \<and> sets \<noteq> [] then Panics
                else Parsed (cmd\<lparr>inv_op := hd (w_rest w), inv_args := map_set sets m\<rparr>))))"

text \<open>A command of the table.\<close>

definition positional :: "spec \<Rightarrow> string list \<Rightarrow> (string \<times> json) list" where
  "positional sp rest = map (\<lambda>(k, v). (k, JStr v)) (zip (sp_pos sp) rest)"

definition trailing :: "spec \<Rightarrow> string list \<Rightarrow> (string \<times> json) list" where
  "trailing sp rest =
     (let tail = drop (length (sp_pos sp)) rest
      in if sp_rest sp = [] then []
         else if sp_rest sp = ''members'' then [(''members'', JList (map JStr tail))]
         else [(sp_rest sp, JStr (join tail '' ''))])"

definition flag_args :: "spec \<Rightarrow> words \<Rightarrow> (string \<times> json) list" where
  "flag_args sp w = concat (map (\<lambda>(fn, key). case map_of (w_flags w) fn of Some v \<Rightarrow> [(key, JStr v)] | None \<Rightarrow> []) (sp_flags sp)) @
     concat (map (\<lambda>(fn, key). if fn \<in> set (w_bools w) then [(key, JBool True)] else []) (sp_bools sp))"

definition parse_spec :: "string \<Rightarrow> spec \<Rightarrow> words \<Rightarrow> invocation \<Rightarrow> invocation cli_result" where
  "parse_spec command sp w cmd =
     (case rejectUnknownFlags command (w_flags w) (w_bools w) (map fst (sp_flags sp) @ map fst (sp_bools sp)) of
        Some err \<Rightarrow> Refused err
      | None \<Rightarrow>
          (let need = (if sp_optPos sp then 0 else length (sp_pos sp)); got = length (w_rest w)
           in if got < need then Refused (command @ '' '' @ sp_help sp @ nl @ ''  need '' @ nat_str need @ '' arg(s), got '' @ nat_str got)
              else if sp_rest sp = ''message'' \<and> got \<le> length (sp_pos sp)
              then Refused (command @ '' '' @ sp_help sp @ nl @ ''  message is required'')
              else Parsed (cmd\<lparr>inv_op := sp_op sp,
                inv_args := map_set (positional sp (w_rest w) @ trailing sp (w_rest w) @ flag_args sp w) (inv_args cmd)\<rparr>)))"

definition words_of :: "'e cli_env_scheme \<Rightarrow> string list \<Rightarrow> words" where
  "words_of e argv = scan_words argv \<lparr>w_addr = daemonAddr e, w_json = False, w_rest = [], w_flags = [], w_bools = []\<rparr>"

definition parseInvocation :: "'e cli_env_scheme \<Rightarrow> string \<Rightarrow> string list \<Rightarrow> invocation cli_result" where
  "parseInvocation e command argv =
     (let w = words_of e argv;
          cmd = \<lparr>inv_addr = w_addr w, inv_jsonOut = w_json w, inv_statusShow = False, inv_op = [], inv_args = Some []\<rparr>
      in if command = ''status'' then parse_status w cmd
         else if command = ''op'' then parse_op e w cmd
         else (case map_of specs command of
             None \<Rightarrow> Refused (''unknown command '' @ quote command @ '' (try `attn help`)'')
           | Some sp \<Rightarrow> parse_spec command sp w cmd))"

section \<open>Running\<close>

text \<open>What a call prints, and its error; and the requests it makes.\<close>

type_synonym cli_output = "string list \<times> string option"

definition args_body :: "(string \<times> json) list option \<Rightarrow> string" where
  "args_body m = (case m of None \<Rightarrow> ''null'' | Some kvs \<Rightarrow> marshal (JObj kvs))"

definition op_request :: "string \<Rightarrow> string \<Rightarrow> (string \<times> json) list option \<Rightarrow> http_request" where
  "op_request addr oper m = \<lparr>rq_method = ''POST'', rq_url = ''http://'' @ addr @ ''/op/'' @ oper,
     rq_headers = [(''Content-Type'', ''application/json'')], rq_body = RawBody (args_body m)\<rparr>"

definition unreachable :: "string \<Rightarrow> string \<Rightarrow> string" where
  "unreachable addr err = ''cannot reach daemon at '' @ addr @ '' ('' @ err @ '') '' @ em_dash @ '' is attnd running?''"

definition response_fields :: "(string \<times> json) list \<Rightarrow> bool" where
  "response_fields kvs \<longleftrightarrow>
     fields_fit \<lparr>fs_str = [''text'', ''error''], fs_int = [], fs_bool = [''ok''], fs_strs = []\<rparr> kvs \<and>
     list_all (\<lambda>v. is_obj v \<and> floats_fit v) (field_values ''data'' kvs)"

definition read_response :: "string \<Rightarrow> (string \<times> json) list option" where
  "read_response raw = (case json_parse raw of
       Some JNull \<Rightarrow> Some []
     | Some (JObj kvs) \<Rightarrow> if response_fields kvs then Some kvs else None
     | _ \<Rightarrow> None)"

definition op_output :: "bool \<Rightarrow> string \<Rightarrow> string + nat \<times> string \<Rightarrow> cli_output" where
  "op_output jsonOut addr answer = (case answer of
       Inl err \<Rightarrow> ([], Some (unreachable addr err))
     | Inr (status, raw) \<Rightarrow>
         if jsonOut then ([trim_space raw], if status div 100 \<noteq> 2 then Some (''daemon returned '' @ nat_str status) else None)
         else (case read_response raw of
             None \<Rightarrow> ([], Some (''bad daemon response ('' @ nat_str status @ ''): '' @ trim_space raw))
           | Some kvs \<Rightarrow>
               if \<not> bool_field kvs ''ok'' then ([], Some (str_field kvs ''error''))
               else ([trim_right_char (CHR 0x0A) (str_field kvs ''text'')], None)))"

definition doOp :: "'e cli_env_scheme \<Rightarrow> string \<Rightarrow> string \<Rightarrow> (string \<times> json) list option \<Rightarrow> bool \<Rightarrow> http_request \<times> cli_output" where
  "doOp e addr oper m jsonOut = (let req = op_request addr oper m in (req, op_output jsonOut addr (cli_http e req)))"

definition status_output :: "bool \<Rightarrow> string \<Rightarrow> string + nat \<times> string \<Rightarrow> cli_output" where
  "status_output jsonOut addr answer = (case answer of
       Inl err \<Rightarrow> ([], Some (unreachable addr err))
     | Inr (status, raw) \<Rightarrow>
         if jsonOut then ([trim_space raw], None)
         else (case unmarshal_struct \<lparr>fs_str = [''address''], fs_int = [''peers''], fs_bool = [''relayConnected''], fs_strs = []\<rparr> raw of
             None \<Rightarrow> ([], Some (''bad status response: '' @ trim_space raw))
           | Some kvs \<Rightarrow> ([''attnd: running'', ''Address: '' @ str_field kvs ''address'',
               ''Relay: '' @ (if bool_field kvs ''relayConnected'' then ''connected'' else ''disconnected''),
               ''Contacts: '' @ itoa (int_field kvs ''peers'')], None)))"

definition showStatus :: "'e cli_env_scheme \<Rightarrow> string \<Rightarrow> bool \<Rightarrow> http_request \<times> cli_output" where
  "showStatus e addr jsonOut =
     (let req = \<lparr>rq_method = ''GET'', rq_url = ''http://'' @ addr @ ''/status'', rq_headers = [], rq_body = NoBody\<rparr>
      in (req, status_output jsonOut addr (cli_http e req)))"

definition cli_run :: "'e cli_env_scheme \<Rightarrow> string \<Rightarrow> string list \<Rightarrow> (http_request option \<times> cli_output) cli_result" where
  "cli_run e command argv = (case parseInvocation e command argv of
       Refused err \<Rightarrow> Parsed (None, [], Some err)
     | Panics \<Rightarrow> Panics
     | Parsed cmd \<Rightarrow> Parsed (apfst Some
         (if inv_statusShow cmd then showStatus e (inv_addr cmd) (inv_jsonOut cmd)
          else doOp e (inv_addr cmd) (inv_op cmd) (inv_args cmd) (inv_jsonOut cmd))))"

end
