(* ===== verification/Control.thy ===== *)
theory Control
  imports Config Cli
begin

text \<open>
  The control socket: the protocol of one request and one response line over a Unix socket
  (\<open>internal/control/control.go\<close>), the daemon's handler (\<open>makeHandler\<close> in \<open>cmd/attnd/main.go\<close>), and the driver
  \<open>attnctl\<close> (\<open>cmd/attnctl/main.go\<close>). A connection is the bytes that arrive before it ends or its deadline passes;
  listening, dialling and deadlines are the world's.
\<close>

section \<open>Lines\<close>

text \<open>\<open>ReadBytes\<close> up to a line feed: the line with it, or what came before the end.\<close>

definition read_line :: "string \<Rightarrow> string" where
  "read_line inp = (case index_byte inp (CHR 0x0A) of Some i \<Rightarrow> take (i + 1) inp | None \<Rightarrow> inp)"

text \<open>A field of a struct that is a map: each object is merged into it, \<open>null\<close> empties it.\<close>

definition map_values :: "string \<Rightarrow> (string \<times> json) list \<Rightarrow> json list" where
  "map_values f kvs = map snd (filter (\<lambda>(k, v). equal_fold k f) kvs)"

definition map_field :: "string \<Rightarrow> (string \<times> json) list \<Rightarrow> (string \<times> json) list" where
  "map_field f kvs = foldl (\<lambda>m v. if v = JNull then [] else m @ members_of v) [] (map_values f kvs)"

definition request_line :: "string \<Rightarrow> (string \<times> json) list option \<Rightarrow> string" where
  "request_line oper m = marshal_struct ([(''op'', JStr oper)] @
     (case m of None \<Rightarrow> [] | Some kvs \<Rightarrow> if kvs = [] then [] else [(''args'', JObj kvs)])) @ nl"

definition decode_request :: "string \<Rightarrow> (string \<times> args) option" where
  "decode_request line = (case json_parse line of
       Some JNull \<Rightarrow> Some ([], [])
     | Some (JObj kvs) \<Rightarrow>
         if list_all is_str (field_values ''op'' kvs) \<and> list_all (\<lambda>v. is_obj v \<and> floats_fit v) (field_values ''args'' kvs)
         then Some (str_field kvs ''op'', rev (map (\<lambda>(k, v). (k, json_arg v)) (map_field ''args'' kvs)))
         else None
     | _ \<Rightarrow> None)"

record Response =
  rs_OK :: bool
  rs_Text :: string
  rs_Data :: "(string \<times> json) list"
  rs_Error :: string

definition reply_text :: "string \<Rightarrow> Response" where
  "reply_text t = \<lparr>rs_OK = True, rs_Text = t, rs_Data = [], rs_Error = []\<rparr>"

definition reply_error :: "string \<Rightarrow> Response" where
  "reply_error err = \<lparr>rs_OK = False, rs_Text = [], rs_Data = [], rs_Error = err\<rparr>"

definition writeResp :: "Response \<Rightarrow> string" where
  "writeResp r = marshal_struct ([(''ok'', JBool (rs_OK r))] @ when_set ''text'' (rs_Text r) @
     (if rs_Data r = [] then [] else [(''data'', JObj (rs_Data r))]) @ when_set ''error'' (rs_Error r)) @ nl"

section \<open>The daemon\<close>

text \<open>\<open>dm_stopping\<close> is set by the cancel function of the daemon.\<close>

record daemon =
  dm_server :: server
  dm_stopping :: bool

definition on_server :: "(server, 'a) state \<Rightarrow> (daemon, 'a) state" where
  "on_server m = zoom dm_server (\<lambda>s d. d\<lparr>dm_server := s\<rparr>) m"

definition bool_text :: "bool \<Rightarrow> string" where
  "bool_text b = (if b then ''true'' else ''false'')"

definition control_handler :: "'e server_env_scheme \<Rightarrow> string \<Rightarrow> args \<Rightarrow> (daemon, Response) state" where
  "control_handler e oper as =
     (if oper = ''_ping'' then State_Monad.return (reply_text ''pong'')
      else if oper = ''_info'' then do {
        ready \<leftarrow> on_server (on_agent RelayReady);
        ready' \<leftarrow> on_server (on_agent RelayReady);
        State_Monad.return \<lparr>rs_OK = True, rs_Text = ''address='' @ own_address e @ '' relay_ready='' @ bool_text ready,
          rs_Data = [(''address'', JStr (own_address e)), (''relay_ready'', JBool ready')], rs_Error = []\<rparr>
      }
      else if oper = ''_drop_conn'' then do {
        on_server (with_sink (relay e DropConn));
        State_Monad.return (reply_text (''dropped relay connection '' @ em_dash @ '' auto-reconnect will follow''))
      }
      else if oper = ''_shutdown'' then do {
        modify (\<lambda>d. d\<lparr>dm_stopping := True\<rparr>);
        State_Monad.return (reply_text ''shutting down'')
      }
      else do {
        res \<leftarrow> on_server (with_sink (Dispatch e oper as));
        State_Monad.return (case res of
            Inl err \<Rightarrow> reply_error err
          | Inr x \<Rightarrow> \<lparr>rs_OK = True, rs_Text = res_Text x, rs_Data = res_Data x, rs_Error = []\<rparr>)
      })"

text \<open>One connection: what it sends, and what it is answered.\<close>

definition serveConn :: "'e server_env_scheme \<Rightarrow> string \<Rightarrow> (daemon, string) state" where
  "serveConn e inp =
     (let line = read_line inp in
      if line = [] then State_Monad.return []
      else (case decode_request line of
          None \<Rightarrow> State_Monad.return (writeResp (reply_error (''bad request: '' @ json_err e line)))
        | Some (oper, as) \<Rightarrow> do { r \<leftarrow> control_handler e oper as; State_Monad.return (writeResp r) }))"

section \<open>A call\<close>

text \<open>The world of a caller: the errors of dialling and writing, what a socket answers to a line before it is
  closed or the deadline passes, and the error when that is nothing.\<close>

record ctl_env = cli_env +
  ctl_dial :: "string \<Rightarrow> string option"
  ctl_write :: "string \<Rightarrow> string option"
  ctl_answer :: "string \<Rightarrow> string \<Rightarrow> string"
  ctl_read_err :: "string \<Rightarrow> string"

definition decoded_map :: "'e cli_env_scheme \<Rightarrow> (string \<times> json) list \<Rightarrow> (string \<times> json) list" where
  "decoded_map e kvs = last_values (map (\<lambda>(k, v). (k, as_any e v)) kvs)"

definition decode_response :: "'e cli_env_scheme \<Rightarrow> string \<Rightarrow> Response option" where
  "decode_response e line = map_option (\<lambda>kvs. \<lparr>rs_OK = bool_field kvs ''ok'', rs_Text = str_field kvs ''text'',
     rs_Data = decoded_map e (map_field ''data'' kvs), rs_Error = str_field kvs ''error''\<rparr>) (read_response line)"

definition control_Call :: "'e ctl_env_scheme \<Rightarrow> string \<Rightarrow> string \<Rightarrow> (string \<times> json) list option \<Rightarrow> string + Response" where
  "control_Call e sock oper m = (case ctl_dial e sock of
       Some err \<Rightarrow> Inl (''connect to attnd at '' @ sock @ '': '' @ err @ '' (is the daemon running?)'')
     | None \<Rightarrow> (case ctl_write e sock of
         Some err \<Rightarrow> Inl err
       | None \<Rightarrow>
           (let line = read_line (ctl_answer e sock (request_line oper m)) in
            if line = [] then Inl (ctl_read_err e sock)
            else (case decode_response e line of
                None \<Rightarrow> Inl (''decode response: '' @ cli_json_err e line)
              | Some r \<Rightarrow> Inr r))))"

section \<open>The driver\<close>

definition ParseBool :: "string \<Rightarrow> bool option" where
  "ParseBool s =
     (if s \<in> {''1'', ''t'', ''T'', ''TRUE'', ''true'', ''True''} then Some True
      else if s \<in> {''0'', ''f'', ''F'', ''FALSE'', ''false'', ''False''} then Some False
      else None)"

definition coerce :: "string \<Rightarrow> string \<Rightarrow> json" where
  "coerce key val =
     (if key = ''limit'' then (case Atoi val of Some n \<Rightarrow> JInt n | None \<Rightarrow> JStr val)
      else if key = ''members'' then JList (map JStr (filter (\<lambda>p. p \<noteq> []) (map trim_space (split_char (CHR '','') val))))
      else if key = ''unblock'' then (case ParseBool val of Some b \<Rightarrow> JBool b | None \<Rightarrow> JStr val)
      else JStr val)"

text \<open>What the program prints on its two outputs, and its exit code.\<close>

record exit =
  ex_out :: "string list"
  ex_err :: "string list"
  ex_code :: nat

definition failed :: "nat \<Rightarrow> string \<Rightarrow> exit" where
  "failed code err = \<lparr>ex_out = [], ex_err = [err], ex_code = code\<rparr>"

text \<open>The leading flags: the rest of the words, the socket, and whether the arguments are JSON.\<close>

fun leading_flags :: "string list \<Rightarrow> string \<Rightarrow> bool \<Rightarrow> exit + string list \<times> string \<times> bool" where
  "leading_flags [] sock raw = Inr ([], sock, raw)"
| "leading_flags (a # ws) sock raw =
     (if \<not> has_prefix a ''--'' then Inr (a # ws, sock, raw)
      else if a = ''--sock'' \<and> ws \<noteq> [] then leading_flags (tl ws) (hd ws) raw
      else if a = ''--json'' then leading_flags ws sock True
      else Inl (failed 2 (''unknown flag: '' @ a)))"

fun pair_args :: "string list \<Rightarrow> exit + (string \<times> json) list" where
  "pair_args [] = Inr []"
| "pair_args (kv # ws) = (case index_byte kv (CHR ''='') of
       None \<Rightarrow> Inl (failed 2 (''expected key=value, got '' @ quote kv))
     | Some i \<Rightarrow> (case pair_args ws of
         Inl x \<Rightarrow> Inl x
       | Inr kvs \<Rightarrow> Inr ((take i kv, coerce (take i kv) (drop (i + 1) kv)) # kvs)))"

definition attnctl_args :: "'e cli_env_scheme \<Rightarrow> bool \<Rightarrow> string list \<Rightarrow> exit + (string \<times> json) list option" where
  "attnctl_args e raw ws =
     (if raw then (case ws of
          [w] \<Rightarrow> (case unmarshal_map e w of Inl err \<Rightarrow> Inl (failed 2 (''invalid --json: '' @ err)) | Inr m \<Rightarrow> Inr m)
        | _ \<Rightarrow> Inl (failed 2 ''--json expects exactly one JSON object argument''))
      else (case pair_args ws of Inl x \<Rightarrow> Inl x | Inr kvs \<Rightarrow> Inr (Some (last_values kvs))))"

text \<open>\<open>MarshalIndent\<close> with two spaces, below a given indentation.\<close>

fun marshal_indent :: "string \<Rightarrow> json \<Rightarrow> string" where
  "marshal_indent ind (JList xs) =
     (if xs = [] then ''[]''
      else ''['' @ nl @ join (map (\<lambda>x. ind @ ''  '' @ marshal_indent (ind @ ''  '') x) xs) ('','' @ nl) @ nl @ ind @ '']'')"
| "marshal_indent ind (JObj kvs) =
     (if kvs = [] then ''{}''
      else ''{'' @ nl @ join (map snd (sort_key fst (map (\<lambda>(k, v). (k, ind @ ''  '' @ html_string k @ '': '' @
        marshal_indent (ind @ ''  '') v)) kvs))) ('','' @ nl) @ nl @ ind @ ''}'')"
| "marshal_indent ind j = marshal j"

definition print_response :: "Response \<Rightarrow> exit" where
  "print_response r =
     \<lparr>ex_out = (if rs_Text r \<noteq> [] then [rs_Text r] else []) @
        (if rs_Data r \<noteq> [] then [''data: '' @ marshal_indent [] (JObj (rs_Data r))] else []),
      ex_err = (if \<not> rs_OK r \<and> rs_Error r \<noteq> [] then [''error: '' @ rs_Error r] else []),
      ex_code = (if rs_OK r then 0 else 1)\<rparr>"

definition attnctl_call :: "'e ctl_env_scheme \<Rightarrow> 'c config_env_scheme \<Rightarrow> string \<Rightarrow> string \<Rightarrow> (string \<times> json) list option \<Rightarrow> exit" where
  "attnctl_call e c sock oper m = (case (if sock = [] then map_sum id (\<lambda>h. h @ ''/attnd.sock'') (Home c) else Inr sock) of
       Inl err \<Rightarrow> failed 1 (''resolve home: '' @ err)
     | Inr sock \<Rightarrow> (case control_Call e sock oper m of
         Inl err \<Rightarrow> failed 1 (''error: '' @ err)
       | Inr r \<Rightarrow> print_response r))"

definition attnctl :: "'e ctl_env_scheme \<Rightarrow> 'c config_env_scheme \<Rightarrow> string list \<Rightarrow> exit" where
  "attnctl e c argv = (case leading_flags argv [] False of
       Inl x \<Rightarrow> x
     | Inr ([], sock, raw) \<Rightarrow> failed 2 ''usage: attnctl [--sock PATH] [--json] <op> [key=value ...]''
     | Inr (oper # ws, sock, raw) \<Rightarrow> (case attnctl_args e raw ws of
         Inl x \<Rightarrow> x
       | Inr m \<Rightarrow> attnctl_call e c sock oper m))"

end
