(* ===== verification/Mcp.thy ===== *)
theory Mcp
  imports Cli
begin

text \<open>
  The MCP server (\<open>cmd/attn-mcp\<close>): its tools with the types of their arguments (\<open>tools.go\<close>; the texts that
  describe them are not modelled) and the handler they share, which posts the arguments of a call to
  the daemon and answers with the text or the error it gets (\<open>main.go\<close>). The MCP library, which looks up a
  tool by its name, is not under the sources; the check of a URL and the HTTP client are the world's.
\<close>

section \<open>Tools\<close>

datatype prop_type = String_prop | Number_prop | Boolean_prop | Strings_prop | Enum_prop "string list"

record toolDef =
  td_name :: string
  td_props :: "(string \<times> prop_type) list"
  td_required :: "string list"

definition tool :: "string \<Rightarrow> (string \<times> prop_type) list \<Rightarrow> string list \<Rightarrow> toolDef" where
  "tool name ps req = \<lparr>td_name = name, td_props = ps, td_required = req\<rparr>"

definition toolDefs :: "toolDef list" where
  "toolDefs = [
     tool ''send'' [(''to'', String_prop), (''message'', String_prop)] [''to'', ''message''],
     tool ''reply'' [(''message'', String_prop)] [''message''],
     tool ''send_file'' [(''to'', String_prop), (''path'', String_prop)] [''to'', ''path''],
     tool ''history'' [(''with'', String_prop), (''limit'', Number_prop)] [''with''],
     tool ''add_contact'' [(''address'', String_prop), (''name'', String_prop)] [''address''],
     tool ''remove_contact'' [(''address'', String_prop)] [''address''],
     tool ''block'' [(''address'', String_prop), (''unblock'', Boolean_prop)] [''address''],
     tool ''contacts'' [] [],
     tool ''create_group'' [(''name'', String_prop), (''members'', Strings_prop)] [''name'', ''members''],
     tool ''send_group'' [(''group_id'', String_prop), (''message'', String_prop)] [''group_id'', ''message''],
     tool ''add_to_group'' [(''group_id'', String_prop), (''address'', String_prop), (''name'', String_prop)] [''group_id'', ''address''],
     tool ''leave_group'' [(''group_id'', String_prop)] [''group_id''],
     tool ''accept_group'' [(''group_id'', String_prop)] [''group_id''],
     tool ''decline_group'' [(''group_id'', String_prop)] [''group_id''],
     tool ''kick_from_group'' [(''group_id'', String_prop), (''address'', String_prop)] [''group_id'', ''address''],
     tool ''transfer_group_admin'' [(''group_id'', String_prop), (''address'', String_prop)] [''group_id'', ''address''],
     tool ''groups'' [] [],
     tool ''peers'' [] [],
     tool ''react'' [(''emoji'', String_prop), (''message_id'', String_prop)] [''emoji''],
     tool ''register_name'' [(''label'', String_prop)] [''label''],
     tool ''lookup'' [(''query'', String_prop)] [''query''],
     tool ''names'' [(''address'', String_prop)] [],
     tool ''transfer_name'' [(''label'', String_prop), (''to'', String_prop)] [''label'', ''to''],
     tool ''set_primary_name'' [(''label'', String_prop)] [''label''],
     tool ''mute'' [(''target'', String_prop), (''duration'', String_prop)] [''target''],
     tool ''unmute'' [(''target'', String_prop)] [''target''],
     tool ''mutes'' [] [],
     tool ''status'' [(''state'', Enum_prop [''online'', ''away'']), (''message'', String_prop)] [''state''],
     tool ''status_of'' [(''target'', String_prop)] [''target'']]"

section \<open>Calls\<close>

record CallToolResult =
  tr_IsError :: bool
  tr_Text :: string

definition errResult :: "string \<Rightarrow> CallToolResult" where
  "errResult msg = \<lparr>tr_IsError = True, tr_Text = msg\<rparr>"

record mcp_env = cli_env +
  mcp_url_err :: "string \<Rightarrow> string option"

text \<open>The address of the daemon: the flag, the environment, the default.\<close>

definition mcp_daemonAddr :: "'e mcp_env_scheme \<Rightarrow> string \<Rightarrow> string" where
  "mcp_daemonAddr e daemon = (if daemon \<noteq> [] then daemon else daemonAddr e)"

text \<open>The answer of the daemon: the text, the error it replied, or the failure of the call; at most 4 MiB are read.\<close>

datatype daemon_answer = Answer_text string | Daemon_error string | Transport_error string

definition read_reply :: "nat \<Rightarrow> string \<Rightarrow> daemon_answer" where
  "read_reply status raw =
     (case unmarshal_struct \<lparr>fs_str = [''text'', ''error''], fs_int = [], fs_bool = [''ok''], fs_strs = []\<rparr> raw of
        None \<Rightarrow> Transport_error (''bad daemon response ('' @ nat_str status @ ''): '' @ trim_space raw)
      | Some kvs \<Rightarrow> if \<not> bool_field kvs ''ok''
          then (if str_field kvs ''error'' = [] then Answer_text [] else Daemon_error (str_field kvs ''error''))
          else Answer_text (str_field kvs ''text''))"

definition callDaemon :: "'e mcp_env_scheme \<Rightarrow> string \<Rightarrow> string \<Rightarrow> (string \<times> json) list option \<Rightarrow> http_request option \<times> daemon_answer" where
  "callDaemon e addr oper m =
     (let req = op_request addr oper m in case mcp_url_err e (rq_url req) of
        Some err \<Rightarrow> (None, Transport_error err)
      | None \<Rightarrow> (Some req, (case cli_http e req of
            Inl err \<Rightarrow> Transport_error (''attnd unreachable at '' @ addr @ '' ('' @ err @ '') '' @ em_dash @ '' is the daemon running?'')
          | Inr (status, raw) \<Rightarrow> read_reply status (take 4194304 raw))))"

text \<open>The handler of every tool, for the name and the raw arguments of a call, with the request it makes. Without
  arguments the map is empty.\<close>

definition mcp_handler :: "'e mcp_env_scheme \<Rightarrow> string \<Rightarrow> string \<Rightarrow> string \<Rightarrow> http_request option \<times> CallToolResult" where
  "mcp_handler e addr oper raw =
     (case (if raw = [] then Inr (Some []) else unmarshal_map e raw) of
        Inl err \<Rightarrow> (None, errResult (''invalid arguments: '' @ err))
      | Inr m \<Rightarrow> apsnd (\<lambda>a. case a of
            Transport_error err \<Rightarrow> errResult err
          | Daemon_error err \<Rightarrow> errResult err
          | Answer_text text \<Rightarrow> \<lparr>tr_IsError = False, tr_Text = text\<rparr>) (callDaemon e addr oper m))"

text \<open>The bind address of the HTTP transport.\<close>

definition mcp_loopbackOnly :: "string \<Rightarrow> string option" where
  "mcp_loopbackOnly addr = (case SplitHostPort addr of
       None \<Rightarrow> Some (''invalid addr '' @ quote addr)
     | Some (host, port) \<Rightarrow>
         if trim_space host = ''localhost'' then None
         else (case ParseIP (trim_space host) of
             Some ip \<Rightarrow> if IsLoopback ip then None else Some (''refusing non-loopback bind '' @ quote addr @ '' (localhost only)'')
           | None \<Rightarrow> Some (''refusing non-loopback bind '' @ quote addr @ '' (localhost only)'')))"

end
