(* ===== verification/Cli_Props.thy ===== *)
theory Cli_Props
  imports Cli Http_Props Surface_Frames
begin

text \<open>
  Properties of the command line client: no word of a message is lost, a command is the operation of the
  daemon with its arguments, and when a call panics.
\<close>

section \<open>Words\<close>

text \<open>The words of a command line but the flags that every command has.\<close>

fun plain_words :: "string list \<Rightarrow> string list" where
  "plain_words [] = []"
| "plain_words (a # argv) =
     (if a = ''--'' then argv
      else if a = ''--json'' \<or> has_prefix a ''--addr='' then plain_words argv
      else if a = ''--addr'' then (case argv of [] \<Rightarrow> [] | b # rest \<Rightarrow> plain_words rest)
      else a # plain_words argv)"

lemma update_not_empty [simp]: "AList.update k v m \<noteq> []" "List.insert x l \<noteq> []"
  by (cases m; auto) (auto simp: List.insert_def)

lemma not_flag:
  assumes "\<not> has_prefix a ''--''"
  shows "a \<noteq> ''--''" "a \<noteq> ''--json''" "a \<noteq> ''--addr''" "\<not> has_prefix a ''--addr=''"
  using assms by (force simp: has_prefix_iff)+

lemma scan_without_flags:
  "w_flags (scan_words argv w) = [] \<Longrightarrow> w_bools (scan_words argv w) = [] \<Longrightarrow>
    w_flags w = [] \<and> w_bools w = [] \<and> w_rest (scan_words argv w) = w_rest w @ plain_words argv"
proof (induction argv w rule: scan_words.induct)
  case (2 a argv w)
  have addr: "a = ''--addr'' \<Longrightarrow> \<not> has_prefix a ''--addr=''" by (simp add: has_prefix_iff)
  consider "a = ''--''" | "a = ''--json''" | "a = ''--addr''" "argv \<noteq> []" | "a \<noteq> ''--''" "a \<noteq> ''--json''" "a \<noteq> ''--addr''" "has_prefix a ''--addr=''"
    | "a \<noteq> ''--''" "a \<noteq> ''--json''" "\<not> (a = ''--addr'' \<and> argv \<noteq> [])" "\<not> has_prefix a ''--addr=''" "has_prefix a ''--''"
    | "\<not> has_prefix a ''--''" "\<not> has_prefix a ''--addr=''" "a \<noteq> ''--''" "a \<noteq> ''--json''" "a \<noteq> ''--addr''"
    using not_flag [of a] addr by blast
  then show ?case
  proof cases
    case 1
    with "2.prems" show ?thesis by simp
  next
    case 2
    with "2.IH"(1) "2.prems" show ?thesis by simp
  next
    case 3
    with addr "2.IH"(2) "2.prems" show ?thesis by (cases argv) simp_all
  next
    case 4
    with "2.IH"(3) "2.prems" show ?thesis by simp
  next
    case 5
    show ?thesis
    proof (cases "index_byte (drop 2 a) (CHR ''='')")
      case (Some eq)
      from "2.IH"(6) [OF 5 refl Some] "2.prems" show ?thesis using 5 Some by (simp add: Let_def)
    next
      case None
      show ?thesis
      proof (cases "argv \<noteq> [] \<and> \<not> has_prefix (hd argv) ''--''")
        case True
        from "2.IH"(4) [OF 5 refl None True] "2.prems" show ?thesis using 5 None True by (simp add: Let_def)
      next
        case False
        from "2.IH"(5) [OF 5 refl None False] "2.prems" show ?thesis using 5 None False by (simp add: Let_def)
      qed
    qed
  next
    case 6
    with "2.IH"(7) "2.prems" show ?thesis by simp
  qed
qed simp

lemma words_without_flags: "w_flags (words_of e argv) = [] \<and> w_bools (words_of e argv) = [] \<Longrightarrow> w_rest (words_of e argv) = plain_words argv"
proof -
  assume "w_flags (words_of e argv) = [] \<and> w_bools (words_of e argv) = []"
  from scan_without_flags [OF conjunct1 [OF this [unfolded words_of_def]] conjunct2 [OF this [unfolded words_of_def]]]
  show ?thesis unfolding words_of_def by simp
qed

text \<open>A word before the others that is no flag, and the sentinel.\<close>

lemma scan_word: "\<not> has_prefix a ''--'' \<Longrightarrow> scan_words (a # argv) w = scan_words argv (w\<lparr>w_rest := w_rest w @ [a]\<rparr>)"
  by (simp add: not_flag)

lemma scan_sentinel: "scan_words (''--'' # argv) w = w\<lparr>w_rest := w_rest w @ argv\<rparr>"
  by simp

text \<open>A command of the table.\<close>

definition table_args :: "spec \<Rightarrow> words \<Rightarrow> (string \<times> json) list" where
  "table_args sp w = last_values (positional sp (w_rest w) @ trailing sp (w_rest w) @ flag_args sp w)"

lemma parse_spec_Parsed:
  "parse_spec command sp w cmd = Parsed v \<longleftrightarrow>
     rejectUnknownFlags command (w_flags w) (w_bools w) (map fst (sp_flags sp) @ map fst (sp_bools sp)) = None \<and>
     (sp_optPos sp \<or> length (sp_pos sp) \<le> length (w_rest w)) \<and>
     (sp_rest sp = ''message'' \<longrightarrow> length (sp_pos sp) < length (w_rest w)) \<and>
     v = cmd\<lparr>inv_op := sp_op sp, inv_args := map_set (positional sp (w_rest w) @ trailing sp (w_rest w) @ flag_args sp w) (inv_args cmd)\<rparr>"
  by (auto simp: parse_spec_def Let_def split: option.split)

lemma specs_apart: "map_of specs ''status'' = None" "map_of specs ''op'' = None"
  by (simp_all add: specs_def)

lemma parse_table:
  assumes "map_of specs command = Some sp"
  shows "parseInvocation e command argv = Parsed v \<longleftrightarrow>
     rejectUnknownFlags command (w_flags (words_of e argv)) (w_bools (words_of e argv)) (map fst (sp_flags sp) @ map fst (sp_bools sp)) = None \<and>
     (sp_optPos sp \<or> length (sp_pos sp) \<le> length (w_rest (words_of e argv))) \<and>
     (sp_rest sp = ''message'' \<longrightarrow> length (sp_pos sp) < length (w_rest (words_of e argv))) \<and>
     v = \<lparr>inv_addr = w_addr (words_of e argv), inv_jsonOut = w_json (words_of e argv), inv_statusShow = False,
       inv_op = sp_op sp, inv_args = Some (table_args sp (words_of e argv))\<rparr>"
proof -
  have "command \<noteq> ''status''" "command \<noteq> ''op''" using assms specs_apart by (metis option.distinct(1))+
  then show ?thesis
    using assms by (simp add: parseInvocation_def Let_def parse_spec_Parsed table_args_def last_values_def map_set_def)
qed

definition send_spec :: spec where
  "send_spec = command_of ''send'' [''to''] ''message'' (''<to> <message'' @ ellipsis @ ''>'')"

lemma spec_send: "map_of specs ''send'' = Some send_spec"
  by (simp add: specs_def send_spec_def)

lemma send_spec_fields: "sp_flags send_spec = []" "sp_bools send_spec = []" "sp_pos send_spec = [''to'']" "sp_optPos send_spec = False"
  "sp_rest send_spec = ''message''" "sp_op send_spec = ''send''"
  by (simp_all add: send_spec_def command_of_def)

lemma send_args: "table_args send_spec w = [(''to'', JStr to), (''message'', JStr (join ms '' ''))]" if "w_rest w = to # ms"
  using that by (simp add: table_args_def last_values_def map_set_def positional_def trailing_def flag_args_def send_spec_fields)

lemma no_flags_allowed: "rejectUnknownFlags command flags bools [] = None \<longleftrightarrow> flags = [] \<and> bools = []"
  by (auto simp: rejectUnknownFlags_def split: list.split)

text \<open>C31: no word of a message is lost: when \<open>attn send\<close> is accepted, the first word that is no global flag is
  the recipient and all the others, in their order, are the message; and any words can be sent behind
  \<open>--\<close>, whatever they look like.\<close>

theorem send_keeps_every_word:
  "(\<forall>v. parseInvocation e ''send'' argv = Parsed v \<longrightarrow>
      (\<exists>to ms. plain_words argv = to # ms \<and> ms \<noteq> [] \<and> inv_op v = ''send'' \<and>
        inv_args v = Some [(''to'', JStr to), (''message'', JStr (join ms '' ''))])) \<and>
    (\<forall>to ms. \<not> has_prefix to ''--'' \<and> ms \<noteq> [] \<longrightarrow>
      (\<exists>v. parseInvocation e ''send'' (to # ''--'' # ms) = Parsed v \<and>
        inv_args v = Some [(''to'', JStr to), (''message'', JStr (join ms '' ''))]))"
proof (intro conjI allI impI)
  fix v
  assume parsed: "parseInvocation e ''send'' argv = Parsed v"
  let ?w = "words_of e argv"
  have none: "w_flags ?w = [] \<and> w_bools ?w = []"
    using parsed unfolding parse_table [OF spec_send] by (simp add: send_spec_fields no_flags_allowed)
  then have rest: "w_rest ?w = plain_words argv" by (simp add: words_without_flags)
  have len: "1 < length (plain_words argv)"
    using parsed unfolding parse_table [OF spec_send] rest by (simp add: send_spec_fields)
  then obtain to ms where words: "plain_words argv = to # ms" by (cases "plain_words argv") auto
  show "\<exists>to ms. plain_words argv = to # ms \<and> ms \<noteq> [] \<and> inv_op v = ''send'' \<and>
      inv_args v = Some [(''to'', JStr to), (''message'', JStr (join ms '' ''))]"
    using parsed len unfolding parse_table [OF spec_send] by (simp add: words rest send_args send_spec_fields)
next
  fix to :: string and ms :: "string list"
  assume "\<not> has_prefix to ''--'' \<and> ms \<noteq> []"
  then have pre: "\<not> has_prefix to ''--''" and ms: "ms \<noteq> []" by simp_all
  let ?w = "words_of e (to # ''--'' # ms)"
  have w: "w_flags ?w = [] \<and> w_bools ?w = []" "w_rest ?w = to # ms"
    unfolding words_of_def scan_word [OF pre] scan_sentinel by simp_all
  show "\<exists>v. parseInvocation e ''send'' (to # ''--'' # ms) = Parsed v \<and>
      inv_args v = Some [(''to'', JStr to), (''message'', JStr (join ms '' ''))]"
    unfolding parse_table [OF spec_send] using ms w by (simp add: send_args [OF w(2)] send_spec_fields no_flags_allowed)
qed

text \<open>C34: a call of the client panics if and only if it is \<open>op\<close> with \<open>--json-args null\<close>, which makes the map of
  arguments \<open>nil\<close>, and one more argument that is to be stored in it.\<close>

theorem cli_panics_iff:
  assumes "w = words_of e argv"
  shows "cli_run e command argv = Panics \<longleftrightarrow>
    command = ''op'' \<and> w_rest w \<noteq> [] \<and>
    (\<exists>raw. map_of (w_flags w) ''json-args'' = Some raw \<and> json_parse raw = Some JNull) \<and>
    ((\<exists>kv \<in> set (tl (w_rest w)). CHR ''='' \<in> set kv) \<or> (\<exists>k \<in> set (map fst (w_flags w)). k \<noteq> ''json-args''))"
proof -
  have pairs: "pairs_of ws \<noteq> [] \<longleftrightarrow> (\<exists>kv \<in> set ws. CHR ''='' \<in> set kv)" for ws
    by (auto simp: pairs_of_def index_byte_None split: option.splits)
  have flags: "filter (\<lambda>(k, v). k \<noteq> ''json-args'') (w_flags w) \<noteq> [] \<longleftrightarrow> (\<exists>k \<in> set (map fst (w_flags w)). k \<noteq> ''json-args'')"
    by (force simp: filter_empty_conv)
  have nil: "json_args_flag e raw = Inr None \<longleftrightarrow> (\<exists>r. raw = Some r \<and> json_parse r = Some JNull)" for raw
    by (auto simp: json_args_flag_def unmarshal_map_def split: option.splits json.splits sum.splits)
  have oper: "parse_op e w cmd = Panics \<longleftrightarrow> w_rest w \<noteq> [] \<and> json_args_flag e (map_of (w_flags w) ''json-args'') = Inr None \<and>
      (pairs_of (tl (w_rest w)) \<noteq> [] \<or> filter (\<lambda>(k, v). k \<noteq> ''json-args'') (w_flags w) \<noteq> [])" for cmd
    by (auto simp: parse_op_def Let_def split: sum.split)
  have no_panic: "parse_status w c \<noteq> Panics" "parse_spec command sp w c \<noteq> Panics" for sp c
    by (auto simp: parse_status_def parse_spec_def Let_def split: option.split)
  have "cli_run e command argv = Panics \<longleftrightarrow> parseInvocation e command argv = Panics"
    by (auto simp: cli_run_def split: cli_result.split)
  also have "\<dots> \<longleftrightarrow> command = ''op'' \<and> w_rest w \<noteq> [] \<and> json_args_flag e (map_of (w_flags w) ''json-args'') = Inr None \<and>
      (pairs_of (tl (w_rest w)) \<noteq> [] \<or> filter (\<lambda>(k, v). k \<noteq> ''json-args'') (w_flags w) \<noteq> [])"
    unfolding parseInvocation_def Let_def assms [symmetric]
    by (cases "command = ''status''"; cases "command = ''op''"; cases "map_of specs command") (simp_all add: no_panic oper)
  finally show ?thesis unfolding nil pairs flags .
qed

section \<open>From the command line to the daemon\<close>

subsection \<open>The arguments\<close>

text \<open>Values that are read as they were written: texts, truth values, integers that a \<open>float64\<close> holds, lists of texts.\<close>

definition plain_value :: "json \<Rightarrow> bool" where
  "plain_value v \<longleftrightarrow> (\<exists>s. v = JStr s) \<or> (\<exists>b. v = JBool b) \<or> (\<exists>i. v = JInt i \<and> \<bar>i\<bar> \<le> 2 ^ 53) \<or> (\<exists>ss. v = JList (map JStr ss))"

lemma small_float: "\<bar>i\<bar> \<le> 2 ^ 53 \<Longrightarrow> floats_fit (JInt i)"
  by (simp add: json_float_def float_quotient_def nat_le_iff)

lemma plain_value_json:
  assumes "plain_value v"
  shows "canon v = v" "integral v" "depth v \<le> 1" "floats_fit v"
proof -
  have "foldr max (map depth (map JStr ss)) 0 = 0" for ss by (induction ss) simp_all
  then show "canon v = v" "integral v" "depth v \<le> 1"
    using assms by (auto simp: plain_value_def list_all_iff comp_def)
  show "floats_fit v" using assms small_float by (auto simp: plain_value_def list_all_iff simp del: floats_fit.simps(1))
qed

lemma last_values_facts:
  "distinct (map fst m) \<Longrightarrow> distinct (map fst (foldl (\<lambda>m (k, v). AList.update k v m) m kvs)) \<and>
    (\<forall>k. map_of (foldl (\<lambda>m (k, v). AList.update k v m) m kvs) k = (map_of m ++ map_of (rev kvs)) k)"
  by (induction kvs arbitrary: m)
    (auto simp: distinct_update update_conv' map_add_def split: option.splits)

lemma last_values_distinct: "distinct (map fst (last_values kvs))"
  using last_values_facts [of "[]" kvs] by (simp add: last_values_def map_set_def)

lemma last_values_set: "set (last_values kvs) \<subseteq> set kvs"
proof
  fix x assume x: "x \<in> set (last_values kvs)"
  then have "map_of (last_values kvs) (fst x) = Some (snd x)"
    by (simp add: map_of_eq_Some_iff [OF last_values_distinct])
  then have "map_of (rev kvs) (fst x) = Some (snd x)"
    using last_values_facts [of "[]" kvs] by (simp add: last_values_def map_set_def)
  then show "x \<in> set kvs" by (cases x) (auto dest: map_of_SomeD)
qed

lemma args_plain:
  "(k, v) \<in> set (positional sp ws) \<Longrightarrow> plain_value v" "(k, v) \<in> set (trailing sp ws) \<Longrightarrow> plain_value v"
  "(k, v) \<in> set (flag_args sp w) \<Longrightarrow> plain_value v"
proof -
  show "(k, v) \<in> set (positional sp ws) \<Longrightarrow> plain_value v" by (auto simp: positional_def plain_value_def)
  show "(k, v) \<in> set (trailing sp ws) \<Longrightarrow> plain_value v"
    by (simp add: trailing_def plain_value_def Let_def split: if_splits) blast
  show "(k, v) \<in> set (flag_args sp w) \<Longrightarrow> plain_value v"
    by (auto simp: flag_args_def plain_value_def split: if_splits option.splits)
qed

lemma table_args_plain: "(k, v) \<in> set (table_args sp w) \<Longrightarrow> plain_value v"
proof -
  assume "(k, v) \<in> set (table_args sp w)"
  then have "(k, v) \<in> set (positional sp (w_rest w) @ trailing sp (w_rest w) @ flag_args sp w)"
    unfolding table_args_def by (rule subsetD [OF last_values_set])
  then show "plain_value v" using args_plain unfolding set_append Un_iff by metis
qed

lemma table_args_distinct: "distinct (map fst (table_args sp w))"
  by (simp add: table_args_def last_values_distinct)

text \<open>What the daemon decodes from them.\<close>

definition wire_args :: "(string \<times> json) list \<Rightarrow> args" where
  "wire_args t = rev (map (\<lambda>(k, v). (k, json_arg v)) (sort_key fst t))"

lemma wire_args_map:
  assumes "distinct (map fst t)"
  shows "map_of (wire_args t) k = map_option json_arg (map_of t k)"
proof -
  from assms have d: "distinct (map fst (rev (sort_key fst t)))"
    by (simp add: rev_map [symmetric] distinct_map)
  have "map_of (rev (sort_key fst t)) = map_of t"
    using map_of_inject_set [OF d assms] by simp
  then show ?thesis by (simp add: wire_args_def rev_map map_of_map)
qed

lemma foldr_max_bound: "(\<And>x. x \<in> set xs \<Longrightarrow> x \<le> n) \<Longrightarrow> foldr max xs (0 :: nat) \<le> n"
  by (induction xs) auto

lemma plain_object:
  assumes plain: "\<And>k v. (k, v) \<in> set t \<Longrightarrow> plain_value v"
  shows "integral (JObj t)" "depth (JObj t) \<le> 2" "canon (JObj t) = JObj (sort_key fst t)"
    "json_args (JObj (sort_key fst t)) = Some (wire_args t)"
proof -
  show "integral (JObj t)" using plain plain_value_json(2) by (auto simp: list_all_iff)
  have "foldr max (map (\<lambda>(k, v). depth v) t) 0 \<le> 1"
    using plain plain_value_json(3) by (intro foldr_max_bound) auto
  then show "depth (JObj t) \<le> 2" by simp
  have "map (\<lambda>(k, v). (k, canon v)) t = t"
    using plain plain_value_json(1) by (intro map_idI) auto
  then show "canon (JObj t) = JObj (sort_key fst t)" by simp
  have "list_all (\<lambda>(k, v). floats_fit v) (sort_key fst t)"
    using plain plain_value_json(4) by (auto simp: list_all_iff)
  then show "json_args (JObj (sort_key fst t)) = Some (wire_args t)" by (simp add: json_args_def wire_args_def)
qed

lemma wire_args_decoded:
  assumes "\<And>k v. (k, v) \<in> set t \<Longrightarrow> plain_value v" "h_body r = marshal (JObj t)" "length (h_body r) \<le> maxBody"
  shows "decodeArgs e r = Inr (wire_args t)"
proof -
  have "integral (JObj t)" "depth (JObj t) \<le> 2" "canon (JObj t) = JObj (sort_key fst t)"
      "json_args (JObj (sort_key fst t)) = Some (wire_args t)"
    using plain_object [of t] assms(1) by blast+
  then show ?thesis
    using assms(2,3)
    by (simp add: decodeArgs_def decode_first_marshal maxNestingDepth_def del: marshal.simps depth.simps integral.simps canon.simps)
qed

subsection \<open>The answer\<close>

definition plain_data :: "(string \<times> json) list \<Rightarrow> bool" where
  "plain_data kvs \<longleftrightarrow> integral (JObj kvs) \<and> depth (JObj kvs) < maxNestingDepth \<and> floats_fit (canon (JObj kvs))"

lemma parse_line:
  assumes "integral j" "depth j \<le> maxNestingDepth"
  shows "json_parse (marshal j @ nl) = Some (canon j)"
  using scan_marshal [OF assms, of nl] by (simp add: json_parse_def ends_def nl_def is_ws_def)

text \<open>The reply of the daemon, parsed by a client.\<close>

lemma error_reply_parsed:
  assumes "op_reply (Inl err) = JsonReply 200 j"
  shows "json_parse (marshal j @ nl) = Some (JObj [(''error'', JStr err), (''ok'', JBool False)])"
proof -
  have j: "j = JObj [(''ok'', JBool False), (''error'', JStr err)]" using assms by (simp add: op_reply_def)
  show ?thesis
    by (subst parse_line) (simp_all add: j maxNestingDepth_def sort_key_def insort_key.simps del: marshal.simps)
qed

lemma result_reply_parsed:
  assumes "op_reply (Inr x) = JsonReply 200 j" "plain_data (res_Data x)"
  obtains d where "json_parse (marshal j @ nl) = Some (JObj [(''data'', d), (''ok'', JBool True), (''text'', JStr (res_Text x))])"
    "d = JNull \<or> is_obj d \<and> floats_fit d"
proof -
  define d where "d = (if res_Data x = [] then JNull else JObj (res_Data x))"
  have j: "j = JObj [(''ok'', JBool True), (''text'', JStr (res_Text x)), (''data'', d)]"
    using assms(1) by (simp add: op_reply_def d_def)
  have d: "integral d" "depth d < maxNestingDepth" "canon d = JNull \<or> is_obj (canon d) \<and> floats_fit (canon d)"
    using assms(2) by (auto simp: plain_data_def d_def is_obj_def maxNestingDepth_def)
  have "json_parse (marshal j @ nl) = Some (JObj [(''data'', canon d), (''ok'', JBool True), (''text'', JStr (res_Text x))])"
    by (subst parse_line) (use d(1,2) in \<open>simp_all add: j sort_key_def insort_key.simps del: marshal.simps\<close>)
  with d(3) show thesis using that by blast
qed

lemmas reply_fields = fields_fit_def bool_field_def str_field_def field_values_matching matching_simps
  fold_names is_str_def is_bool_def the_str_def

lemma reply_line:
  assumes "op_reply res = JsonReply 200 j" "\<And>x. res = Inr x \<Longrightarrow> plain_data (res_Data x)"
  shows "op_output False addr (Inr (200, marshal j @ nl)) = (case res of
      Inl err \<Rightarrow> ([], Some err) | Inr x \<Rightarrow> ([trim_right_char (CHR 0x0A) (res_Text x)], None))"
proof (cases res)
  case (Inl err)
  with error_reply_parsed [of err j] assms(1) show ?thesis
    by (simp add: op_output_def read_response_def response_fields_def reply_fields del: marshal.simps)
next
  case (Inr x)
  with assms obtain d where "json_parse (marshal j @ nl) = Some (JObj [(''data'', d), (''ok'', JBool True), (''text'', JStr (res_Text x))])"
      "d = JNull \<or> is_obj d \<and> floats_fit d"
    using result_reply_parsed [of x j] by metis
  then show ?thesis
    by (auto simp: Inr op_output_def read_response_def response_fields_def reply_fields simp del: marshal.simps)
qed

lemma specs_ops: "list_all (\<lambda>(command, sp). sp_op sp \<noteq> [] \<and> CHR ''/'' \<notin> set (sp_op sp)) specs"
  by (simp add: specs_def command_of_def)

text \<open>C29: a command is the operation of the daemon: a command of the table that is accepted makes one request,
  and when the daemon serves it, what happens to the agent is \<open>Dispatch\<close> of the command's operation with
  exactly the values of its words and flags under their keys; the client prints the text of the
  result without its final line feeds, or fails with the error of the operation.\<close>

theorem cli_is_dispatch:
  assumes "map_of specs command = Some sp" "parseInvocation ce command argv = Parsed v" "\<not> inv_jsonOut v"
    and "allowedHost (inv_addr v)"
    and r: "h_method r = ''POST''" "h_host r = inv_addr v" "h_path r = ''/op/'' @ sp_op sp" "h_body r = args_body (inv_args v)"
      "length (h_body r) \<le> maxBody"
    and res: "res = fst (run_state (Dispatch e (sp_op sp) (wire_args (table_args sp (words_of ce argv)))) (ag s))"
    and data: "\<And>x. res = Inr x \<Longrightarrow> plain_data (res_Data x)"
    and answer: "\<And>j. fst (run_state (hostGuard e r) s) = JsonReply 200 j \<Longrightarrow>
      cli_http ce (op_request (inv_addr v) (sp_op sp) (inv_args v)) = Inr (200, marshal j @ nl)"
  shows "ag (snd (run_state (hostGuard e r) s)) = snd (run_state (Dispatch e (sp_op sp) (wire_args (table_args sp (words_of ce argv)))) (ag s)) \<and>
    (\<forall>k. map_of (wire_args (table_args sp (words_of ce argv))) k = map_option json_arg (map_of (table_args sp (words_of ce argv)) k)) \<and>
    cli_run ce command argv = Parsed (Some (op_request (inv_addr v) (sp_op sp) (inv_args v)),
      case res of Inl err \<Rightarrow> ([], Some err) | Inr x \<Rightarrow> ([trim_right_char (CHR 0x0A) (res_Text x)], None))"
proof -
  have v: "inv_args v = Some (table_args sp (words_of ce argv))" "inv_op v = sp_op sp" "\<not> inv_statusShow v"
    using assms(2) unfolding parse_table [OF assms(1)] by simp_all
  have oper: "sp_op sp \<noteq> []" "CHR ''/'' \<notin> set (sp_op sp)"
    using specs_ops map_of_SomeD [OF assms(1)] by (auto simp: list_all_iff)
  have "decodeArgs e r = Inr (wire_args (table_args sp (words_of ce argv)))"
    using r(4,5) table_args_plain by (intro wire_args_decoded) (simp_all add: v(1) args_body_def)
  note served = hostGuard_op [OF _ r(1,3) oper this, unfolded r(2), OF assms(4), of s]
  obtain j where j: "op_reply res = JsonReply 200 j" by (simp add: op_reply_def)
  have "cli_run ce command argv = Parsed (Some (op_request (inv_addr v) (sp_op sp) (inv_args v)),
      op_output False (inv_addr v) (Inr (200, marshal j @ nl)))"
    using answer [of j] assms(3) j by (simp add: cli_run_def assms(2) v(2,3) doOp_def Let_def served(2) res)
  then show ?thesis
    by (simp add: served(1) wire_args_map table_args_distinct reply_line [OF j data] del: marshal.simps)
qed

section \<open>Witnesses\<close>

definition sample_cli_env :: cli_env where
  "sample_cli_env = \<lparr>getenv = (\<lambda>k. []), cli_http = (\<lambda>r. Inr (200, [])), cli_json_err = (\<lambda>s. s), float_text = id\<rparr>"

lemma send_keeps_every_word_witness:
  "\<exists>v. parseInvocation sample_cli_env ''send'' [''bob'', ''--'', ''hi'', ''--x''] = Parsed v \<and>
    inv_args v = Some [(''to'', JStr ''bob''), (''message'', JStr ''hi --x'')]"
proof -
  have "\<not> has_prefix ''bob'' ''--''" "join [''hi'', ''--x''] '' '' = ''hi --x''" by code_simp+
  then show ?thesis
    using conjunct2 [OF send_keeps_every_word [of sample_cli_env "[]"], rule_format, of "''bob''" "[''hi'', ''--x'']"] by simp
qed

lemma cli_panics_iff_witness:
  "cli_run sample_cli_env ''op'' [''peers'', ''--json-args'', ''null'', ''k=v''] = Panics"
proof -
  have "w_rest (words_of sample_cli_env [''peers'', ''--json-args'', ''null'', ''k=v'']) = [''peers'', ''k=v''] \<and>
      w_flags (words_of sample_cli_env [''peers'', ''--json-args'', ''null'', ''k=v'']) = [(''json-args'', ''null'')]"
    by code_simp
  moreover have "json_parse ''null'' = Some JNull"
    using json_parse_marshal [of JNull] by simp
  ultimately show ?thesis
    unfolding cli_panics_iff [OF refl] by simp
qed

definition mute_call :: http_req where
  "mute_call = \<lparr>h_method = ''POST'', h_path = ''/op/mute'', h_host = ''127.0.0.1:9742'', h_origin = [],
     h_upgrade = False, h_query = (\<lambda>k. []), h_body = marshal (JObj [(''target'', JStr ''all'')])\<rparr>"

definition served_cli_env :: cli_env where
  "served_cli_env = sample_cli_env\<lparr>cli_http := (\<lambda>q.
     case fst (run_state (hostGuard sample_server_env mute_call) sample_server) of
       JsonReply n j \<Rightarrow> Inr (n, marshal j @ nl) | _ \<Rightarrow> Inl [])\<rparr>"

lemma cli_is_dispatch_witness:
  "ag (snd (run_state (hostGuard sample_server_env mute_call) sample_server)) =
     snd (run_state (Dispatch sample_server_env ''mute'' [(''target'', AString ''all'')]) (ag sample_server))"
proof -
  obtain sp where sp: "map_of specs ''mute'' = Some sp" "sp_op sp = ''mute''" "sp_pos sp = [''target'']" "sp_rest sp = []"
      "sp_flags sp = [(''duration'', ''duration'')]" "sp_bools sp = []" "sp_optPos sp = False"
    by (simp add: specs_def command_of_def)
  have "words_of served_cli_env [''all''] = words_of sample_cli_env [''all'']"
    by (simp add: words_of_def daemonAddr_def served_cli_env_def)
  also have "words_of sample_cli_env [''all''] = \<lparr>w_addr = ''127.0.0.1:9742'', w_json = False, w_rest = [''all''], w_flags = [], w_bools = []\<rparr>"
    by code_simp
  finally have w: "words_of served_cli_env [''all''] = \<lparr>w_addr = ''127.0.0.1:9742'', w_json = False, w_rest = [''all''], w_flags = [], w_bools = []\<rparr>" .
  have t: "table_args sp (words_of served_cli_env [''all'']) = [(''target'', JStr ''all'')]"
    by (simp add: w sp table_args_def positional_def trailing_def flag_args_def last_values_def map_set_def)
  then have a: "wire_args (table_args sp (words_of served_cli_env [''all''])) = [(''target'', AString ''all'')]"
    by (simp add: wire_args_def)
  obtain v where v: "parseInvocation served_cli_env ''mute'' [''all''] = Parsed v" "\<not> inv_jsonOut v" "inv_addr v = ''127.0.0.1:9742''"
      "inv_args v = Some [(''target'', JStr ''all'')]"
    using parse_table [OF sp(1), of served_cli_env "[''all'']"] by (simp add: w t [unfolded w] sp rejectUnknownFlags_def)
  have host: "allowedHost ''127.0.0.1:9742''" by code_simp
  have len: "length (marshal (JObj [(''target'', JStr ''all'')])) \<le> maxBody"
  proof -
    have "length (marshal (JObj [(''target'', JStr ''all'')])) = 16" by code_simp
    then show ?thesis by (simp add: maxBody_def)
  qed
  have "case fst (run_state (Dispatch sample_server_env ''mute'' [(''target'', AString ''all'')]) (ag sample_server)) of
      Inl err \<Rightarrow> True | Inr x \<Rightarrow> res_Data x = []" by code_simp
  then have data: "plain_data (res_Data x)"
    if "fst (run_state (Dispatch sample_server_env ''mute'' [(''target'', AString ''all'')]) (ag sample_server)) = Inr x" for x
    using that by (simp add: plain_data_def maxNestingDepth_def)
  have m: "h_method mute_call = ''POST''" "h_host mute_call = ''127.0.0.1:9742''" "h_path mute_call = ''/op/'' @ ''mute''"
      "h_body mute_call = args_body (inv_args v)" "length (h_body mute_call) \<le> maxBody"
    using len by (simp_all add: mute_call_def v(4) args_body_def del: marshal.simps)
  have ans: "cli_http served_cli_env q = Inr (200, marshal j @ nl)"
    if "fst (run_state (hostGuard sample_server_env mute_call) sample_server) = JsonReply 200 j" for q j
    using that by (simp add: served_cli_env_def del: marshal.simps)
  from cli_is_dispatch [OF sp(1) v(1,2), unfolded v(3) sp(2) a, OF host m(1-5) refl data ans]
  show ?thesis by (rule conjunct1)
qed

end
