(* ===== verification/Mcp_Props.thy ===== *)
theory Mcp_Props
  imports Mcp Cli_Props
begin

text \<open>
  Properties of the MCP server: its tools are the operations of the agent with their arguments, and a
  call of a tool is \<open>Dispatch\<close>.
\<close>

section \<open>Tools and operations\<close>

lemma stringArg_cong: "map_of args k = map_of args' k \<Longrightarrow> stringArg args k = stringArg args' k"
  by (simp add: stringArg_def)

lemma intArg_cong: "map_of args k = map_of args' k \<Longrightarrow> intArg args k d = intArg args' k d"
  by (simp add: intArg_def)

lemma boolArg_cong: "map_of args k = map_of args' k \<Longrightarrow> boolArg args k = boolArg args' k"
  by (simp add: boolArg_def)

lemma label_first: "l \<noteq> [] \<Longrightarrow> firstNonEmpty [l, n] = l"
  by simp

lemma tool_names: "map td_name toolDefs =
    [''send'', ''reply'', ''send_file'', ''history'', ''add_contact'', ''remove_contact'', ''block'', ''contacts'', ''create_group'',
     ''send_group'', ''add_to_group'', ''leave_group'', ''accept_group'', ''decline_group'', ''kick_from_group'',
     ''transfer_group_admin'', ''groups'', ''peers'', ''react'', ''register_name'', ''lookup'', ''names'', ''transfer_name'',
     ''set_primary_name'', ''mute'', ''unmute'', ''mutes'', ''status'', ''status_of'']"
  by (simp add: toolDefs_def tool_def)

lemma unknown_op:
  assumes "oper \<notin> set (map td_name toolDefs)"
  shows "Dispatch e oper args = fail (''unknown op: '' @ oper)"
  using assms unfolding tool_names by (simp add: Dispatch_def)

text \<open>The arguments that a tool declares are all that its operation looks at.\<close>

definition agree :: "toolDef \<Rightarrow> args \<Rightarrow> args \<Rightarrow> bool" where
  "agree t args args' \<longleftrightarrow> list_all (\<lambda>k. map_of args k = map_of args' k) (map fst (td_props t)) \<and>
     (''label'' \<in> set (map fst (td_props t)) \<longrightarrow> stringArg args' ''label'' \<noteq> [])"

lemma tool_reads_its_props:
  "list_all (\<lambda>t. agree t args args' \<longrightarrow> Dispatch e (td_name t) args = Dispatch e (td_name t) args') toolDefs"
  unfolding toolDefs_def tool_def list.pred_inject
  by (intro conjI impI TrueI)
    (simp_all add: agree_def Dispatch_def Let_def stringArg_cong [of args _ args'] intArg_cong [of args _ args']
      boolArg_cong [of args _ args'])

text \<open>The keys under which a command of the client puts its words and flags.\<close>

definition spec_keys :: "spec \<Rightarrow> string list" where
  "spec_keys sp = sp_pos sp @ (if sp_rest sp = [] then [] else [sp_rest sp]) @ map snd (sp_flags sp) @ map snd (sp_bools sp)"

lemma commands_are_tools:
  "list_all (\<lambda>(command, sp). list_ex (\<lambda>t. td_name t = sp_op sp \<and> set (spec_keys sp) = set (map fst (td_props t))) toolDefs) specs"
  by (simp add: specs_def command_of_def toolDefs_def tool_def spec_keys_def insert_commute)

text \<open>The tools are the operations: a name that is no tool is no operation, an operation looks at no argument
  but those its tool declares (an empty label aside, for which \<open>name\<close> is read), and every command of the
  command line has a tool with the same name of the operation and the same arguments.\<close>

theorem tools_are_operations:
  "(\<forall>oper args. oper \<notin> set (map td_name toolDefs) \<longrightarrow> Dispatch e oper args = fail (''unknown op: '' @ oper)) \<and>
   (\<forall>t \<in> set toolDefs. \<forall>args args'.
      (\<forall>k \<in> set (map fst (td_props t)). map_of args k = map_of args' k) \<and>
      (''label'' \<in> set (map fst (td_props t)) \<longrightarrow> stringArg args' ''label'' \<noteq> []) \<longrightarrow>
      Dispatch e (td_name t) args = Dispatch e (td_name t) args') \<and>
   (\<forall>(command, sp) \<in> set specs. \<exists>t \<in> set toolDefs. td_name t = sp_op sp \<and> set (spec_keys sp) = set (map fst (td_props t)))"
proof (intro conjI)
  show "\<forall>oper args. oper \<notin> set (map td_name toolDefs) \<longrightarrow> Dispatch e oper args = fail (''unknown op: '' @ oper)"
    using unknown_op by blast
  show "\<forall>t \<in> set toolDefs. \<forall>args args'.
      (\<forall>k \<in> set (map fst (td_props t)). map_of args k = map_of args' k) \<and>
      (''label'' \<in> set (map fst (td_props t)) \<longrightarrow> stringArg args' ''label'' \<noteq> []) \<longrightarrow>
      Dispatch e (td_name t) args = Dispatch e (td_name t) args'"
    using tool_reads_its_props [of _ _ e] unfolding list_all_iff agree_def by blast
  show "\<forall>(command, sp) \<in> set specs. \<exists>t \<in> set toolDefs. td_name t = sp_op sp \<and> set (spec_keys sp) = set (map fst (td_props t))"
    using commands_are_tools unfolding list_all_iff list_ex_iff by blast
qed

lemma tools_are_operations_witness:
  "Dispatch sample_agent_env ''mute'' [(''target'', AString ''all''), (''loud'', ABool True)] =
     Dispatch sample_agent_env ''mute'' [(''target'', AString ''all'')] \<and>
   Dispatch sample_agent_env ''shout'' [] = fail ''unknown op: shout''"
proof -
  have t: "tool ''mute'' [(''target'', String_prop), (''duration'', String_prop)] [''target''] \<in> set toolDefs"
    by (simp add: toolDefs_def)
  show ?thesis
    using tools_are_operations [of sample_agent_env, THEN conjunct1, rule_format, of "''shout''" "[]"]
      tools_are_operations [of sample_agent_env, THEN conjunct2, THEN conjunct1, rule_format, OF t,
        of "[(''target'', AString ''all''), (''loud'', ABool True)]" "[(''target'', AString ''all'')]"]
    by (simp add: tool_names tool_def)
qed

section \<open>Calls\<close>

lemma read_reply_line:
  assumes "op_reply res = JsonReply 200 j" "\<And>x. res = Inr x \<Longrightarrow> plain_data (res_Data x)"
  shows "read_reply 200 (marshal j @ nl) = (case res of
      Inl err \<Rightarrow> if err = [] then Answer_text [] else Daemon_error err | Inr x \<Rightarrow> Answer_text (res_Text x))"
proof (cases res)
  case (Inl err)
  with error_reply_parsed [of err j] assms(1) show ?thesis
    by (simp add: read_reply_def unmarshal_struct_def into_struct_def reply_fields del: marshal.simps)
next
  case (Inr x)
  with assms obtain d where "json_parse (marshal j @ nl) = Some (JObj [(''data'', d), (''ok'', JBool True), (''text'', JStr (res_Text x))])"
    using result_reply_parsed [of x j] by metis
  then show ?thesis
    by (simp add: Inr read_reply_def unmarshal_struct_def into_struct_def reply_fields del: marshal.simps)
qed

text \<open>A map is read back as it is, when numbers are kept.\<close>

lemma update_new_key: "k \<notin> fst ` set m \<Longrightarrow> AList.update k v m = m @ [(k, v)]"
  by (induction m) auto

lemma last_values_id:
  assumes "distinct (map fst kvs)"
  shows "last_values kvs = kvs"
proof -
  have "foldl (\<lambda>m (k, v). AList.update k v m) m xs = m @ xs"
    if "distinct (map fst (m @ xs))" for m xs :: "(string \<times> json) list"
    using that
  proof (induction xs arbitrary: m)
    case (Cons x xs)
    obtain k v where x: "x = (k, v)" by fastforce
    have "AList.update k v m = m @ [(k, v)]"
      using Cons.prems by (intro update_new_key) (auto simp: x)
    with Cons show ?case by (simp add: x)
  qed simp
  from this [of "[]" kvs] assms show ?thesis by (simp add: last_values_def map_set_def)
qed

definition keeps_numbers :: "'e cli_env_scheme \<Rightarrow> bool" where
  "keeps_numbers e \<longleftrightarrow> (\<forall>i. \<bar>i\<bar> \<le> 2 ^ 53 \<longrightarrow> float_text e (JInt i) = JInt i)"

lemma as_any_plain: "plain_value v \<Longrightarrow> keeps_numbers e \<Longrightarrow> as_any e v = v"
  by (auto simp: plain_value_def keeps_numbers_def)

lemma unmarshal_map_plain:
  assumes plain: "\<And>k v. (k, v) \<in> set kvs \<Longrightarrow> plain_value v" and "distinct (map fst kvs)" "keeps_numbers e"
  shows "unmarshal_map e (marshal (JObj kvs)) = Inr (Some (sort_key fst kvs))"
proof -
  have o: "integral (JObj kvs)" "depth (JObj kvs) \<le> 2" "canon (JObj kvs) = JObj (sort_key fst kvs)"
    using plain_object [of kvs] plain by blast+
  have "map (\<lambda>(k, v). (k, as_any e v)) (sort_key fst kvs) = sort_key fst kvs"
    using plain assms(3) as_any_plain by (intro map_idI) auto
  moreover have "floats_fit (JObj (sort_key fst kvs))"
    using plain plain_value_json(4) by (auto simp: list_all_iff)
  moreover have "last_values (sort_key fst kvs) = sort_key fst kvs"
    using assms(2) by (intro last_values_id) (simp add: distinct_map)
  ultimately show ?thesis
    using o by (simp add: unmarshal_map_def json_parse_marshal maxNestingDepth_def del: marshal.simps depth.simps integral.simps canon.simps floats_fit.simps)
qed

lemma sort_key_again: "sort_key f (sort_key f xs) = sort_key f xs"
  by (simp add: sort_key_id_if_sorted)

lemma marshal_sorted: "marshal (JObj (sort_key fst kvs)) = marshal (JObj kvs)"
  by (simp only: marshal_object sort_key_again)

text \<open>C30: a tool call is the operation of the daemon: a call of a tool with texts, truth values, lists of texts and
  integers that a \<open>float64\<close> holds makes one request; when the daemon serves it, what happens to the
  agent is \<open>Dispatch\<close> of the tool's name with exactly these arguments, and the call answers with the
  text of its result, or as an error with its error.\<close>

theorem mcp_is_dispatch:
  assumes "t \<in> set toolDefs" "distinct (map fst kvs)" "\<And>k v. (k, v) \<in> set kvs \<Longrightarrow> plain_value v"
    and "keeps_numbers me" "allowedHost addr" "mcp_url_err me (''http://'' @ addr @ ''/op/'' @ td_name t) = None"
    and r: "h_method r = ''POST''" "h_host r = addr" "h_path r = ''/op/'' @ td_name t"
      "rq_body (the (fst (mcp_handler me addr (td_name t) (marshal (JObj kvs))))) = RawBody (h_body r)" "length (h_body r) \<le> maxBody"
    and res: "res = fst (run_state (Dispatch e (td_name t) (wire_args kvs)) (ag s))"
    and data: "\<And>x. res = Inr x \<Longrightarrow> plain_data (res_Data x)"
    and answer: "\<And>j q. fst (run_state (hostGuard e r) s) = JsonReply 200 j \<Longrightarrow> fst (mcp_handler me addr (td_name t) (marshal (JObj kvs))) = Some q \<Longrightarrow>
      cli_http me q = Inr (200, marshal j @ nl) \<and> length (marshal j @ nl) \<le> 4194304"
  shows "ag (snd (run_state (hostGuard e r) s)) = snd (run_state (Dispatch e (td_name t) (wire_args kvs)) (ag s)) \<and>
    (\<forall>k. map_of (wire_args kvs) k = map_option json_arg (map_of kvs k)) \<and>
    snd (mcp_handler me addr (td_name t) (marshal (JObj kvs))) = (case res of
        Inl err \<Rightarrow> if err = [] then \<lparr>tr_IsError = False, tr_Text = []\<rparr> else errResult err
      | Inr x \<Rightarrow> \<lparr>tr_IsError = False, tr_Text = res_Text x\<rparr>)"
proof -
  define q where "q = op_request addr (td_name t) (Some (sort_key fst kvs))"
  have "marshal (JObj kvs) \<noteq> []" by (simp only: marshal_object) simp
  then have call: "mcp_handler me addr (td_name t) (marshal (JObj kvs)) = (Some q, case (case cli_http me q of
        Inl err \<Rightarrow> Transport_error (''attnd unreachable at '' @ addr @ '' ('' @ err @ '') '' @ em_dash @ '' is the daemon running?'')
      | Inr (status, raw) \<Rightarrow> read_reply status (take 4194304 raw)) of
        Transport_error err \<Rightarrow> errResult err | Daemon_error err \<Rightarrow> errResult err
      | Answer_text text \<Rightarrow> \<lparr>tr_IsError = False, tr_Text = text\<rparr>)"
    using assms(6) unmarshal_map_plain [OF assms(3,2,4)]
    by (simp add: mcp_handler_def callDaemon_def Let_def q_def op_request_def del: marshal.simps)
  have "h_body r = marshal (JObj kvs)"
    using r(4) by (simp add: call q_def op_request_def args_body_def marshal_sorted del: marshal.simps)
  then have "decodeArgs e r = Inr (wire_args kvs)"
    using r(5) assms(3) by (intro wire_args_decoded) simp_all
  moreover have "td_name t \<in> set (map td_name toolDefs)" using assms(1) by simp
  then have "td_name t \<noteq> []" "CHR ''/'' \<notin> set (td_name t)" unfolding tool_names by auto
  ultimately have served: "ag (snd (run_state (hostGuard e r) s)) = snd (run_state (Dispatch e (td_name t) (wire_args kvs)) (ag s))"
      "fst (run_state (hostGuard e r) s) = op_reply res"
    using hostGuard_op [of r "td_name t" e "wire_args kvs" s] r(1-3) assms(5) res by simp_all
  obtain j where j: "op_reply res = JsonReply 200 j" by (simp add: op_reply_def)
  have a: "cli_http me q = Inr (200, marshal j @ nl)" "length (marshal j @ nl) \<le> 4194304"
    using answer [of j q] by (simp_all add: served(2) j call del: marshal.simps)
  moreover have "take 4194304 (marshal j @ nl) = marshal j @ nl" using a(2) by (rule take_all)
  ultimately show ?thesis
    using served(1) wire_args_map [OF assms(2)] read_reply_line [OF j data]
    by (auto simp: call split: sum.split simp del: marshal.simps)
qed

section \<open>Witness\<close>

lemma html_string_length: "length (html_string s) \<le> 6 * length s + 2"
proof -
  have char: "length (html_char c) \<le> 6" for c by (simp add: html_char_def json_char_def)
  have "length (concat (map html_char s)) \<le> 6 * length s"
  proof (induction s)
    case (Cons c s)
    with char [of c] show ?case by simp
  qed simp
  then show ?thesis by (simp add: html_string_def)
qed

definition served_mcp_env :: mcp_env where
  "served_mcp_env = cli_env.extend served_cli_env (mcp_env.fields (\<lambda>u. None))"

lemma served_mcp_fields: "mcp_url_err served_mcp_env u = None" "float_text served_mcp_env j = j"
  "cli_http served_mcp_env q = (case fst (run_state (hostGuard sample_server_env mute_call) sample_server) of
     JsonReply n j \<Rightarrow> Inr (n, marshal j @ nl) | _ \<Rightarrow> Inl [])"
  by (simp_all add: served_mcp_env_def served_cli_env_def sample_cli_env_def mcp_env.defs cli_env.defs)

lemma mcp_is_dispatch_witness:
  "ag (snd (run_state (hostGuard sample_server_env mute_call) sample_server)) =
     snd (run_state (Dispatch sample_server_env ''mute'' (wire_args [(''target'', JStr ''all'')])) (ag sample_server))"
proof -
  have t: "tool ''mute'' [(''target'', String_prop), (''duration'', String_prop)] [''target''] \<in> set toolDefs" (is "?t \<in> _")
    by (simp add: toolDefs_def)
  have name: "td_name ?t = ''mute''" by (simp add: tool_def)
  have keeps: "keeps_numbers served_mcp_env" by (simp add: keeps_numbers_def served_mcp_fields)
  have plain: "(k, v) \<in> set [(''target'', JStr ''all'')] \<Longrightarrow> plain_value v" for k v by (simp add: plain_value_def)
  have host: "allowedHost ''127.0.0.1:9742''" by code_simp
  have args: "wire_args [(''target'', JStr ''all'')] = [(''target'', AString ''all'')]" by (simp add: wire_args_def)
  have len: "length (marshal (JObj [(''target'', JStr ''all'')])) = 16" by code_simp
  define res where "res = fst (run_state (Dispatch sample_server_env ''mute'' (wire_args [(''target'', JStr ''all'')])) (ag sample_server))"
  have "case fst (run_state (Dispatch sample_server_env ''mute'' [(''target'', AString ''all'')]) (ag sample_server)) of
      Inl err \<Rightarrow> False | Inr x \<Rightarrow> res_Data x = [] \<and> length (res_Text x) < 200" by code_simp
  then obtain x where x: "res = Inr x" "res_Data x = []" "length (res_Text x) < 200"
    by (auto simp: res_def args split: sum.splits)
  have data: "plain_data (res_Data y)" if "res = Inr y" for y
    using that x by (simp add: plain_data_def maxNestingDepth_def)
  have "decodeArgs sample_server_env mute_call = Inr (wire_args [(''target'', JStr ''all'')])"
    using plain len by (intro wire_args_decoded) (simp_all add: mute_call_def maxBody_def del: marshal.simps)
  with host have reply: "fst (run_state (hostGuard sample_server_env mute_call) sample_server) = op_reply res"
    unfolding res_def by (intro hostGuard_op(2)) (simp_all add: mute_call_def)
  have small: "length (marshal (JObj [(''ok'', JBool True), (''text'', JStr (res_Text x)), (''data'', JNull)]) @ nl) \<le> 4194304"
    using x(3) html_string_length [of "res_Text x"] html_string_length [of "''ok''"] html_string_length [of "''text''"]
      html_string_length [of "''data''"]
    by (simp add: sort_key_def insort_key.simps nl_def)
  have "unmarshal_map served_mcp_env (marshal (JObj [(''target'', JStr ''all'')])) = Inr (Some [(''target'', JStr ''all'')])"
    using unmarshal_map_plain [of "[(''target'', JStr ''all'')]", OF plain _ keeps]
    by (simp add: sort_key_def insort_key.simps del: marshal.simps)
  moreover have "marshal (JObj [(''target'', JStr ''all'')]) \<noteq> []" using len by (metis list.size(3) zero_neq_numeral)
  ultimately have q: "the (fst (mcp_handler served_mcp_env ''127.0.0.1:9742'' ''mute'' (marshal (JObj [(''target'', JStr ''all'')])))) =
      op_request ''127.0.0.1:9742'' ''mute'' (Some [(''target'', JStr ''all'')])"
    by (simp add: mcp_handler_def callDaemon_def Let_def op_request_def served_mcp_fields del: marshal.simps)
  have m: "h_method mute_call = ''POST''" "h_host mute_call = ''127.0.0.1:9742''" "h_path mute_call = ''/op/'' @ ''mute''"
      "rq_body (the (fst (mcp_handler served_mcp_env ''127.0.0.1:9742'' ''mute'' (marshal (JObj [(''target'', JStr ''all'')]))))) =
        RawBody (h_body mute_call)" "length (h_body mute_call) \<le> maxBody"
    using len unfolding q by (simp_all add: mute_call_def op_request_def args_body_def maxBody_def del: marshal.simps)
  have ans: "cli_http served_mcp_env y = Inr (200, marshal j @ nl) \<and> length (marshal j @ nl) \<le> 4194304"
    if "fst (run_state (hostGuard sample_server_env mute_call) sample_server) = JsonReply 200 j" for y j
    using that small by (auto simp: served_mcp_fields reply op_reply_def x(1,2) simp del: marshal.simps)
  have d: "distinct (map fst [(''target'', JStr ''all'')])" by simp
  show ?thesis
    by (rule mcp_is_dispatch [OF t d _ keeps host, unfolded name, OF _ served_mcp_fields(1) m res_def data ans, THEN conjunct1]) (rule plain)
qed

end
