(* ===== verification/Config_Props.thy ===== *)
theory Config_Props
  imports Config
begin

text \<open>
  What holds of the key of the daemon: once an identity is loaded from the home directory, every
  later start loads the same one; and when an existing key is replaced.
\<close>

section \<open>The law of the key library\<close>

text \<open>A private key that is written in hexadecimal is read back, and its hexadecimal has no spaces.\<close>

definition key_laws :: "'e config_env_scheme \<Rightarrow> bool" where
  "key_laws e \<longleftrightarrow> (case fresh_key e of
       Inl err \<Rightarrow> True
     | Inr k \<Rightarrow> parse_key e (drop 2 (key_hex e k)) = Inr k \<and> (\<forall>c \<in> set (key_hex e k). \<not> is_space c))"

lemma written_key:
  assumes "key_laws e" "fresh_key e = Inr k"
  shows "trim_space (PrivateKeyHex e (fromKey e k) @ nl) \<noteq> []"
    "FromHex e (trim_space (PrivateKeyHex e (fromKey e k) @ nl)) = Inr (fromKey e k)"
proof -
  let ?h = "''0x'' @ drop 2 (key_hex e k)"
  have laws: "parse_key e (drop 2 (key_hex e k)) = Inr k" "\<forall>c \<in> set (key_hex e k). \<not> is_space c"
    using assms by (simp_all add: key_laws_def)
  then have plain: "\<forall>c \<in> set ?h. \<not> is_space c" by (auto simp: is_space_def dest: in_set_dropD)
  have "trim_right (?h @ nl) = trim_right ?h" by (simp add: trim_right_def nl_def is_space_def)
  moreover have "trim_left (?h @ nl) = ?h @ nl" by (simp add: trim_left_def is_space_def)
  ultimately have line: "trim_space (?h @ nl) = ?h"
    using trim_space_plain [OF plain] by (simp add: trim_space_def trim_left_def is_space_def)
  have written: "PrivateKeyHex e (fromKey e k) @ nl = ?h @ nl" by (simp add: PrivateKeyHex_def fromKey_def)
  show "trim_space (PrivateKeyHex e (fromKey e k) @ nl) \<noteq> []" unfolding written line by simp
  show "FromHex e (trim_space (PrivateKeyHex e (fromKey e k) @ nl)) = Inr (fromKey e k)"
    unfolding written line FromHex_def trim_space_plain [OF plain] trim_prefix_append laws(1) by simp
qed

section \<open>Loading\<close>

text \<open>No key is given outside the home directory.\<close>

definition from_home :: "'e config_env_scheme \<Rightarrow> string \<Rightarrow> bool" where
  "from_home e keyHex \<longleftrightarrow> trim_space keyHex = [] \<and> trim_space (conf_env e ''ATTN_PRIVATE_KEY'') = []"

text \<open>The key a home directory holds.\<close>

definition stored_key :: "'e config_env_scheme \<Rightarrow> string \<Rightarrow> disk \<Rightarrow> string" where
  "stored_key e p d = (case ReadFile e p d of Some x \<Rightarrow> trim_space x | None \<Rightarrow> [])"

lemma load_from_file:
  "from_home e keyHex \<Longrightarrow> stored_key e p d \<noteq> [] \<Longrightarrow>
    run_state (loadIdentity e p keyHex gen) d = (FromHex e (stored_key e p d), d)"
  by (simp add: loadIdentity_def from_home_def stored_key_def Let_def)

lemma load_generates:
  "from_home e keyHex \<Longrightarrow> stored_key e p d = [] \<Longrightarrow>
    run_state (loadIdentity e p keyHex gen) d =
      (if gen then run_state (generate_identity e p) d else (Inl (no_identity p), d))"
  by (simp add: loadIdentity_def from_home_def stored_key_def Let_def)

lemma load_given:
  "\<not> from_home e keyHex \<Longrightarrow> snd (run_state (loadIdentity e p keyHex gen) d) = d"
  by (simp add: loadIdentity_def from_home_def)

lemma run_Load:
  assumes "Home e = Inr home"
  shows "run_state (Load e keyHex gen) d = (case mkdir_err e home of
      Some x \<Rightarrow> (Inl (''mkdir home '' @ home @ '': '' @ x), d)
    | None \<Rightarrow> apfst (map_sum id (config_at e home))
        (run_state (loadIdentity e (path_join home ''key.hex'') keyHex gen) (d\<lparr>made_dirs := List.insert home (made_dirs d)\<rparr>)))"
  by (simp add: Load_def assms MkdirAll_def case_prod_beta apfst_def map_prod_def map_sum_def split: option.split sum.split)

lemma generated_stored:
  assumes "key_laws e" "\<not> unreadable e p" "run_state (generate_identity e p) d = (Inr i, d')"
  shows "stored_key e p d' \<noteq> []" "FromHex e (stored_key e p d') = Inr i"
proof -
  obtain k where k: "fresh_key e = Inr k"
    using assms(3) by (auto simp: generate_identity_def Generate_def split: sum.splits)
  then have "key_write_err e p = None" and i: "i = fromKey e k"
    using assms(3) by (auto simp: generate_identity_def Generate_def WriteFile_def split: option.splits)
  then have "ReadFile e p d' = Some (PrivateKeyHex e (fromKey e k) @ nl)"
    using assms(2,3) k by (auto simp: generate_identity_def Generate_def WriteFile_def ReadFile_def)
  then show "stored_key e p d' \<noteq> []" "FromHex e (stored_key e p d') = Inr i"
    using written_key [OF assms(1) k] by (simp_all add: stored_key_def i)
qed

text \<open>C25: the identity of a home directory is kept: when a start of the daemon without a key of its own has
  loaded or generated its identity, every later start on that home loads the same configuration and
  identity and changes nothing, whether it may generate a key or not.\<close>

theorem loaded_identity_kept:
  assumes "run_state (Load e keyHex gen) d = (Inr cfg, d')" "key_laws e" "from_home e keyHex" "trim_space keyHex' = []"
    and "\<not> unreadable e (c_KeyPath cfg)"
  shows "run_state (Load (e\<lparr>fresh_key := k, key_write_err := w\<rparr>) keyHex' gen') d' = (Inr cfg, d')"
proof -
  let ?e = "e\<lparr>fresh_key := k, key_write_err := w\<rparr>"
  obtain home where home: "Home e = Inr home"
    using assms(1) by (auto simp: Load_def split: sum.splits)
  let ?p = "path_join home ''key.hex''" and ?d = "d\<lparr>made_dirs := List.insert home (made_dirs d)\<rparr>"
  have made: "mkdir_err e home = None"
    and "apfst (map_sum id (config_at e home)) (run_state (loadIdentity e ?p keyHex gen) ?d) = (Inr cfg, d')"
    using assms(1) unfolding run_Load [OF home] by (simp_all split: option.splits)
  then obtain i where load: "run_state (loadIdentity e ?p keyHex gen) ?d = (Inr i, d')" and cfg: "cfg = config_at e home i"
    by (cases "run_state (loadIdentity e ?p keyHex gen) ?d"; cases "fst (run_state (loadIdentity e ?p keyHex gen) ?d)") simp_all
  have readable: "\<not> unreadable e ?p" using assms(5) by (simp add: cfg config_at_def)
  have "stored_key e ?p d' \<noteq> [] \<and> FromHex e (stored_key e ?p d') = Inr i \<and> home \<in> set (made_dirs d')"
  proof (cases "stored_key e ?p ?d = []")
    case True
    with load load_generates [OF assms(3) this] have g: "run_state (generate_identity e ?p) ?d = (Inr i, d')"
      by (simp split: if_splits)
    moreover have "made_dirs d' = made_dirs ?d"
      using g by (auto simp: generate_identity_def WriteFile_def split: sum.splits option.splits)
    ultimately show ?thesis using generated_stored [OF assms(2) readable g] by simp
  next
    case False
    with load load_from_file [OF assms(3) this] show ?thesis by auto
  qed
  moreover have "from_home ?e keyHex'" using assms(3,4) by (simp add: from_home_def)
  ultimately have "run_state (loadIdentity ?e ?p keyHex' gen') d' = (Inr i, d')"
    using load_from_file [of ?e keyHex' ?p d' gen']
    by (simp add: stored_key_def ReadFile_def FromHex_def fromKey_def cong: sum.case_cong)
  moreover have "d'\<lparr>made_dirs := List.insert home (made_dirs d')\<rparr> = d'"
    using \<open>_ \<and> _ \<and> home \<in> set (made_dirs d')\<close> by simp
  moreover have "Home ?e = Home e" "config_at ?e home i = config_at e home i"
    by (simp_all add: Home_def config_at_def Let_def cong: if_cong)
  ultimately show ?thesis by (simp add: run_Load home made cfg)
qed


section \<open>Witnesses\<close>

definition sample_config_env :: config_env where
  "sample_config_env = \<lparr>conf_env = (\<lambda>k. if k = ''ATTN_HOME'' then ''/h'' else []), UserConfigDir = Inl [],
     mkdir_err = (\<lambda>p. None), unreadable = (\<lambda>p. False), key_write_err = (\<lambda>p. None), parse_key = (\<lambda>s. Inr s),
     key_hex = (\<lambda>k. ''0x'' @ k), key_address = (\<lambda>k. ''0x'' @ k), public_hex = (\<lambda>k. ''0x04'' @ k), fresh_key = Inr ''1f''\<rparr>"

definition empty_disk :: disk where
  "empty_disk = \<lparr>made_dirs = [], dk_files = (\<lambda>p. None)\<rparr>"

lemma sample_home: "Home sample_config_env = Inr ''/h''" "from_home sample_config_env []" "mkdir_err sample_config_env p = None"
    "fresh_key sample_config_env = Inr ''1f''" "key_write_err sample_config_env p = None" "\<not> unreadable sample_config_env p"
  by (simp_all add: Home_def from_home_def sample_config_env_def trim_space_def trim_left_def trim_right_def is_space_def)

lemma sample_key_laws: "key_laws sample_config_env"
  by (simp add: key_laws_def sample_config_env_def is_space_def)

lemma empty_disk_keyless: "stored_key e p empty_disk = []"
  by (simp add: stored_key_def ReadFile_def empty_disk_def)


lemma loaded_identity_kept_witness:
  "\<exists>cfg d. run_state (Load sample_config_env [] True) empty_disk = (Inr cfg, d) \<and>
    run_state (Load (sample_config_env\<lparr>fresh_key := Inl [], key_write_err := (\<lambda>p. Some [])\<rparr>) [] False) d = (Inr cfg, d)"
proof -
  have "stored_key sample_config_env p (empty_disk\<lparr>made_dirs := x\<rparr>) = []" for p x
    by (simp add: stored_key_def ReadFile_def empty_disk_def)
  then obtain cfg d where load: "run_state (Load sample_config_env [] True) empty_disk = (Inr cfg, d)"
    by (simp add: run_Load [OF sample_home(1)] sample_home load_generates generate_identity_def Generate_def WriteFile_def)
  then show ?thesis
    using loaded_identity_kept [OF load sample_key_laws sample_home(2), of "[]"] by (auto simp: sample_home)
qed

end
