(* ===== verification/Control_Props.thy ===== *)
theory Control_Props
  imports Control Mcp_Props Config_Props
begin

text \<open>
  Properties of the control socket: a request of \<open>attnctl\<close> reaches \<open>Dispatch\<close> with its arguments, and
  what is printed is the result; the requests of the daemon's own leave the agent's data alone.
\<close>

section \<open>One line\<close>

text \<open>What is written has no line feed, so a message is one line.\<close>

lemma hex_digit_line: "n < 16 \<Longrightarrow> hex_digit n \<noteq> CHR 0x0A"
  using hex_digit_hex [of n] by (auto simp: is_hex_def is_digit_def)

lemma html_char_line: "CHR 0x0A \<notin> set (html_char c)"
proof -
  have "of_char c < (256 :: nat)"
    using mod_less_divisor [of 256 "of_char c :: nat"] by simp
  then have "hex_digit (of_char c div 16) \<noteq> CHR 0x0A" "hex_digit (of_char c mod 16) \<noteq> CHR 0x0A"
    by (simp_all add: hex_digit_line less_mult_imp_div_less)
  then show ?thesis by (auto simp: html_char_def json_char_def)
qed

lemma html_string_line: "CHR 0x0A \<notin> set (html_string s)"
  by (simp add: html_string_def html_char_line)

lemma itoa_line: "CHR 0x0A \<notin> set (itoa i)"
  using nat_str_digits [of "nat i"] nat_str_digits [of "nat (- i)"]
  by (auto simp: itoa_def list_all_iff is_digit_def)

lemma join_set: "set (join xs sep) \<subseteq> (\<Union>x \<in> set xs. set x) \<union> set sep"
  by (induction xs sep rule: join.induct) auto

lemma join_line: "\<forall>x \<in> set xs. CHR 0x0A \<notin> set x \<Longrightarrow> CHR 0x0A \<notin> set (join xs '','')"
  using join_set [of xs "'',''"] by auto

lemma marshal_line: "integral j \<Longrightarrow> CHR 0x0A \<notin> set (marshal j)"
proof (induction j)
  case (JList xs)
  then have "CHR 0x0A \<notin> set (join (map marshal xs) '','')" by (intro join_line) (auto simp: list_all_iff)
  then show ?case by simp
next
  case (JObj kvs)
  have "\<forall>x \<in> set (map member (sort_key fst kvs)). CHR 0x0A \<notin> set x"
    using JObj by (auto simp: member_def html_string_line list_all_iff)
  then show ?case unfolding marshal_object using join_line by fastforce
qed (simp_all add: html_string_line itoa_line)

lemma marshal_struct_line:
  assumes "list_all (\<lambda>(k, v). integral v) kvs"
  shows "CHR 0x0A \<notin> set (marshal_struct kvs)"
proof -
  have "\<forall>x \<in> set (map member kvs). CHR 0x0A \<notin> set x"
    using assms marshal_line by (auto simp: member_def html_string_line list_all_iff)
  then show ?thesis using join_line by (fastforce simp: marshal_struct_def)
qed

lemma read_one_line: "CHR 0x0A \<notin> set s \<Longrightarrow> read_line (s @ nl) = s @ nl"
  by (simp add: read_line_def nl_def index_byte_append)

text \<open>A struct on a line is read back.\<close>

lemma struct_line:
  assumes "list_all (\<lambda>(k, v). integral v) kvs" "\<forall>(k, v) \<in> set kvs. depth v < maxNestingDepth"
  shows "json_parse (marshal_struct kvs @ nl) = Some (JObj (map (apsnd canon) kvs))"
proof -
  have "foldr max (map (\<lambda>(k, v). depth v) kvs) 0 \<le> maxNestingDepth - 1"
    using assms(2) by (intro foldr_max_bound) auto
  then have "Suc (foldr max (map (\<lambda>(k, v). depth v) kvs) 0) \<le> maxNestingDepth"
    by (simp add: maxNestingDepth_def)
  moreover have "\<forall>(k, v) \<in> set kvs. reads v" using assms(1) reads_integral by (auto simp: list_all_iff)
  ultimately show ?thesis
    using scan_object [of kvs "[]" nl]
    by (simp add: json_parse_def marshal_struct_def scan.simps [of "Complete _"] ended_def nl_def is_ws_def)
qed

section \<open>Requests\<close>

lemma request_decoded:
  assumes plain: "\<And>k v. (k, v) \<in> set kvs \<Longrightarrow> plain_value v"
  shows "read_line (request_line oper (Some kvs)) = request_line oper (Some kvs)"
    "decode_request (request_line oper (Some kvs)) = Some (oper, wire_args kvs)"
proof -
  define ms where "ms = [(''op'', JStr oper)] @ (if kvs = [] then [] else [(''args'', JObj kvs)])"
  have line: "request_line oper (Some kvs) = marshal_struct ms @ nl"
    by (simp add: request_line_def ms_def)
  have obj: "integral (JObj kvs)" "depth (JObj kvs) \<le> 2" "canon (JObj kvs) = JObj (sort_key fst kvs)"
      "json_args (JObj (sort_key fst kvs)) = Some (wire_args kvs)"
    using plain_object [of kvs] plain by blast+
  have i: "list_all (\<lambda>(k, v). integral v) ms" "\<forall>(k, v) \<in> set ms. depth v < maxNestingDepth"
    using obj(1,2) by (simp_all add: ms_def maxNestingDepth_def del: integral.simps(3) depth.simps(2))
  show "read_line (request_line oper (Some kvs)) = request_line oper (Some kvs)"
    unfolding line by (rule read_one_line [OF marshal_struct_line [OF i(1)]])
  have "json_parse (marshal_struct ms @ nl) = Some (JObj ([(''op'', JStr oper)] @ (if kvs = [] then [] else [(''args'', JObj (sort_key fst kvs))])))"
    unfolding struct_line [OF i] using obj(3) by (simp add: ms_def)
  moreover have "floats_fit (JObj (sort_key fst kvs))"
    using obj(4) by (simp add: json_args_def split: if_splits)
  ultimately show "decode_request (request_line oper (Some kvs)) = Some (oper, wire_args kvs)"
    by (simp add: line decode_request_def field_values_def fold_names str_field_def the_str_def is_str_def map_field_def
      map_values_def is_obj_def members_of_def wire_args_def sort_key_def)
qed

section \<open>Responses\<close>

lemma response_decoded:
  assumes "plain_data (rs_Data r)"
  shows "read_line (writeResp r) = writeResp r"
    "decode_response e (writeResp r) = Some (r\<lparr>rs_Data := decoded_map e (members_of (canon (JObj (rs_Data r))))\<rparr>)"
proof -
  let ?d = "if rs_Data r = [] then [] else [(''data'', JObj (rs_Data r))]"
  define ms where "ms = [(''ok'', JBool (rs_OK r))] @ when_set ''text'' (rs_Text r) @ ?d @ when_set ''error'' (rs_Error r)"
  have line: "writeResp r = marshal_struct ms @ nl" by (simp add: writeResp_def ms_def)
  have i: "list_all (\<lambda>(k, v). integral v) ms" "\<forall>(k, v) \<in> set ms. depth v < maxNestingDepth"
    using assms by (simp_all add: ms_def plain_data_def maxNestingDepth_def when_set_def del: integral.simps(3) depth.simps(2))
  show "read_line (writeResp r) = writeResp r"
    unfolding line by (rule read_one_line [OF marshal_struct_line [OF i(1)]])
  let ?d' = "if rs_Data r = [] then [] else [(''data'', canon (JObj (rs_Data r)))]"
  have set_canon: "map (apsnd canon) (when_set k x) = when_set k x" for k x by (simp add: when_set_def)
  define kvs where "kvs = [(''ok'', JBool (rs_OK r))] @ when_set ''text'' (rs_Text r) @ ?d' @ when_set ''error'' (rs_Error r)"
  have parsed: "json_parse (writeResp r) = Some (JObj kvs)"
    unfolding line struct_line [OF i] by (simp add: ms_def kvs_def set_canon)
  have obj: "is_obj (canon (JObj (rs_Data r)))" "canon (JObj (rs_Data r)) \<noteq> JNull" by (simp_all add: is_obj_def)
  have fvs: "field_values ''ok'' kvs = [JBool (rs_OK r)]"
      "field_values ''text'' kvs = (if rs_Text r = [] then [] else [JStr (rs_Text r)])"
      "field_values ''error'' kvs = (if rs_Error r = [] then [] else [JStr (rs_Error r)])"
      "field_values ''data'' kvs = map snd ?d'" "map_values ''data'' kvs = map snd ?d'"
    using obj by (simp_all add: kvs_def field_values_def map_values_def fold_names when_set_def del: canon.simps)
  have "floats_fit (canon (JObj (rs_Data r)))" using assms by (simp add: plain_data_def)
  then have "response_fields kvs"
    using obj(1) by (simp add: response_fields_def fields_fit_def is_bool_def is_str_def fvs del: canon.simps)
  then have "read_response (writeResp r) = Some kvs" by (simp add: read_response_def parsed)
  moreover have "map_field ''data'' kvs = members_of (canon (JObj (rs_Data r)))"
    using obj by (simp add: map_field_def fvs(5) members_of_def sort_key_def)
  ultimately show "decode_response e (writeResp r) = Some (r\<lparr>rs_Data := decoded_map e (members_of (canon (JObj (rs_Data r))))\<rparr>)"
    by (simp add: decode_response_def str_field_def bool_field_def the_str_def fvs(1-3) del: canon.simps)
qed

lemma written_response: "writeResp r \<noteq> []"
  by (simp add: writeResp_def nl_def)

lemma no_data: "decoded_map e (members_of (canon (JObj []))) = []"
  by (simp add: decoded_map_def last_values_def map_set_def members_of_def sort_key_def)

section \<open>The daemon\<close>

definition daemon_control :: "string set" where
  "daemon_control = {''_ping'', ''_info'', ''_drop_conn'', ''_shutdown''}"

lemma run_on_server: "run_state (on_server m) d = (case run_state m (dm_server d) of (x, s) \<Rightarrow> (x, d\<lparr>dm_server := s\<rparr>))"
  by (simp add: on_server_def run_zoom)

lemma run_RelayReady: "run_state (on_agent RelayReady) s = (fst (run_state (on_agent RelayReady) s), s)"
  by (simp add: on_agent_def RelayReady_def on_session_def IsReady_def currentConn_def run_zoom)

lemma control_operation:
  assumes "oper \<notin> daemon_control"
  shows "run_state (control_handler e oper as) d =
    (case run_state (with_sink (Dispatch e oper as)) (dm_server d) of (res, s) \<Rightarrow>
      (case res of Inl err \<Rightarrow> reply_error err | Inr x \<Rightarrow> \<lparr>rs_OK = True, rs_Text = res_Text x, rs_Data = res_Data x, rs_Error = []\<rparr>,
       d\<lparr>dm_server := s\<rparr>))"
  using assms by (simp add: control_handler_def daemon_control_def run_on_server split: prod.split)

text \<open>C27: whatever bytes arrive on the control socket, the daemon makes at most one of the steps it can make
  anyway, so what holds of every reachable server goes on to hold; it is stopped only by the request
  \<open>_shutdown\<close>; and it answers exactly when anything was sent.\<close>

theorem control_any_input:
  "(server_step e)\<^sup>=\<^sup>= (dm_server d) (dm_server (snd (run_state (serveConn e inp) d))) \<and>
   (dm_stopping (snd (run_state (serveConn e inp) d)) \<longleftrightarrow>
      dm_stopping d \<or> (\<exists>as. decode_request (read_line inp) = Some (''_shutdown'', as) \<and> inp \<noteq> [])) \<and>
   (fst (run_state (serveConn e inp) d) = [] \<longleftrightarrow> inp = [])"
proof -
  have empty: "read_line inp = [] \<longleftrightarrow> inp = []"
    by (auto simp: read_line_def split: option.split)
  have "(server_step e)\<^sup>=\<^sup>= (dm_server d) (dm_server (snd (run_state (control_handler e oper as) d))) \<and>
      (dm_stopping (snd (run_state (control_handler e oper as) d)) \<longleftrightarrow> dm_stopping d \<or> oper = ''_shutdown'')" for oper as
  proof (cases "oper \<in> daemon_control")
    case True
    then consider "oper = ''_ping''" | "oper = ''_info''" | "oper = ''_drop_conn''" | "oper = ''_shutdown''"
      by (auto simp: daemon_control_def)
    then show ?thesis
    proof cases
      case 2
      then show ?thesis
        by (simp add: control_handler_def run_on_server split_beta, subst (1 2 3 4) run_RelayReady, simp)
    next
      case 3
      then show ?thesis
        using server_step.drop_conn [of e "dm_server d"] by (simp add: control_handler_def run_on_server split_beta)
    qed (simp_all add: control_handler_def)
  next
    case False
    then show ?thesis
      using server_step.operation [of e "dm_server d" oper as]
      by (auto simp: control_operation split_beta) (simp_all add: daemon_control_def)
  qed
  then show ?thesis
    by (auto simp: serveConn_def Let_def empty written_response split_beta split: option.split)
qed

text \<open>C28: a request of \<open>attnctl\<close> is the operation of the daemon: unless it is one of the daemon's own, what happens
  to the agent is \<open>Dispatch\<close> of its operation with exactly its arguments, and the program prints the text and
  the data of the result, or the error with exit code 1.\<close>

theorem attnctl_is_dispatch:
  assumes parse: "leading_flags argv [] False = Inr (oper # ws, sock, raw)" "attnctl_args ce raw ws = Inr (Some kvs)"
    and plain: "\<And>k v. (k, v) \<in> set kvs \<Longrightarrow> plain_value v" and oper: "oper \<notin> daemon_control"
    and path: "(if sock = [] then map_sum id (\<lambda>h. h @ ''/attnd.sock'') (Home c) else Inr sock) = Inr path"
    and "ctl_dial ce path = None" "ctl_write ce path = None"
    and answer: "ctl_answer ce path (request_line oper (Some kvs)) = fst (run_state (serveConn e (request_line oper (Some kvs))) d)"
    and res: "res = fst (run_state (Dispatch e oper (wire_args kvs)) (ag (dm_server d)))"
    and data: "\<And>x. res = Inr x \<Longrightarrow> plain_data (res_Data x)"
  shows "ag (dm_server (snd (run_state (serveConn e (request_line oper (Some kvs))) d))) =
      snd (run_state (Dispatch e oper (wire_args kvs)) (ag (dm_server d))) \<and>
    (\<forall>k. map_of (wire_args kvs) k = map_option json_arg (map_of kvs k)) \<and>
    attnctl ce c argv = (case res of
        Inl err \<Rightarrow> \<lparr>ex_out = [], ex_err = (if err = [] then [] else [''error: '' @ err]), ex_code = 1\<rparr>
      | Inr x \<Rightarrow> print_response \<lparr>rs_OK = True, rs_Text = res_Text x,
          rs_Data = decoded_map ce (members_of (canon (JObj (res_Data x)))), rs_Error = []\<rparr>)"
proof -
  let ?line = "request_line oper (Some kvs)"
  define r where "r = (case res of Inl err \<Rightarrow> reply_error err
      | Inr x \<Rightarrow> \<lparr>rs_OK = True, rs_Text = res_Text x, rs_Data = res_Data x, rs_Error = []\<rparr>)"
  have "distinct (map fst kvs)"
    using parse(2) by (auto simp: attnctl_args_def unmarshal_map_def last_values_distinct split: if_splits list.splits sum.splits option.splits json.splits)
  then have args: "map_of (wire_args kvs) k = map_option json_arg (map_of kvs k)" for k by (rule wire_args_map)
  have "run_state (serveConn e ?line) d = (writeResp r, d\<lparr>dm_server := snd (run_state (with_sink (Dispatch e oper (wire_args kvs))) (dm_server d))\<rparr>)"
  proof -
    have "?line \<noteq> []" by (simp add: request_line_def nl_def)
    then show ?thesis
      using request_decoded [of kvs oper] plain control_operation [OF oper, of e "wire_args kvs" d]
      by (simp add: serveConn_def Let_def r_def res with_sink_agent split_beta)
  qed
  then have served: "ag (dm_server (snd (run_state (serveConn e ?line) d))) = snd (run_state (Dispatch e oper (wire_args kvs)) (ag (dm_server d)))"
      "ctl_answer ce path ?line = writeResp r"
    by (simp_all add: with_sink_agent answer)
  have "plain_data (rs_Data r)"
    using data by (cases res) (simp_all add: r_def reply_error_def plain_data_def maxNestingDepth_def sort_key_def)
  then have "control_Call ce path oper (Some kvs) = Inr (r\<lparr>rs_Data := decoded_map ce (members_of (canon (JObj (rs_Data r))))\<rparr>)"
    using response_decoded(1) [of r] response_decoded(2) [of r ce] assms(6,7) served(2) written_response [of r]
    by (simp add: control_Call_def Let_def del: canon.simps)
  then have "attnctl ce c argv = print_response (r\<lparr>rs_Data := decoded_map ce (members_of (canon (JObj (rs_Data r))))\<rparr>)"
    using parse path by (simp add: attnctl_def attnctl_call_def del: canon.simps)
  then show ?thesis
    using served(1) args by (cases res)
      (simp_all add: r_def reply_error_def print_response_def no_data del: canon.simps)
qed

definition sample_daemon :: daemon where
  "sample_daemon = \<lparr>dm_server = sample_server, dm_stopping = False\<rparr>"

definition attnctl_mute_line :: string where
  "attnctl_mute_line = request_line ''mute'' (Some [(''target'', JStr ''all'')])"

definition served_ctl_env :: ctl_env where
  "served_ctl_env = cli_env.extend sample_cli_env (ctl_env.fields (\<lambda>s. None) (\<lambda>s. None)
     (\<lambda>s l. fst (run_state (serveConn sample_server_env attnctl_mute_line) sample_daemon)) (\<lambda>s. []))"

lemma attnctl_is_dispatch_witness:
  "ag (dm_server (snd (run_state (serveConn sample_server_env attnctl_mute_line) sample_daemon))) =
     snd (run_state (Dispatch sample_server_env ''mute'' (wire_args [(''target'', JStr ''all'')])) (ag sample_server))"
proof -
  have ctl: "ctl_dial served_ctl_env p = None" "ctl_write served_ctl_env p = None"
      "ctl_answer served_ctl_env p l = fst (run_state (serveConn sample_server_env attnctl_mute_line) sample_daemon)" for p l
    by (simp_all add: served_ctl_env_def ctl_env.defs cli_env.defs)
  have flags: "leading_flags [''mute'', ''target=all''] [] False = Inr (''mute'' # [''target=all''], [], False)" by code_simp
  have "pair_args [''target=all''] = Inr [(''target'', JStr ''all'')]" by code_simp
  then have parsed: "attnctl_args served_ctl_env False [''target=all''] = Inr (Some [(''target'', JStr ''all'')])"
    by (simp add: attnctl_args_def last_values_def map_set_def)
  have plain: "(k, v) \<in> set [(''target'', JStr ''all'')] \<Longrightarrow> plain_value v" for k v by (simp add: plain_value_def)
  have own: "''mute'' \<notin> daemon_control" by (simp add: daemon_control_def)
  have path: "(if ([] :: string) = [] then map_sum id (\<lambda>h. h @ ''/attnd.sock'') (Home sample_config_env) else Inr []) = Inr ''/h/attnd.sock''"
    by (simp add: sample_home)
  have args: "wire_args [(''target'', JStr ''all'')] = [(''target'', AString ''all'')]" by (simp add: wire_args_def)
  have "case fst (run_state (Dispatch sample_server_env ''mute'' [(''target'', AString ''all'')]) (ag sample_server)) of
      Inl err \<Rightarrow> False | Inr x \<Rightarrow> res_Data x = []" by code_simp
  then have data: "plain_data (res_Data x)"
    if "fst (run_state (Dispatch sample_server_env ''mute'' (wire_args [(''target'', JStr ''all'')])) (ag (dm_server sample_daemon))) = Inr x" for x
    using that by (simp add: plain_data_def maxNestingDepth_def args sample_daemon_def)
  show ?thesis
    using attnctl_is_dispatch [OF flags parsed plain own path ctl(1,2) ctl(3) [unfolded attnctl_mute_line_def] refl data]
    by (simp add: attnctl_mute_line_def sample_daemon_def)
qed

end
