(* ===== verification/Adapter_Props.thy ===== *)
theory Adapter_Props
  imports Adapter_Programs Control_Props
begin

text \<open>
  Properties of the adapter programs: the session the bridge is bound to, what its listener does to the bridge, and
  what it answers about the peers.
\<close>

section \<open>The bound session\<close>

definition is_latest :: "opencode_session list \<Rightarrow> opencode_session \<Rightarrow> bool" where
  "is_latest ss s \<longleftrightarrow> (\<exists>before rest. ss = before @ s # rest \<and>
     (\<forall>x \<in> set before. session_time x < session_time s) \<and> (\<forall>x \<in> set rest. session_time x \<le> session_time s))"

lemma later_pair: "later_session (b, t) s = (if b = [] \<or> t < session_time s then (os_ID s, session_time s) else (b, t))"
  by (simp add: later_session_def)

lemma latest_found:
  "ss \<noteq> [] \<Longrightarrow> \<forall>s \<in> set ss. os_ID s \<noteq> [] \<Longrightarrow>
    \<exists>s. is_latest ss s \<and> foldl later_session ([], 0) ss = (os_ID s, session_time s)"
proof (induction ss rule: rev_induct)
  case (snoc y ys)
  show ?case
  proof (cases "ys = []")
    case True
    then show ?thesis unfolding is_latest_def by (intro exI [of _ y] conjI exI [of _ "[]"]) (simp_all add: later_pair)
  next
    case False
    then obtain s where "is_latest ys s" "foldl later_session ([], 0) ys = (os_ID s, session_time s)"
      using snoc by auto
    then obtain before rest where s: "foldl later_session ([], 0) ys = (os_ID s, session_time s)"
        "ys = before @ s # rest" "\<forall>x \<in> set before. session_time x < session_time s" "\<forall>x \<in> set rest. session_time x \<le> session_time s"
      unfolding is_latest_def by blast
    have "os_ID s \<noteq> []" using snoc.prems(2) s(2) by simp
    show ?thesis
    proof (cases "session_time s < session_time y")
      case True
      with s have "\<forall>x \<in> set ys. session_time x < session_time y" by fastforce
      then have "is_latest (ys @ [y]) y" unfolding is_latest_def by (intro exI [of _ ys] exI [of _ "[]"]) simp
      with True s(1) show ?thesis by (intro exI [of _ y]) (simp add: later_pair)
    next
      case False
      with s have "is_latest (ys @ [y]) s" unfolding is_latest_def by (intro exI [of _ before] exI [of _ "rest @ [y]"]) auto
      with False s(1) \<open>os_ID s \<noteq> []\<close> show ?thesis by (intro exI [of _ s]) (simp add: later_pair)
    qed
  qed
qed simp

text \<open>The program binds to the session that was updated last: of the sessions it finds, the first one that no other
  is later than, a session that was never updated counting by its creation.\<close>

theorem mostRecent_latest:
  assumes "ss \<noteq> []" "\<forall>s \<in> set ss. os_ID s \<noteq> []"
  shows "\<exists>before s rest. ss = before @ s # rest \<and> mostRecent ss = os_ID s \<and>
    (\<forall>x \<in> set before. session_time x < session_time s) \<and> (\<forall>x \<in> set rest. session_time x \<le> session_time s)"
proof -
  obtain s where "is_latest ss s" "mostRecent ss = os_ID s"
    using latest_found [OF assms] by (auto simp: mostRecent_def)
  then show ?thesis unfolding is_latest_def by blast
qed

lemma created_id: "fst (run_state (CreateSession e directory title) c) = Inr s \<Longrightarrow> os_ID s \<noteq> []"
  by (auto simp: CreateSession_def case_prod_beta split: sum.splits prod.splits if_splits)

lemma resolved_id:
  assumes "fst (run_state (resolveSession e explicit create directory title) c) = Inr sid"
  shows "sid \<noteq> [] \<and> (explicit \<noteq> [] \<longrightarrow> sid = explicit)"
proof (cases "explicit = []")
  case True
  have "sid \<noteq> []" if "map_sum id os_ID (fst (run_state (CreateSession e directory title) c')) = Inr sid" for c'
    using that created_id [of e directory title c'] by (cases "fst (run_state (CreateSession e directory title) c')") auto
  with assms True show ?thesis
    by (auto simp: resolveSession_def case_prod_beta split: if_splits sum.splits)
next
  case False
  with assms show ?thesis by (simp add: resolveSession_def)
qed

text \<open>A bridge that starts can run: its name is not blank, it is bound to a session (the one it was told, if it was),
  the version of the server has the expected prefix, and \<open>Run\<close> goes on to dial the daemon.\<close>

theorem started_bridge_runs:
  assumes "opencode_program e cwd fl = Inr b"
  shows "trim_space (ob_Name b) \<noteq> [] \<and> ob_Name b = of_name fl \<and> ob_SessionID b \<noteq> [] \<and>
    (of_session_id fl \<noteq> [] \<longrightarrow> ob_SessionID b = of_session_id fl) \<and>
    has_prefix (fst (fst (run_state (VerifyRoutes e (of_pin fl)) (NewClient (of_opencode fl) (of_password fl))))) (of_pin fl) \<and>
    fst (run_state (run_start e') b) = ob_wsURL e' b"
proof -
  let ?c = "NewClient (of_opencode fl) (of_password fl)"
  have name: "trim_space (of_name fl) \<noteq> []"
    using assms by (auto simp: opencode_program_def opencode_start_def split: if_splits)
  then have "of_name fl \<noteq> []" by auto
  have ver: "snd (fst (run_state (VerifyRoutes e (of_pin fl)) ?c)) = None"
    using assms name by (auto simp: opencode_program_def opencode_start_def case_prod_beta split: option.splits)
  then have pin: "has_prefix (fst (fst (run_state (VerifyRoutes e (of_pin fl)) ?c))) (of_pin fl)"
    by (auto simp: VerifyRoutes_def case_prod_beta has_prefix_def split: sum.splits if_splits)
  obtain sid c' where "fst (run_state (resolveSession e (of_session_id fl) (of_new fl) (oc_flags_dir cwd fl) (of_title fl)) c') = Inr sid"
      and b: "ob_SessionID b = sid" "ob_Name b = of_name fl" "ob_sendCh b = None"
    using assms name ver by (auto simp: opencode_program_def opencode_start_def case_prod_beta split: option.splits sum.splits)
  from resolved_id [OF this(1)] have "sid \<noteq> []" "of_session_id fl \<noteq> [] \<longrightarrow> sid = of_session_id fl" by simp_all
  moreover have "fst (run_state (run_start e') b) = ob_wsURL e' b"
    using b \<open>sid \<noteq> []\<close> \<open>of_name fl \<noteq> []\<close> by (simp add: run_start_def initOnce_def)
  ultimately show ?thesis using b name pin by simp
qed

section \<open>The listener\<close>

text \<open>The guards of the listeners accept the same hosts and addresses.\<close>

lemma loopbackHost_allowed: "loopbackHost = allowedHost"
  by (simp add: fun_eq_iff loopbackHost_def allowedHost_def)

lemma bind_guards: "control_loopbackOnly a = None \<longleftrightarrow> loopbackOnly a = None" "mcp_loopbackOnly a = None \<longleftrightarrow> loopbackOnly a = None"
  by (auto simp: control_loopbackOnly_def loopbackOnly_def mcp_loopbackOnly_def Let_def split: option.split prod.split)

lemma decode_line:
  assumes "integral j" "depth j \<le> maxNestingDepth"
  shows "decode_first (marshal j @ nl) = Decoded (canon j)"
proof -
  have "\<not> list_all is_ws (marshal j @ nl)"
    using marshal_hd [OF assms(1)] by (cases "marshal j") auto
  then show ?thesis
    using scan_marshal [OF assms, of nl] by (simp add: decode_first_def ends_def nl_def is_ws_def)
qed

text \<open>C32: through its listener nobody does anything to the bridge but send local messages: a request changes it only
  if its host is a loopback host and it is a \<open>POST\<close> to \<open>/mesh/send\<close> with a recipient, and then by \<open>SendLocal\<close>; and such a
  request with a recipient and a text is answered 200 and put last in the channel while there is room.\<close>

theorem listener_only_sends:
  "(snd (run_state (control_listener e d self r) b) \<noteq> b \<longrightarrow>
      allowedHost (h_host r) \<and> h_method r = ''POST'' \<and> h_path r = ''/mesh/send'' \<and>
      (\<exists>to msg. to \<noteq> [] \<and> snd (run_state (control_listener e d self r) b) = snd (run_state (ob_SendLocal to msg) b))) \<and>
   (allowedHost (h_host r) \<and> h_method r = ''POST'' \<and> h_path r = ''/mesh/send'' \<and>
      h_body r = marshal (JObj [(''to'', JStr to), (''message'', JStr msg)]) \<and> length (h_body r) \<le> 1048576 \<and> to \<noteq> [] \<and>
      ob_sendCh b = Some q \<and> length q < bridgeSendBuffer \<longrightarrow>
      run_state (control_listener e d self r) b = (JsonReply 200 (JObj [(''ok'', JBool True), (''to'', JStr to)]),
        b\<lparr>ob_sendCh := Some (q @ [newLocalSend to msg])\<rparr>))"
proof (intro conjI impI)
  let ?b = "snd (run_state (control_listener e d self r) b)"
  assume changed: "?b \<noteq> b"
  then show host: "allowedHost (h_host r)" and path: "h_path r = ''/mesh/send''" and meth: "h_method r = ''POST''"
    by (auto simp: control_listener_def loopbackHost_allowed split: if_splits)
  have "?b = snd (run_state (mesh_send e r) b)"
    using host meth path by (simp add: control_listener_def loopbackHost_allowed)
  with changed show "\<exists>to msg. to \<noteq> [] \<and> ?b = snd (run_state (ob_SendLocal to msg) b)"
    by (auto simp: mesh_send_def case_prod_beta split: decoded.splits if_splits)
next
  let ?j = "JObj [(''to'', JStr to), (''message'', JStr msg)]"
  assume r: "allowedHost (h_host r) \<and> h_method r = ''POST'' \<and> h_path r = ''/mesh/send'' \<and>
      h_body r = marshal ?j \<and> length (h_body r) \<le> 1048576 \<and> to \<noteq> [] \<and> ob_sendCh b = Some q \<and> length q < bridgeSendBuffer"
  have "decode_first (marshal ?j) = Decoded (JObj [(''message'', JStr msg), (''to'', JStr to)])"
    by (subst decode_first_marshal) (simp_all add: maxNestingDepth_def sort_key_def insort_key.simps del: marshal.simps)
  moreover have "take 1048576 (h_body r) = marshal ?j" using r by (metis take_all)
  ultimately have "decode_struct (strings_only [''to'', ''message'']) (take 1048576 (h_body r)) = Decoded [(''message'', JStr msg), (''to'', JStr to)]"
    by (simp add: decode_struct_def into_struct_def strings_only_def fields_fit_def field_values_def fold_names is_str_def
      del: marshal.simps)
  then show "run_state (control_listener e d self r) b = (JsonReply 200 (JObj [(''ok'', JBool True), (''to'', JStr to)]),
      b\<lparr>ob_sendCh := Some (q @ [newLocalSend to msg])\<rparr>)"
    using r by (simp add: control_listener_def loopbackHost_allowed mesh_send_def str_field_def field_values_def fold_names the_str_def
      ob_SendLocal_def initOnce_def del: marshal.simps)
qed

text \<open>The peers the listener answers are the daemon's: when the daemon serves the request, they are the names of its
  local sessions in their order, without the session itself.\<close>

theorem listener_peers:
  assumes "httpBase e d = Inr base" "peers_url_err e (base @ ''/local-peers'') = None"
    and r: "h_method r = ''GET''" "h_path r = ''/local-peers''" "allowedHost (h_host r)"
    and mesh: "mesh (ag s) = Some reg"
    and answer: "\<And>j. fst (run_state (hostGuard se r) s) = JsonReply 200 j \<Longrightarrow>
      peers_do e (peers_request base) = Inr (200, marshal j @ nl) \<and> length (marshal j @ nl) \<le> 1048576"
  shows "mesh_peers e d self = JsonReply 200 (JObj [(''ok'', JBool True),
      (''peers'', JList (map JStr (filter (\<lambda>n. n \<noteq> self) (fst (run_state Names reg))))),
      (''count'', JInt (int (length (filter (\<lambda>n. n \<noteq> self) (fst (run_state Names reg))))))])"
proof -
  let ?ns = "fst (run_state Names reg)"
  let ?j = "JObj [(''sessions'', JList (map JStr ?ns)), (''count'', JInt (int (length ?ns)))]"
  have "fst (run_state (hostGuard se r) s) = JsonReply 200 ?j"
    using r mesh by (simp add: hostGuard_def routes_def Let_def handleLocalPeers_def on_agent_def local_mesh_def run_zoom Names_def
      writeJSON_reply_def)
  from answer [OF this] have served: "peers_do e (peers_request base) = Inr (200, marshal ?j @ nl)" "length (marshal ?j @ nl) \<le> 1048576"
    by simp_all
  have "foldr max (map depth (map JStr ns)) 0 = 0" for ns by (induction ns) simp_all
  then have "depth (JList (map JStr ?ns)) \<le> 1" by simp
  moreover have "map canon (map JStr ?ns) = map JStr ?ns" by simp
  ultimately have "decode_first (marshal ?j @ nl) = Decoded (JObj [(''count'', JInt (int (length ?ns))), (''sessions'', JList (map JStr ?ns))])"
    by (subst decode_line) (simp_all add: maxNestingDepth_def sort_key_def insort_key.simps list_all_iff del: marshal.simps)
  then have "read_peers e self (200, marshal ?j @ nl) = Inr (filter (\<lambda>n. n \<noteq> self) ?ns)"
    using served(2)
    by (simp add: read_peers_def decode_struct_def into_struct_def fields_fit_def field_values_def fold_names is_strs_def is_str_def
      strs_field_def the_str_def list_all_iff o_def del: marshal.simps)
  then show ?thesis using assms(1,2) served(1) by (simp add: mesh_peers_def fetchPeers_def del: marshal.simps)
qed

section \<open>Witnesses\<close>

definition found_session :: "string \<Rightarrow> int \<Rightarrow> int \<Rightarrow> opencode_session" where
  "found_session i created updated = \<lparr>os_ID = i, os_Title = [], os_Directory = [], os_ProjectID = [], os_Created = created, os_Updated = updated\<rparr>"

lemma mostRecent_latest_witness:
  "mostRecent [found_session ''ses_1'' 5 7, found_session ''ses_2'' 9 0, found_session ''ses_3'' 1 9] = ''ses_2'' \<and>
   (\<exists>before s rest. [found_session ''ses_1'' 5 7, found_session ''ses_2'' 9 0, found_session ''ses_3'' 1 9] = before @ s # rest \<and>
      ''ses_2'' = os_ID s \<and> (\<forall>x \<in> set rest. session_time x \<le> session_time s))"
proof -
  let ?ss = "[found_session ''ses_1'' 5 7, found_session ''ses_2'' 9 0, found_session ''ses_3'' 1 9]"
  have two: "mostRecent ?ss = ''ses_2''" by code_simp
  have "?ss \<noteq> []" "\<forall>s \<in> set ?ss. os_ID s \<noteq> []" by (simp_all add: found_session_def)
  from mostRecent_latest [OF this] two show ?thesis by metis
qed

definition sample_flags :: oc_flags where
  "sample_flags = (oc_defaults (\<lambda>k. []))\<lparr>of_name := ''oc-a'', of_session_id := ''ses_1''\<rparr>"

definition live_opencode_env :: opencode_env where
  "live_opencode_env = \<lparr>oc_do = (\<lambda>n q. Inr (200, if n = 0 then marshal (JObj [(''healthy'', JBool True), (''version'', JStr ''1.3.5'')]) else [])),
     oc_url_err = (\<lambda>u. None), oc_json_err = (\<lambda>s. s)\<rparr>"

lemma started_bridge_runs_witness:
  "\<exists>b. opencode_program live_opencode_env (Inl []) sample_flags = Inr b \<and> ob_SessionID b = ''ses_1'' \<and> ob_Name b = ''oc-a''"
proof -
  let ?j = "JObj [(''healthy'', JBool True), (''version'', JStr ''1.3.5'')]"
  have "length (marshal ?j) = 34" by code_simp
  then have "take 65536 (marshal ?j) = marshal ?j" by (intro take_all) simp
  moreover have "decode_first (marshal ?j) = Decoded ?j"
    by (subst decode_first_marshal) (simp_all add: maxNestingDepth_def sort_key_def insort_key.simps del: marshal.simps)
  ultimately have health: "read_answer live_opencode_env 65536 (into_struct \<lparr>fs_str = [''version''], fs_int = [], fs_bool = [''healthy''], fs_strs = []\<rparr>)
      (marshal ?j) = Inr [(''healthy'', JBool True), (''version'', JStr ''1.3.5'')]"
    by (simp add: read_answer_def into_struct_def fields_fit_def field_values_def fold_names is_str_def is_bool_def del: marshal.simps)
  have env: "oc_url_err live_opencode_env u = None" "oc_do live_opencode_env n q = Inr (200, if n = 0 then marshal ?j else [])" for u n q
    by (simp_all add: live_opencode_env_def)
  have "fst (run_state (VerifyRoutes live_opencode_env pin) (NewClient a p)) = (''1.3.5'', None)" if "has_prefix ''1.3.5'' pin" for pin a p
    using that
    by (simp add: VerifyRoutes_def Health_def oc_request_def newReq_def NewClient_def env health str_field_def field_values_def fold_names
        the_str_def del: marshal.simps)
  moreover have "trim_space (of_name sample_flags) \<noteq> []" "has_prefix ''1.3.5'' (of_pin sample_flags)" by code_simp+
  moreover have "of_session_id sample_flags = ''ses_1''" by (simp add: sample_flags_def)
  ultimately obtain b where b: "opencode_program live_opencode_env (Inl []) sample_flags = Inr b"
    by (simp add: opencode_program_def opencode_start_def case_prod_beta resolveSession_def)
  have "of_session_id sample_flags = ''ses_1''" "of_name sample_flags = ''oc-a''" by (simp_all add: sample_flags_def)
  then show ?thesis using started_bridge_runs [OF b] b by auto
qed

definition idle_bridge :: opencode_bridge where
  "idle_bridge = \<lparr>ob_Name = ''oc-a'', ob_Harness = ''opencode'', ob_SessionID = ''ses_1'', ob_DaemonHTTP = ''http://127.0.0.1:9742'',
     ob_Renderer = None, ob_client = NewClient [] [], ob_acks = [], ob_conn = None, ob_sendCh = Some [], ob_pumping = False,
     ob_tick = 0, ob_wire = []\<rparr>"

definition send_to_bob :: http_req where
  "send_to_bob = \<lparr>h_method = ''POST'', h_path = ''/mesh/send'', h_host = ''127.0.0.1:7997'', h_origin = [], h_upgrade = False,
     h_query = (\<lambda>k. []), h_body = marshal (JObj [(''to'', JStr ''bob''), (''message'', JStr ''hi'')])\<rparr>"

definition peers_question :: http_req where
  "peers_question = \<lparr>h_method = ''GET'', h_path = ''/local-peers'', h_host = ''127.0.0.1:9742'', h_origin = [], h_upgrade = False,
     h_query = (\<lambda>k. []), h_body = []\<rparr>"

definition sample_listener_env :: listener_env where
  "sample_listener_env = bridge_env.extend
     (opencode_env.extend live_opencode_env (bridge_env.fields
        (\<lambda>u. Inr \<lparr>du_Scheme = ''http'', du_User = [], du_Host = ''127.0.0.1:9742'', du_Path = [], du_Query = [], du_Fragment = []\<rparr>) (\<lambda>n. None)))
     (listener_env.fields (\<lambda>u. []) (\<lambda>u. False)
        (\<lambda>q. case fst (run_state (hostGuard sample_server_env peers_question) sample_server) of
           JsonReply n j \<Rightarrow> Inr (n, marshal j @ nl) | _ \<Rightarrow> Inl [])
        (\<lambda>u. None) (\<lambda>s. s))"

lemma listener_only_sends_witness:
  "run_state (control_listener sample_listener_env ''http://127.0.0.1:9742'' ''oc-a'' send_to_bob) idle_bridge =
     (JsonReply 200 (JObj [(''ok'', JBool True), (''to'', JStr ''bob'')]), idle_bridge\<lparr>ob_sendCh := Some [newLocalSend ''bob'' ''hi'']\<rparr>)"
proof -
  have "allowedHost (h_host send_to_bob)" "length (h_body send_to_bob) = 27" by code_simp+
  then show ?thesis
    using listener_only_sends [of sample_listener_env "''http://127.0.0.1:9742''" "''oc-a''" send_to_bob idle_bridge "''bob''" "''hi''" "[]"]
    by (simp add: send_to_bob_def idle_bridge_def bridgeSendBuffer_def del: marshal.simps)
qed

lemma listener_peers_witness:
  "\<exists>reg. mesh (ag sample_server) = Some reg \<and>
    mesh_peers sample_listener_env ''http://127.0.0.1:9742'' ''oc-a'' = JsonReply 200 (JObj [(''ok'', JBool True),
      (''peers'', JList (map JStr (filter (\<lambda>n. n \<noteq> ''oc-a'') (fst (run_state Names reg))))),
      (''count'', JInt (int (length (filter (\<lambda>n. n \<noteq> ''oc-a'') (fst (run_state Names reg))))))])"
proof -
  have env: "httpBase sample_listener_env d = Inr ''http://127.0.0.1:9742''" "peers_url_err sample_listener_env u = None"
      "peers_do sample_listener_env q = (case fst (run_state (hostGuard sample_server_env peers_question) sample_server) of
         JsonReply n j \<Rightarrow> Inr (n, marshal j @ nl) | _ \<Rightarrow> Inl [])" for d u q
    by (simp_all add: sample_listener_env_def httpBase_def trim_right_char_def bridge_env.defs opencode_env.defs listener_env.defs)
  have r: "h_method peers_question = ''GET''" "h_path peers_question = ''/local-peers''" "allowedHost (h_host peers_question)"
    by (simp_all add: peers_question_def) code_simp
  have "(case fst (run_state (hostGuard sample_server_env peers_question) sample_server) of
      JsonReply n j \<Rightarrow> length (marshal j @ nl) < 99 | _ \<Rightarrow> False)" by code_simp
  then have served: "peers_do sample_listener_env q = Inr (200, marshal j @ nl) \<and> length (marshal j @ nl) \<le> 1048576"
    if "fst (run_state (hostGuard sample_server_env peers_question) sample_server) = JsonReply 200 j" for j q
    using that by (simp add: env(3) del: marshal.simps)
  have "mesh (ag sample_server) \<noteq> None" by code_simp
  then obtain reg where reg: "mesh (ag sample_server) = Some reg" by blast
  from listener_peers [OF env(1,2) r reg served] reg show ?thesis by blast
qed

end
