(* ===== verification/Relay_Client.thy ===== *)
theory Relay_Client
  imports Session_Props
begin

text \<open>
  The single-shot relay client (\<open>internal/relay/client.go\<close>) that the smoke test uses: one connection, one
  handshake, and the requests \<open>GetKey\<close> and \<open>Send\<close> with their waiters. Its connection, waiters and channels have
  the representation of the session's (\<open>net\<close>); \<open>authCh\<close> is the channel of the handshake's verdict, \<open>closed\<close> the
  error of the closed connection, \<open>heard\<close> the messages given to the handler. As for the session, a request
  that waits is its sending part, the events that happen meanwhile, and the outcome of its \<open>select\<close>.
\<close>

section \<open>State\<close>

record Inbound =
  in_ID :: string
  in_From :: string
  in_FromName :: string
  in_Plaintext :: string
  in_Ts :: int
  in_Verified :: bool

record client =
  net :: session
  authOnce :: bool
  authCh :: "string option option"
  closed :: "string option"
  listening :: bool
  pinging :: bool
  heard :: "Inbound list"

definition dialled_client :: client where
  "dialled_client = \<lparr>net = NewSession\<lparr>conn := Some 0\<rparr>, authOnce = False, authCh = None, closed = None,
     listening = False, pinging = False, heard = []\<rparr>"

datatype client_input = Cl_Text string | Cl_Binary string | Cl_ReadError string

datatype select_end = Sel_reply | Sel_timer | Sel_ctx string | Sel_closed

record client_env = sess_env +
  cl_parse_err :: "string option"
  cl_dial_err :: "string option"
  cl_meanwhile :: "nat \<Rightarrow> client_input list"
  cl_select :: "nat \<Rightarrow> select_end"

definition on_net :: "(session, 'a) state \<Rightarrow> (client, 'a) state" where
  "on_net m = zoom net (\<lambda>s c. c\<lparr>net := s\<rparr>) m"

definition cl_write :: "'e client_env_scheme \<Rightarrow> clientFrame \<Rightarrow> (client, string option) state" where
  "cl_write e f = on_net (writeJSON e 0 f)"

text \<open>\<open>sync.Once\<close>: of all verdicts on the handshake the first counts.\<close>

definition signalAuth :: "string option \<Rightarrow> (client, unit) state" where
  "signalAuth v = modify (\<lambda>c. if authOnce c then c else c\<lparr>authOnce := True, authCh := Some v\<rparr>)"

definition cl_Close :: "(client, unit) state" where
  "cl_Close = on_net close_conn"

section \<open>Frames\<close>

definition cl_challenge :: "'e client_env_scheme \<Rightarrow> serverMessage \<Rightarrow> (client, unit) state" where
  "cl_challenge e msg = (case SignPersonal e (sm_Nonce msg) of
       Inl err \<Rightarrow> signalAuth (Some (''sign challenge: '' @ err))
     | Inr sg \<Rightarrow> do {
         err \<leftarrow> cl_write e (authFrame (own_address e) sg ''online'');
         case err of Some x \<Rightarrow> signalAuth (Some (''send auth: '' @ x)) | None \<Rightarrow> State_Monad.return ()
       })"

definition cl_key_response :: "serverMessage \<Rightarrow> (client, unit) state" where
  "cl_key_response msg = on_net (do {
     ws \<leftarrow> take_keyWaits (normalize_address (sm_Address msg));
     for_each ws (\<lambda>w. modify (send_chan (R_key (sm_PublicKey msg)) w))
   })"

definition cl_ack :: "'e client_env_scheme \<Rightarrow> serverMessage \<Rightarrow> (client, unit) state" where
  "cl_ack e msg = do { cl_write e (ackFrame (sm_ID msg)); State_Monad.return () }"

definition cl_handleInbound :: "'e client_env_scheme \<Rightarrow> serverMessage \<Rightarrow> (client, unit) state" where
  "cl_handleInbound e msg = do {
     (if sm_GroupID msg \<noteq> [] then State_Monad.return ()
      else (case DecryptBase64 e (priv_key e) (sm_Encrypted msg) of
          Inl err \<Rightarrow> State_Monad.return ()
        | Inr plaintext \<Rightarrow> modify (\<lambda>c. if listening c then c\<lparr>heard := heard c @
            [\<lparr>in_ID = sm_ID msg, in_From = normalize_address (sm_From msg), in_FromName = sm_FromName msg,
              in_Plaintext = plaintext, in_Ts = sm_Ts msg,
              in_Verified = fst (VerifyEnvelope e (sm_From msg) (sm_ID msg) (own_address e) (sm_Encrypted msg) (sm_Signature msg))\<rparr>]\<rparr>
            else c)));
     cl_ack e msg
   }"

definition cl_handle :: "'e client_env_scheme \<Rightarrow> serverMessage \<Rightarrow> (client, unit) state" where
  "cl_handle e msg =
     (if sm_Type msg = ''challenge'' then cl_challenge e msg
      else if sm_Type msg = ''auth_ok'' then signalAuth None
      else if sm_Type msg = ''auth_error'' then signalAuth (Some (''auth_error: '' @ sm_Error msg))
      else if sm_Type msg = ''key_response'' then cl_key_response msg
      else if sm_Type msg = ''delivery_status'' then on_net (handle_delivery_status msg)
      else if sm_Type msg = ''message'' then cl_handleInbound e msg
      else if sm_Type msg = ''reaction'' then cl_ack e msg
      else State_Monad.return ())"

text \<open>One round of \<open>readLoop\<close>, while it runs: it ends with the connection, or blocks on a full channel.\<close>

definition client_event :: "'e client_env_scheme \<Rightarrow> client_input \<Rightarrow> (client, unit) state" where
  "client_event e ev = do {
     over \<leftarrow> gets (\<lambda>c. closed c \<noteq> None \<or> stuck (net c));
     if over then State_Monad.return ()
     else (case ev of
         Cl_ReadError err \<Rightarrow> do {
           signalAuth (Some (''connection closed before auth: '' @ err));
           modify (\<lambda>c. c\<lparr>closed := Some err\<rparr>)
         }
       | Cl_Binary data \<Rightarrow> State_Monad.return ()
       | Cl_Text data \<Rightarrow>
           if data = ''pong'' then State_Monad.return ()
           else (case decode_message data of
               None \<Rightarrow> State_Monad.return ()
             | Some msg \<Rightarrow> cl_handle e msg))
   }"

definition cl_keepAlive :: "'e client_env_scheme \<Rightarrow> (client, unit) state" where
  "cl_keepAlive e = do {
     on \<leftarrow> gets (\<lambda>c. pinging c \<and> closed c = None);
     if \<not> on then modify (\<lambda>c. c\<lparr>pinging := False\<rparr>)
     else do {
       err \<leftarrow> cl_write e pingFrame;
       if err \<noteq> None then modify (\<lambda>c. c\<lparr>pinging := False\<rparr>) else State_Monad.return ()
     }
   }"

section \<open>Requests\<close>

definition pass_time :: "'e client_env_scheme \<Rightarrow> (client, select_end) state" where
  "pass_time e = do {
     t \<leftarrow> on_net sess_tick;
     for_each (cl_meanwhile e t) (client_event e);
     State_Monad.return (cl_select e t)
   }"

definition Dial :: "'e client_env_scheme \<Rightarrow> (client, string + unit) state" where
  "Dial e = (case cl_parse_err e of
       Some err \<Rightarrow> State_Monad.return (Inl (''parse relay url: '' @ err))
     | None \<Rightarrow> (case cl_dial_err e of
         Some err \<Rightarrow> State_Monad.return (Inl (''ws dial '' @ relayURL e @ '': '' @ err))
       | None \<Rightarrow> do {
           modify (\<lambda>c. dialled_client);
           sel \<leftarrow> pass_time e;
           v \<leftarrow> gets authCh;
           case (sel, v) of
             (Sel_ctx err, _) \<Rightarrow> do { cl_Close; State_Monad.return (Inl err) }
           | (Sel_reply, Some None) \<Rightarrow> do { modify (\<lambda>c. c\<lparr>authCh := None, pinging := True\<rparr>); State_Monad.return (Inr ()) }
           | (Sel_reply, Some (Some err)) \<Rightarrow> do { modify (\<lambda>c. c\<lparr>authCh := None\<rparr>); cl_Close; State_Monad.return (Inl err) }
           | _ \<Rightarrow> do { cl_Close; State_Monad.return (Inl ''auth handshake timeout'') }
         }))"

datatype waited = W_reply reply | W_timer | W_ctx string | W_closed string

definition cl_await :: "'e client_env_scheme \<Rightarrow> nat \<Rightarrow> (client, waited) state" where
  "cl_await e ch = do {
     sel \<leftarrow> pass_time e;
     r \<leftarrow> gets (\<lambda>c. buf (net c) ch);
     cl \<leftarrow> gets closed;
     case (sel, r, cl) of
       (Sel_ctx err, _, _) \<Rightarrow> State_Monad.return (W_ctx err)
     | (Sel_reply, Some v, _) \<Rightarrow> do {
         on_net (modify (\<lambda>s. s\<lparr>buf := (buf s)(ch := None)\<rparr>));
         State_Monad.return (W_reply v)
       }
     | (Sel_closed, _, Some err) \<Rightarrow> State_Monad.return (W_closed err)
     | _ \<Rightarrow> State_Monad.return W_timer
   }"

definition cl_GetKey :: "'e client_env_scheme \<Rightarrow> string \<Rightarrow> (client, string + string) state" where
  "cl_GetKey e address = do {
     let addr = normalize_address address;
     (ch, first) \<leftarrow> on_net (register_key addr);
     err \<leftarrow> (if first then cl_write e (getKeyFrame addr) else State_Monad.return None);
     case err of
       Some x \<Rightarrow> State_Monad.return (Inl (''send get_key: '' @ x))
     | None \<Rightarrow> do {
         r \<leftarrow> cl_await e ch;
         State_Monad.return (case r of
             W_reply (R_key pk) \<Rightarrow> Inr (null_string pk)
           | W_reply _ \<Rightarrow> Inr []
           | W_timer \<Rightarrow> Inl (''get_key timeout for '' @ addr)
           | W_ctx x \<Rightarrow> Inl x
           | W_closed x \<Rightarrow> Inl (''connection closed: '' @ x))
       }
   }"

definition cl_recipient_key :: "'e client_env_scheme \<Rightarrow> string \<Rightarrow> string \<Rightarrow> (client, string + string) state" where
  "cl_recipient_key e toLC pub =
     (if pub \<noteq> [] then State_Monad.return (Inr pub)
      else do {
        r \<leftarrow> cl_GetKey e toLC;
        State_Monad.return (case r of
            Inl err \<Rightarrow> Inl (''lookup recipient key: '' @ err)
          | Inr pub \<Rightarrow> if pub = [] then Inl (''no public key on relay for '' @ toLC @ '' (has it ever connected?)'') else Inr pub)
      })"

text \<open>From the registration of the waiter on: it is removed on every path.\<close>

definition cl_transmit ::
  "'e client_env_scheme \<Rightarrow> string \<Rightarrow> string \<Rightarrow> string \<Rightarrow> string \<Rightarrow> (client, DeliveryResult \<times> string \<times> string option) state" where
  "cl_transmit e mid toLC encrypted sig = do {
     ch \<leftarrow> on_net (register_deliv mid);
     err \<leftarrow> cl_write e (messageFrame mid toLC encrypted sig);
     res \<leftarrow> (case err of
         Some x \<Rightarrow> State_Monad.return (no_delivery, encrypted, Some (''send message: '' @ x))
       | None \<Rightarrow> do {
           r \<leftarrow> cl_await e ch;
           State_Monad.return (case r of
               W_reply (R_delivery d) \<Rightarrow> (d, encrypted, None)
             | W_reply _ \<Rightarrow> (no_delivery, encrypted, None)
             | W_timer \<Rightarrow> (no_delivery\<lparr>dr_ID := mid, dr_Status := ''unknown''\<rparr>, encrypted, Some ''no delivery_status within 15s'')
             | W_ctx x \<Rightarrow> (no_delivery, encrypted, Some x)
             | W_closed x \<Rightarrow> (no_delivery, encrypted, Some (''connection closed: '' @ x)))
         });
     on_net (modify (\<lambda>s. s\<lparr>delivWait := AList.delete mid (delivWait s)\<rparr>));
     State_Monad.return res
   }"

definition cl_Send ::
  "'e client_env_scheme \<Rightarrow> string \<Rightarrow> string \<Rightarrow> string \<Rightarrow> (client, DeliveryResult \<times> string \<times> string option) state" where
  "cl_Send e to plaintext recipientPubHex = do {
     let toLC = normalize_address to;
     k \<leftarrow> cl_recipient_key e toLC recipientPubHex;
     case k of
       Inl err \<Rightarrow> State_Monad.return (no_delivery, [], Some err)
     | Inr pub \<Rightarrow> do {
         t \<leftarrow> on_net sess_tick;
         case EncryptBase64 e t pub plaintext of
           Inl err \<Rightarrow> State_Monad.return (no_delivery, [], Some (''encrypt: '' @ err))
         | Inr encrypted \<Rightarrow> do {
             mid \<leftarrow> on_net (newID e);
             case SignEnvelope e mid toLC encrypted of
               Inl err \<Rightarrow> State_Monad.return (no_delivery, [], Some (''sign envelope: '' @ err))
             | Inr sg \<Rightarrow> cl_transmit e mid toLC encrypted sg
           }
       }
   }"

text \<open>\<open>Listen\<close> returns when the context or the connection ends, each with its error; \<open>None\<close>: it still waits.\<close>

definition cl_Listen :: "'e client_env_scheme \<Rightarrow> (client, string option) state" where
  "cl_Listen e = do {
     modify (\<lambda>c. c\<lparr>listening := True\<rparr>);
     sel \<leftarrow> pass_time e;
     cl \<leftarrow> gets closed;
     State_Monad.return (case sel of Sel_ctx err \<Rightarrow> Some err | _ \<Rightarrow> cl)
   }"

end
