(* ===== verification/Client_Props.thy ===== *)
theory Client_Props
  imports Relay_Client
begin

text \<open>
  Properties of the single-shot client: its read loop never blocks, it is authenticated by an \<open>auth_ok\<close> only, and
  what a key request that timed out leaves behind.
\<close>

section \<open>Atomic steps\<close>

text \<open>The steps of the client's goroutines: what happens to the connection and the channels outside the read
  loop, and the read loop's rounds.\<close>

inductive request_step :: "session \<Rightarrow> session \<Rightarrow> bool" where
  tick: "request_step s (s\<lparr>x_tick := n\<rparr>)"
| wrote: "request_step s (s\<lparr>written := written s @ [f]\<rparr>)"
| reg_key: "request_step s (s\<lparr>next_chan := next_chan s + 1, keyWaits := add_waiter k (next_chan s) (keyWaits s)\<rparr>)"
| reg_deliv: "request_step s (s\<lparr>next_chan := next_chan s + 1, delivWait := AList.update k (next_chan s) (delivWait s)\<rparr>)"
| recv: "request_step s (s\<lparr>buf := (buf s)(ch := None)\<rparr>)"
| leave_deliv: "request_step s (s\<lparr>delivWait := AList.delete k (delivWait s)\<rparr>)"
| drop: "request_step s (s\<lparr>conn_closed := True\<rparr>)"

lemma request_is_sess_step: "request_step s t \<Longrightarrow> sess_step e s t"
  by (induction rule: request_step.induct) (blast intro: sess_step.intros)+

inductive client_step :: "'e client_env_scheme \<Rightarrow> client \<Rightarrow> client \<Rightarrow> bool" for e where
  event: "client_step e c (snd (run_state (client_event e ev) c))"
| request: "request_step (net c) s \<Longrightarrow> client_step e c (c\<lparr>net := s\<rparr>)"
| verdict_taken: "client_step e c (c\<lparr>authCh := None\<rparr>)"
| listen: "client_step e c (c\<lparr>listening := True\<rparr>)"
| ping: "client_step e c (c\<lparr>pinging := b\<rparr>)"

interpretation csteps: effect "(client_step e)\<^sup>*\<^sup>*" for e
  by unfold_locales auto

lemma cstep_modify: "(\<And>c. (client_step e)\<^sup>*\<^sup>* c (f c)) \<Longrightarrow> state_io_rel (client_step e)\<^sup>*\<^sup>* (modify f)"
  by (rule csteps.eff_modify)

lemma on_net_csteps: "state_io_rel request_step\<^sup>*\<^sup>* m \<Longrightarrow> state_io_rel (client_step e)\<^sup>*\<^sup>* (on_net m)"
proof -
  have "request_step\<^sup>*\<^sup>* s t \<Longrightarrow> s = net c \<Longrightarrow> (client_step e)\<^sup>*\<^sup>* c (c\<lparr>net := t\<rparr>)" for s t and c :: client
  proof (induction rule: rtranclp_induct)
    case (step t u)
    then have "client_step e (c\<lparr>net := t\<rparr>) (c\<lparr>net := t\<rparr>\<lparr>net := u\<rparr>)" by (intro client_step.request) simp
    with step show ?case by (simp add: rtranclp.rtrancl_into_rtrancl)
  qed simp
  then show "state_io_rel request_step\<^sup>*\<^sup>* m \<Longrightarrow> ?thesis"
    unfolding on_net_def by (intro csteps.eff_zoom) auto
qed

interpretation rsteps: effect "request_step\<^sup>*\<^sup>*"
  by unfold_locales auto

lemma rstep_modify: "(\<And>s. request_step s (f s)) \<Longrightarrow> state_io_rel request_step\<^sup>*\<^sup>* (modify f)"
  by (rule rsteps.eff_modify) blast

lemma request_parts [effects]:
  "state_io_rel request_step\<^sup>*\<^sup>* sess_tick" "state_io_rel request_step\<^sup>*\<^sup>* (writeJSON e n f)" "state_io_rel request_step\<^sup>*\<^sup>* (newID e)"
  "state_io_rel request_step\<^sup>*\<^sup>* (register_key k)" "state_io_rel request_step\<^sup>*\<^sup>* (register_deliv k)" "state_io_rel request_step\<^sup>*\<^sup>* close_conn"
proof -
  show t: "state_io_rel request_step\<^sup>*\<^sup>* sess_tick" by (auto simp: sess_tick_def state_io_rel_def intro: request_step.tick)
  note [effects] = t
  show "state_io_rel request_step\<^sup>*\<^sup>* (writeJSON e n f)" unfolding writeJSON_def by (intro effects t rstep_modify request_step.wrote)
  show "state_io_rel request_step\<^sup>*\<^sup>* (newID e)" unfolding newID_def by (intro effects t)
  show "state_io_rel request_step\<^sup>*\<^sup>* (register_key k)" "state_io_rel request_step\<^sup>*\<^sup>* (register_deliv k)"
    unfolding state_io_rel_def run_register
    by (auto intro: request_step.reg_key request_step.reg_deliv simp del: One_nat_def)
  show "state_io_rel request_step\<^sup>*\<^sup>* close_conn" unfolding close_conn_def by (intro rstep_modify request_step.drop)
qed

lemma client_event_csteps [effects]: "state_io_rel (client_step e)\<^sup>*\<^sup>* (client_event e ev)"
  by (auto simp: state_io_rel_def intro: client_step.event)

lemma pass_time_csteps [effects]: "state_io_rel (client_step e)\<^sup>*\<^sup>* (pass_time e)"
  unfolding pass_time_def by (intro effects on_net_csteps)

lemma eff_case_select [effects]:
  "state_io_rel (client_step e)\<^sup>*\<^sup>* (case (sel, r, cl) of
       (Sel_ctx err, _, _) \<Rightarrow> State_Monad.return (W_ctx err)
     | (Sel_reply, Some v, _) \<Rightarrow> do {
         on_net (modify (\<lambda>s. s\<lparr>buf := (buf s)(ch := None)\<rparr>));
         State_Monad.return (W_reply v)
       }
     | (Sel_closed, _, Some err) \<Rightarrow> State_Monad.return (W_closed err)
     | _ \<Rightarrow> State_Monad.return W_timer)"
  by (cases sel; cases r; cases cl) (simp_all, (intro effects on_net_csteps rstep_modify request_step.recv)+)

lemma requests_csteps [effects]:
  "state_io_rel (client_step e)\<^sup>*\<^sup>* (cl_await e ch)" "state_io_rel (client_step e)\<^sup>*\<^sup>* (cl_GetKey e a)"
  "state_io_rel (client_step e)\<^sup>*\<^sup>* (cl_Send e to m k)" "state_io_rel (client_step e)\<^sup>*\<^sup>* (cl_Listen e)"
  "state_io_rel (client_step e)\<^sup>*\<^sup>* (cl_keepAlive e)"
proof -
  have wr [effects]: "state_io_rel (client_step e)\<^sup>*\<^sup>* (cl_write e f)" for f
    unfolding cl_write_def by (intro on_net_csteps effects)
  show await [effects]: "state_io_rel (client_step e)\<^sup>*\<^sup>* (cl_await e ch)" for ch
    unfolding cl_await_def by (intro effects eff_case_select)
  show key [effects]: "state_io_rel (client_step e)\<^sup>*\<^sup>* (cl_GetKey e a)" for a
    unfolding cl_GetKey_def Let_def by (intro effects await wr on_net_csteps)
  have "state_io_rel (client_step e)\<^sup>*\<^sup>* (cl_recipient_key e to k)" for to
    unfolding cl_recipient_key_def by (intro effects key)
  moreover have "state_io_rel (client_step e)\<^sup>*\<^sup>* (cl_transmit e i to x y)" for i to x y
    unfolding cl_transmit_def by (intro effects await wr on_net_csteps rstep_modify request_step.leave_deliv)
  ultimately show "state_io_rel (client_step e)\<^sup>*\<^sup>* (cl_Send e to m k)"
    unfolding cl_Send_def Let_def by (intro effects on_net_csteps)
  show "state_io_rel (client_step e)\<^sup>*\<^sup>* (cl_Listen e)"
    unfolding cl_Listen_def by (intro effects cstep_modify r_into_rtranclp client_step.listen)
  show "state_io_rel (client_step e)\<^sup>*\<^sup>* (cl_keepAlive e)"
    unfolding cl_keepAlive_def by (intro effects wr cstep_modify r_into_rtranclp client_step.ping)
qed

section \<open>The read loop\<close>

lemma on_net_keeps: "state_io_rel (keeps wf_chan) m \<Longrightarrow> state_io_rel (keeps (\<lambda>c. wf_chan (net c))) (on_net m)"
  unfolding on_net_def by (rule kept.eff_zoom) (auto simp: keeps_def)

lemma cl_modify_keeps: "(\<And>c. net (f c) = net c) \<Longrightarrow> state_io_rel (keeps (\<lambda>c. wf_chan (net c))) (modify f)"
  by (rule kept.eff_modify) (simp add: keeps_def)

lemma signalAuth_keeps: "state_io_rel (keeps (\<lambda>c. wf_chan (net c))) (signalAuth v)"
  unfolding signalAuth_def by (rule cl_modify_keeps) simp

lemma cl_write_keeps: "state_io_rel (keeps (\<lambda>c. wf_chan (net c))) (cl_write e f)"
  unfolding cl_write_def by (intro on_net_keeps channels_keep writeJSON_channels)

lemma cl_handle_keeps: "state_io_rel (keeps (\<lambda>c. wf_chan (net c))) (cl_handle e msg)"
  unfolding cl_handle_def cl_challenge_def cl_key_response_def cl_handleInbound_def cl_ack_def
  by (intro kept.eff_if kept.eff_case_sum kept.eff_case_option kept.eff_bind kept.eff_return signalAuth_keeps
      cl_write_keeps on_net_keeps answer_key_wf handle_delivery_status_wf cl_modify_keeps) simp_all

lemma client_event_keeps: "state_io_rel (keeps (\<lambda>c. wf_chan (net c))) (client_event e ev)"
  unfolding client_event_def
proof (intro kept.eff_bind kept.eff_gets kept.eff_if kept.eff_return)
  show "state_io_rel (keeps (\<lambda>c. wf_chan (net c))) (case ev of
      Cl_Text data \<Rightarrow> if data = ''pong'' then State_Monad.return ()
        else (case decode_message data of None \<Rightarrow> State_Monad.return () | Some msg \<Rightarrow> cl_handle e msg)
    | Cl_Binary data \<Rightarrow> State_Monad.return ()
    | Cl_ReadError err \<Rightarrow> signalAuth (Some (''connection closed before auth: '' @ err)) \<bind> (\<lambda>_. modify (\<lambda>c. c\<lparr>closed := Some err\<rparr>)))"
  proof (cases ev)
    case (Cl_Text data)
    show ?thesis
      unfolding Cl_Text client_input.case by (intro kept.eff_if kept.eff_return kept.eff_case_option cl_handle_keeps)
  next
    case (Cl_ReadError err)
    show ?thesis
      unfolding Cl_ReadError client_input.case by (intro kept.eff_bind signalAuth_keeps cl_modify_keeps) simp
  qed (simp only: client_input.case, rule kept.eff_return)
qed

lemma client_step_wf: "client_step e c d \<Longrightarrow> wf_chan (net c) \<Longrightarrow> wf_chan (net d)"
proof (induction rule: client_step.induct)
  case (event c ev)
  then show ?case using client_event_keeps [of e ev] by (simp add: state_io_rel_def keeps_def)
next
  case (request c s)
  then show ?case using sess_step_wf_chan [OF request_is_sess_step] by fastforce
qed simp_all

text \<open>The read loop of the client never blocks: in every interleaving of its requests and of what the relay sends,
  each reply finds the channel of its waiter empty.\<close>

theorem client_reader_never_blocks:
  assumes "(client_step e)\<^sup>*\<^sup>* dialled_client c"
  shows "\<not> stuck (net c)"
proof -
  have "wf_chan (net c)"
    using assms
  proof (induction rule: rtranclp_induct)
    case base
    then show ?case by (simp add: dialled_client_def wf_chan_def chan_inv_def NewSession_def)
  qed (rule client_step_wf)
  then show ?thesis by (simp add: wf_chan_def)
qed

section \<open>The handshake\<close>

text \<open>Everything but the verdict: a part of the client that a program on the connection does not touch.\<close>

lemma on_net_verdict: "state_io_rel (keeps (\<lambda>c. P (authOnce c) (authCh c))) (on_net m)"
  unfolding on_net_def by (auto simp: state_io_rel_def keeps_def run_zoom split: prod.split)

lemma modify_verdict:
  "(\<And>c. P (authOnce c) (authCh c) \<Longrightarrow> P (authOnce (f c)) (authCh (f c))) \<Longrightarrow>
    state_io_rel (keeps (\<lambda>c. P (authOnce c) (authCh c))) (modify f)"
  by (rule kept.eff_modify) (simp add: keeps_def)

lemma event_verdict:
  assumes "\<And>v. v \<noteq> None \<or> (\<exists>data msg. ev = Cl_Text data \<and> decode_message data = Some msg \<and> sm_Type msg = ''auth_ok'') \<Longrightarrow>
      state_io_rel (keeps (\<lambda>c. P (authOnce c) (authCh c))) (signalAuth v)"
  shows "state_io_rel (keeps (\<lambda>c. P (authOnce c) (authCh c))) (client_event e ev)"
proof -
  have wr: "state_io_rel (keeps (\<lambda>c. P (authOnce c) (authCh c))) (cl_write e f)" for f
    unfolding cl_write_def by (rule on_net_verdict)
  have inner: "state_io_rel (keeps (\<lambda>c. P (authOnce c) (authCh c))) (cl_handle e msg)"
    if "ev = Cl_Text data" "decode_message data = Some msg" for data msg
    unfolding cl_handle_def cl_challenge_def cl_key_response_def cl_handleInbound_def cl_ack_def
    by (intro kept.eff_if kept.eff_case_sum kept.eff_case_option kept.eff_bind kept.eff_return wr on_net_verdict modify_verdict assms)
      (use that in auto)
  show ?thesis
  proof (cases ev)
    case (Cl_Text data)
    then show ?thesis
      unfolding client_event_def Cl_Text client_input.case
      by (intro kept.eff_bind kept.eff_gets kept.eff_if kept.eff_return kept.eff_case_option inner [OF Cl_Text])
  next
    case (Cl_ReadError err)
    show ?thesis
      unfolding client_event_def Cl_ReadError client_input.case
      by (intro kept.eff_bind kept.eff_gets kept.eff_if kept.eff_return modify_verdict assms) auto
  qed (unfold client_event_def, simp only: client_input.case, intro kept.eff_bind kept.eff_gets kept.eff_if kept.eff_return)
qed

definition after :: "'e client_env_scheme \<Rightarrow> client_input list \<Rightarrow> client \<Rightarrow> client" where
  "after e evs c = snd (run_state (for_each evs (client_event e)) c)"

lemma after_simps: "after e [] c = c" "after e (ev # evs) c = after e evs (after e [ev] c)"
    "after e [ev] c = snd (run_state (client_event e ev) c)"
  by (simp_all add: after_def case_prod_beta)

text \<open>The first verdict is final.\<close>

lemma verdict_final: "authOnce c \<Longrightarrow> authOnce (after e evs c) \<and> authCh (after e evs c) = authCh c"
proof (induction evs arbitrary: c)
  case (Cons ev evs)
  let ?P = "\<lambda>c'. authOnce c' \<and> authCh c' = authCh c"
  have "state_io_rel (keeps ?P) (client_event e ev)"
    by (rule event_verdict [of _ "\<lambda>b v. b \<and> v = authCh c"])
      (unfold signalAuth_def, rule modify_verdict [of "\<lambda>b v. b \<and> v = authCh c"], simp)
  with Cons.prems have "?P (after e [ev] c)" by (simp add: after_simps(3) state_io_rel_def keeps_def)
  with Cons.IH [of "after e [ev] c"] show ?case by (simp add: after_simps(2) [of _ _ evs])
qed (simp add: after_simps)

lemma first_auth_ok:
  "\<not> authOnce c \<Longrightarrow> authCh c = None \<Longrightarrow> authCh (after e evs c) = Some None \<Longrightarrow>
    \<exists>before data rest msg. evs = before @ Cl_Text data # rest \<and> decode_message data = Some msg \<and> sm_Type msg = ''auth_ok'' \<and>
      \<not> authOnce (after e before c)"
proof (induction evs arbitrary: c)
  case (Cons ev evs)
  show ?case
  proof (cases "\<exists>data msg. ev = Cl_Text data \<and> decode_message data = Some msg \<and> sm_Type msg = ''auth_ok''")
    case True
    then obtain data msg where "ev = Cl_Text data" "decode_message data = Some msg" "sm_Type msg = ''auth_ok''" by blast
    with Cons.prems(1) show ?thesis
      by (intro exI [of _ "[]"] exI [of _ data] exI [of _ evs] exI [of _ msg]) (simp add: after_simps)
  next
    case False
    let ?P = "\<lambda>b v. b = (v \<noteq> None) \<and> v \<noteq> Some (None :: string option)"
    have "state_io_rel (keeps (\<lambda>c. ?P (authOnce c) (authCh c))) (signalAuth v)"
      if "v \<noteq> None \<or> (\<exists>data msg. ev = Cl_Text data \<and> decode_message data = Some msg \<and> sm_Type msg = ''auth_ok'')" for v
      unfolding signalAuth_def by (rule modify_verdict [of ?P]) (use that False in auto)
    then have "state_io_rel (keeps (\<lambda>c. ?P (authOnce c) (authCh c))) (client_event e ev)" by (rule event_verdict)
    with Cons.prems have next_state: "?P (authOnce (after e [ev] c)) (authCh (after e [ev] c))"
      by (simp add: after_simps(3) state_io_rel_def keeps_def)
    have rest: "authCh (after e evs (after e [ev] c)) = Some None" using Cons.prems(3) by (simp add: after_simps(2) [of _ _ evs])
    have "\<not> authOnce (after e [ev] c)"
      using verdict_final [of "after e [ev] c" e evs] rest next_state by auto
    moreover from this have "authCh (after e [ev] c) = None" using next_state by simp
    ultimately obtain before data rest' msg where "evs = before @ Cl_Text data # rest'" "decode_message data = Some msg"
        "sm_Type msg = ''auth_ok''" "\<not> authOnce (after e before (after e [ev] c))"
      using Cons.IH [of "after e [ev] c"] rest by blast
    then show ?thesis
      by (intro exI [of _ "ev # before"] exI [of _ data] exI [of _ rest'] exI [of _ msg]) (simp add: after_simps(2) [of _ _ before])
  qed
qed (simp add: after_simps)

text \<open>C33: a client is authenticated by an \<open>auth_ok\<close> frame only: if \<open>Dial\<close> returns a client, the relay sent such a frame
  during the handshake, and before it neither an \<open>auth_error\<close>, nor the end of the connection, nor a failure to sign
  or send had decided otherwise.\<close>

theorem dial_needs_auth_ok:
  assumes "run_state (Dial e) c = (Inr (), c')"
  shows "\<exists>before data rest msg. cl_meanwhile e 0 = before @ Cl_Text data # rest \<and> decode_message data = Some msg \<and>
    sm_Type msg = ''auth_ok'' \<and> \<not> authOnce (after e before (dialled_client\<lparr>net := (net dialled_client)\<lparr>x_tick := 1\<rparr>\<rparr>))"
proof -
  let ?c = "dialled_client\<lparr>net := (net dialled_client)\<lparr>x_tick := 1\<rparr>\<rparr>"
  have tick: "run_state (on_net sess_tick) dialled_client = (0, ?c)"
    by (simp add: on_net_def run_zoom sess_tick_def dialled_client_def NewSession_def)
  have "authCh (after e (cl_meanwhile e 0) ?c) = Some None"
    using assms
    by (auto simp: Dial_def pass_time_def tick after_def case_prod_beta split: option.splits select_end.splits)
  then show ?thesis by (intro first_auth_ok) (simp_all add: dialled_client_def)
qed

section \<open>Key requests\<close>

text \<open>A key request that times out is never withdrawn: the next request for the same address finds its waiter,
  takes itself for the second one, and writes no \<open>get_key\<close> frame, so it times out as well, unless something else
  answers.\<close>

theorem client_key_timeout_mutes:
  assumes "waiters (keyWaits (net c)) (normalize_address a) = []" "cl_meanwhile e (x_tick (net c) + 1) = []"
    and "cl_select e (x_tick (net c) + 1) = Sel_timer" "write_err e (x_tick (net c)) = None"
    and "run_state (cl_GetKey e a) c = (res, c')" "run_state (cl_GetKey e' a) c' = (res', c'')"
    and "cl_meanwhile e' (x_tick (net c')) = []" "cl_select e' (x_tick (net c')) = Sel_timer"
  shows "res = Inl (''get_key timeout for '' @ normalize_address a) \<and> res' = res \<and> written (net c'') = written (net c') \<and>
    waiters (keyWaits (net c')) (normalize_address a) = [next_chan (net c)]"
proof -
  let ?k = "normalize_address a"
  have run: "run_state (on_net m) d = (fst (run_state m (net d)), d\<lparr>net := snd (run_state m (net d))\<rparr>)" for m :: "(session, 'x) state" and d
    by (simp add: on_net_def run_zoom case_prod_beta)
  have c': "res = Inl (''get_key timeout for '' @ ?k)"
      "c' = c\<lparr>net := (net c)\<lparr>next_chan := next_chan (net c) + 1, keyWaits := add_waiter ?k (next_chan (net c)) (keyWaits (net c)),
        x_tick := x_tick (net c) + 2, written := written (net c) @ [(0, getKeyFrame ?k)]\<rparr>\<rparr>"
    using assms(1-5)
    by (auto simp: cl_GetKey_def Let_def run_register cl_write_def writeJSON_def sess_tick_def cl_await_def pass_time_def run
        waiters_add split: option.splits)
  have left: "waiters (keyWaits (net c')) ?k = [next_chan (net c)]" using assms(1) by (simp add: c'(2) waiters_add)
  then have "length (waiters (add_waiter ?k (next_chan (net c')) (keyWaits (net c'))) ?k) = 2" by (simp add: waiters_add)
  then have "res' = Inl (''get_key timeout for '' @ ?k) \<and> written (net c'') = written (net c')"
    using assms(6-8)
    by (auto simp: cl_GetKey_def Let_def run_register cl_await_def pass_time_def run sess_tick_def split: option.splits)
  with c'(1) left show ?thesis by simp
qed

section \<open>Witnesses\<close>

definition quiet_client_env :: client_env where
  "quiet_client_env = sess_env.extend sample_sess_env (client_env.fields None None (\<lambda>n. []) (\<lambda>n. Sel_timer))"

definition auth_ok_text :: string where
  "auth_ok_text = marshal (JObj [(''type'', JStr ''auth_ok'')])"

definition welcoming_env :: client_env where
  "welcoming_env = quiet_client_env\<lparr>cl_meanwhile := (\<lambda>n. [Cl_Text auth_ok_text]), cl_select := (\<lambda>n. Sel_reply)\<rparr>"

lemma welcoming_fields: "cl_parse_err welcoming_env = None" "cl_dial_err welcoming_env = None"
    "cl_meanwhile welcoming_env n = [Cl_Text auth_ok_text]" "cl_select welcoming_env n = Sel_reply"
  by (simp_all add: welcoming_env_def quiet_client_env_def client_env.defs sess_env.defs)

lemma quiet_fields: "cl_meanwhile quiet_client_env n = []" "cl_select quiet_client_env n = Sel_timer"
    "write_err quiet_client_env n = None"
  by (simp_all add: quiet_client_env_def sample_sess_env_def client_env.defs sess_env.defs crypto_env.defs)

lemma client_reader_never_blocks_witness:
  "\<not> stuck (net (snd (run_state (cl_GetKey quiet_client_env ''0xCD'') dialled_client)))"
proof (rule client_reader_never_blocks)
  show "(client_step quiet_client_env)\<^sup>*\<^sup>* dialled_client (snd (run_state (cl_GetKey quiet_client_env ''0xCD'') dialled_client))"
    using requests_csteps(2) [of quiet_client_env "''0xCD''"] by (simp add: state_io_rel_def)
qed

lemma dial_needs_auth_ok_witness:
  "\<exists>c'. run_state (Dial welcoming_env) dialled_client = (Inr (), c') \<and>
    (\<exists>before data rest msg. [Cl_Text auth_ok_text] = before @ Cl_Text data # rest \<and> decode_message data = Some msg \<and> sm_Type msg = ''auth_ok'')"
proof -
  have "map_option sm_Type (decode_message auth_ok_text) = Some ''auth_ok''" "auth_ok_text \<noteq> ''pong''" by code_simp+
  then obtain msg where "decode_message auth_ok_text = Some msg" "sm_Type msg = ''auth_ok''" "auth_ok_text \<noteq> ''pong''" by auto
  then obtain c' where dialled: "run_state (Dial welcoming_env) dialled_client = (Inr (), c')"
    by (simp add: Dial_def welcoming_fields pass_time_def on_net_def run_zoom sess_tick_def dialled_client_def NewSession_def
        client_event_def cl_handle_def signalAuth_def)
  from dial_needs_auth_ok [OF this] show ?thesis unfolding welcoming_fields(3) using dialled by blast
qed

lemma client_key_timeout_mutes_witness:
  "fst (run_state (cl_GetKey quiet_client_env ''0xCD'') (snd (run_state (cl_GetKey quiet_client_env ''0xCD'') dialled_client))) =
    Inl ''get_key timeout for 0xcd''"
proof -
  obtain res c' where r: "run_state (cl_GetKey quiet_client_env ''0xCD'') dialled_client = (res, c')" by fastforce
  obtain res' c'' where r': "run_state (cl_GetKey quiet_client_env ''0xCD'') c' = (res', c'')" by fastforce
  have k: "normalize_address ''0xCD'' = ''0xcd''" by code_simp
  have "waiters (keyWaits (net dialled_client)) (normalize_address ''0xCD'') = []" by (simp add: dialled_client_def NewSession_def)
  from client_key_timeout_mutes [OF this quiet_fields r r' quiet_fields(1,2)] show ?thesis by (simp add: r r' k)
qed

end
