(* ===== verification/Smoke.thy ===== *)
theory Smoke
  imports Client_Props Control_Props
begin

text \<open>
  The smoke program (\<open>cmd/attn-smoke/main.go\<close>): where its key comes from, its commands on keys, signatures and
  ciphertexts, and its commands over the single-shot client with what they print. The lemmas show that a
  generated key is the one the next command loads, and that what is encrypted for it is decrypted by it.
  The flag package and its usage text, the command \<open>interop\<close> (send while listening) and signals are not modelled.
\<close>

section \<open>Keys\<close>

definition defaultKeyFile :: "(string \<Rightarrow> string) \<Rightarrow> string" where
  "defaultKeyFile env = (if env ''ATTN_KEYFILE'' \<noteq> [] then env ''ATTN_KEYFILE'' else ''attn-key.hex'')"

definition no_key :: "string \<Rightarrow> string" where
  "no_key keyFile = ''no key: pass -key, set ATTN_PRIVATE_KEY, or run gen-key first (keyfile '' @ quote keyFile @ '' not found)''"

definition loadOrEnv :: "'e config_env_scheme \<Rightarrow> string \<Rightarrow> string \<Rightarrow> disk \<Rightarrow> string + Identity" where
  "loadOrEnv e keyHex keyFile d =
     (if keyHex \<noteq> [] then FromHex e keyHex
      else if conf_env e ''ATTN_PRIVATE_KEY'' \<noteq> [] then FromHex e (conf_env e ''ATTN_PRIVATE_KEY'')
      else (case (if keyFile \<noteq> [] then ReadFile e keyFile d else None) of
          Some b \<Rightarrow> FromHex e (trim_space b)
        | None \<Rightarrow> Inl (no_key keyFile)))"

definition checked :: "string + exit \<Rightarrow> exit" where
  "checked r = (case r of Inl err \<Rightarrow> failed 1 (''error: '' @ err) | Inr x \<Rightarrow> x)"

definition printed :: "string list \<Rightarrow> exit" where
  "printed ls = \<lparr>ex_out = ls, ex_err = [], ex_code = 0\<rparr>"

definition key_lines :: "'e config_env_scheme \<Rightarrow> Identity \<Rightarrow> string list" where
  "key_lines e i = [''address: '' @ id_addr i, ''pubkey:  '' @ PublicKeyHex e i]"

definition runGenKey :: "'e config_env_scheme \<Rightarrow> string \<Rightarrow> (disk, exit) state" where
  "runGenKey e keyFile = (case Generate e of
       Inl err \<Rightarrow> State_Monad.return (checked (Inl err))
     | Inr i \<Rightarrow>
         if keyFile = [] then State_Monad.return (printed (key_lines e i))
         else do {
           (if Dir keyFile \<noteq> ''.'' then do { MkdirAll e (Dir keyFile); State_Monad.return () } else State_Monad.return ());
           err \<leftarrow> WriteFile e keyFile (PrivateKeyHex e i @ nl) 384;
           State_Monad.return (case err of
               Some x \<Rightarrow> checked (Inl x)
             | None \<Rightarrow> (printed (key_lines e i))\<lparr>ex_err := [''saved key to '' @ keyFile @ '' (chmod 600)'']\<rparr>)
         })"

section \<open>Commands without the relay\<close>

text \<open>The libraries, working with the loaded key.\<close>

definition with_key :: "Identity \<Rightarrow> 'e crypto_env_scheme \<Rightarrow> 'e crypto_env_scheme" where
  "with_key i e = e\<lparr>priv_key := id_priv i, own_address := id_addr i\<rparr>"

definition need :: "string list \<Rightarrow> nat \<Rightarrow> string \<Rightarrow> exit \<Rightarrow> exit" where
  "need args n usage x = (if length args < n then failed 2 (''usage: attn-smoke '' @ usage) else x)"

definition print_result :: "string + string \<Rightarrow> exit" where
  "print_result r = checked (map_sum id (\<lambda>s. printed [s]) r)"

definition with_loaded :: "string + Identity \<Rightarrow> (Identity \<Rightarrow> exit) \<Rightarrow> exit" where
  "with_loaded r f = (case r of Inl err \<Rightarrow> checked (Inl err) | Inr i \<Rightarrow> f i)"

definition smoke_command :: "'c config_env_scheme \<Rightarrow> 'e crypto_env_scheme \<Rightarrow> nat \<Rightarrow> string + Identity \<Rightarrow> string \<Rightarrow> string list \<Rightarrow> exit" where
  "smoke_command c e t loaded cmd rest =
     (if cmd = ''addr'' then with_loaded loaded (\<lambda>i. printed [id_addr i])
      else if cmd = ''pubkey'' then with_loaded loaded (\<lambda>i. printed [PublicKeyHex c i])
      else if cmd = ''sign'' then need rest 1 ''sign <message>''
        (with_loaded loaded (\<lambda>i. print_result (SignPersonal (with_key i e) (hd rest))))
      else if cmd = ''encrypt'' then need rest 2 ''encrypt <recipientPubHex> <plaintext>''
        (print_result (EncryptBase64 e t (rest ! 0) (rest ! 1)))
      else if cmd = ''decrypt'' then need rest 1 ''decrypt <base64>''
        (with_loaded loaded (\<lambda>i. print_result (DecryptBase64 e (id_priv i) (hd rest))))
      else failed 2 (''unknown command '' @ quote cmd))"

section \<open>Commands over the relay\<close>

definition preview :: "string \<Rightarrow> nat \<Rightarrow> string" where
  "preview s n = (if length s \<le> n then s else take n s @ ellipsis)"

definition sent_lines :: "string \<Rightarrow> DeliveryResult \<Rightarrow> string \<Rightarrow> string list" where
  "sent_lines to res ct = [''sent to '' @ to_lower to, ''  status:    '' @ dr_Status res] @
     (if dr_RecipientState res \<noteq> [] then [''  recipient: '' @ dr_RecipientState res] else []) @
     [''  ciphertext (b64, '' @ nat_str (length ct) @ '' bytes): '' @ preview ct 80]"

text \<open>What was already printed to the error output when the program ends.\<close>

definition after_progress :: "string list \<Rightarrow> exit \<Rightarrow> exit" where
  "after_progress ls x = x\<lparr>ex_err := ls @ ex_err x\<rparr>"

definition connecting :: "'e client_env_scheme \<Rightarrow> string" where
  "connecting e = ''connecting to '' @ relayURL e @ '' as '' @ own_address e"

definition authenticated :: string where
  "authenticated = ''authenticated '' @ [CHR 0xE2, CHR 0x9C, CHR 0x93]"

text \<open>The connection is closed when the program returns; an error ends the process before that.\<close>

definition runSend :: "'e client_env_scheme \<Rightarrow> string \<Rightarrow> string \<Rightarrow> (client, exit) state" where
  "runSend e to msg = do {
     d \<leftarrow> Dial e;
     case d of
       Inl err \<Rightarrow> State_Monad.return (after_progress [connecting e] (checked (Inl err)))
     | Inr u \<Rightarrow> do {
         r \<leftarrow> cl_Send e to msg [];
         case r of
           (res, ct, Some err) \<Rightarrow> State_Monad.return (after_progress [connecting e, authenticated] (checked (Inl err)))
         | (res, ct, None) \<Rightarrow> do {
             cl_Close;
             State_Monad.return (after_progress [connecting e, authenticated] (printed (sent_lines to res ct)))
           }
       }
   }"

definition inbound_lines :: "Inbound \<Rightarrow> string list" where
  "inbound_lines m = [[], envelope @ '' inbound id='' @ in_ID m @ '' from='' @ (if in_FromName m = [] then in_From m else in_FromName m) @
     '' verified='' @ bool_text (in_Verified m), ''   '' @ in_Plaintext m]"

definition listening_as :: "'e client_env_scheme \<Rightarrow> string" where
  "listening_as e = authenticated @ '' '' @ em_dash @ '' listening as '' @ own_address e @ '' (Ctrl-C to stop)''"

text \<open>\<open>interrupted\<close>: whether the context has ended when \<open>Listen\<close> returns.\<close>

definition runListen :: "'e client_env_scheme \<Rightarrow> bool \<Rightarrow> (client, exit) state" where
  "runListen e interrupted = do {
     d \<leftarrow> Dial e;
     case d of
       Inl err \<Rightarrow> State_Monad.return (after_progress [connecting e] (checked (Inl err)))
     | Inr u \<Rightarrow> do {
         err \<leftarrow> cl_Listen e;
         ms \<leftarrow> gets heard;
         let out = concat (map inbound_lines ms);
         case (err, interrupted) of
           (Some x, False) \<Rightarrow> State_Monad.return
             (after_progress [connecting e, listening_as e] ((checked (Inl x))\<lparr>ex_out := out\<rparr>))
         | _ \<Rightarrow> do { cl_Close; State_Monad.return (after_progress [connecting e, listening_as e] (printed out)) }
       }
   }"

section \<open>The key of a later command\<close>

lemma generated_key_loads:
  assumes "key_laws e" "fresh_key e = Inr k" "keyFile \<noteq> []" "\<not> unreadable e keyFile" "key_write_err e keyFile = None"
    and "conf_env e ''ATTN_PRIVATE_KEY'' = []"
  shows "loadOrEnv e [] keyFile (snd (run_state (runGenKey e keyFile) d)) = Inr (fromKey e k)"
proof -
  have "ReadFile e keyFile (snd (run_state (runGenKey e keyFile) d)) = Some (PrivateKeyHex e (fromKey e k) @ nl)"
    using assms by (simp add: runGenKey_def Generate_def WriteFile_def ReadFile_def case_prod_beta)
  then show ?thesis
    using written_key(2) [OF assms(1,2)] assms(3,6) by (simp add: loadOrEnv_def)
qed

lemma encrypted_for_key_decrypts:
  assumes "key_pair e (id_priv i) P" "parse_pub e (trim_prefix (trim_space pub) ''0x'') = Inr P"
    and "smoke_command c e t loaded ''encrypt'' [pub, msg] = printed [ct]"
  shows "smoke_command c e t (Inr i) ''decrypt'' [ct] = printed [msg]"
proof -
  have "EncryptBase64 e t pub msg = Inr ct"
    using assms(3) by (cases "EncryptBase64 e t pub msg")
      (simp_all add: smoke_command_def need_def print_result_def checked_def printed_def failed_def)
  from encrypted_decrypts [OF assms(1,2) this refl] show ?thesis
    by (simp add: smoke_command_def need_def with_loaded_def print_result_def checked_def)
qed

end
