(* ===== verification/Spec2Isabelle.thy ===== *)
theory Spec2Isabelle
  imports Session_Props Agent_Outbound Agent_Inbox Agent_Policy Store_Refinement Mesh_Journey Adapter_Props Smoke
begin

text \<open>
  A verification library for \<^bold>\<open>attn-agnostic\<close>, the daemon (\<open>cmd/attnd\<close>) that gives an AI session a mailbox:
  a person or another agent sends end-to-end encrypted messages through a relay server, the daemon
  keeps them in a database, applies the owner's policy (contacts, block list, mutes, pending requests)
  and shows what passes to the sessions connected on the same host.

  \<^bold>\<open>The program and its theories.\<close>

  \<^item> \<open>Go_Prelude\<close>, \<open>Go_Time\<close>, \<open>Go_Json\<close>: what the code takes from Go's library: strings and their functions,
    decimal and quoted formatting, tables of rows with their statements, timestamps with the text
    they are stored as, and JSON: writing, the scanner, decoding into structs, and that reading undoes
    writing. \<open>Go_Prelude\<close> also has the locale every component uses: \<open>effect\<close>, a reflexive and
    transitive relation that every run of a program keeps, with one rule per construct, collected
    as \<open>effects\<close>.
  \<^item> \<open>Attn_Store\<close> (\<open>internal/store/store.go\<close>): the record \<open>store\<close> has one list of rows for each table
    of \<open>migrate\<close>; each method of \<open>Store\<close> is a definition of the same name. \<open>Store_Laws\<close> states what the
    methods may write as the locale \<open>store_rel\<close>, \<open>Store_Facts\<close> the result of each method
    and the laws of a table by key (locales \<open>key_value\<close>, \<open>key_value_del\<close>, interpreted by mutes, settings,
    keys and the local registry), \<open>Store_Props\<close> the properties, \<open>Store_Refinement\<close> the abstract directory (maps and sets of people,
    mutes, keys, settings) that the SQL implements.
  \<^item> \<open>Mesh_Registry\<close> (\<open>internal/mesh/registry.go\<close>): the live local sessions. Entries are shared by
    pointer between the registry and the release functions, so they live in a heap.
  \<^item> \<open>Identity_Crypto\<close> (\<open>internal/identity\<close>, \<open>internal/crypto\<close>): the envelope text, its EIP-191 signature and
    the ECIES payloads, over the curve library as parameters with their documented laws.
  \<^item> \<open>Relay_Session\<close> (\<open>internal/relay/session.go\<close>, \<open>protocol.go\<close>, \<open>util.go\<close>): the connection, its frames, the waiters
    on buffered channels, the requests. \<open>Session_Steps\<close> cuts each into the atomic steps between two
    locks or channel operations (\<open>sess_step\<close>), \<open>Session_Props\<close> proves what holds in every interleaving.
  \<^item> \<open>Names_Client\<close> (\<open>internal/names/names.go\<close>): the \<open>.attn\<close> registrar client; calls are computed, paid writes
    are closed.
  \<^item> \<open>Agent_Util\<close>, \<open>Agent_Core\<close>, \<open>Agent_Files\<close>, \<open>Agent_Send\<close>, \<open>Agent_Ops\<close> (\<open>internal/agent\<close>): helpers (\<open>util.go\<close>), the record
    \<open>agent\<close> with the policy on inbound events, the callbacks and the outbox (\<open>agent.go\<close>, \<open>surface.go\<close>), inbound
    files (\<open>surface.go\<close>), and the operations up to \<open>Dispatch\<close> (\<open>ops.go\<close>). \<open>Agent_Laws\<close> lifts a relation of the
    store through every operation once (locale \<open>agent_rel\<close>, interpreted four times); \<open>Agent_System\<close> is
    the transition system \<open>agent_step\<close>. The properties are in \<open>Agent_Props\<close> (policy), \<open>Agent_Delivery\<close>
    (pending, outbox, restart), \<open>Agent_Outbound\<close> (sending), \<open>Agent_Inbox\<close> (files), \<open>Agent_Policy\<close> (arguments).
  \<^item> \<open>Http_Guard\<close>, \<open>Ws_Hub\<close>, \<open>Http_Rest\<close> (\<open>internal/httpapi\<close>): host and endpoint checks (\<open>server.go\<close>,
    \<open>localmesh.go\<close>), the hub of subscribers (\<open>ws.go\<close>), routes and handlers (\<open>rest.go\<close>, \<open>server.go\<close>) over the record
    \<open>server\<close>, which holds the agent. \<open>Http_System\<close> is the transition system \<open>server_step\<close> with its invariant,
    \<open>Http_Props\<close> the properties.
  \<^item> \<open>Reconnect\<close>: the delays of the three reconnect loops (locale \<open>backoff\<close>); \<open>Go_Url\<close>: escaping and queries.
  \<^item> \<open>Hermes_Bridge\<close> (\<open>adapters/hermes/bridge/bridge.go\<close>), \<open>Opencode_Client\<close> and \<open>Opencode_Bridge\<close>
    (\<open>adapters/opencode\<close>): the subscribers that carry what the daemon surfaces into other harnesses and local
    messages back. \<open>Surface_Frames\<close> reads a surfaced event back from the text the hub writes for it;
    \<open>Hermes_Props\<close> and \<open>Opencode_Props\<close> have the properties, \<open>Mesh_Journey\<close> the way of a local message from one
    bridge through the hub and the registry to another.

  \<^item> \<open>Config\<close> (\<open>internal/config/config.go\<close>, the keys of \<open>internal/identity\<close>, the start of \<open>cmd/attnd\<close>): paths, settings and the
    identity of a home over a disk of files with permissions (record \<open>disk\<close>); \<open>Config_Props\<close>.
  \<^item> \<open>Control\<close> (\<open>internal/control/control.go\<close>, \<open>makeHandler\<close> of \<open>cmd/attnd\<close>, \<open>cmd/attnctl\<close>): lines of the control socket, the
    handler over the record \<open>daemon\<close>, which holds the server, and the driver; \<open>Control_Props\<close>.
  \<^item> \<open>Cli\<close> (\<open>cmd/attn\<close>): the table of commands, the words of a command line up to the request, and what is printed; \<open>Cli_Props\<close>.
    \<open>Mcp\<close> (\<open>cmd/attn-mcp\<close>): the tools with their arguments and the handler; \<open>Mcp_Props\<close>.
  \<^item> \<open>Relay_Client\<close> (\<open>internal/relay/client.go\<close>): the single-shot client over a session's waiters, with the frames that
    arrive while a request waits as an argument; \<open>Client_Props\<close>. \<open>Smoke\<close> (\<open>cmd/attn-smoke\<close>) is the program over it.
  \<^item> \<open>Adapter_Programs\<close> (\<open>cmd/attn-opencode\<close>, \<open>adapters/hermes/cmd\<close>): how the bridges find their session and settings, and the
    local listener of the OpenCode bridge; \<open>Adapter_Props\<close>.

  \<^bold>\<open>How the parts meet.\<close> A call of a part is a \<open>zoom\<close> on its state: \<open>db\<close>, \<open>relay\<close>, \<open>on_chain\<close>, \<open>local_mesh\<close> from the agent,
  \<open>on_agent\<close> from the server. A relay frame enters by \<open>session_event\<close>; the callbacks it queues
  (\<open>OnInbound\<close>, \<open>OnKeyLearned\<close>, \<open>OnReady\<close>) run in the agent when the session call returns; what the agent
  surfaces, and what the registry accepts for a subscriber, is put in the subscribers' queues by
  \<open>with_sink\<close>. A frame of a queue is written as JSON (\<open>marshal\<close>), and that text is what a bridge reads
  (\<open>hermes_handleFrame\<close>, \<open>HandleRaw\<close>). The owner has four ways in: a request of HTTP (\<open>handleOp\<close>), a command line (\<open>cli_run\<close>), a
  tool call (\<open>mcp_handler\<close>), which both make such a request, and a line on the control socket (\<open>serveConn\<close>); all four end in
  \<open>Dispatch\<close>.

  \<^bold>\<open>What is a parameter.\<close> Each component's world is a record (\<open>env\<close>, \<open>mesh_env\<close>, \<open>crypto_env\<close>, \<open>sess_env\<close>, \<open>names_env\<close>,
  \<open>agent_env\<close>, \<open>server_env\<close>), each extending the one before, for the adapters \<open>hermes_env\<close>, \<open>bridge_env\<close>
  and \<open>listener_env\<close>, and for the programs \<open>config_env\<close>, \<open>ctl_env\<close>, \<open>cli_env\<close>, \<open>mcp_env\<close> and \<open>client_env\<close>: the clock, failures of the database by statement
  number, random ids, ECDSA and ECIES, outcomes of writes and deliveries, the relay's HTTP answers,
  DNS, URL parsing, file system errors, \<open>eth_call\<close>. Theorems hold for every world unless
  a hypothesis says otherwise (\<open>db_ok\<close>: the database answers; \<open>signature_laws\<close>: a signature recovers its key).

  \<^bold>\<open>Bounds of the code, as they are in the model.\<close> Ten retries of the outbox, eight downloads at a time,
  a thousand names for a file, 12 MiB for a file, 64 frames in a queue, 1 MiB for a request body, a
  thousand messages of history. The loop over file names carries its thousand as fuel, so it ends
  where the loop ends; every other recursion is structural or has a measure, and no result depends
  on fuel.

  \<^bold>\<open>What the groups of lemmas show.\<close> Invariants of every reachable state (\<open>agent_sound\<close>, \<open>server_sound\<close>,
  \<open>reader_never_blocks\<close>); what becomes of a message on each way through the policy; that outgoing messages
  wait in order, are retried a bounded number of times and verify and decrypt at their recipient;
  that file references stay in the inbox and on the relay's host; that local messages stay local;
  that the SQL implements a directory of maps; that what is surfaced reaches the other harnesses, once,
  signed or under its provenance header, and a local message arrives at the session it names; that each way in does
  to the agent what \<open>Dispatch\<close> does, and no word of a message is lost on the way; that a home keeps its
  identity; that arbitrary bytes on a socket make at most one step; and the defects of the code that the model shows
  (a second \<open>auth_ok\<close>, a failed key request, the block list on a database error, durations beyond
  64 bits, a command line that panics, a key file that is replaced).

  \<^bold>\<open>Not modelled.\<close> Log lines and the build banner; goroutine scheduling other than the interleaving of atomic steps; the
  dials, the deadlines and pings of connections; listening, timeouts and shutdown of the servers; opening the
  database file; signals; the parsing of flags by Go's package and the usage and version texts of the programs. The
  temporary file of an upload is not connected to the file the operation then reads. Of the MCP server, the texts
  that describe the tools and the library with its transports; of the smoke program, the command that
  sends while it listens. What remains of the implementation is of these kinds.
\<close>

end
